(* ===== verification/Prelude.thy ===== *)
theory Prelude
  imports Main "HOL-Library.Word" "HOL-Library.Char_ord" "HOL-Library.List_Lexorder"
begin

text \<open>
  What the components share: the three ways a call of the C++ code can end, the copies between
  \<open>std::string\<close> values and fixed-size character arrays, a few facts on words and lists, and
  the interface of an invariant of a transition system.

  A call either returns, or ends the process (\<open>ocall_error\<close>, an uncaught exception), or
  executes an operation whose behaviour the C++ standard leaves undefined (dereferencing
  \<open>end()\<close>, writing past an array, reading past the terminator of a string).
\<close>

type_synonym u8 = "8 word"
type_synonym u32 = "32 word"
type_synonym u64 = "64 word"

named_theorems frame \<open>fields that an operation leaves alone\<close>
named_theorems preserves \<open>operations that keep an invariant\<close>

section \<open>Outcomes\<close>

datatype 'a outcome = Returns 'a | Terminated | Undefined

primrec bindo :: "'a outcome \<Rightarrow> ('a \<Rightarrow> 'b outcome) \<Rightarrow> 'b outcome" where
  "bindo (Returns v) f = f v"
| "bindo Terminated f = Terminated"
| "bindo Undefined f = Undefined"

definition of_option_ub :: "'a option \<Rightarrow> 'a outcome" where
  "of_option_ub v = (case v of None \<Rightarrow> Undefined | Some w \<Rightarrow> Returns w)"

lemma bindo_Returns_iff [simp]:
  "bindo m f = Returns y \<longleftrightarrow> (\<exists>v. m = Returns v \<and> f v = Returns y)"
  by (cases m) auto

lemma bindo_Returns_iff' [simp]:
  "Returns y = bindo m f \<longleftrightarrow> (\<exists>v. m = Returns v \<and> f v = Returns y)"
  by (cases m) auto

lemma bindo_assoc: "bindo (bindo m f) g = bindo m (\<lambda>v. bindo (f v) g)"
  by (cases m) auto

lemma bindo_cong [fundef_cong]:
  "m = m' \<Longrightarrow> (\<And>v. m' = Returns v \<Longrightarrow> f v = f' v) \<Longrightarrow> bindo m f = bindo m' f'"
  by (cases m') auto

lemma of_option_ub_simps [simp]:
  "of_option_ub None = Undefined"
  "of_option_ub (Some w) = Returns w"
  by (simp_all add: of_option_ub_def)

lemma of_option_ub_Returns_iff [simp]: "of_option_ub v = Returns w \<longleftrightarrow> v = Some w"
  by (cases v) auto

text \<open>A loop that threads a value through a list, stopping at the first call that does not return.\<close>

primrec foldo :: "('b \<Rightarrow> 'a \<Rightarrow> 'a outcome) \<Rightarrow> 'b list \<Rightarrow> 'a \<Rightarrow> 'a outcome" where
  "foldo f [] a = Returns a"
| "foldo f (x # xs) a = bindo (f x a) (foldo f xs)"

lemma foldo_append: "foldo f (xs @ ys) a = bindo (foldo f xs a) (foldo f ys)"
proof (induction xs arbitrary: a)
  case Nil
  then show ?case by simp
next
  case (Cons x xs)
  then show ?case by (cases "f x a") simp_all
qed

lemma foldo_invariant:
  assumes "foldo f xs a = Returns b" and "P a"
    and "\<And>x c d. x \<in> set xs \<Longrightarrow> P c \<Longrightarrow> f x c = Returns d \<Longrightarrow> P d"
  shows "P b"
  using assms
proof (induction xs arbitrary: a)
  case Nil
  then show ?case by simp
next
  case (Cons x xs)
  then obtain c where c: "f x a = Returns c" and rest: "foldo f xs c = Returns b"
    by auto
  have "P c" using Cons.prems(2,3) c by (metis list.set_intros(1))
  with rest show ?case
    using Cons.IH Cons.prems(3) by (metis list.set_intros(2))
qed

section \<open>Character buffers\<close>

text \<open>
  \<open>memcpy(dst, s.c_str(), n)\<close>: \<open>c_str()\<close> points to the characters of \<open>s\<close> and one terminating
  NUL, so copying more than \<open>length s + 1\<close> bytes reads past the buffer.
\<close>

definition memcpy_str :: "string \<Rightarrow> nat \<Rightarrow> string outcome" where
  "memcpy_str s n =
     (if n \<le> Suc (length s) then Returns (take n (s @ [CHR 0x00])) else Undefined)"

text \<open>\<open>std::string(p, n)\<close> on a buffer whose first \<open>length buf\<close> bytes may be read.\<close>

definition string_from :: "string \<Rightarrow> nat \<Rightarrow> string outcome" where
  "string_from buf n = (if n \<le> length buf then Returns (take n buf) else Undefined)"

text \<open>Copying \<open>s\<close> to offset \<open>off\<close> of an array; past the end of the array is undefined.\<close>

definition blit :: "nat \<Rightarrow> string \<Rightarrow> string \<Rightarrow> string outcome" where
  "blit off s buf =
     (if off + length s \<le> length buf
      then Returns (take off buf @ s @ drop (off + length s) buf) else Undefined)"

text \<open>\<open>s.substr(pos, n)\<close> throws \<open>std::out_of_range\<close> when \<open>pos\<close> is past the end.\<close>

definition substr :: "string \<Rightarrow> nat \<Rightarrow> nat \<Rightarrow> string outcome" where
  "substr s pos n = (if pos \<le> length s then Returns (take n (drop pos s)) else Terminated)"

lemma memcpy_str_exact [simp]: "length s = n \<Longrightarrow> memcpy_str s n = Returns s"
  by (simp add: memcpy_str_def)

lemma memcpy_str_length: "memcpy_str s n = Returns b \<Longrightarrow> length b = n"
  by (auto simp: memcpy_str_def split: if_splits)

lemma memcpy_str_long: "n \<le> length s \<Longrightarrow> memcpy_str s n = Returns (take n s)"
  by (simp add: memcpy_str_def)

lemma blit_length: "blit off s buf = Returns b \<Longrightarrow> length b = length buf"
  by (auto simp: blit_def split: if_splits)

lemma blit_start: "length s \<le> length buf \<Longrightarrow> blit 0 s buf = Returns (s @ drop (length s) buf)"
  by (simp add: blit_def)

lemma string_from_exact [simp]: "length s = n \<Longrightarrow> string_from s n = Returns s"
  by (simp add: string_from_def)

section \<open>Words\<close>

lemma unat_sub_of_le: "(b::'a::len word) \<le> a \<Longrightarrow> unat (a - b) = unat a - unat b"
  by (simp add: unat_sub)

lemma unat_add_no_wrap:
  "unat (a::'a::len word) + unat b < 2 ^ LENGTH('a) \<Longrightarrow> unat (a + b) = unat a + unat b"
  by (simp add: unat_word_ariths)

lemma transfer_keeps_sum: "(a - v) + (b + v) = a + (b::'a::len word)"
  by simp

lemma word_pos_iff: "(0::'a::len word) < w \<longleftrightarrow> w \<noteq> 0"
  using word_neq_0_conv by auto

lemma word_Suc_less:
  "unat (c::'a::len word) < 2 ^ LENGTH('a) - 1 \<Longrightarrow> unat (c + 1) = Suc (unat c)"
  by (simp add: unat_word_ariths)

section \<open>Transition systems and their invariants\<close>

text \<open>
  The contract between a component and a proof of safety: an initial condition, a step relation
  and a predicate that holds at the start and that every step keeps.
\<close>

locale invariant_system =
  fixes init :: "'s \<Rightarrow> bool"
    and step :: "'s \<Rightarrow> 's \<Rightarrow> bool"
    and inv :: "'s \<Rightarrow> bool"
  assumes inv_init: "init s \<Longrightarrow> inv s"
    and inv_step: "inv s \<Longrightarrow> step s t \<Longrightarrow> inv t"
begin

lemma inv_steps: "step\<^sup>*\<^sup>* s t \<Longrightarrow> inv s \<Longrightarrow> inv t"
  by (induction rule: rtranclp_induct) (auto intro: inv_step)

lemma inv_reachable: "init s \<Longrightarrow> step\<^sup>*\<^sup>* s t \<Longrightarrow> inv t"
  using inv_init inv_steps by blast

end

text \<open>
  A rank that no step lowers: the contract of a life cycle whose states are never revisited.
\<close>

locale monotone_system =
  fixes step :: "'s \<Rightarrow> 's \<Rightarrow> bool"
    and below :: "'s \<Rightarrow> 's \<Rightarrow> bool"
  assumes below_refl: "below s s"
    and below_trans: "below s t \<Longrightarrow> below t u \<Longrightarrow> below s u"
    and step_below: "step s t \<Longrightarrow> below s t"
begin

lemma steps_below: "step\<^sup>*\<^sup>* s t \<Longrightarrow> below s t"
  by (induction rule: rtranclp_induct) (blast intro: below_refl below_trans step_below)+

end

end
