(* ===== verification/Std_Map.thy ===== *)
theory Std_Map
  imports Prelude
begin

text \<open>
  \<open>std::map\<close>: the pairs in the order of their keys, which is the order in which a range-for
  visits them. \<open>om_get\<close> is \<open>find\<close>, \<open>om_put\<close> is the assignment \<open>m[k] = v\<close>, \<open>om_del\<close> is
  \<open>erase(k)\<close>. The locale \<open>finite_map\<close> is the interface the components rely on; it is
  interpreted here on these operations.
\<close>

type_synonym ('k, 'v) omap = "('k \<times> 'v) list"

abbreviation om_empty :: "('k, 'v) omap" where
  "om_empty \<equiv> []"

definition om_get :: "('k, 'v) omap \<Rightarrow> 'k \<Rightarrow> 'v option" where
  "om_get m k = map_of m k"

fun om_put :: "'k::linorder \<Rightarrow> 'v \<Rightarrow> ('k, 'v) omap \<Rightarrow> ('k, 'v) omap" where
  "om_put k v [] = [(k, v)]"
| "om_put k v ((a, b) # m) =
     (if k < a then (k, v) # (a, b) # m
      else if k = a then (k, v) # m
      else (a, b) # om_put k v m)"

definition om_del :: "'k \<Rightarrow> ('k, 'v) omap \<Rightarrow> ('k, 'v) omap" where
  "om_del k m = filter (\<lambda>p. fst p \<noteq> k) m"

definition om_keys :: "('k, 'v) omap \<Rightarrow> 'k list" where
  "om_keys m = map fst m"

definition om_ok :: "('k::linorder, 'v) omap \<Rightarrow> bool" where
  "om_ok m \<longleftrightarrow> sorted_wrt (<) (om_keys m)"

section \<open>Laws\<close>

lemma om_get_empty [simp]: "om_get [] k = None"
  by (simp add: om_get_def)

lemma om_get_Cons [simp]: "om_get ((a, b) # m) k = (if k = a then Some b else om_get m k)"
  by (simp add: om_get_def)

lemma om_get_put [simp]: "om_get (om_put k v m) k' = (if k' = k then Some v else om_get m k')"
  by (induction k v m rule: om_put.induct) auto

lemma om_get_del [simp]: "om_get (om_del k m) k' = (if k' = k then None else om_get m k')"
  by (induction m) (auto simp: om_del_def)

lemma om_ok_empty [simp]: "om_ok []"
  by (simp add: om_ok_def om_keys_def)

lemma set_om_keys_put: "set (om_keys (om_put k v m)) = insert k (set (om_keys m))"
  by (induction k v m rule: om_put.induct) (auto simp: om_keys_def)

lemma om_ok_put [simp]: "om_ok m \<Longrightarrow> om_ok (om_put k v m)"
proof (induction k v m rule: om_put.induct)
  case (1 k v)
  then show ?case by (simp add: om_ok_def om_keys_def)
next
  case (2 k v a b m)
  then show ?case
    using set_om_keys_put [of k v m]
    by (auto simp: om_ok_def om_keys_def)
qed

lemma om_ok_del [simp]: "om_ok m \<Longrightarrow> om_ok (om_del k m)"
  by (induction m) (auto simp: om_ok_def om_keys_def om_del_def)

lemma om_get_Some_iff: "om_ok m \<Longrightarrow> om_get m k = Some v \<longleftrightarrow> (k, v) \<in> set m"
proof -
  assume "om_ok m"
  then have "distinct (map fst m)"
    by (simp add: om_ok_def om_keys_def strict_sorted_iff)
  then show ?thesis by (simp add: om_get_def)
qed

lemma om_keys_iff: "k \<in> set (om_keys m) \<longleftrightarrow> om_get m k \<noteq> None"
  by (induction m) (auto simp: om_keys_def)

lemma om_ok_distinct: "om_ok m \<Longrightarrow> distinct (om_keys m)"
  by (simp add: om_ok_def strict_sorted_iff)

lemma om_ok_ConsD: "om_ok (p # m) \<Longrightarrow> om_ok m" "om_ok ((a, b) # m) \<Longrightarrow> om_get m a = None"
  by (auto simp: om_ok_def om_keys_def om_get_def map_of_eq_None_iff)

lemma om_get_below:
  fixes k :: "'k::linorder"
  assumes "om_ok ((a, b) # m)" and "k < a"
  shows "om_get ((a, b) # m) k = None"
proof -
  have "a < y" if "y \<in> set (om_keys m)" for y
    using assms(1) that by (auto simp: om_ok_def om_keys_def)
  then have "k \<notin> set (om_keys m)" using assms(2) by force
  then show ?thesis using assms(2) om_keys_iff [of k m] by auto
qed

section \<open>The interface\<close>

locale finite_map =
  fixes emp :: "'m"
    and get :: "'m \<Rightarrow> 'k \<Rightarrow> 'v option"
    and put :: "'k \<Rightarrow> 'v \<Rightarrow> 'm \<Rightarrow> 'm"
    and del :: "'k \<Rightarrow> 'm \<Rightarrow> 'm"
    and ok :: "'m \<Rightarrow> bool"
  assumes get_emp: "get emp k = None"
    and get_put: "get (put k v m) k' = (if k' = k then Some v else get m k')"
    and get_del: "get (del k m) k' = (if k' = k then None else get m k')"
    and ok_emp: "ok emp"
    and ok_put: "ok m \<Longrightarrow> ok (put k v m)"
    and ok_del: "ok m \<Longrightarrow> ok (del k m)"
begin

lemma rename_get:
  "get (put new v (del old m)) k = (if k = new then Some v else if k = old then None else get m k)"
  by (simp add: get_put get_del)

lemma put_put_get: "get (put k v (put k w m)) k' = get (put k v m) k'"
  by (simp add: get_put)

lemma put_other: "k' \<noteq> k \<Longrightarrow> get (put k v m) k' = get m k'"
  by (simp add: get_put)

lemma del_put_fresh: "get m k = None \<Longrightarrow> get (del k (put k v m)) k' = get m k'"
  by (simp add: get_put get_del)

end

interpretation om: finite_map "[]" om_get om_put om_del om_ok
  by unfold_locales auto

section \<open>Further facts on the ordered pairs\<close>

lemma om_put_put [simp]: "om_put k v (om_put k w m) = om_put k v m"
  by (induction k w m rule: om_put.induct) auto

lemma om_put_same_keys: "om_ok m \<Longrightarrow> om_get m k \<noteq> None \<Longrightarrow> om_keys (om_put k v m) = om_keys m"
proof (induction k v m rule: om_put.induct)
  case (1 k v)
  then show ?case by simp
next
  case (2 k v a b m)
  show ?case
  proof (cases "k < a")
    case True
    with "2.prems" have "k \<in> set (om_keys m)"
      using om_keys_iff [of k m] by (auto split: if_splits)
    with "2.prems"(1) True show ?thesis
      by (auto simp: om_ok_def om_keys_def)
  next
    case False
    with 2 show ?thesis
      by (auto simp: om_ok_def om_keys_def split: if_splits)
  qed
qed

lemma om_put_same_length: "om_ok m \<Longrightarrow> om_get m k \<noteq> None \<Longrightarrow> length (om_put k v m) = length m"
  using om_put_same_keys [of m k v] by (metis length_map om_keys_def)

lemma om_put_self: "om_ok m \<Longrightarrow> om_get m k = Some v \<Longrightarrow> om_put k v m = m"
proof (induction k v m rule: om_put.induct)
  case (1 k v)
  then show ?case by simp
next
  case (2 k v a b m)
  show ?case
  proof (cases "k < a")
    case True
    with "2.prems" have "k \<in> set (om_keys m)"
      using om_keys_iff [of k m] by (auto split: if_splits)
    with "2.prems"(1) True show ?thesis
      by (auto simp: om_ok_def om_keys_def)
  next
    case False
    with 2 show ?thesis
      by (auto simp: om_ok_def om_keys_def split: if_splits)
  qed
qed

end
