(* ===== verification/Text_Format.thy ===== *)
theory Text_Format
  imports Prelude
begin

text \<open>
  The text routines of \<open>Teechain/src/trusted/utils.cpp\<close>: decimal printing and reading of
  64-bit numbers, the \<open>satoshi\<close> to \<open>bitcoin\<close> conversion, quote removal and input sanitising.
  \<open>digits_value\<close> is the reference reading of a digit string that the printing routines are
  checked against.
\<close>

section \<open>Decimal digits\<close>

definition digit_char :: "nat \<Rightarrow> char" where
  "digit_char d = char_of (48 + d)"

definition char_digit :: "char \<Rightarrow> nat" where
  "char_digit c = of_char c - 48"

definition is_digit :: "char \<Rightarrow> bool" where
  "is_digit c \<longleftrightarrow> 48 \<le> (of_char c :: nat) \<and> (of_char c :: nat) \<le> 57"

fun nat_to_string :: "nat \<Rightarrow> string" where
  "nat_to_string n =
     (if n < 10 then [digit_char n] else nat_to_string (n div 10) @ [digit_char (n mod 10)])"

declare nat_to_string.simps [simp del]

definition digits_value :: "string \<Rightarrow> nat" where
  "digits_value s = foldl (\<lambda>a c. 10 * a + char_digit c) 0 s"

lemma of_char_digit_char: "d < 10 \<Longrightarrow> (of_char (digit_char d) :: nat) = 48 + d"
  by (simp add: digit_char_def)

lemma char_digit_digit_char [simp]: "d < 10 \<Longrightarrow> char_digit (digit_char d) = d"
  by (simp add: char_digit_def of_char_digit_char)

lemma is_digit_digit_char [simp]: "d < 10 \<Longrightarrow> is_digit (digit_char d)"
  by (simp add: is_digit_def of_char_digit_char)

lemma digits_value_Nil [simp]: "digits_value [] = 0"
  by (simp add: digits_value_def)

lemma digits_value_snoc [simp]: "digits_value (s @ [c]) = 10 * digits_value s + char_digit c"
  by (simp add: digits_value_def)

lemma nat_to_string_digits: "list_all is_digit (nat_to_string n)"
proof (induction n rule: nat_to_string.induct)
  case (1 n)
  then show ?case by (subst nat_to_string.simps) simp
qed

lemma nat_to_string_nonempty [simp]: "nat_to_string n \<noteq> []"
  by (subst nat_to_string.simps) simp

lemma digits_value_single: "d < 10 \<Longrightarrow> digits_value [digit_char d] = d"
  using digits_value_snoc [of "[]" "digit_char d"] by simp

lemma digits_value_nat_to_string [simp]: "digits_value (nat_to_string n) = n"
proof (induction n rule: nat_to_string.induct)
  case (1 n)
  then show ?case
    by (subst nat_to_string.simps) (simp add: digits_value_single)
qed

lemma length_nat_to_string: "n < 10 ^ k \<Longrightarrow> 0 < k \<Longrightarrow> length (nat_to_string n) \<le> k"
proof (induction n arbitrary: k rule: nat_to_string.induct)
  case (1 n)
  show ?case
  proof (cases "n < 10")
    case True
    with "1.prems" show ?thesis by (subst nat_to_string.simps) simp
  next
    case False
    with "1.prems" obtain j where k: "k = Suc j" and j: "0 < j"
      by (cases k) (auto, metis False One_nat_def gr0I power_0 mult.right_neutral)
    from "1.prems"(1) k have "n div 10 < 10 ^ j"
      by (simp add: less_mult_imp_div_less mult.commute)
    with "1.IH" False j have "length (nat_to_string (n div 10)) \<le> j" by blast
    with k False show ?thesis by (subst nat_to_string.simps) simp
  qed
qed

section \<open>Printing and reading 64-bit numbers\<close>

definition long_long_to_string :: "u64 \<Rightarrow> string" where
  "long_long_to_string num = nat_to_string (unat num)"

text \<open>
  \<open>strtoull(s, NULL, 10)\<close>: skip white space, an optional sign, the longest run of digits;
  a value that does not fit is \<open>ULLONG_MAX\<close>, a minus sign negates modulo \<open>2^64\<close>.
\<close>

definition is_space :: "char \<Rightarrow> bool" where
  "is_space c \<longleftrightarrow> (of_char c :: nat) = 32 \<or> (9 \<le> (of_char c :: nat) \<and> (of_char c :: nat) \<le> 13)"

definition clamp_u64 :: "nat \<Rightarrow> u64" where
  "clamp_u64 n = (if n < 2 ^ 64 then of_nat n else - 1)"

definition string_to_long_long :: "string \<Rightarrow> u64" where
  "string_to_long_long s =
     (let t = dropWhile is_space s in
      case t of
        [] \<Rightarrow> 0
      | c # r \<Rightarrow>
          if c = CHR ''-'' then
            (let n = digits_value (takeWhile is_digit r)
             in if n < 2 ^ 64 then - of_nat n else - 1)
          else if c = CHR ''+'' then clamp_u64 (digits_value (takeWhile is_digit r))
          else clamp_u64 (digits_value (takeWhile is_digit t)))"

lemma is_digit_not_special:
  "is_digit c \<Longrightarrow> \<not> is_space c \<and> c \<noteq> CHR ''-'' \<and> c \<noteq> CHR ''+''"
  by (auto simp: is_digit_def is_space_def)

lemma string_to_long_long_digits:
  assumes "list_all is_digit s" and "s \<noteq> []"
  shows "string_to_long_long s = clamp_u64 (digits_value s)"
proof -
  from assms obtain c r where s: "s = c # r" and c: "is_digit c"
    by (cases s) auto
  from assms(1) s have tw: "takeWhile is_digit r = r"
    by (auto simp: list_all_iff)
  from c have "dropWhile is_space s = s"
    using s is_digit_not_special by auto
  then have "string_to_long_long s = clamp_u64 (digits_value (c # takeWhile is_digit r))"
    using s c is_digit_not_special [OF c] by (simp add: string_to_long_long_def)
  then show ?thesis by (simp only: tw s)
qed

lemma string_to_long_long_to_string:
  "string_to_long_long (long_long_to_string w) = w"
proof -
  have "unat w < 2 ^ 64" using unsigned_less [of w] by simp
  then show ?thesis
    by (simp add: long_long_to_string_def string_to_long_long_digits nat_to_string_digits
        clamp_u64_def)
qed

section \<open>Satoshi as bitcoin\<close>

definition SATOSHI_PER_BITCOIN :: u64 where
  "SATOSHI_PER_BITCOIN = 100000000"

text \<open>The conversion \<open>%0<width>llu\<close>.\<close>

definition zero_pad :: "nat \<Rightarrow> string \<Rightarrow> string" where
  "zero_pad width s = replicate (width - length s) (CHR ''0'') @ s"

definition satoshi_to_bitcoin :: "u64 \<Rightarrow> string" where
  "satoshi_to_bitcoin amount =
     (let bitcoin = amount div SATOSHI_PER_BITCOIN;
          satoshi = amount mod SATOSHI_PER_BITCOIN
      in nat_to_string (unat bitcoin) @ ''.'' @ zero_pad 8 (nat_to_string (unat satoshi)))"

text \<open>The reference reading of a decimal amount with a fractional part of eight digits.\<close>

definition decimal_satoshi :: "string \<Rightarrow> nat" where
  "decimal_satoshi s =
     (let ip = takeWhile (\<lambda>c. c \<noteq> CHR ''.'') s; fp = tl (dropWhile (\<lambda>c. c \<noteq> CHR ''.'') s)
      in digits_value ip * 10 ^ 8 + digits_value fp)"

lemma digits_value_zeros: "digits_value (replicate k (CHR ''0'') @ s) = digits_value s"
proof -
  have z: "foldl (\<lambda>a c. 10 * a + char_digit c) 0 (replicate k (CHR ''0'')) = 0"
    by (induction k) (simp_all add: char_digit_def)
  then show ?thesis by (simp add: digits_value_def)
qed

lemma digits_value_zero_pad [simp]: "digits_value (zero_pad k s) = digits_value s"
  by (simp add: zero_pad_def digits_value_zeros)

lemma is_digit_no_dot: "list_all is_digit s \<Longrightarrow> \<forall>c \<in> set s. c \<noteq> CHR ''.''"
  by (auto simp: list_all_iff is_digit_def)

lemma decimal_satoshi_dot:
  assumes "list_all is_digit ip"
  shows "decimal_satoshi (ip @ ''.'' @ fp) = digits_value ip * 10 ^ 8 + digits_value fp"
  using is_digit_no_dot [OF assms]
  by (simp add: decimal_satoshi_def)

lemma decimal_satoshi_to_bitcoin: "decimal_satoshi (satoshi_to_bitcoin a) = unat a"
proof -
  have "unat (a div SATOSHI_PER_BITCOIN) * 10 ^ 8 + unat (a mod SATOSHI_PER_BITCOIN)
      = unat a div 100000000 * 100000000 + unat a mod 100000000"
    by (simp add: SATOSHI_PER_BITCOIN_def unat_div unat_mod)
  also have "\<dots> = unat a" by (rule div_mult_mod_eq)
  finally show ?thesis
    unfolding satoshi_to_bitcoin_def Let_def
    by (subst decimal_satoshi_dot) (simp_all add: nat_to_string_digits)
qed

lemma satoshi_to_bitcoin_fraction:
  "\<exists>ip fp. satoshi_to_bitcoin a = ip @ ''.'' @ fp \<and> length fp = 8
     \<and> list_all is_digit ip \<and> list_all is_digit fp"
proof -
  let ?s = "nat_to_string (unat (a mod SATOSHI_PER_BITCOIN))"
  have "unat (a mod SATOSHI_PER_BITCOIN) < 10 ^ 8"
    by (simp add: SATOSHI_PER_BITCOIN_def unat_mod)
  then have "length ?s \<le> 8" by (rule length_nat_to_string) simp
  then have "length (zero_pad 8 ?s) = 8" by (simp add: zero_pad_def)
  moreover have "list_all is_digit (zero_pad 8 ?s)"
    using nat_to_string_digits [of "unat (a mod SATOSHI_PER_BITCOIN)"]
    by (auto simp: zero_pad_def list_all_iff is_digit_def)
  ultimately show ?thesis
    using nat_to_string_digits by (auto simp: satoshi_to_bitcoin_def Let_def)
qed

section \<open>Quotes and input strings\<close>

text \<open>
  \<open>str.substr(1, str.size() - 2)\<close>: the length wraps around for strings shorter than two, where
  \<open>substr\<close> then takes the rest, or throws when there is no position 1.
\<close>

definition remove_surrounding_quotes :: "string \<Rightarrow> string outcome" where
  "remove_surrounding_quotes s =
     substr s 1 (unat (of_nat (length s) - 2 :: u64))"

lemma remove_surrounding_quotes_quoted:
  assumes "length s < 2 ^ 63"
  shows "remove_surrounding_quotes ([CHR 0x22] @ s @ [CHR 0x22]) = Returns s"
proof -
  have "unat (of_nat (length ([CHR 0x22] @ s @ [CHR 0x22])) - 2 :: u64) = length s"
    using assms by (simp add: unat_of_nat)
  then show ?thesis by (simp add: remove_surrounding_quotes_def substr_def)
qed

definition is_alnum :: "char \<Rightarrow> bool" where
  "is_alnum c \<longleftrightarrow> is_digit c
     \<or> (65 \<le> (of_char c :: nat) \<and> (of_char c :: nat) \<le> 90)
     \<or> (97 \<le> (of_char c :: nat) \<and> (of_char c :: nat) \<le> 122)"

definition is_xdigit :: "char \<Rightarrow> bool" where
  "is_xdigit c \<longleftrightarrow> is_digit c
     \<or> (65 \<le> (of_char c :: nat) \<and> (of_char c :: nat) \<le> 70)
     \<or> (97 \<le> (of_char c :: nat) \<and> (of_char c :: nat) \<le> 102)"

definition MAX_INPUT_STR_LENGTH :: nat where
  "MAX_INPUT_STR_LENGTH = 500"

text \<open>
  The failing branches return \<open>NULL\<close> from a function whose result is a \<open>std::string\<close>:
  the string is constructed from a null pointer, which is undefined.
\<close>

definition sanitize_string_from_buffer :: "string \<Rightarrow> string outcome" where
  "sanitize_string_from_buffer s =
     (if length s > MAX_INPUT_STR_LENGTH then Undefined
      else if list_all is_alnum s then Returns s else Undefined)"

definition sanitize_hexstring_from_buffer :: "string \<Rightarrow> string outcome" where
  "sanitize_hexstring_from_buffer s = (if list_all is_xdigit s then Returns s else Undefined)"

text \<open>Padding so that the string and its terminator fill whole blocks of 16 bytes.\<close>

definition pad_string_to_multiple_16 :: "string \<Rightarrow> string" where
  "pad_string_to_multiple_16 s =
     (if (length s + 1) mod 16 \<noteq> 0
      then s @ replicate (16 - (length s + 1) mod 16) (CHR '' '') else s)"

lemma pad_string_to_multiple_16_block: "16 dvd length (pad_string_to_multiple_16 s) + 1"
proof -
  have "(n + (16 - n mod 16)) mod 16 = 0" for n :: nat
    by presburger
  from this [of "length s + 1"] show ?thesis
    by (auto simp: pad_string_to_multiple_16_def ac_simps dvd_eq_mod_eq_0)
qed

end
