(* ===== verification/Teechain_Types.thy ===== *)
theory Teechain_Types
  imports Std_Map Text_Format
begin

text \<open>
  The data of the trusted part of Teechain (\<open>Teechain/src/trusted\<close>): the enumerations, classes
  and message structs of \<open>state.h\<close>, \<open>channel.h\<close>, \<open>network.h\<close> and \<open>teechain.h\<close>, the global
  variables of the enclave as one record, and the code the enclave calls but does not contain
  (the SGX crypto library, the random source, the Bitcoin library) as the record \<open>ext\<close> that the
  operations take as an argument. A value the code reads before it was ever written is one of
  the \<open>x_junk\<close> fields of \<open>ext\<close>: an arbitrary value the code does not choose.
\<close>

section \<open>Constants\<close>

definition CHANNEL_ID_LEN :: nat where "CHANNEL_ID_LEN = 16"
definition NONCE_BYTE_LEN :: nat where "NONCE_BYTE_LEN = 16"
definition BITCOIN_ADDRESS_LEN :: nat where "BITCOIN_ADDRESS_LEN = 34"
definition BITCOIN_PUBLIC_KEY_LEN :: nat where "BITCOIN_PUBLIC_KEY_LEN = 66"
definition BITCOIN_PRIVATE_KEY_LEN :: nat where "BITCOIN_PRIVATE_KEY_LEN = 52"
definition BITCOIN_TX_HASH_LEN :: nat where "BITCOIN_TX_HASH_LEN = 64"
definition MAX_BITCOIN_TX_SCRIPT_LEN :: nat where "MAX_BITCOIN_TX_SCRIPT_LEN = 256"
definition MAX_NUM_SETUP_DEPOSITS :: nat where "MAX_NUM_SETUP_DEPOSITS = 10"
definition MAX_NUM_DEPOSITS_IN_CHANNEL :: nat where "MAX_NUM_DEPOSITS_IN_CHANNEL = 10"
definition MAX_NUM_CHANNELS_PER_ENCLAVE :: nat where "MAX_NUM_CHANNELS_PER_ENCLAVE = 10"
definition SAMPLE_SP_TAG_SIZE :: nat where "SAMPLE_SP_TAG_SIZE = 16"
definition MAX_AMOUNT_TO_RECEIVE_BEFORE_SYNC :: u64 where "MAX_AMOUNT_TO_RECEIVE_BEFORE_SYNC = 0"

definition TEMPORARY_CHANNEL_ID :: string where
  "TEMPORARY_CHANNEL_ID = ''0000011111111111111111111111111111111111111111111111111111100000''"

text \<open>Tags inside encrypted messages.\<close>

definition ADD_DEPOSIT :: nat where "ADD_DEPOSIT = 1"
definition REMOVE_DEPOSIT :: nat where "REMOVE_DEPOSIT = 2"
definition ADD_DEPOSIT_ACK :: nat where "ADD_DEPOSIT_ACK = 3"
definition REMOVE_DEPOSIT_ACK :: nat where "REMOVE_DEPOSIT_ACK = 4"
definition BACKUP_STORE_ACK :: nat where "BACKUP_STORE_ACK = 5"
definition REMOVE_BACKUP :: nat where "REMOVE_BACKUP = 6"
definition BACKUP_REMOVE_ACK :: nat where "BACKUP_REMOVE_ACK = 7"
definition CHANNEL_UPDATE_ACK :: nat where "CHANNEL_UPDATE_ACK = 8"

text \<open>What the untrusted side is asked to do next.\<close>

datatype action =
    SEND_SECURE_ACK | SEND_INSECURE_ACK | SEND_LOCAL_ACK | SEND_BITCOIN_PAYMENT
  | SEND_BACKUP_STORE_REQUEST | SEND_CHANNEL_CREATE_ACK | SEND_DEPOSIT_ADD_REQUEST
  | SEND_DEPOSIT_ADD_ACK | SEND_DEPOSIT_REMOVE_REQUEST | SEND_DEPOSIT_REMOVE_ACK
  | SEND_UPDATE_CHANNEL_BALANCE_REQUEST | SEND_UPDATE_CHANNEL_BALANCE_ACK

text \<open>Return codes of the ecalls.\<close>

definition REQUEST_OK :: nat where "REQUEST_OK = 0"
definition REQUEST_ERROR :: nat where "REQUEST_ERROR = 1"
definition REQUEST_FAILED :: nat where "REQUEST_FAILED = 113"
definition REQUEST_CRASHED :: nat where "REQUEST_CRASHED = 114"

lemma return_codes [simp]:
  "REQUEST_OK \<noteq> REQUEST_ERROR" "REQUEST_OK \<noteq> REQUEST_FAILED" "REQUEST_OK \<noteq> REQUEST_CRASHED"
  "REQUEST_ERROR \<noteq> REQUEST_OK" "REQUEST_FAILED \<noteq> REQUEST_OK" "REQUEST_CRASHED \<noteq> REQUEST_OK"
  by (simp_all add: REQUEST_OK_def REQUEST_ERROR_def REQUEST_FAILED_def REQUEST_CRASHED_def)

section \<open>Enumerations\<close>

datatype TeechanState = Ghost | Backup | Primary | WaitingForFunds | Funded

datatype ChannelStatus = Unverified | Alive | Settled

datatype BackupBlockRequest =
    Channel_Create_Request | Backup_Store_Request | Send_Bitcoin_Request | Receive_Bitcoin_Request
  | Add_Deposit_Request | Add_Deposit_Ack | Remove_Deposit_Request | Remove_Deposit_Ack

section \<open>Deposits and the setup transaction\<close>

record Deposit =
  is_spent :: bool
  bitcoin_address :: string
  public_key :: string
  private_key :: string
  script :: string
  txid :: string
  tx_index :: u64
  deposit_amount :: u64

text \<open>\<open>Deposit()\<close>, the value \<open>operator[]\<close> of a map creates for a key it does not hold.\<close>

definition zero_Deposit :: Deposit where
  "zero_Deposit = \<lparr>is_spent = False, bitcoin_address = [], public_key = [], private_key = [],
     script = [], txid = [], tx_index = 0, deposit_amount = 0\<rparr>"

record SetupTransaction =
  su_public_key :: string
  su_private_key :: string
  utxo_hash :: string
  utxo_index :: u64
  utxo_script :: string
  setup_transaction_hash :: string
  deposit_ids_to_deposits :: "(u64, Deposit) omap"
  deposit_ids_to_channels :: "(u64, string) omap"
  my_address :: string
  miner_fee :: u64

section \<open>Messages\<close>

record CreateChannelMsg =
  cc_channel_id :: string
  cc_bitcoin_address :: string
  cc_num_deposits :: u64
  cc_txids :: string
  cc_tx_indexes :: "u64 list"
  cc_deposit_amounts :: "u64 list"
  cc_deposit_script_lengths :: "u64 list"
  cc_deposit_scripts :: string
  cc_deposit_bitcoin_addresses :: string
  cc_deposit_public_keys :: string
  cc_deposit_private_keys :: string

record DepositMsg =
  dm_deposit_operation :: nat
  dm_nonce :: string
  dm_channel_id :: string
  dm_deposit_id :: u64

record SecureAckMsg =
  sa_channel_id :: string
  sa_nonce :: string
  sa_result :: nat

record BackupStoredAckMsg =
  ba_channel_id :: string
  ba_blocked_channel_id :: string
  ba_nonce :: string
  ba_result :: nat
  ba_any_failures :: bool

record SendMsg =
  sm_monotoniccount :: u64
  sm_amount :: u64

record DepositStateMsg =
  ds_is_remote_deposit :: bool
  ds_txid :: string
  ds_tx_index :: u64
  ds_deposit_amount :: u64
  ds_deposit_script_length :: u64
  ds_deposit_script :: string
  ds_public_key :: string
  ds_bitcoin_address :: string
  ds_deposit_id :: u64

record ChannelStateMsg =
  cm_channel_id :: string
  cm_balance_a :: u64
  cm_balance_b :: u64
  cm_bitcoin_address_a :: string
  cm_bitcoin_address_b :: string
  cm_num_deposits :: u64
  cm_deposit_states :: "DepositStateMsg list"

record BackupDepositStateMsg =
  bd_deposit_state :: DepositStateMsg
  bd_private_key :: string

record BackupSetupTransactionStateMsg =
  bs_my_address :: string
  bs_miner_fee :: u64
  bs_num_deposits :: u64
  bs_deposit_states :: "BackupDepositStateMsg list"

record BackupChannelStateMsg =
  bc_channel_id :: string
  bc_balance_a :: u64
  bc_balance_b :: u64
  bc_bitcoin_address_a :: string
  bc_bitcoin_address_b :: string
  bc_num_deposits :: u64
  bc_deposit_states :: "BackupDepositStateMsg list"

record BackupRequest =
  request_blocked_on :: BackupBlockRequest
  send_amount_blocked_on :: u64
  deposit_id_blocked_on :: u64
  br_nonce :: string

text \<open>\<open>BackupRequest()\<close>: all bytes zero.\<close>

definition zero_BackupRequest :: BackupRequest where
  "zero_BackupRequest = \<lparr>request_blocked_on = Channel_Create_Request, send_amount_blocked_on = 0,
     deposit_id_blocked_on = 0, br_nonce = replicate NONCE_BYTE_LEN (CHR 0x00)\<rparr>"

record BackupEnclaveStateMsg =
  be_backup_channel_id :: string
  be_blocked_channel_id :: string
  be_blocked_request :: BackupRequest
  be_any_failures :: bool
  be_my_setup_transaction :: BackupSetupTransactionStateMsg
  be_num_channels :: u64
  be_channel_states :: "BackupChannelStateMsg list"

record RemoveBackupMsg =
  rb_backup_channel_id :: string
  rb_nonce :: string
  rb_request :: nat

record UpdateChannelBalanceMsg =
  uc_backup_channel_id :: string
  uc_blocked_channel_id :: string
  uc_any_failures :: bool
  uc_my_balance :: u64
  uc_remote_balance :: u64
  uc_my_bitcoin_address :: string
  uc_remote_bitcoin_address :: string
  uc_nonce :: string

text \<open>
  The plaintexts that the enclaves encrypt: one constructor per struct. The code encrypts the
  bytes of the struct and, on receipt, reads the decrypted bytes as the struct it expects.
\<close>

datatype plaintext =
    P_CreateChannel CreateChannelMsg
  | P_Deposit DepositMsg
  | P_SecureAck SecureAckMsg
  | P_BackupStoredAck BackupStoredAckMsg
  | P_Send SendMsg
  | P_BackupEnclaveState BackupEnclaveStateMsg
  | P_RemoveBackup RemoveBackupMsg
  | P_UpdateChannelBalance UpdateChannelBalanceMsg

section \<open>Sizes of the structs\<close>

text \<open>
  The layout rule of the ABI the enclave is compiled for: each field at the next multiple of its
  alignment, the whole padded to a multiple of the largest alignment. A field is given by its
  size and its alignment.
\<close>

definition align_up :: "nat \<Rightarrow> nat \<Rightarrow> nat" where
  "align_up n a = (n + a - 1) div a * a"

definition struct_align :: "(nat \<times> nat) list \<Rightarrow> nat" where
  "struct_align fs = foldr (\<lambda>f m. max (snd f) m) fs 1"

definition struct_size :: "(nat \<times> nat) list \<Rightarrow> nat" where
  "struct_size fs = align_up (foldl (\<lambda>off f. align_up off (snd f) + fst f) 0 fs) (struct_align fs)"

definition sizeof_CreateChannelMsg :: nat where
  "sizeof_CreateChannelMsg = struct_size
     [(16, 1), (34, 1), (8, 8), (10 * 64, 1), (10 * 8, 8), (10 * 8, 8), (10 * 8, 8),
      (10 * 256, 1), (10 * 34, 1), (10 * 66, 1), (10 * 52, 1), (8, 1)]"

definition sizeof_DepositMsg :: nat where
  "sizeof_DepositMsg = struct_size [(1, 1), (16, 1), (16, 1), (8, 8), (7, 1)]"

definition sizeof_SecureAckMsg :: nat where
  "sizeof_SecureAckMsg = struct_size [(16, 1), (16, 1), (1, 1), (15, 1)]"

definition sizeof_BackupStoredAckMsg :: nat where
  "sizeof_BackupStoredAckMsg = struct_size [(16, 1), (16, 1), (16, 1), (1, 1), (1, 1), (13, 1)]"

definition sizeof_SendMsg :: nat where
  "sizeof_SendMsg = struct_size [(8, 8), (8, 8)]"

definition sizeof_DepositStateMsg :: nat where
  "sizeof_DepositStateMsg = struct_size
     [(1, 1), (64, 1), (8, 8), (8, 8), (8, 8), (256, 1), (66, 1), (34, 1), (8, 8)]"

definition sizeof_BackupDepositStateMsg :: nat where
  "sizeof_BackupDepositStateMsg = struct_size [(sizeof_DepositStateMsg, 8), (52, 1)]"

definition sizeof_BackupSetupTransactionStateMsg :: nat where
  "sizeof_BackupSetupTransactionStateMsg = struct_size
     [(34, 1), (8, 8), (8, 8), (10 * sizeof_BackupDepositStateMsg, 8)]"

definition sizeof_BackupChannelStateMsg :: nat where
  "sizeof_BackupChannelStateMsg = struct_size
     [(16, 1), (8, 8), (8, 8), (34, 1), (34, 1), (8, 8), (10 * sizeof_BackupDepositStateMsg, 8)]"

definition sizeof_BackupRequest :: nat where
  "sizeof_BackupRequest = struct_size [(4, 4), (8, 8), (8, 8), (16, 1)]"

definition sizeof_BackupEnclaveStateMsg :: nat where
  "sizeof_BackupEnclaveStateMsg = struct_size
     [(16, 1), (16, 1), (sizeof_BackupRequest, 8), (1, 1),
      (sizeof_BackupSetupTransactionStateMsg, 8), (8, 8),
      (10 * sizeof_BackupChannelStateMsg, 8), (6, 1)]"

definition sizeof_RemoveBackupMsg :: nat where
  "sizeof_RemoveBackupMsg = struct_size [(16, 1), (16, 1), (1, 1), (15, 1)]"

definition sizeof_UpdateChannelBalanceMsg :: nat where
  "sizeof_UpdateChannelBalanceMsg = struct_size
     [(16, 1), (16, 1), (1, 1), (8, 8), (8, 8), (34, 1), (34, 1), (16, 1), (6, 1)]"

lemmas struct_defs = struct_size_def struct_align_def align_up_def

lemma sizeof_values:
  "sizeof_CreateChannelMsg = 5032" "sizeof_DepositMsg = 56" "sizeof_SecureAckMsg = 48"
  "sizeof_BackupStoredAckMsg = 63" "sizeof_SendMsg = 16" "sizeof_RemoveBackupMsg = 48"
  "sizeof_UpdateChannelBalanceMsg = 152" "sizeof_BackupEnclaveStateMsg = 58472"
  by (simp_all add: sizeof_CreateChannelMsg_def sizeof_DepositMsg_def sizeof_SecureAckMsg_def
      sizeof_BackupStoredAckMsg_def sizeof_SendMsg_def sizeof_RemoveBackupMsg_def
      sizeof_UpdateChannelBalanceMsg_def sizeof_BackupEnclaveStateMsg_def
      sizeof_BackupRequest_def sizeof_BackupSetupTransactionStateMsg_def
      sizeof_BackupChannelStateMsg_def sizeof_BackupDepositStateMsg_def sizeof_DepositStateMsg_def
      struct_defs)

section \<open>Channels\<close>

record ChannelState =
  status :: ChannelStatus
  channel_id :: string
  is_initiator :: bool
  is_backup_channel :: bool
  deposits_verified :: bool
  other_party_deposits_verified :: bool
  remote_setup_transaction :: SetupTransaction
  most_recent_nonce :: string
  backup_requests :: "(string, BackupRequest) omap"
  my_balance :: u64
  remote_balance :: u64
  remote_last_seen :: u64
  my_monotonic_counter :: u64
  my_sends :: u32
  my_receives :: u32
  unsynced_bitcoin_amount :: u64
  sk_key :: string

section \<open>The enclave and what it calls\<close>

text \<open>
  All global variables of the trusted code. \<open>rng\<close> and \<open>keys_made\<close> are the positions in the
  random source and in the source of fresh Bitcoin keys.
\<close>

record enclave =
  teechain_state :: TeechanState
  channelStates :: "(string, ChannelState) omap"
  my_setup_transaction :: SetupTransaction
  channel_ids_to_user_outputs :: "(string, string) omap"
  testnet :: bool
  debug :: bool
  benchmark :: bool
  saved_first_backup_state :: bool
  write_to_stable_storage :: bool
  prev_backup_channel_id :: string
  next_backup_channel_id :: string
  most_recent_backup_state :: BackupEnclaveStateMsg
  most_recent_channel_update_state :: UpdateChannelBalanceMsg
  rng :: nat
  keys_made :: nat

text \<open>A fresh Bitcoin key pair, as \<open>CKey::MakeNewKey\<close> and the encoders give it.\<close>

record bitcoin_key =
  bk_address :: string
  bk_public_key :: string
  bk_private_key :: string
  bk_script_asm :: string

record ext =
  x_attest :: bool  \<comment> \<open>built with \<open>SGX_ATTEST\<close>\<close>
  x_encrypt :: "string \<Rightarrow> plaintext \<Rightarrow> (string \<times> string) option"
    \<comment> \<open>\<open>sgx_rijndael128GCM_encrypt\<close>: key and plaintext to cyphertext and MAC\<close>
  x_decrypt :: "string \<Rightarrow> string \<Rightarrow> string \<Rightarrow> plaintext option"
    \<comment> \<open>\<open>sgx_rijndael128GCM_decrypt\<close>: key, cyphertext and MAC to plaintext\<close>
  x_ra_key :: "nat \<Rightarrow> string option"  \<comment> \<open>\<open>sgx_ra_get_keys\<close>\<close>
  x_rand :: "nat \<Rightarrow> char"  \<comment> \<open>the bytes of \<open>GetRandBytes\<close>\<close>
  x_bitcoin_key :: "nat \<Rightarrow> bitcoin_key"
  x_rpc :: "string \<Rightarrow> string"  \<comment> \<open>\<open>executeCommand(s).write()\<close>\<close>
  x_rpc_hex :: "string \<Rightarrow> string"  \<comment> \<open>\<open>executeCommand(s)["hex"].write()\<close>\<close>
  x_junk_key :: string
  x_junk_u64 :: u64
  x_junk_char :: char
  x_junk_bool :: bool
  x_junk_setup :: SetupTransaction
  x_junk_deposit :: BackupDepositStateMsg
  x_junk_channel :: BackupChannelStateMsg
  x_junk_backup :: BackupEnclaveStateMsg
  x_junk_update :: UpdateChannelBalanceMsg
  x_junk_ack :: BackupStoredAckMsg

text \<open>What an ecall hands back: its return code and the output buffers it has written.\<close>

record reply =
  ret_code :: nat
  encrypted_out :: "(string \<times> string) option"
  next_channel_out :: "string option"
  action_out :: "action option"
  user_output :: "string option"

definition code_reply :: "nat \<Rightarrow> reply" where
  "code_reply c = \<lparr>ret_code = c, encrypted_out = None, next_channel_out = None,
     action_out = None, user_output = None\<rparr>"

definition output_reply :: "nat \<Rightarrow> string \<Rightarrow> reply" where
  "output_reply c s = (code_reply c)\<lparr>user_output := Some s\<rparr>"

lemma code_reply_simps [simp]:
  "ret_code (code_reply c) = c" "encrypted_out (code_reply c) = None"
  "next_channel_out (code_reply c) = None" "action_out (code_reply c) = None"
  "user_output (code_reply c) = None"
  by (simp_all add: code_reply_def)

lemma output_reply_simps [simp]:
  "ret_code (output_reply c s) = c" "encrypted_out (output_reply c s) = None"
  "next_channel_out (output_reply c s) = None" "action_out (output_reply c s) = None"
  "user_output (output_reply c s) = Some s"
  by (simp_all add: output_reply_def)

section \<open>Arrays inside messages\<close>

definition array_set :: "nat \<Rightarrow> nat \<Rightarrow> 'a \<Rightarrow> 'a list \<Rightarrow> 'a list outcome" where
  "array_set bound i v xs = (if i < bound then Returns (xs[i := v]) else Undefined)"

definition array_get :: "nat \<Rightarrow> 'a list \<Rightarrow> 'a outcome" where
  "array_get i xs = (if i < length xs then Returns (xs ! i) else Undefined)"

section \<open>The enclave at start\<close>

definition zero_SetupTransaction :: SetupTransaction where
  "zero_SetupTransaction = \<lparr>su_public_key = [], su_private_key = [], utxo_hash = [],
     utxo_index = 0, utxo_script = [], setup_transaction_hash = [], deposit_ids_to_deposits = [],
     deposit_ids_to_channels = [], my_address = [], miner_fee = 0\<rparr>"

definition zeros :: "nat \<Rightarrow> string" where
  "zeros n = replicate n (CHR 0x00)"

definition zero_DepositStateMsg :: DepositStateMsg where
  "zero_DepositStateMsg = \<lparr>ds_is_remote_deposit = False, ds_txid = zeros BITCOIN_TX_HASH_LEN,
     ds_tx_index = 0, ds_deposit_amount = 0, ds_deposit_script_length = 0,
     ds_deposit_script = zeros MAX_BITCOIN_TX_SCRIPT_LEN,
     ds_public_key = zeros BITCOIN_PUBLIC_KEY_LEN,
     ds_bitcoin_address = zeros BITCOIN_ADDRESS_LEN, ds_deposit_id = 0\<rparr>"

definition zero_BackupDepositStateMsg :: BackupDepositStateMsg where
  "zero_BackupDepositStateMsg = \<lparr>bd_deposit_state = zero_DepositStateMsg,
     bd_private_key = zeros BITCOIN_PRIVATE_KEY_LEN\<rparr>"

definition zero_BackupChannelStateMsg :: BackupChannelStateMsg where
  "zero_BackupChannelStateMsg = \<lparr>bc_channel_id = zeros CHANNEL_ID_LEN, bc_balance_a = 0,
     bc_balance_b = 0, bc_bitcoin_address_a = zeros BITCOIN_ADDRESS_LEN,
     bc_bitcoin_address_b = zeros BITCOIN_ADDRESS_LEN, bc_num_deposits = 0,
     bc_deposit_states = replicate MAX_NUM_DEPOSITS_IN_CHANNEL zero_BackupDepositStateMsg\<rparr>"

definition zero_BackupEnclaveStateMsg :: BackupEnclaveStateMsg where
  "zero_BackupEnclaveStateMsg = \<lparr>be_backup_channel_id = zeros CHANNEL_ID_LEN,
     be_blocked_channel_id = zeros CHANNEL_ID_LEN, be_blocked_request = zero_BackupRequest,
     be_any_failures = False,
     be_my_setup_transaction = \<lparr>bs_my_address = zeros BITCOIN_ADDRESS_LEN, bs_miner_fee = 0,
       bs_num_deposits = 0,
       bs_deposit_states = replicate MAX_NUM_SETUP_DEPOSITS zero_BackupDepositStateMsg\<rparr>,
     be_num_channels = 0,
     be_channel_states = replicate MAX_NUM_CHANNELS_PER_ENCLAVE zero_BackupChannelStateMsg\<rparr>"

definition zero_UpdateChannelBalanceMsg :: UpdateChannelBalanceMsg where
  "zero_UpdateChannelBalanceMsg = \<lparr>uc_backup_channel_id = zeros CHANNEL_ID_LEN,
     uc_blocked_channel_id = zeros CHANNEL_ID_LEN, uc_any_failures = False, uc_my_balance = 0,
     uc_remote_balance = 0, uc_my_bitcoin_address = zeros BITCOIN_ADDRESS_LEN,
     uc_remote_bitcoin_address = zeros BITCOIN_ADDRESS_LEN, uc_nonce = zeros NONCE_BYTE_LEN\<rparr>"

text \<open>The globals as their initialisers (or static zero initialisation) leave them.\<close>

definition initial_enclave :: enclave where
  "initial_enclave = \<lparr>teechain_state = Ghost, channelStates = [],
     my_setup_transaction = zero_SetupTransaction, channel_ids_to_user_outputs = [],
     testnet = True, debug = False, benchmark = False, saved_first_backup_state = False,
     write_to_stable_storage = False, prev_backup_channel_id = [], next_backup_channel_id = [],
     most_recent_backup_state = zero_BackupEnclaveStateMsg,
     most_recent_channel_update_state = zero_UpdateChannelBalanceMsg, rng = 0, keys_made = 0\<rparr>"

end
