(* ===== verification/Teechain_Channels.thy ===== *)
theory Teechain_Channels
  imports Teechain_Types
begin

text \<open>
  \<open>state.cpp\<close>, \<open>channel.cpp\<close>, \<open>network.cpp\<close> and the nonce and decryption helpers of
  \<open>teechain.cpp\<close>: the life-cycle check, the table of channels, encryption under the key of a
  channel, and the checks every incoming message goes through.
\<close>

section \<open>State and status checks\<close>

definition check_state :: "enclave \<Rightarrow> TeechanState \<Rightarrow> bool" where
  "check_state e s = (teechain_state e = s)"

definition check_status :: "ChannelState \<Rightarrow> ChannelStatus \<Rightarrow> bool" where
  "check_status st s = (status st = s)"

definition check_deposits_verified :: "ChannelState \<Rightarrow> bool" where
  "check_deposits_verified st = (deposits_verified st \<and> other_party_deposits_verified st)"

text \<open>The order in which a channel goes through its states.\<close>

fun status_rank :: "ChannelStatus \<Rightarrow> nat" where
  "status_rank Unverified = 0"
| "status_rank Alive = 1"
| "status_rank Settled = 2"

lemma status_rank_inject: "status_rank a = status_rank b \<Longrightarrow> a = b"
  by (cases a; cases b) auto

instantiation ChannelStatus :: linorder
begin

definition less_eq_ChannelStatus :: "ChannelStatus \<Rightarrow> ChannelStatus \<Rightarrow> bool" where
  "less_eq_ChannelStatus a b \<longleftrightarrow> status_rank a \<le> status_rank b"

definition less_ChannelStatus :: "ChannelStatus \<Rightarrow> ChannelStatus \<Rightarrow> bool" where
  "less_ChannelStatus a b \<longleftrightarrow> status_rank a < status_rank b"

instance
  by standard
    (auto simp: less_eq_ChannelStatus_def less_ChannelStatus_def intro: status_rank_inject)

end

lemma status_le [simp]: "Unverified \<le> s" "s \<le> Settled" "s \<le> Unverified \<longleftrightarrow> s = Unverified"
  by (cases s; simp add: less_eq_ChannelStatus_def)+

section \<open>The table of channels\<close>

text \<open>
  \<open>init_channel_state\<close> after \<open>new ChannelState\<close>: the fields it does not set keep what the
  allocation held.
\<close>

definition create_channel_state :: "ext \<Rightarrow> ChannelState" where
  "create_channel_state x = \<lparr>status = Unverified, channel_id = [],
     is_initiator = x_junk_bool x, is_backup_channel = x_junk_bool x,
     deposits_verified = False, other_party_deposits_verified = False,
     remote_setup_transaction = (x_junk_setup x)\<lparr>su_public_key := [], su_private_key := [],
       utxo_hash := [], utxo_script := [], setup_transaction_hash := [],
       deposit_ids_to_deposits := [], deposit_ids_to_channels := [], my_address := []\<rparr>,
     most_recent_nonce = [], backup_requests = [],
     my_balance = x_junk_u64 x, remote_balance = x_junk_u64 x,
     remote_last_seen = 0, my_monotonic_counter = 0, my_sends = 0, my_receives = 0,
     unsynced_bitcoin_amount = 0, sk_key = x_junk_key x\<rparr>"

text \<open>A missing channel ends the process: \<open>ocall_error\<close> shuts the node down and exits.\<close>

definition get_channel_state :: "enclave \<Rightarrow> string \<Rightarrow> ChannelState outcome" where
  "get_channel_state e cid =
     (case om_get (channelStates e) cid of None \<Rightarrow> Terminated | Some st \<Rightarrow> Returns st)"

text \<open>
  The code updates a channel through the pointer that the table holds; the model stores the new
  value under the same identifier.
\<close>

definition put_channel :: "string \<Rightarrow> ChannelState \<Rightarrow> enclave \<Rightarrow> enclave" where
  "put_channel cid st e = e\<lparr>channelStates := om_put cid st (channelStates e)\<rparr>"

definition remove_association :: "string \<Rightarrow> enclave \<Rightarrow> enclave" where
  "remove_association cid e = e\<lparr>channelStates := om_del cid (channelStates e)\<rparr>"

definition associate_channel_state :: "string \<Rightarrow> ChannelState \<Rightarrow> enclave \<Rightarrow> enclave" where
  "associate_channel_state cid st e = put_channel cid (st\<lparr>channel_id := cid\<rparr>) e"

definition destroy_channel_state :: "string \<Rightarrow> enclave \<Rightarrow> enclave outcome" where
  "destroy_channel_state cid e =
     bindo (get_channel_state e cid) (\<lambda>_. Returns (remove_association cid e))"

definition get_all_non_backup_channel_ids :: "enclave \<Rightarrow> string list" where
  "get_all_non_backup_channel_ids e =
     map fst (filter (\<lambda>p. \<not> is_backup_channel (snd p)) (channelStates e))"

lemma get_channel_state_Returns [simp]:
  "get_channel_state e cid = Returns st \<longleftrightarrow> om_get (channelStates e) cid = Some st"
  by (simp add: get_channel_state_def split: option.splits)

lemma get_channel_put [simp]:
  "get_channel_state (put_channel c st e) cid =
     (if cid = c then Returns st else get_channel_state e cid)"
  by (simp add: get_channel_state_def put_channel_def)

lemma get_channel_associate:
  "get_channel_state (associate_channel_state c st e) cid =
     (if cid = c then Returns (st\<lparr>channel_id := c\<rparr>) else get_channel_state e cid)"
  by (simp add: associate_channel_state_def)

lemma channelStates_put [simp]:
  "channelStates (put_channel c st e) = om_put c st (channelStates e)"
  by (simp add: put_channel_def)

lemma put_channel_frame [simp, frame]:
  "teechain_state (put_channel c st e) = teechain_state e"
  "my_setup_transaction (put_channel c st e) = my_setup_transaction e"
  "channel_ids_to_user_outputs (put_channel c st e) = channel_ids_to_user_outputs e"
  "testnet (put_channel c st e) = testnet e" "debug (put_channel c st e) = debug e"
  "benchmark (put_channel c st e) = benchmark e"
  "saved_first_backup_state (put_channel c st e) = saved_first_backup_state e"
  "write_to_stable_storage (put_channel c st e) = write_to_stable_storage e"
  "prev_backup_channel_id (put_channel c st e) = prev_backup_channel_id e"
  "next_backup_channel_id (put_channel c st e) = next_backup_channel_id e"
  "most_recent_backup_state (put_channel c st e) = most_recent_backup_state e"
  "most_recent_channel_update_state (put_channel c st e) = most_recent_channel_update_state e"
  "rng (put_channel c st e) = rng e" "keys_made (put_channel c st e) = keys_made e"
  by (simp_all add: put_channel_def)

text \<open>
  A channel that is created under the temporary identifier and renamed once its real identifier
  is known: every other channel is found as before, the temporary one is gone.
\<close>

lemma rename_channel_lookup:
  "get_channel_state (associate_channel_state new st (remove_association old e)) cid =
     (if cid = new then Returns (st\<lparr>channel_id := new\<rparr>)
      else if cid = old then Terminated else get_channel_state e cid)"
  using om.rename_get [of new "st\<lparr>channel_id := new\<rparr>" old "channelStates e" cid]
  by (simp add: get_channel_state_def associate_channel_state_def put_channel_def
      remove_association_def)

lemma non_backup_ids_iff:
  assumes "om_ok (channelStates e)"
  shows "cid \<in> set (get_all_non_backup_channel_ids e) \<longleftrightarrow>
    (\<exists>st. om_get (channelStates e) cid = Some st \<and> \<not> is_backup_channel st)"
proof -
  have "cid \<in> set (get_all_non_backup_channel_ids e) \<longleftrightarrow>
      (\<exists>st. (cid, st) \<in> set (channelStates e) \<and> \<not> is_backup_channel st)"
    by (auto simp: get_all_non_backup_channel_ids_def image_iff)
  then show ?thesis using om_get_Some_iff [OF assms] by simp
qed

lemma non_backup_ids_sorted:
  assumes "om_ok (channelStates e)"
  shows "sorted_wrt (<) (get_all_non_backup_channel_ids e)"
proof -
  have "sorted_wrt (\<lambda>p q. fst p < fst q) (channelStates e)"
    using assms by (simp add: om_ok_def om_keys_def sorted_wrt_map)
  then show ?thesis
    by (simp add: get_all_non_backup_channel_ids_def sorted_wrt_map sorted_wrt_filter)
qed

section \<open>Encryption\<close>

definition simulation_network_key :: string where
  "simulation_network_key = map char_of [1::nat, 2, 3, 4, 5, 6, 7, 8, 1, 2, 3, 4, 5, 6, 7, 8]"

text \<open>
  Encryption uses the service-provider key of the channel, decryption the key of the attestation
  context; a build without attestation uses one constant key. No code of the enclave writes the
  service-provider key, so it is what the allocation of the channel left there. The
  initialisation vector is always zero, so the cyphertext is a function of key and plaintext.
\<close>

definition sgx_encrypt :: "ext \<Rightarrow> ChannelState \<Rightarrow> plaintext \<Rightarrow> (string \<times> string) option" where
  "sgx_encrypt x st p = x_encrypt x (if x_attest x then sk_key st else simulation_network_key) p"

definition sgx_decrypt :: "ext \<Rightarrow> string \<Rightarrow> string \<Rightarrow> nat \<Rightarrow> plaintext option" where
  "sgx_decrypt x cypher mac context =
     (if x_attest x then
        (case x_ra_key x context of
           None \<Rightarrow> None
         | Some key \<Rightarrow> x_decrypt x key cypher mac)
      else x_decrypt x simulation_network_key cypher mac)"

definition check_and_decrypt_message ::
  "ext \<Rightarrow> string \<Rightarrow> nat \<Rightarrow> nat \<Rightarrow> plaintext option" where
  "check_and_decrypt_message x blob context msg_len =
     (if length blob \<le> SAMPLE_SP_TAG_SIZE then None
      else if length blob < SAMPLE_SP_TAG_SIZE + msg_len then None
      else sgx_decrypt x (take msg_len (drop SAMPLE_SP_TAG_SIZE blob))
             (take SAMPLE_SP_TAG_SIZE blob) context)"

lemma check_and_decrypt_message_length:
  "check_and_decrypt_message x blob ctx n = Some p \<Longrightarrow>
     SAMPLE_SP_TAG_SIZE < length blob \<and> SAMPLE_SP_TAG_SIZE + n \<le> length blob"
  by (auto simp: check_and_decrypt_message_def split: if_splits)

text \<open>Reading the decrypted bytes as the struct the handler declares.\<close>

definition as_SendMsg :: "plaintext \<Rightarrow> SendMsg outcome" where
  "as_SendMsg p = (case p of P_Send m \<Rightarrow> Returns m | _ \<Rightarrow> Undefined)"

definition as_DepositMsg :: "plaintext \<Rightarrow> DepositMsg outcome" where
  "as_DepositMsg p = (case p of P_Deposit m \<Rightarrow> Returns m | _ \<Rightarrow> Undefined)"

text \<open>\<open>SecureAckMsg\<close> and \<open>RemoveBackupMsg\<close> have the same layout.\<close>

definition as_SecureAckMsg :: "plaintext \<Rightarrow> SecureAckMsg outcome" where
  "as_SecureAckMsg p =
     (case p of
        P_SecureAck m \<Rightarrow> Returns m
      | P_RemoveBackup r \<Rightarrow> Returns \<lparr>sa_channel_id = rb_backup_channel_id r,
          sa_nonce = rb_nonce r, sa_result = rb_request r\<rparr>
      | _ \<Rightarrow> Undefined)"

definition as_RemoveBackupMsg :: "plaintext \<Rightarrow> RemoveBackupMsg outcome" where
  "as_RemoveBackupMsg p =
     (case p of
        P_RemoveBackup r \<Rightarrow> Returns r
      | P_SecureAck m \<Rightarrow> Returns \<lparr>rb_backup_channel_id = sa_channel_id m,
          rb_nonce = sa_nonce m, rb_request = sa_result m\<rparr>
      | _ \<Rightarrow> Undefined)"

definition as_BackupStoredAckMsg :: "plaintext \<Rightarrow> BackupStoredAckMsg outcome" where
  "as_BackupStoredAckMsg p = (case p of P_BackupStoredAck m \<Rightarrow> Returns m | _ \<Rightarrow> Undefined)"

definition as_CreateChannelMsg :: "plaintext \<Rightarrow> CreateChannelMsg outcome" where
  "as_CreateChannelMsg p = (case p of P_CreateChannel m \<Rightarrow> Returns m | _ \<Rightarrow> Undefined)"

definition as_BackupEnclaveStateMsg :: "plaintext \<Rightarrow> BackupEnclaveStateMsg outcome" where
  "as_BackupEnclaveStateMsg p = (case p of P_BackupEnclaveState m \<Rightarrow> Returns m | _ \<Rightarrow> Undefined)"

definition as_UpdateChannelBalanceMsg :: "plaintext \<Rightarrow> UpdateChannelBalanceMsg outcome" where
  "as_UpdateChannelBalanceMsg p =
     (case p of P_UpdateChannelBalance m \<Rightarrow> Returns m | _ \<Rightarrow> Undefined)"

lemmas as_msg_defs = as_SendMsg_def as_DepositMsg_def as_SecureAckMsg_def as_RemoveBackupMsg_def
  as_BackupStoredAckMsg_def as_CreateChannelMsg_def as_BackupEnclaveStateMsg_def
  as_UpdateChannelBalanceMsg_def

section \<open>Nonces\<close>

definition generate_random_nonce :: "ext \<Rightarrow> enclave \<Rightarrow> string \<times> enclave" where
  "generate_random_nonce x e =
     (map (x_rand x) [rng e..<rng e + NONCE_BYTE_LEN], e\<lparr>rng := rng e + NONCE_BYTE_LEN\<rparr>)"

lemma nonce_length [simp]: "length (fst (generate_random_nonce x e)) = NONCE_BYTE_LEN"
  by (simp add: generate_random_nonce_def)

lemma generate_random_nonce_frame [simp, frame]:
  "teechain_state (snd (generate_random_nonce x e)) = teechain_state e"
  "channelStates (snd (generate_random_nonce x e)) = channelStates e"
  "my_setup_transaction (snd (generate_random_nonce x e)) = my_setup_transaction e"
  "write_to_stable_storage (snd (generate_random_nonce x e)) = write_to_stable_storage e"
  "prev_backup_channel_id (snd (generate_random_nonce x e)) = prev_backup_channel_id e"
  "next_backup_channel_id (snd (generate_random_nonce x e)) = next_backup_channel_id e"
  "most_recent_backup_state (snd (generate_random_nonce x e)) = most_recent_backup_state e"
  "most_recent_channel_update_state (snd (generate_random_nonce x e))
     = most_recent_channel_update_state e"
  "saved_first_backup_state (snd (generate_random_nonce x e)) = saved_first_backup_state e"
  "channel_ids_to_user_outputs (snd (generate_random_nonce x e)) = channel_ids_to_user_outputs e"
  by (simp_all add: generate_random_nonce_def)

definition check_message_nonce :: "ChannelState \<Rightarrow> string \<Rightarrow> bool" where
  "check_message_nonce st nonce = (most_recent_nonce st = nonce)"

end
