(* ===== verification/Teechain_Deposits.thy ===== *)
theory Teechain_Deposits
  imports Teechain_Types
begin

text \<open>
  The deposit bookkeeping of \<open>teechain.cpp\<close>: which deposits belong to a channel, which are free,
  and what they are worth. \<open>deposit_ids_to_deposits\<close> maps a deposit to its data,
  \<open>deposit_ids_to_channels\<close> maps a deposit in use to its channel.
\<close>

section \<open>Access through \<open>operator[]\<close>\<close>

text \<open>\<open>m[k]\<close> creates the entry when there is none: its value, and the map afterwards.\<close>

definition deposit_at :: "(u64, Deposit) omap \<Rightarrow> u64 \<Rightarrow> Deposit" where
  "deposit_at m k = (case om_get m k of None \<Rightarrow> zero_Deposit | Some d \<Rightarrow> d)"

definition touch_deposit :: "(u64, Deposit) omap \<Rightarrow> u64 \<Rightarrow> (u64, Deposit) omap" where
  "touch_deposit m k = (case om_get m k of None \<Rightarrow> om_put k zero_Deposit m | Some _ \<Rightarrow> m)"

lemma deposit_at_touch [simp]: "deposit_at (touch_deposit m k) j = deposit_at m j"
  by (simp add: deposit_at_def touch_deposit_def split: option.splits)

lemma touch_deposit_present: "om_get m k \<noteq> None \<Longrightarrow> touch_deposit m k = m"
  by (auto simp: touch_deposit_def)

lemma deposit_at_get: "om_get m k = Some d \<Longrightarrow> deposit_at m k = d"
  by (simp add: deposit_at_def)

section \<open>Spent and used deposits\<close>

text \<open>The argument is an \<open>int\<close>: a 64-bit identifier is cut to 32 bits and sign-extended back.\<close>

definition int_key :: "u64 \<Rightarrow> u64" where
  "int_key k = scast (ucast k :: u32)"

definition is_deposit_spent :: "SetupTransaction \<Rightarrow> u64 \<Rightarrow> bool" where
  "is_deposit_spent s k =
     (case om_get (deposit_ids_to_deposits s) (int_key k) of None \<Rightarrow> False | Some d \<Rightarrow> is_spent d)"

definition is_deposit_in_use :: "SetupTransaction \<Rightarrow> u64 \<Rightarrow> bool" where
  "is_deposit_in_use s k = (om_get (deposit_ids_to_channels s) (int_key k) \<noteq> None)"

lemma int_key_small:
  assumes "unat k < 2 ^ 31"
  shows "int_key k = k"
proof -
  have u: "take_bit 31 (unat k) = unat k"
    using assms by (simp add: take_bit_nat_eq_self)
  then have t: "take_bit 31 k = k"
    by (simp add: word_unat_eq_iff unsigned_take_bit_eq)
  then have "\<not> bit k 31"
    by (metis bit_take_bit_iff less_irrefl)
  then have "signed_take_bit 31 k = k"
    using t by (simp add: signed_take_bit_eq_if_positive)
  then show ?thesis
    by (simp add: int_key_def signed_ucast_eq)
qed

section \<open>Fees\<close>

text \<open>
  \<open>num_inputs\<close> and \<open>num_outputs\<close> are C \<open>int\<close>s; the size estimate is an \<open>int\<close> expression that
  is converted to 64 bits and multiplied there.
\<close>

definition calculate_total_fee :: "u64 \<Rightarrow> int \<Rightarrow> int \<Rightarrow> u64" where
  "calculate_total_fee fee_per_byte num_inputs num_outputs =
     fee_per_byte * of_int ((num_inputs * 180) + (num_outputs * 34) + 10 - num_inputs)"

section \<open>Deposits of a channel, unused deposits\<close>

definition find_deposit_ids_in_channel :: "string \<Rightarrow> (u64, string) omap \<Rightarrow> u64 list" where
  "find_deposit_ids_in_channel cid m = map fst (filter (\<lambda>p. snd p = cid) m)"

definition find_unused_deposits ::
  "(u64, Deposit) omap \<Rightarrow> (u64, string) omap \<Rightarrow> u64 list" where
  "find_unused_deposits ds cs =
     map fst (filter (\<lambda>p. om_get cs (fst p) = None \<and> \<not> is_spent (snd p)) ds)"

fun sum_unused_deposits :: "(u64, Deposit) omap \<Rightarrow> u64 list \<Rightarrow> u64" where
  "sum_unused_deposits ds [] = 0"
| "sum_unused_deposits ds (k # ks) = deposit_amount (deposit_at ds k) + sum_unused_deposits ds ks"

definition get_total_deposit_amount_in_channel ::
  "string \<Rightarrow> (u64, Deposit) omap \<Rightarrow> (u64, string) omap \<Rightarrow> u64" where
  "get_total_deposit_amount_in_channel cid ds cs =
     foldl (\<lambda>total k. total + deposit_amount (deposit_at ds k)) 0 (find_deposit_ids_in_channel cid cs)"

text \<open>\<open>erase(find(k))\<close>: erasing \<open>end()\<close> is undefined.\<close>

definition remove_deposit_from_channel :: "u64 \<Rightarrow> (u64, string) omap \<Rightarrow> (u64, string) omap outcome" where
  "remove_deposit_from_channel k cs =
     (case om_get cs k of None \<Rightarrow> Undefined | Some _ \<Rightarrow> Returns (om_del k cs))"

primrec mark_deposits_spent :: "u64 list \<Rightarrow> (u64, Deposit) omap \<Rightarrow> (u64, Deposit) omap" where
  "mark_deposits_spent [] ds = ds"
| "mark_deposits_spent (k # ks) ds =
     mark_deposits_spent ks (om_put k ((deposit_at ds k)\<lparr>is_spent := True\<rparr>) ds)"

definition mark_unused_deposits_spent :: "u64 list \<Rightarrow> enclave \<Rightarrow> enclave" where
  "mark_unused_deposits_spent ks e =
     e\<lparr>my_setup_transaction := (my_setup_transaction e)\<lparr>deposit_ids_to_deposits :=
        mark_deposits_spent ks (deposit_ids_to_deposits (my_setup_transaction e))\<rparr>\<rparr>"

subsection \<open>What the searches return\<close>

lemma find_deposit_ids_iff:
  assumes "om_ok cs"
  shows "k \<in> set (find_deposit_ids_in_channel cid cs) \<longleftrightarrow> om_get cs k = Some cid"
  using om_get_Some_iff [OF assms] by (force simp: find_deposit_ids_in_channel_def)

lemma find_deposit_ids_sorted:
  assumes "om_ok cs"
  shows "sorted_wrt (<) (find_deposit_ids_in_channel cid cs)"
proof -
  have "sorted_wrt (\<lambda>p q. fst p < fst q) cs"
    using assms by (simp add: om_ok_def om_keys_def sorted_wrt_map)
  then show ?thesis
    by (simp add: find_deposit_ids_in_channel_def sorted_wrt_map sorted_wrt_filter)
qed

lemma find_deposit_ids_distinct: "om_ok cs \<Longrightarrow> distinct (find_deposit_ids_in_channel cid cs)"
  using find_deposit_ids_sorted strict_sorted_iff by blast

lemma find_unused_iff:
  assumes "om_ok ds"
  shows "k \<in> set (find_unused_deposits ds cs) \<longleftrightarrow>
    (\<exists>d. om_get ds k = Some d \<and> \<not> is_spent d) \<and> om_get cs k = None"
  using om_get_Some_iff [OF assms] by (force simp: find_unused_deposits_def)

lemma find_unused_distinct:
  assumes "om_ok ds"
  shows "distinct (find_unused_deposits ds cs)"
proof -
  have "distinct (map fst ds)"
    using om_ok_distinct [OF assms] by (simp add: om_keys_def)
  then show ?thesis by (simp add: find_unused_deposits_def distinct_map_filter)
qed

lemma mark_deposits_spent_get:
  "om_get (mark_deposits_spent ks ds) k =
     (if k \<in> set ks then Some ((deposit_at ds k)\<lparr>is_spent := True\<rparr>) else om_get ds k)"
proof (induction ks arbitrary: ds)
  case Nil
  then show ?case by simp
next
  case (Cons j ks)
  then show ?case by (auto simp: deposit_at_def)
qed

lemma mark_deposits_spent_ok: "om_ok ds \<Longrightarrow> om_ok (mark_deposits_spent ks ds)"
  by (induction ks arbitrary: ds) auto

lemma mark_deposits_spent_amount [simp]:
  "deposit_amount (deposit_at (mark_deposits_spent ks ds) k) = deposit_amount (deposit_at ds k)"
  by (simp add: deposit_at_def mark_deposits_spent_get)

subsection \<open>The value of a channel's deposits\<close>

text \<open>The sum over the deposits of a channel, as a recursion over the table of uses.\<close>

primrec channel_deposits_value ::
  "string \<Rightarrow> (u64, Deposit) omap \<Rightarrow> (u64, string) omap \<Rightarrow> u64" where
  "channel_deposits_value cid ds [] = 0"
| "channel_deposits_value cid ds (p # cs) =
     (if snd p = cid then deposit_amount (deposit_at ds (fst p)) else 0)
       + channel_deposits_value cid ds cs"

lemma foldl_add_sum:
  fixes f :: "'k \<Rightarrow> u64"
  shows "foldl (\<lambda>t k. t + f k) a ks = a + sum_list (map f ks)"
  by (induction ks arbitrary: a) (simp_all add: add.assoc)

lemma get_total_eq_value:
  "get_total_deposit_amount_in_channel cid ds cs = channel_deposits_value cid ds cs"
proof (induction cs)
  case Nil
  then show ?case
    by (simp add: get_total_deposit_amount_in_channel_def find_deposit_ids_in_channel_def)
next
  case (Cons p cs)
  then show ?case
    by (simp add: get_total_deposit_amount_in_channel_def find_deposit_ids_in_channel_def
        foldl_add_sum)
qed

text \<open>Adding a free deposit, and removing one, change the value by the amount of the deposit.\<close>

lemma channel_value_put_fresh:
  "om_get cs k = None \<Longrightarrow>
     channel_deposits_value cid ds (om_put k c cs) =
       channel_deposits_value cid ds cs
         + (if c = cid then deposit_amount (deposit_at ds k) else 0)"
  by (induction k c cs rule: om_put.induct) (auto split: if_splits)

lemma channel_value_del_absent:
  "om_get cs k = None \<Longrightarrow>
     channel_deposits_value cid ds (om_del k cs) = channel_deposits_value cid ds cs"
  by (induction cs) (auto simp: om_del_def split: if_splits)

lemma channel_value_del:
  assumes "om_ok cs" and "om_get cs k = Some c"
  shows "channel_deposits_value cid ds (om_del k cs) =
    channel_deposits_value cid ds cs - (if c = cid then deposit_amount (deposit_at ds k) else 0)"
  using assms
proof (induction cs)
  case Nil
  then show ?case by simp
next
  case (Cons p cs)
  obtain a b where p: "p = (a, b)" by (cases p)
  have ok: "om_ok cs" using Cons.prems(1) by (simp add: om_ok_def om_keys_def)
  show ?case
  proof (cases "k = a")
    case True
    have "k \<notin> set (om_keys cs)"
      using Cons.prems(1) True p by (auto simp: om_ok_def om_keys_def)
    then have "om_get cs k = None" using om_keys_iff [of k cs] by blast
    then show ?thesis
      using Cons.prems(2) True p channel_value_del_absent [of cs k cid ds]
      by (auto simp: om_del_def)
  next
    case False
    then show ?thesis using Cons.IH [OF ok] Cons.prems(2) p by (auto simp: om_del_def)
  qed
qed

lemma channel_value_amounts:
  "(\<And>k. deposit_amount (deposit_at ds k) = deposit_amount (deposit_at ds' k)) \<Longrightarrow>
     channel_deposits_value cid ds cs = channel_deposits_value cid ds' cs"
  by (induction cs) auto

end
