(* ===== verification/Teechain_Ledger.thy ===== *)
theory Teechain_Ledger
  imports Teechain_Channels Teechain_Deposits
begin

text \<open>
  The abstract specification of the trusted code: what an enclave owes and owns. A ledger has the
  life-cycle state, the setup transaction and, for every channel, an account; messages, nonces,
  keys, backups and output texts are gone. \<open>ledger_step\<close> lists the only ways an account or a
  deposit may change. \<open>Teechain_System\<close> proves that every ecall implements a sequence of these
  steps, so that what is proved here of all runs holds of the enclave.
\<close>

section \<open>Accounts and ledgers\<close>

record acct =
  a_status :: ChannelStatus
  a_backup :: bool
  a_mine :: u64
  a_theirs :: u64
  a_seen :: u64
  a_verified :: bool
  a_other_verified :: bool
  a_remote :: SetupTransaction

record ledger =
  l_state :: TeechanState
  l_setup :: SetupTransaction
  l_channels :: "string \<rightharpoonup> acct"

definition acct_of :: "ChannelState \<Rightarrow> acct" where
  "acct_of st = \<lparr>a_status = status st, a_backup = is_backup_channel st, a_mine = my_balance st,
     a_theirs = remote_balance st, a_seen = remote_last_seen st,
     a_verified = deposits_verified st, a_other_verified = other_party_deposits_verified st,
     a_remote = remote_setup_transaction st\<rparr>"

definition ledger_of :: "enclave \<Rightarrow> ledger" where
  "ledger_of e = \<lparr>l_state = teechain_state e, l_setup = my_setup_transaction e,
     l_channels = (\<lambda>cid. map_option acct_of (om_get (channelStates e) cid))\<rparr>"

section \<open>Identifiers of deposits\<close>

text \<open>Deposits are numbered from zero without gaps.\<close>

definition contiguous :: "(u64, 'v) omap \<Rightarrow> bool" where
  "contiguous ds \<longleftrightarrow> length ds < 2 ^ 64 \<and> om_keys ds = map of_nat [0..<length ds]"

lemma contiguous_empty [simp]: "contiguous []"
  by (simp add: contiguous_def om_keys_def)

lemma contiguous_get:
  assumes "contiguous ds"
  shows "om_get ds k \<noteq> None \<longleftrightarrow> unat k < length ds"
proof -
  from assms have "set (om_keys ds) = of_nat ` {0..<length ds}"
    by (simp add: contiguous_def)
  moreover have "k \<in> of_nat ` {0..<length ds} \<longleftrightarrow> unat k < length ds"
  proof
    assume "k \<in> of_nat ` {0..<length ds}"
    then obtain i where "i < length ds" "k = of_nat i" by auto
    then show "unat k < length ds"
      using assms by (simp add: contiguous_def unat_of_nat)
  next
    assume "unat k < length ds"
    then show "k \<in> of_nat ` {0..<length ds}"
      by (intro image_eqI [of _ _ "unat k"]) simp_all
  qed
  ultimately show ?thesis using om_keys_iff [of k ds] by blast
qed

lemma contiguous_index:
  assumes "contiguous ds" and "\<not> did \<ge> of_nat (length ds)"
  shows "om_get ds did \<noteq> None"
proof -
  have "length ds < 2 ^ LENGTH(64)" using assms(1) by (simp add: contiguous_def)
  then have "unat (of_nat (length ds) :: u64) = length ds" by (simp add: unat_of_nat)
  with assms(2) have "unat did < length ds" by (simp add: not_le word_less_nat_alt)
  with contiguous_get [OF assms(1)] show ?thesis by blast
qed

lemma contiguous_touch:
  assumes "contiguous ds" and "\<not> did \<ge> of_nat (length ds)"
  shows "touch_deposit ds did = ds"
  using contiguous_index [OF assms] by (rule touch_deposit_present)

lemma om_put_last:
  "\<forall>a \<in> set (om_keys m). a < k \<Longrightarrow> om_put k v m = m @ [(k, v)]"
proof (induction k v m rule: om_put.induct)
  case (1 k v)
  then show ?case by simp
next
  case (2 k v a b m)
  then have "a < k" by (simp add: om_keys_def)
  then have "\<not> k < a" "k \<noteq> a" by auto
  with 2 show ?case by (simp add: om_keys_def)
qed

lemma of_nat_less_u64: "i < j \<Longrightarrow> j < 2 ^ 64 \<Longrightarrow> (of_nat i :: u64) < of_nat j"
  by (simp add: word_less_nat_alt unat_of_nat)

lemma contiguous_put_next:
  assumes "contiguous ds" and "Suc (length ds) < 2 ^ 64"
  shows "contiguous (om_put (of_nat (length ds)) v ds)"
proof -
  have "om_put (of_nat (length ds)) v ds = ds @ [(of_nat (length ds), v)]"
    using assms by (intro om_put_last) (auto simp: contiguous_def of_nat_less_u64)
  with assms show ?thesis by (simp add: contiguous_def om_keys_def)
qed

lemma length_put_next:
  assumes "contiguous ds" and "Suc (length ds) < 2 ^ 64"
  shows "length (om_put (of_nat (length ds)) v ds) = Suc (length ds)"
proof -
  have "om_put (of_nat (length ds)) v ds = ds @ [(of_nat (length ds), v)]"
    using assms by (intro om_put_last) (auto simp: contiguous_def of_nat_less_u64)
  then show ?thesis by simp
qed

lemma contiguous_ok: "contiguous ds \<Longrightarrow> om_ok ds"
  unfolding contiguous_def om_ok_def
  by (auto simp: sorted_wrt_map sorted_wrt_iff_nth_less of_nat_less_u64)

lemma contiguous_same_keys: "contiguous ds \<Longrightarrow> om_keys ds' = om_keys ds \<Longrightarrow> contiguous ds'"
  by (metis contiguous_def length_map om_keys_def)

section \<open>The steps\<close>

definition mark_verified :: "bool \<Rightarrow> acct \<Rightarrow> acct" where
  "mark_verified mine a =
     (let a1 = (if mine then a\<lparr>a_verified := True\<rparr> else a\<lparr>a_other_verified := True\<rparr>)
      in if a_verified a1 \<and> a_other_verified a1 then a1\<lparr>a_status := Alive\<rparr> else a1)"

definition fresh_acct :: "acct \<Rightarrow> bool" where
  "fresh_acct a \<longleftrightarrow> a_status a = Unverified \<and> a_seen a = 0 \<and> \<not> a_verified a
     \<and> \<not> a_other_verified a \<and> deposit_ids_to_deposits (a_remote a) = []
     \<and> deposit_ids_to_channels (a_remote a) = [] \<and> (\<not> a_backup a \<longrightarrow> a_mine a = 0)"

definition upd_acct :: "string \<Rightarrow> acct \<Rightarrow> ledger \<Rightarrow> ledger" where
  "upd_acct cid a s = s\<lparr>l_channels := (l_channels s)(cid \<mapsto> a)\<rparr>"

abbreviation my_deposits :: "ledger \<Rightarrow> (u64, Deposit) omap" where
  "my_deposits s \<equiv> deposit_ids_to_deposits (l_setup s)"

abbreviation my_uses :: "ledger \<Rightarrow> (u64, string) omap" where
  "my_uses s \<equiv> deposit_ids_to_channels (l_setup s)"

definition set_my_deposits :: "(u64, Deposit) omap \<Rightarrow> ledger \<Rightarrow> ledger" where
  "set_my_deposits ds s = s\<lparr>l_setup := (l_setup s)\<lparr>deposit_ids_to_deposits := ds\<rparr>\<rparr>"

definition set_my_uses :: "(u64, string) omap \<Rightarrow> ledger \<Rightarrow> ledger" where
  "set_my_uses cs s = s\<lparr>l_setup := (l_setup s)\<lparr>deposit_ids_to_channels := cs\<rparr>\<rparr>"

definition in_range :: "u64 \<Rightarrow> (u64, Deposit) omap \<Rightarrow> bool" where
  "in_range did ds \<longleftrightarrow> \<not> did \<ge> of_nat (length ds)"

abbreviation amount_of :: "(u64, Deposit) omap \<Rightarrow> u64 \<Rightarrow> u64" where
  "amount_of ds did \<equiv> deposit_amount (deposit_at ds did)"

definition with_remote_uses :: "u64 \<Rightarrow> (u64, string) omap \<Rightarrow> acct \<Rightarrow> acct" where
  "with_remote_uses did cs a =
     a\<lparr>a_remote := (a_remote a)\<lparr>deposit_ids_to_channels := cs,
         deposit_ids_to_deposits := touch_deposit (deposit_ids_to_deposits (a_remote a)) did\<rparr>\<rparr>"

text \<open>
  An empty deposit under an identifier that the other party has not presented: an acknowledgement
  that is released after its channel was created again leaves one behind. It is worth nothing.
\<close>

definition touch_remote :: "u64 \<Rightarrow> acct \<Rightarrow> acct" where
  "touch_remote did a = a\<lparr>a_remote := (a_remote a)
     \<lparr>deposit_ids_to_deposits := touch_deposit (deposit_ids_to_deposits (a_remote a)) did\<rparr>\<rparr>"

inductive ledger_step :: "bool \<Rightarrow> ledger \<Rightarrow> ledger \<Rightarrow> bool" for g where
  primary: "l_state s = Ghost \<Longrightarrow> ledger_step g s (s\<lparr>l_state := Primary\<rparr>)"
| backup: "l_state s = Ghost \<Longrightarrow> ledger_step g s (s\<lparr>l_state := Backup\<rparr>)"
| setup_made: "l_state s = Primary \<Longrightarrow> contiguous ds \<Longrightarrow> \<forall>k d. om_get ds k = Some d \<longrightarrow> \<not> is_spent d \<Longrightarrow>
    my_deposits s = [] \<Longrightarrow>
    ledger_step g s ((set_my_deposits ds s)\<lparr>l_state := WaitingForFunds\<rparr>)"
| fund: "l_state s = WaitingForFunds \<Longrightarrow> om_keys ds = om_keys (my_deposits s) \<Longrightarrow>
    \<forall>k. is_spent (deposit_at ds k) = is_spent (deposit_at (my_deposits s) k) \<Longrightarrow>
    ledger_step g s (s\<lparr>l_state := Funded, l_setup := (l_setup s)\<lparr>my_address := addr,
      miner_fee := fee, deposit_ids_to_deposits := ds\<rparr>\<rparr>)"
| create: "l_state s = Funded \<or> l_state s = Backup \<Longrightarrow> fresh_acct a \<Longrightarrow> \<not> g \<Longrightarrow>
    ledger_step g s (upd_acct cid a s)"
| rename: "l_state s = Funded \<or> l_state s = Backup \<Longrightarrow> l_channels s old = Some a \<Longrightarrow> \<not> g \<Longrightarrow>
    ledger_step g s (s\<lparr>l_channels := ((l_channels s)(old := None))(new \<mapsto> a)\<rparr>)"
| store: "l_channels s cid = Some a \<Longrightarrow> contiguous ds \<Longrightarrow> \<not> g \<Longrightarrow>
    ledger_step g s (upd_acct cid (a\<lparr>a_theirs := 0, a_remote := (a_remote a)\<lparr>my_address := addr,
      deposit_ids_to_deposits := ds, deposit_ids_to_channels := []\<rparr>\<rparr>) s)"
| verify: "l_channels s cid = Some a \<Longrightarrow> a_status a = Unverified \<Longrightarrow>
    ledger_step g s (upd_acct cid (mark_verified mine a) s)"
| pay: "l_channels s cid = Some a \<Longrightarrow> a_status a = Alive \<Longrightarrow> amount \<noteq> 0 \<Longrightarrow> amount \<le> a_mine a \<Longrightarrow>
    ledger_step g s (upd_acct cid (a\<lparr>a_mine := a_mine a - amount, a_theirs := a_theirs a + amount\<rparr>) s)"
| paid: "l_channels s cid = Some a \<Longrightarrow> a_verified a \<and> a_other_verified a \<Longrightarrow> a_seen a < count \<Longrightarrow>
    ledger_step g s (upd_acct cid (a\<lparr>a_seen := count, a_mine := a_mine a + amount,
      a_theirs := a_theirs a - amount\<rparr>) s)"
| add: "l_channels s cid = Some a \<Longrightarrow> a_status a = Alive \<Longrightarrow> in_range did (my_deposits s) \<Longrightarrow>
    \<not> is_deposit_spent (l_setup s) did \<Longrightarrow> \<not> is_deposit_in_use (l_setup s) did \<Longrightarrow>
    ledger_step g s (upd_acct cid (a\<lparr>a_mine := a_mine a + amount_of (my_deposits s) did\<rparr>)
      (set_my_uses (om_put did cid (my_uses s))
        (set_my_deposits (touch_deposit (my_deposits s) did) s)))"
| remove: "l_channels s cid = Some a \<Longrightarrow> a_status a = Alive \<Longrightarrow> in_range did (my_deposits s) \<Longrightarrow>
    om_get (my_uses s) did = Some cid \<Longrightarrow> amount_of (my_deposits s) did \<le> a_mine a \<Longrightarrow>
    ledger_step g s (upd_acct cid (a\<lparr>a_mine := a_mine a - amount_of (my_deposits s) did\<rparr>)
      (set_my_uses (om_del did (my_uses s))
        (set_my_deposits (touch_deposit (my_deposits s) did) s)))"
| touch: "in_range did (my_deposits s) \<Longrightarrow>
    ledger_step g s (set_my_deposits (touch_deposit (my_deposits s) did) s)"
| remote_add: "l_channels s cid = Some a \<Longrightarrow> in_range did (deposit_ids_to_deposits (a_remote a)) \<Longrightarrow>
    g \<longrightarrow> om_get (deposit_ids_to_channels (a_remote a)) did = None \<Longrightarrow>
    ledger_step g s (upd_acct cid
      ((with_remote_uses did (om_put did cid (deposit_ids_to_channels (a_remote a))) a)
        \<lparr>a_theirs := a_theirs a + amount_of (deposit_ids_to_deposits (a_remote a)) did\<rparr>) s)"
| remote_remove: "l_channels s cid = Some a \<Longrightarrow> in_range did (deposit_ids_to_deposits (a_remote a)) \<Longrightarrow>
    om_get (deposit_ids_to_channels (a_remote a)) did = Some cid \<Longrightarrow>
    ledger_step g s (upd_acct cid
      ((with_remote_uses did (om_del did (deposit_ids_to_channels (a_remote a))) a)
        \<lparr>a_theirs := a_theirs a - amount_of (deposit_ids_to_deposits (a_remote a)) did\<rparr>) s)"
| remote_touch: "l_channels s cid = Some a \<Longrightarrow>
    ledger_step g s (upd_acct cid (touch_remote did a) s)"
| settled: "l_channels s cid = Some a \<Longrightarrow> l_state s \<noteq> Backup \<Longrightarrow>
    ledger_step g s (upd_acct cid (a\<lparr>a_status := Settled\<rparr>) s)"
| return_unused: "l_state s = Funded \<Longrightarrow>
    ledger_step g s (set_my_deposits
      (mark_deposits_spent (find_unused_deposits (my_deposits s) (my_uses s)) (my_deposits s)) s)"

inductive_cases ledger_stepE: "ledger_step g s t"

definition initial_ledger :: "ledger \<Rightarrow> bool" where
  "initial_ledger s \<longleftrightarrow> l_state s = Ghost \<and> l_channels s = Map.empty \<and> my_deposits s = [] \<and> my_uses s = []"

lemma ledger_simps [simp]:
  "l_state (upd_acct cid a s) = l_state s" "l_setup (upd_acct cid a s) = l_setup s"
  "l_channels (upd_acct cid a s) = (l_channels s)(cid \<mapsto> a)"
  "l_state (set_my_deposits ds s) = l_state s" "l_channels (set_my_deposits ds s) = l_channels s"
  "l_setup (set_my_deposits ds s) = (l_setup s)\<lparr>deposit_ids_to_deposits := ds\<rparr>"
  "l_state (set_my_uses cs s) = l_state s" "l_channels (set_my_uses cs s) = l_channels s"
  "l_setup (set_my_uses cs s) = (l_setup s)\<lparr>deposit_ids_to_channels := cs\<rparr>"
  by (simp_all add: upd_acct_def set_my_deposits_def set_my_uses_def)

section \<open>The life cycle\<close>

text \<open>Which states can come after which: a primary and a backup never change roles.\<close>

fun lifecycle_le :: "TeechanState \<Rightarrow> TeechanState \<Rightarrow> bool" where
  "lifecycle_le Ghost t = True"
| "lifecycle_le Backup t = (t = Backup)"
| "lifecycle_le Primary t = (t = Primary \<or> t = WaitingForFunds \<or> t = Funded)"
| "lifecycle_le WaitingForFunds t = (t = WaitingForFunds \<or> t = Funded)"
| "lifecycle_le Funded t = (t = Funded)"

lemma lifecycle_le_refl [simp]: "lifecycle_le s s"
  by (cases s) auto

lemma lifecycle_le_trans: "lifecycle_le s t \<Longrightarrow> lifecycle_le t u \<Longrightarrow> lifecycle_le s u"
  by (cases s; cases t) auto

lemma ledger_step_lifecycle: "ledger_step g s t \<Longrightarrow> lifecycle_le (l_state s) (l_state t)"
  by (erule ledger_step.cases) auto

interpretation lifecycle: monotone_system "ledger_step g" "\<lambda>s t. lifecycle_le (l_state s) (l_state t)" for g
  by unfold_locales (auto intro: lifecycle_le_trans ledger_step_lifecycle)

section \<open>The invariant of deposits\<close>

definition uses_exist :: "(u64, Deposit) omap \<Rightarrow> (u64, string) omap \<Rightarrow> bool" where
  "uses_exist ds cs \<longleftrightarrow> (\<forall>k c. om_get cs k = Some c \<longrightarrow> om_get ds k \<noteq> None)"

definition spent_unused :: "(u64, Deposit) omap \<Rightarrow> (u64, string) omap \<Rightarrow> bool" where
  "spent_unused ds cs \<longleftrightarrow> (\<forall>k d. om_get ds k = Some d \<longrightarrow> is_spent d \<longrightarrow> om_get cs k = None)"

text \<open>
  The arguments of \<open>is_deposit_spent\<close> and \<open>is_deposit_in_use\<close> are \<open>int\<close>s, so the part of the
  invariant that rests on these checks is stated for fewer than \<open>2^31\<close> deposits.
\<close>

definition deposits_inv :: "(u64, Deposit) omap \<Rightarrow> (u64, string) omap \<Rightarrow> bool" where
  "deposits_inv ds cs \<longleftrightarrow> contiguous ds \<and> om_ok cs \<and> uses_exist ds cs
     \<and> (length ds < 2 ^ 31 \<longrightarrow> spent_unused ds cs)"

definition remote_inv :: "acct \<Rightarrow> bool" where
  "remote_inv a \<longleftrightarrow> om_ok (deposit_ids_to_deposits (a_remote a))
     \<and> om_ok (deposit_ids_to_channels (a_remote a))"

definition phase_inv :: "ledger \<Rightarrow> bool" where
  "phase_inv s \<longleftrightarrow>
     (l_state s \<in> {Ghost, Primary, WaitingForFunds} \<longrightarrow> l_channels s = Map.empty \<and> my_uses s = [])
   \<and> (l_state s \<in> {Ghost, Primary, Backup} \<longrightarrow> my_deposits s = [])
   \<and> (l_state s = WaitingForFunds \<longrightarrow> (\<forall>k. \<not> is_spent (deposit_at (my_deposits s) k)))"

definition ledger_inv :: "ledger \<Rightarrow> bool" where
  "ledger_inv s \<longleftrightarrow> phase_inv s \<and> deposits_inv (my_deposits s) (my_uses s)
     \<and> (\<forall>cid a. l_channels s cid = Some a \<longrightarrow> remote_inv a)"

lemma in_range_get: "contiguous ds \<Longrightarrow> in_range did ds \<Longrightarrow> om_get ds did \<noteq> None"
  unfolding in_range_def by (rule contiguous_index)

lemma in_range_touch: "contiguous ds \<Longrightarrow> in_range did ds \<Longrightarrow> touch_deposit ds did = ds"
  unfolding in_range_def by (rule contiguous_touch)

lemma deposits_inv_add:
  assumes "deposits_inv ds cs" and "in_range did ds"
    and "\<not> is_deposit_spent s did" and "deposit_ids_to_deposits s = ds"
  shows "deposits_inv ds (om_put did c cs)"
proof -
  have ct: "contiguous ds" using assms(1) by (simp add: deposits_inv_def)
  have ex: "om_get ds did \<noteq> None" by (rule in_range_get [OF ct assms(2)])
  have "spent_unused ds (om_put did c cs)" if len: "length ds < 2 ^ 31"
  proof -
    have "unat did < length ds" using contiguous_get [OF ct] ex by blast
    with len have "int_key did = did" by (intro int_key_small) simp
    with assms(3,4) ex have "\<not> is_spent (deposit_at ds did)"
      by (auto simp: is_deposit_spent_def deposit_at_def)
    with assms(1) len show ?thesis
      by (auto simp: deposits_inv_def spent_unused_def deposit_at_def)
  qed
  with assms(1) ex show ?thesis
    by (auto simp: deposits_inv_def uses_exist_def)
qed

lemma deposits_inv_remove: "deposits_inv ds cs \<Longrightarrow> deposits_inv ds (om_del did cs)"
  by (auto simp: deposits_inv_def uses_exist_def spent_unused_def)

lemma mark_spent_keys:
  assumes "om_ok ds" and "\<forall>k \<in> set ks. om_get ds k \<noteq> None"
  shows "om_keys (mark_deposits_spent ks ds) = om_keys ds"
  using assms
proof (induction ks arbitrary: ds)
  case Nil
  then show ?case by simp
next
  case (Cons k ks)
  then show ?case by (simp add: om_put_same_keys)
qed

lemma deposits_inv_return:
  assumes "deposits_inv ds cs"
  shows "deposits_inv (mark_deposits_spent (find_unused_deposits ds cs) ds) cs"
proof -
  let ?ks = "find_unused_deposits ds cs"
  have ct: "contiguous ds" using assms by (simp add: deposits_inv_def)
  then have ok: "om_ok ds" by (rule contiguous_ok)
  have keys: "om_keys (mark_deposits_spent ?ks ds) = om_keys ds"
    using find_unused_iff [OF ok] by (intro mark_spent_keys [OF ok]) auto
  then have len: "length (mark_deposits_spent ?ks ds) = length ds"
    by (metis length_map om_keys_def)
  have "uses_exist (mark_deposits_spent ?ks ds) cs"
    using assms by (auto simp: deposits_inv_def uses_exist_def mark_deposits_spent_get)
  moreover have "spent_unused (mark_deposits_spent ?ks ds) cs" if "spent_unused ds cs"
    using that find_unused_iff [OF ok]
    by (auto simp: spent_unused_def mark_deposits_spent_get split: if_splits)
  ultimately show ?thesis
    using assms contiguous_same_keys [OF ct keys] len by (simp add: deposits_inv_def)
qed

lemma deposits_inv_fund:
  assumes "deposits_inv ds []" and "om_keys ds' = om_keys ds"
  shows "deposits_inv ds' []"
  using assms contiguous_same_keys [of ds ds']
  by (auto simp: deposits_inv_def uses_exist_def spent_unused_def)

lemma touch_deposit_ok: "om_ok ds \<Longrightarrow> om_ok (touch_deposit ds did)"
  by (simp add: touch_deposit_def split: option.split)

lemma remote_inv_uses: "remote_inv a \<Longrightarrow> om_ok cs \<Longrightarrow> remote_inv (with_remote_uses did cs a)"
  by (simp add: remote_inv_def with_remote_uses_def touch_deposit_ok)

lemma remote_inv_touch: "remote_inv a \<Longrightarrow> remote_inv (touch_remote did a)"
  by (simp add: remote_inv_def touch_remote_def touch_deposit_ok)

lemma ledger_inv_upd_acct:
  assumes "ledger_inv s" and "l_state s = Funded \<or> l_state s = Backup \<or> l_channels s cid \<noteq> None"
    and "remote_inv a"
  shows "ledger_inv (upd_acct cid a s)"
proof -
  have "l_state s \<notin> {Ghost, Primary, WaitingForFunds}"
    using assms(1,2) by (auto simp: ledger_inv_def phase_inv_def)
  with assms(1,3) show ?thesis by (auto simp: ledger_inv_def phase_inv_def)
qed

lemma ledger_inv_uses:
  assumes "ledger_inv s" and "l_channels s cid \<noteq> None" and "deposits_inv (my_deposits s) cs"
  shows "ledger_inv (set_my_uses cs s)"
proof -
  have "l_state s \<notin> {Ghost, Primary, WaitingForFunds}"
    using assms(1,2) by (auto simp: ledger_inv_def phase_inv_def)
  with assms(1,3) show ?thesis by (auto simp: ledger_inv_def phase_inv_def)
qed

lemma set_my_deposits_same: "ds = my_deposits s \<Longrightarrow> set_my_deposits ds s = s"
  by (simp add: set_my_deposits_def)

lemma ledger_inv_touch:
  "ledger_inv s \<Longrightarrow> in_range did (my_deposits s) \<Longrightarrow>
     set_my_deposits (touch_deposit (my_deposits s) did) s = s"
  by (intro set_my_deposits_same)
     (simp add: ledger_inv_def deposits_inv_def in_range_touch)

lemma ledger_inv_initial: "initial_ledger s \<Longrightarrow> ledger_inv s"
  by (auto simp: initial_ledger_def ledger_inv_def phase_inv_def deposits_inv_def uses_exist_def
      spent_unused_def)

lemma remote_inv_frame:
  "remote_inv (a\<lparr>a_status := v\<rparr>) = remote_inv a" "remote_inv (a\<lparr>a_mine := b\<rparr>) = remote_inv a"
  "remote_inv (a\<lparr>a_theirs := b\<rparr>) = remote_inv a" "remote_inv (a\<lparr>a_seen := b\<rparr>) = remote_inv a"
  "remote_inv (mark_verified m a) = remote_inv a"
  by (simp_all add: remote_inv_def mark_verified_def Let_def)

lemma ledger_inv_step: "ledger_inv s \<Longrightarrow> ledger_step g s t \<Longrightarrow> ledger_inv t"
proof -
  assume inv: "ledger_inv s" and step: "ledger_step g s t"
  have rem: "remote_inv a" if "l_channels s cid = Some a" for cid a
    using inv that by (auto simp: ledger_inv_def)
  have dep: "deposits_inv (my_deposits s) (my_uses s)"
    using inv by (simp add: ledger_inv_def)
  show ?thesis
    using step
  proof cases
    case primary
    with inv show ?thesis by (auto simp: ledger_inv_def phase_inv_def)
  next
    case backup
    with inv show ?thesis by (auto simp: ledger_inv_def phase_inv_def)
  next
    case (setup_made ds)
    then have "\<forall>k. \<not> is_spent (deposit_at ds k)"
      by (auto simp: deposit_at_def zero_Deposit_def split: option.splits)
    with setup_made inv show ?thesis
      by (auto simp: ledger_inv_def phase_inv_def deposits_inv_def uses_exist_def spent_unused_def)
  next
    case (fund ds addr fee)
    with inv have "my_uses s = []" by (auto simp: ledger_inv_def phase_inv_def)
    with fund inv deposits_inv_fund [of "my_deposits s" ds] show ?thesis
      by (auto simp: ledger_inv_def phase_inv_def)
  next
    case (create a cid)
    then show ?thesis
      using inv ledger_inv_upd_acct [of s cid a] by (auto simp: fresh_acct_def remote_inv_def)
  next
    case (rename old a new)
    then show ?thesis using inv rem by (auto simp: ledger_inv_def phase_inv_def)
  next
    case (store cid a ds addr)
    then show ?thesis
      using inv by (auto intro!: ledger_inv_upd_acct contiguous_ok simp: remote_inv_def)
  next
    case (verify cid a mine)
    then show ?thesis
      using inv rem by (auto intro!: ledger_inv_upd_acct simp: remote_inv_frame)
  next
    case (pay cid a amount)
    then show ?thesis
      using inv rem [of cid a] by (auto intro!: ledger_inv_upd_acct simp: remote_inv_def)
  next
    case (paid cid a count amount)
    then show ?thesis
      using inv rem [of cid a] by (auto intro!: ledger_inv_upd_acct simp: remote_inv_def)
  next
    case (add cid a did)
    have "deposits_inv (my_deposits s) (om_put did cid (my_uses s))"
      using deposits_inv_add [OF dep add(4,5)] by simp
    then have "ledger_inv (set_my_uses (om_put did cid (my_uses s)) s)"
      using ledger_inv_uses [OF inv, of cid] add(2) by simp
    then show ?thesis
      using add rem [of cid a] ledger_inv_touch [OF inv add(4)]
      by (auto intro!: ledger_inv_upd_acct simp: remote_inv_frame)
  next
    case (remove cid a did)
    have "ledger_inv (set_my_uses (om_del did (my_uses s)) s)"
      using ledger_inv_uses [OF inv, of cid] remove(2) deposits_inv_remove [OF dep] by simp
    then show ?thesis
      using remove rem [of cid a] ledger_inv_touch [OF inv remove(4)]
      by (auto intro!: ledger_inv_upd_acct simp: remote_inv_frame)
  next
    case (touch did)
    then show ?thesis using inv ledger_inv_touch by simp
  next
    case (remote_add cid a did)
    then show ?thesis
      using inv rem [of cid a] remote_inv_uses [of a _ did]
      by (auto intro!: ledger_inv_upd_acct simp: remote_inv_frame remote_inv_def)
  next
    case (remote_remove cid a did)
    then show ?thesis
      using inv rem [of cid a] remote_inv_uses [of a _ did]
      by (auto intro!: ledger_inv_upd_acct simp: remote_inv_frame remote_inv_def)
  next
    case (remote_touch cid a did)
    then show ?thesis
      using inv rem [of cid a] by (auto intro!: ledger_inv_upd_acct remote_inv_touch)
  next
    case (settled cid a)
    then show ?thesis
      using inv rem [of cid a] by (auto intro!: ledger_inv_upd_acct simp: remote_inv_frame)
  next
    case return_unused
    then show ?thesis
      using inv deposits_inv_return [OF dep] by (auto simp: ledger_inv_def phase_inv_def)
  qed
qed

interpretation ledger: invariant_system initial_ledger "ledger_step g" ledger_inv for g
  by unfold_locales (auto intro: ledger_inv_initial ledger_inv_step)

section \<open>Solvency\<close>

text \<open>
  A channel is solvent when the two balances add up to the deposits in it. All guarded steps
  keep it; the others are the steps that set an account up, whose balances mean nothing yet,
  and the remote deposit that is counted again although it is in the channel already.
\<close>

definition acct_solvent :: "string \<Rightarrow> (u64, Deposit) omap \<Rightarrow> (u64, string) omap \<Rightarrow> acct \<Rightarrow> bool" where
  "acct_solvent cid ds cs a \<longleftrightarrow>
     a_mine a + a_theirs a = channel_deposits_value cid ds cs
       + channel_deposits_value cid (deposit_ids_to_deposits (a_remote a))
           (deposit_ids_to_channels (a_remote a))"

definition solvent :: "ledger \<Rightarrow> string \<Rightarrow> bool" where
  "solvent s cid \<longleftrightarrow>
     (\<forall>a. l_channels s cid = Some a \<longrightarrow> acct_solvent cid (my_deposits s) (my_uses s) a)"

definition sound_ledger :: "string set \<Rightarrow> ledger \<Rightarrow> bool" where
  "sound_ledger C s \<longleftrightarrow>
     ledger_inv s \<and> (length (my_deposits s) < 2 ^ 31 \<longrightarrow> (\<forall>cid \<in> C. solvent s cid))"

lemma mark_verified_frame [simp]:
  "a_mine (mark_verified m a) = a_mine a" "a_theirs (mark_verified m a) = a_theirs a"
  "a_remote (mark_verified m a) = a_remote a"
  by (simp_all add: mark_verified_def Let_def)

lemma solvent_no_channels: "l_channels s = Map.empty \<Longrightarrow> solvent s cid"
  by (simp add: solvent_def)

lemma touched_ledger:
  assumes "ledger_inv s" and "in_range did (my_deposits s)"
  shows "touch_deposit (my_deposits s) did = my_deposits s"
  using assms by (simp add: ledger_inv_def deposits_inv_def in_range_touch)

lemma touched_value [simp]:
  "channel_deposits_value cid (touch_deposit ds did) cs = channel_deposits_value cid ds cs"
  by (rule channel_value_amounts) simp

lemma in_use_None:
  assumes "ledger_inv s" and "in_range did (my_deposits s)" and "length (my_deposits s) < 2 ^ 31"
    and "\<not> is_deposit_in_use (l_setup s) did"
  shows "om_get (my_uses s) did = None"
proof -
  have ct: "contiguous (my_deposits s)" using assms(1) by (simp add: ledger_inv_def deposits_inv_def)
  from in_range_get [OF ct assms(2)] have "unat did < length (my_deposits s)"
    using contiguous_get [OF ct] by blast
  with assms(3) have "int_key did = did" by (intro int_key_small) simp
  with assms(4) show ?thesis by (simp add: is_deposit_in_use_def)
qed

lemma guarded_step_solvent:
  assumes "ledger_step True s t" and "ledger_inv s" and "length (my_deposits s) < 2 ^ 31"
    and "solvent s cid"
  shows "solvent t cid"
  using assms(1)
proof cases
  case (setup_made ds)
  with assms(2) show ?thesis
    by (intro solvent_no_channels) (simp add: ledger_inv_def phase_inv_def)
next
  case (fund ds addr fee)
  with assms(2) show ?thesis
    by (intro solvent_no_channels) (simp add: ledger_inv_def phase_inv_def)
next
  case (add c a did)
  have "om_get (my_uses s) did = None" using in_use_None assms(2,3) add by blast
  then show ?thesis
    using assms(4) add touched_ledger [OF assms(2), of did]
    by (auto simp: solvent_def acct_solvent_def channel_value_put_fresh algebra_simps)
next
  case (remove c a did)
  have "om_ok (my_uses s)" using assms(2) by (simp add: ledger_inv_def deposits_inv_def)
  then show ?thesis
    using assms(4) remove touched_ledger [OF assms(2), of did]
    by (auto simp: solvent_def acct_solvent_def channel_value_del algebra_simps)
next
  case (remote_add c a did)
  then show ?thesis
    using assms(4)
    by (auto simp: solvent_def acct_solvent_def with_remote_uses_def channel_value_put_fresh
        algebra_simps)
next
  case (remote_remove c a did)
  have "remote_inv a" using assms(2) remote_remove(2) by (auto simp: ledger_inv_def)
  then have "om_ok (deposit_ids_to_channels (a_remote a))" by (simp add: remote_inv_def)
  with remote_remove show ?thesis
    using assms(4)
    by (auto simp: solvent_def acct_solvent_def with_remote_uses_def channel_value_del
        algebra_simps)
next
  case (remote_touch c a did)
  then show ?thesis
    using assms(4) by (auto simp: solvent_def acct_solvent_def touch_remote_def)
next
  case return_unused
  have "channel_deposits_value cid
          (mark_deposits_spent (find_unused_deposits (my_deposits s) (my_uses s)) (my_deposits s)) cs
      = channel_deposits_value cid (my_deposits s) cs" for cs
    by (rule channel_value_amounts) simp
  with return_unused assms(4) show ?thesis
    by (auto simp: solvent_def acct_solvent_def split: option.splits)
qed (use assms(4) touched_ledger [OF assms(2)] in \<open>auto simp: solvent_def acct_solvent_def\<close>)

text \<open>The number of deposits never shrinks.\<close>

lemma deposits_grow:
  assumes "ledger_step g s t" and "ledger_inv s"
  shows "length (my_deposits s) \<le> length (my_deposits t)"
  using assms(1)
proof cases
  case (fund ds addr fee)
  then have "length ds = length (my_deposits s)" by (metis length_map om_keys_def)
  with fund show ?thesis by simp
next
  case return_unused
  have "contiguous (my_deposits s)" using assms(2) by (simp add: ledger_inv_def deposits_inv_def)
  then have ok: "om_ok (my_deposits s)" by (rule contiguous_ok)
  have "om_keys (mark_deposits_spent (find_unused_deposits (my_deposits s) (my_uses s))
      (my_deposits s)) = om_keys (my_deposits s)"
    using find_unused_iff [OF ok] by (intro mark_spent_keys [OF ok]) auto
  then have "length (mark_deposits_spent (find_unused_deposits (my_deposits s) (my_uses s))
      (my_deposits s)) = length (my_deposits s)"
    by (metis length_map om_keys_def)
  with return_unused show ?thesis by simp
qed (use touched_ledger [OF assms(2)] in \<open>auto\<close>)

lemma sound_ledger_step: "sound_ledger C s \<Longrightarrow> ledger_step True s t \<Longrightarrow> sound_ledger C t"
  using guarded_step_solvent ledger_inv_step deposits_grow
  unfolding sound_ledger_def by (metis le_less_trans)

lemma sound_ledger_initial: "initial_ledger s \<Longrightarrow> sound_ledger C s"
  by (simp add: sound_ledger_def ledger_inv_initial initial_ledger_def solvent_no_channels)

interpretation solvency: invariant_system initial_ledger "ledger_step True" "sound_ledger C" for C
  by unfold_locales (auto intro: sound_ledger_initial sound_ledger_step)

section \<open>Progress of accounts\<close>

text \<open>Under guarded steps no account disappears, falls back or forgets a payment it has seen.\<close>

definition acct_le :: "acct \<Rightarrow> acct \<Rightarrow> bool" where
  "acct_le a b \<longleftrightarrow> a_status a \<le> a_status b \<and> a_seen a \<le> a_seen b
     \<and> (a_verified a \<longrightarrow> a_verified b) \<and> (a_other_verified a \<longrightarrow> a_other_verified b)"

lemma acct_le_refl [simp]: "acct_le a a"
  by (simp add: acct_le_def)

lemma acct_le_trans: "acct_le a b \<Longrightarrow> acct_le b c \<Longrightarrow> acct_le a c"
  by (auto simp: acct_le_def)

definition progress :: "ledger \<Rightarrow> ledger \<Rightarrow> bool" where
  "progress s t \<longleftrightarrow>
     (\<forall>cid a. l_channels s cid = Some a \<longrightarrow> (\<exists>b. l_channels t cid = Some b \<and> acct_le a b))"

lemma progress_refl: "progress s s"
  by (simp add: progress_def)

lemma progress_trans: "progress s t \<Longrightarrow> progress t u \<Longrightarrow> progress s u"
  unfolding progress_def using acct_le_trans by blast

lemma guarded_step_progress:
  assumes "ledger_step True s t"
  shows "progress s t"
  using assms
proof cases
  case (verify cid a mine)
  then show ?thesis by (auto simp: progress_def acct_le_def mark_verified_def Let_def)
qed (auto simp: progress_def acct_le_def with_remote_uses_def touch_remote_def less_imp_le)

interpretation progress: monotone_system "ledger_step True" progress
  by unfold_locales (auto intro: progress_refl guarded_step_progress progress_trans)

end
