(* ===== verification/Teechain_Backup_State.thy ===== *)
theory Teechain_Backup_State
  imports Teechain_Channels Teechain_Deposits
begin

text \<open>
  How the primary packs its state into a backup message (\<open>backups.cpp\<close>) and how a backup node
  reads deposits and channels back out of the message it stored (\<open>teechain.cpp\<close>).

  A fixed-size character array is modelled by the string of all its bytes; what was not written
  is \<open>x_junk_char\<close>.
\<close>

section \<open>Packing a deposit\<close>

definition fill_deposit_state :: "ext \<Rightarrow> bool \<Rightarrow> u64 \<Rightarrow> u64 \<Rightarrow> Deposit \<Rightarrow> DepositStateMsg outcome" where
  "fill_deposit_state x remote idx did d =
     bindo (memcpy_str (txid d) BITCOIN_TX_HASH_LEN) (\<lambda>tx.
     bindo (blit 0 (script d) (replicate MAX_BITCOIN_TX_SCRIPT_LEN (x_junk_char x))) (\<lambda>sc.
     bindo (memcpy_str (public_key d) BITCOIN_PUBLIC_KEY_LEN) (\<lambda>pub.
     bindo (memcpy_str (bitcoin_address d) BITCOIN_ADDRESS_LEN) (\<lambda>addr.
     Returns \<lparr>ds_is_remote_deposit = remote, ds_txid = tx, ds_tx_index = idx,
       ds_deposit_amount = deposit_amount d,
       ds_deposit_script_length = of_nat (length (script d)), ds_deposit_script = sc,
       ds_public_key = pub, ds_bitcoin_address = addr, ds_deposit_id = did\<rparr>))))"

definition fill_backup_deposit_state ::
  "ext \<Rightarrow> bool \<Rightarrow> u64 \<Rightarrow> Deposit \<Rightarrow> BackupDepositStateMsg outcome" where
  "fill_backup_deposit_state x remote did d =
     bindo (memcpy_str (private_key d) BITCOIN_PRIVATE_KEY_LEN) (\<lambda>key.
     bindo (fill_deposit_state x remote (tx_index d) did d) (\<lambda>ds.
     Returns \<lparr>bd_deposit_state = ds, bd_private_key = key\<rparr>))"

section \<open>Packing the setup transaction and the channels\<close>

definition backup_my_setup_transaction ::
  "ext \<Rightarrow> SetupTransaction \<Rightarrow> BackupSetupTransactionStateMsg outcome" where
  "backup_my_setup_transaction x s =
     bindo (memcpy_str (my_address s) BITCOIN_ADDRESS_LEN) (\<lambda>addr.
     bindo (foldo
       (\<lambda>i slots.
          let d = deposit_at (deposit_ids_to_deposits s) (of_nat i) in
          if is_spent d then Returns slots
          else bindo (fill_backup_deposit_state x False (of_nat i) d) (\<lambda>b.
               array_set MAX_NUM_SETUP_DEPOSITS i b slots))
       [0..<length (deposit_ids_to_deposits s)]
       (replicate MAX_NUM_SETUP_DEPOSITS (x_junk_deposit x))) (\<lambda>slots.
     Returns \<lparr>bs_my_address = addr, bs_miner_fee = miner_fee s,
       bs_num_deposits = of_nat (length (deposit_ids_to_deposits s)),
       bs_deposit_states = slots\<rparr>))"

definition backup_deposits_in_channel ::
  "ext \<Rightarrow> u64 list \<Rightarrow> (u64, Deposit) omap \<Rightarrow> nat \<Rightarrow> bool
     \<Rightarrow> BackupDepositStateMsg list \<Rightarrow> BackupDepositStateMsg list outcome" where
  "backup_deposits_in_channel x ids ds start remote slots =
     foldo
       (\<lambda>i sl. bindo (fill_backup_deposit_state x remote (ids ! i) (deposit_at ds (ids ! i))) (\<lambda>b.
          array_set MAX_NUM_DEPOSITS_IN_CHANNEL (i + start) b sl))
       [0..<length ids] slots"

definition backup_channel_state ::
  "ext \<Rightarrow> SetupTransaction \<Rightarrow> string \<Rightarrow> ChannelState \<Rightarrow> BackupChannelStateMsg outcome" where
  "backup_channel_state x s cid st =
     (let mine = find_deposit_ids_in_channel cid (deposit_ids_to_channels s);
          remote = remote_setup_transaction st;
          theirs = find_deposit_ids_in_channel cid (deposit_ids_to_channels remote)
      in
      bindo (memcpy_str cid CHANNEL_ID_LEN) (\<lambda>id.
      bindo (memcpy_str (my_address s) BITCOIN_ADDRESS_LEN) (\<lambda>addr_a.
      bindo (memcpy_str (my_address remote) BITCOIN_ADDRESS_LEN) (\<lambda>addr_b.
      bindo (backup_deposits_in_channel x mine (deposit_ids_to_deposits s) 0 False
               (replicate MAX_NUM_DEPOSITS_IN_CHANNEL (x_junk_deposit x))) (\<lambda>slots1.
      bindo (backup_deposits_in_channel x theirs (deposit_ids_to_deposits remote) (length mine) True
               slots1) (\<lambda>slots2.
      Returns \<lparr>bc_channel_id = id, bc_balance_a = my_balance st,
        bc_balance_b = remote_balance st, bc_bitcoin_address_a = addr_a,
        bc_bitcoin_address_b = addr_b,
        bc_num_deposits = of_nat (length mine + length theirs),
        bc_deposit_states = slots2\<rparr>))))))"

definition backup_my_channels ::
  "ext \<Rightarrow> enclave \<Rightarrow> (u64 \<times> BackupChannelStateMsg list) outcome" where
  "backup_my_channels x e =
     (let ids = get_all_non_backup_channel_ids e in
      bindo (foldo
        (\<lambda>i slots. bindo (get_channel_state e (ids ! i)) (\<lambda>st.
           bindo (backup_channel_state x (my_setup_transaction e) (ids ! i) st) (\<lambda>b.
           array_set MAX_NUM_CHANNELS_PER_ENCLAVE i b slots)))
        [0..<length ids]
        (replicate MAX_NUM_CHANNELS_PER_ENCLAVE (x_junk_channel x))) (\<lambda>slots.
      Returns (of_nat (length ids), slots)))"

section \<open>The backup message\<close>

definition generate_backup_message_for_storage ::
  "ext \<Rightarrow> enclave \<Rightarrow> BackupEnclaveStateMsg outcome" where
  "generate_backup_message_for_storage x e =
     (if teechain_state e = Funded then
        bindo (backup_my_setup_transaction x (my_setup_transaction e)) (\<lambda>su.
        bindo (backup_my_channels x e) (\<lambda>ch.
        Returns ((x_junk_backup x)\<lparr>be_my_setup_transaction := su,
          be_num_channels := fst ch, be_channel_states := snd ch\<rparr>)))
      else if teechain_state e = Backup then Returns (most_recent_backup_state e)
      else Returns (x_junk_backup x))"

definition generate_backup_message ::
  "ext \<Rightarrow> string \<Rightarrow> string \<Rightarrow> BackupRequest \<Rightarrow> bool \<Rightarrow> enclave \<Rightarrow> BackupEnclaveStateMsg outcome" where
  "generate_backup_message x backup_cid blocked_cid req failures e =
     bindo (get_channel_state e backup_cid) (\<lambda>_.
     bindo (generate_backup_message_for_storage x e) (\<lambda>msg.
     bindo (memcpy_str backup_cid CHANNEL_ID_LEN) (\<lambda>bid.
     bindo (memcpy_str blocked_cid CHANNEL_ID_LEN) (\<lambda>blid.
     Returns (msg\<lparr>be_backup_channel_id := bid, be_blocked_channel_id := blid,
       be_blocked_request := req, be_any_failures := failures\<rparr>)))))"

section \<open>Reading a stored backup\<close>

text \<open>\<open>is_spent\<close> of the new \<open>Deposit\<close> is never set.\<close>

definition create_deposit_from_deposit_backup ::
  "ext \<Rightarrow> BackupDepositStateMsg \<Rightarrow> Deposit outcome" where
  "create_deposit_from_deposit_backup x b =
     (let ds = bd_deposit_state b in
      bindo (string_from (ds_deposit_script ds) (unat (ds_deposit_script_length ds))) (\<lambda>sc.
      Returns \<lparr>is_spent = x_junk_bool x, bitcoin_address = ds_bitcoin_address ds,
        public_key = ds_public_key ds, private_key = bd_private_key b, script = sc,
        txid = ds_txid ds, tx_index = ds_tx_index ds,
        deposit_amount = ds_deposit_amount ds\<rparr>))"

text \<open>The nested loops over the channels of the stored backup and the deposits of each.\<close>

definition for_backup_deposits ::
  "BackupEnclaveStateMsg \<Rightarrow> (BackupChannelStateMsg \<Rightarrow> BackupDepositStateMsg \<Rightarrow> 'a \<Rightarrow> 'a outcome)
     \<Rightarrow> 'a \<Rightarrow> 'a outcome" where
  "for_backup_deposits m f a =
     foldo
       (\<lambda>i acc. bindo (array_get i (be_channel_states m)) (\<lambda>ch.
          foldo (\<lambda>d acc'. bindo (array_get d (bc_deposit_states ch)) (\<lambda>b. f ch b acc'))
            [0..<unat (bc_num_deposits ch)] acc))
       [0..<unat (be_num_channels m)] a"

definition extract_remote_deposit_mapping_from_backup ::
  "ext \<Rightarrow> BackupEnclaveStateMsg \<Rightarrow> (u64, Deposit) omap outcome" where
  "extract_remote_deposit_mapping_from_backup x m =
     for_backup_deposits m
       (\<lambda>ch b acc.
          if ds_is_remote_deposit (bd_deposit_state b) then
            bindo (create_deposit_from_deposit_backup x b) (\<lambda>d.
            Returns (om_put (ds_deposit_id (bd_deposit_state b)) d acc))
          else Returns acc)
       om_empty"

definition extract_deposit_mapping_from_backup ::
  "ext \<Rightarrow> BackupEnclaveStateMsg \<Rightarrow> (u64, Deposit) omap outcome" where
  "extract_deposit_mapping_from_backup x m =
     (let su = be_my_setup_transaction m in
      foldo
        (\<lambda>i acc. bindo (array_get i (bs_deposit_states su)) (\<lambda>b.
           bindo (create_deposit_from_deposit_backup x b) (\<lambda>d.
           Returns (om_put (ds_deposit_id (bd_deposit_state b)) d acc))))
        [0..<unat (bs_num_deposits su)] om_empty)"

definition extract_deposit_channel_mapping_from_backup ::
  "bool \<Rightarrow> BackupEnclaveStateMsg \<Rightarrow> (u64, string) omap outcome" where
  "extract_deposit_channel_mapping_from_backup for_remote m =
     for_backup_deposits m
       (\<lambda>ch b acc.
          let remote = ds_is_remote_deposit (bd_deposit_state b);
              did = ds_deposit_id (bd_deposit_state b)
          in if for_remote \<and> remote then Returns (om_put did (bc_channel_id ch) acc)
             else if \<not> for_remote \<and> \<not> remote then Returns (om_put did (bc_channel_id ch) acc)
             else Returns acc)
       om_empty"

text \<open>The last channel with the identifier; without one, the uninitialised local is returned.\<close>

definition find_channel_backup_state_for ::
  "ext \<Rightarrow> string \<Rightarrow> BackupEnclaveStateMsg \<Rightarrow> BackupChannelStateMsg outcome" where
  "find_channel_backup_state_for x cid m =
     foldo
       (\<lambda>i found. bindo (array_get i (be_channel_states m)) (\<lambda>ch.
          Returns (if bc_channel_id ch = cid then ch else found)))
       [0..<unat (be_num_channels m)] (x_junk_channel x)"

definition get_channel_ids_from_backup :: "BackupEnclaveStateMsg \<Rightarrow> string list outcome" where
  "get_channel_ids_from_backup m =
     foldo
       (\<lambda>i acc. bindo (array_get i (be_channel_states m)) (\<lambda>ch.
          Returns (acc @ [bc_channel_id ch])))
       [0..<unat (be_num_channels m)] []"

section \<open>Channel states for a route\<close>

definition fill_deposits_into_channel_state_message ::
  "ext \<Rightarrow> u64 list \<Rightarrow> (u64, Deposit) omap \<Rightarrow> nat \<Rightarrow> DepositStateMsg list
     \<Rightarrow> DepositStateMsg list outcome" where
  "fill_deposits_into_channel_state_message x ids ds start slots =
     foldo
       (\<lambda>i sl. bindo (fill_deposit_state x (x_junk_bool x) (ids ! i) (ids ! i) (deposit_at ds (ids ! i))) (\<lambda>b.
          array_set MAX_NUM_DEPOSITS_IN_CHANNEL (start + i) b sl))
       [0..<length ids] slots"

definition fill_empty_channel_state ::
  "ext \<Rightarrow> ChannelStateMsg \<Rightarrow> enclave \<Rightarrow> ChannelStateMsg outcome" where
  "fill_empty_channel_state x m e =
     bindo (get_channel_state e (cm_channel_id m)) (\<lambda>st.
     (let cid = cm_channel_id m;
          s = my_setup_transaction e;
          remote = remote_setup_transaction st;
          mine = find_deposit_ids_in_channel cid (deposit_ids_to_channels s);
          theirs = find_deposit_ids_in_channel cid (deposit_ids_to_channels remote)
      in
      bindo (memcpy_str (my_address s) BITCOIN_ADDRESS_LEN) (\<lambda>addr_a.
      bindo (memcpy_str (my_address remote) BITCOIN_ADDRESS_LEN) (\<lambda>addr_b.
      bindo (fill_deposits_into_channel_state_message x mine (deposit_ids_to_deposits s) 0
               (cm_deposit_states m)) (\<lambda>slots1.
      bindo (fill_deposits_into_channel_state_message x theirs (deposit_ids_to_deposits remote)
               (length mine) slots1) (\<lambda>slots2.
      Returns (m\<lparr>cm_balance_a := my_balance st, cm_balance_b := remote_balance st,
        cm_bitcoin_address_a := addr_a, cm_bitcoin_address_b := addr_b,
        cm_deposit_states := slots2,
        cm_num_deposits := of_nat (length mine + length theirs)\<rparr>)))))))"

end
