(* ===== verification/Teechain_Settle.thy ===== *)
theory Teechain_Settle
  imports Teechain_Backup_State
begin

text \<open>
  The transactions an enclave hands out (\<open>teechain.cpp\<close>): the command lines for the Bitcoin
  library, the settlement of a channel and the return of unused deposits. The commands are
  strings, built as the code builds them; the library that executes them is \<open>x_rpc\<close> and
  \<open>x_rpc_hex\<close>. \<open>settlement_outputs\<close> is the abstract specification of who is paid what, and
  \<open>render_outputs\<close> its text.
\<close>

section \<open>Command lines\<close>

definition testnet_flag :: "enclave \<Rightarrow> string" where
  "testnet_flag e = (if testnet e then ''-testnet '' else '''')"

definition create_raw_transaction_rpc :: "enclave \<Rightarrow> string" where
  "create_raw_transaction_rpc e = testnet_flag e @ ''createrawtransaction ''"

definition sign_raw_transaction_rpc :: "enclave \<Rightarrow> string" where
  "sign_raw_transaction_rpc e = testnet_flag e @ ''signrawtransaction ''"

definition decode_raw_transaction_rpc :: "enclave \<Rightarrow> string" where
  "decode_raw_transaction_rpc e = testnet_flag e @ ''decoderawtransaction ''"

definition quoted :: "string \<Rightarrow> string" where
  "quoted s = [CHR 0x22] @ s @ [CHR 0x22]"

section \<open>Inputs, keys and previous outputs\<close>

definition input_item :: "Deposit \<Rightarrow> string" where
  "input_item d = ''{'' @ quoted ''txid'' @ '':'' @ quoted (txid d) @ '','' @ quoted ''vout'' @ '':''
     @ long_long_to_string (tx_index d) @ ''}''"

definition prevout_item :: "Deposit \<Rightarrow> string" where
  "prevout_item d = ''{'' @ quoted ''txid'' @ '':'' @ quoted (txid d) @ '','' @ quoted ''vout'' @ '':''
     @ long_long_to_string (tx_index d) @ '','' @ quoted ''scriptPubKey'' @ '':'' @ quoted (script d)
     @ '','' @ quoted ''redeemScript'' @ '':'' @ quoted '''' @ ''}''"

text \<open>The loop the three \<open>fill_\<close> functions share: a comma before every item but the first.\<close>

definition append_items ::
  "(Deposit \<Rightarrow> string) \<Rightarrow> u64 list \<Rightarrow> (u64, Deposit) omap \<Rightarrow> string \<Rightarrow> nat \<Rightarrow> string" where
  "append_items item ids ds acc start =
     foldl
       (\<lambda>s i. s @ (if start \<noteq> 0 \<or> i \<noteq> 0 then '','' else '''') @ item (deposit_at ds (ids ! i)))
       acc [0..<length ids]"

definition fill_inputs :: "u64 list \<Rightarrow> (u64, Deposit) omap \<Rightarrow> string \<Rightarrow> nat \<Rightarrow> string" where
  "fill_inputs = append_items input_item"

definition fill_private_keys :: "u64 list \<Rightarrow> (u64, Deposit) omap \<Rightarrow> string \<Rightarrow> nat \<Rightarrow> string" where
  "fill_private_keys = append_items (\<lambda>d. quoted (private_key d))"

definition fill_prevouts :: "u64 list \<Rightarrow> (u64, Deposit) omap \<Rightarrow> string \<Rightarrow> nat \<Rightarrow> string" where
  "fill_prevouts = append_items prevout_item"

definition get_all_prevouts_for_unused_deposits ::
  "(u64, Deposit) omap \<Rightarrow> u64 list \<Rightarrow> string" where
  "get_all_prevouts_for_unused_deposits ds unused = fill_prevouts unused ds ''['' 0 @ '']''"

definition get_all_private_keys_for_unused_deposits ::
  "(u64, Deposit) omap \<Rightarrow> u64 list \<Rightarrow> string" where
  "get_all_private_keys_for_unused_deposits ds unused = fill_private_keys unused ds ''['' 0 @ '']''"

definition get_all_prevouts_for_deposits ::
  "string \<Rightarrow> (u64, string) omap \<Rightarrow> (u64, string) omap \<Rightarrow> (u64, Deposit) omap
     \<Rightarrow> (u64, Deposit) omap \<Rightarrow> string" where
  "get_all_prevouts_for_deposits cid cs rcs ds rds =
     (let mine = find_deposit_ids_in_channel cid cs;
          theirs = find_deposit_ids_in_channel cid rcs
      in fill_prevouts theirs rds (fill_prevouts mine ds ''['' 0) (length mine) @ '']'')"

definition get_all_private_keys_for_deposits ::
  "string \<Rightarrow> (u64, string) omap \<Rightarrow> (u64, string) omap \<Rightarrow> (u64, Deposit) omap
     \<Rightarrow> (u64, Deposit) omap \<Rightarrow> string" where
  "get_all_private_keys_for_deposits cid cs rcs ds rds =
     (let mine = find_deposit_ids_in_channel cid cs;
          theirs = find_deposit_ids_in_channel cid rcs
      in fill_private_keys theirs rds (fill_private_keys mine ds ''['' 0) (length mine) @ '']'')"

text \<open>A comma-separated list: what the loops build, for any number of items on either side.\<close>

fun comma_sep :: "string list \<Rightarrow> string" where
  "comma_sep [] = ''''"
| "comma_sep [s] = s"
| "comma_sep (s # t # r) = s @ '','' @ comma_sep (t # r)"

lemma comma_sep_snoc: "comma_sep (xs @ [s]) = (if xs = [] then s else comma_sep xs @ '','' @ s)"
  by (induction xs rule: comma_sep.induct) auto

lemma append_items_first:
  "append_items item ids ds acc 0 = acc @ comma_sep (map (\<lambda>k. item (deposit_at ds k)) ids)"
proof (induction ids rule: rev_induct)
  case Nil
  then show ?case by (simp add: append_items_def)
next
  case (snoc k ids)
  have "foldl (\<lambda>s i. s @ (if i \<noteq> 0 then '','' else '''') @ item (deposit_at ds ((ids @ [k]) ! i)))
          acc [0..<length ids]
      = foldl (\<lambda>s i. s @ (if i \<noteq> 0 then '','' else '''') @ item (deposit_at ds (ids ! i)))
          acc [0..<length ids]"
    by (rule foldl_cong) (simp_all add: nth_append)
  with snoc show ?case
    by (simp add: append_items_def comma_sep_snoc)
qed

lemma append_items_rest:
  assumes "xs \<noteq> []"
  shows "append_items item ids ds (acc @ comma_sep xs) (length xs)
    = acc @ comma_sep (xs @ map (\<lambda>k. item (deposit_at ds k)) ids)"
proof (induction ids rule: rev_induct)
  case Nil
  then show ?case by (simp add: append_items_def)
next
  case (snoc k ids)
  have "foldl (\<lambda>s i. s @ '','' @ item (deposit_at ds ((ids @ [k]) ! i))) (acc @ comma_sep xs) [0..<length ids]
      = foldl (\<lambda>s i. s @ '','' @ item (deposit_at ds (ids ! i))) (acc @ comma_sep xs) [0..<length ids]"
    by (rule foldl_cong) (simp_all add: nth_append)
  with snoc assms show ?case
    using comma_sep_snoc [of "xs @ map (\<lambda>k. item (deposit_at ds k)) ids" "item (deposit_at ds k)"]
    by (simp add: append_items_def)
qed

lemma append_items_both:
  "append_items item theirs rds (append_items item mine ds acc 0) (length mine)
    = acc @ comma_sep (map (\<lambda>k. item (deposit_at ds k)) mine @ map (\<lambda>k. item (deposit_at rds k)) theirs)"
proof (cases "mine = []")
  case True
  then show ?thesis using append_items_first by (simp add: append_items_first)
next
  case False
  then show ?thesis
    using append_items_rest [of "map (\<lambda>k. item (deposit_at ds k)) mine" item theirs rds acc]
    by (simp add: append_items_first)
qed

section \<open>Settlement\<close>

definition append_output_to_settlement_transaction ::
  "string \<Rightarrow> string \<Rightarrow> string \<Rightarrow> u64 \<Rightarrow> u64 \<Rightarrow> u64 \<Rightarrow> string" where
  "append_output_to_settlement_transaction out my_addr remote_addr my_bal remote_bal fee =
     (let to_pay = my_bal - fee in
      if my_addr = remote_addr then
        (let total_out = to_pay + remote_bal in
         if 0 < sint total_out then out @ quoted my_addr @ '':'' @ satoshi_to_bitcoin total_out
         else out)
      else if 0 < sint to_pay \<and> remote_bal > 0 then
        out @ quoted my_addr @ '':'' @ satoshi_to_bitcoin to_pay
          @ '','' @ quoted remote_addr @ '':'' @ satoshi_to_bitcoin remote_bal
      else
        (let out1 = (if 0 < sint to_pay
                     then out @ quoted my_addr @ '':'' @ satoshi_to_bitcoin to_pay else out)
         in if remote_bal > 0
            then out1 @ quoted remote_addr @ '':'' @ satoshi_to_bitcoin remote_bal else out1))"

definition settlement_fee :: "u64 \<Rightarrow> nat \<Rightarrow> u64 \<Rightarrow> u64" where
  "settlement_fee fee_per_byte num_inputs my_bal =
     (let fee = calculate_total_fee fee_per_byte (int num_inputs) 2
      in if my_bal \<le> fee then 0 else fee)"

definition settle_command ::
  "enclave \<Rightarrow> string \<Rightarrow> (u64, string) omap \<Rightarrow> (u64, string) omap \<Rightarrow> (u64, Deposit) omap
     \<Rightarrow> (u64, Deposit) omap \<Rightarrow> u64 \<Rightarrow> u64 \<Rightarrow> u64 \<Rightarrow> string \<Rightarrow> string \<Rightarrow> string" where
  "settle_command e cid cs rcs ds rds my_bal remote_bal fee_per_byte my_addr remote_addr =
     (let mine = find_deposit_ids_in_channel cid cs;
          theirs = find_deposit_ids_in_channel cid rcs;
          inputs = fill_inputs theirs rds (fill_inputs mine ds ''['' 0) (length mine) @ '']'';
          fee = settlement_fee fee_per_byte (length mine + length theirs) my_bal;
          outputs = append_output_to_settlement_transaction ''{'' my_addr remote_addr
                      my_bal remote_bal fee @ ''}''
      in create_raw_transaction_rpc e @ inputs @ '' '' @ outputs)"

definition create_settle_transaction_for_channel ::
  "ext \<Rightarrow> enclave \<Rightarrow> string \<Rightarrow> (u64, string) omap \<Rightarrow> (u64, string) omap \<Rightarrow> (u64, Deposit) omap
     \<Rightarrow> (u64, Deposit) omap \<Rightarrow> u64 \<Rightarrow> u64 \<Rightarrow> u64 \<Rightarrow> string \<Rightarrow> string \<Rightarrow> string outcome" where
  "create_settle_transaction_for_channel x e cid cs rcs ds rds my_bal remote_bal fee my_addr remote_addr =
     remove_surrounding_quotes
       (x_rpc x (settle_command e cid cs rcs ds rds my_bal remote_bal fee my_addr remote_addr))"

definition sign_settle_transaction_for_channel ::
  "ext \<Rightarrow> enclave \<Rightarrow> string \<Rightarrow> string \<Rightarrow> (u64, string) omap \<Rightarrow> (u64, string) omap
     \<Rightarrow> (u64, Deposit) omap \<Rightarrow> (u64, Deposit) omap \<Rightarrow> string outcome" where
  "sign_settle_transaction_for_channel x e cid tx cs rcs ds rds =
     remove_surrounding_quotes
       (x_rpc_hex x (sign_raw_transaction_rpc e @ tx @ '' ''
          @ get_all_prevouts_for_deposits cid cs rcs ds rds @ '' ''
          @ get_all_private_keys_for_deposits cid cs rcs ds rds @ '' ALL''))"

definition create_and_sign_settlement ::
  "ext \<Rightarrow> enclave \<Rightarrow> string \<Rightarrow> (u64, string) omap \<Rightarrow> (u64, string) omap \<Rightarrow> (u64, Deposit) omap
     \<Rightarrow> (u64, Deposit) omap \<Rightarrow> u64 \<Rightarrow> u64 \<Rightarrow> u64 \<Rightarrow> string \<Rightarrow> string \<Rightarrow> string outcome" where
  "create_and_sign_settlement x e cid cs rcs ds rds my_bal remote_bal fee my_addr remote_addr =
     bindo (create_settle_transaction_for_channel x e cid cs rcs ds rds my_bal remote_bal fee
              my_addr remote_addr) (\<lambda>tx.
     sign_settle_transaction_for_channel x e cid tx cs rcs ds rds)"

definition generate_settle_transaction_for_channel ::
  "ext \<Rightarrow> string \<Rightarrow> enclave \<Rightarrow> string outcome" where
  "generate_settle_transaction_for_channel x cid e =
     (if check_state e Backup then
        (let m = most_recent_backup_state e in
         bindo (find_channel_backup_state_for x cid m) (\<lambda>cb.
         bindo (extract_deposit_channel_mapping_from_backup False m) (\<lambda>cs.
         bindo (extract_deposit_mapping_from_backup x m) (\<lambda>ds.
         bindo (extract_deposit_channel_mapping_from_backup True m) (\<lambda>rcs.
         bindo (extract_remote_deposit_mapping_from_backup x m) (\<lambda>rds.
         create_and_sign_settlement x e cid cs rcs ds rds (bc_balance_a cb) (bc_balance_b cb)
           (bs_miner_fee (be_my_setup_transaction m))
           (bc_bitcoin_address_a cb) (bc_bitcoin_address_b cb)))))))
      else
        bindo (get_channel_state e cid) (\<lambda>st.
        (let s = my_setup_transaction e; r = remote_setup_transaction st in
         create_and_sign_settlement x e cid
           (deposit_ids_to_channels s) (deposit_ids_to_channels r)
           (deposit_ids_to_deposits s) (deposit_ids_to_deposits r)
           (my_balance st) (remote_balance st) (miner_fee s) (my_address s) (my_address r))))"

definition settle :: "ext \<Rightarrow> string \<Rightarrow> string \<Rightarrow> enclave \<Rightarrow> (string \<times> enclave) outcome" where
  "settle x cid output e =
     bindo
       (if \<not> check_state e Backup then
          bindo (get_channel_state e cid) (\<lambda>st.
          bindo (generate_settle_transaction_for_channel x cid e) (\<lambda>tx.
          Returns (tx, put_channel cid (st\<lparr>status := Settled\<rparr>) e)))
        else bindo (generate_settle_transaction_for_channel x cid e) (\<lambda>tx. Returns (tx, e)))
       (\<lambda>(tx, e').
          Returns (output @ ''This transaction has settled your channel: '' @ cid
            @ '', please broadcast it to the Bitcoin network!'' @ [CHR 0x0A] @ tx @ [CHR 0x0A], e'))"

section \<open>Returning unused deposits\<close>

definition return_amount :: "u64 \<Rightarrow> nat \<Rightarrow> u64 \<Rightarrow> u64" where
  "return_amount fee_per_byte num_inputs unused_amount =
     (let fee = calculate_total_fee fee_per_byte (int num_inputs) 1
      in if unused_amount \<le> fee then unused_amount else unused_amount - fee)"

definition create_return_transaction_for_unused_deposits ::
  "ext \<Rightarrow> enclave \<Rightarrow> string \<Rightarrow> u64 \<Rightarrow> u64 list \<Rightarrow> (u64, Deposit) omap \<Rightarrow> string outcome" where
  "create_return_transaction_for_unused_deposits x e my_addr fee_per_byte unused ds =
     (let inputs = fill_inputs unused ds ''['' 0 @ '']'';
          amount = return_amount fee_per_byte (length unused) (sum_unused_deposits ds unused);
          outputs = ''{'' @ quoted my_addr @ '':'' @ satoshi_to_bitcoin amount @ ''}''
      in remove_surrounding_quotes
           (x_rpc x (create_raw_transaction_rpc e @ inputs @ '' '' @ outputs)))"

definition sign_return_transaction_for_unused_deposits ::
  "ext \<Rightarrow> enclave \<Rightarrow> string \<Rightarrow> (u64, Deposit) omap \<Rightarrow> u64 list \<Rightarrow> string outcome" where
  "sign_return_transaction_for_unused_deposits x e tx ds unused =
     remove_surrounding_quotes
       (x_rpc_hex x (sign_raw_transaction_rpc e @ tx @ '' ''
          @ get_all_prevouts_for_unused_deposits ds unused @ '' ''
          @ get_all_private_keys_for_unused_deposits ds unused @ '' ALL''))"

text \<open>The result: whether there was anything to return, the output text, the new state.\<close>

definition return_deposits :: "ext \<Rightarrow> string \<Rightarrow> enclave \<Rightarrow> (bool \<times> string \<times> enclave) outcome" where
  "return_deposits x output e =
     bindo
       (if check_state e Backup then
          (let m = most_recent_backup_state e; su = be_my_setup_transaction m in
           bindo (extract_deposit_mapping_from_backup x m) (\<lambda>ds.
           bindo (extract_deposit_channel_mapping_from_backup False m) (\<lambda>cs.
           Returns (bs_my_address su, bs_miner_fee su, ds, find_unused_deposits ds cs))))
        else
          (let s = my_setup_transaction e in
           Returns (my_address s, miner_fee s, deposit_ids_to_deposits s,
             find_unused_deposits (deposit_ids_to_deposits s) (deposit_ids_to_channels s))))
       (\<lambda>(addr, fee, ds, unused).
          if unused = [] then Returns (False, output, e)
          else
            bindo (create_return_transaction_for_unused_deposits x e addr fee unused ds) (\<lambda>tx.
            bindo (sign_return_transaction_for_unused_deposits x e tx ds unused) (\<lambda>signed.
            Returns (True,
              output @ ''This transaction has returned your unused deposits!'' @ [CHR 0x0A]
                @ signed @ [CHR 0x0A],
              if \<not> check_state e Backup then mark_unused_deposits_spent unused e else e))))"

section \<open>Other commands\<close>

definition sign_setup_transaction :: "ext \<Rightarrow> enclave \<Rightarrow> string" where
  "sign_setup_transaction x e =
     (let s = my_setup_transaction e;
          prevout = ''[{'' @ quoted ''txid'' @ '':'' @ quoted (utxo_hash s) @ '','' @ quoted ''vout''
            @ '':'' @ long_long_to_string (utxo_index s) @ '','' @ quoted ''scriptPubKey'' @ '':''
            @ quoted (utxo_script s) @ '','' @ quoted ''redeemScript'' @ '':'' @ quoted '''' @ ''}]'';
          privkey = ''['' @ quoted (su_private_key s) @ '']''
      in x_rpc x (sign_raw_transaction_rpc e @ setup_transaction_hash s @ '' '' @ prevout @ '' ''
           @ privkey @ '' ALL''))"

definition decode_transaction :: "ext \<Rightarrow> enclave \<Rightarrow> string \<Rightarrow> string" where
  "decode_transaction x e tx = x_rpc x (decode_raw_transaction_rpc e @ tx)"

section \<open>Who is paid what\<close>

definition settlement_outputs ::
  "string \<Rightarrow> string \<Rightarrow> u64 \<Rightarrow> u64 \<Rightarrow> (string \<times> u64) list" where
  "settlement_outputs my_addr remote_addr to_pay remote_bal =
     (if my_addr = remote_addr then filter (\<lambda>p. snd p \<noteq> 0) [(my_addr, to_pay + remote_bal)]
      else filter (\<lambda>p. snd p \<noteq> 0) [(my_addr, to_pay), (remote_addr, remote_bal)])"

definition render_outputs :: "(string \<times> u64) list \<Rightarrow> string" where
  "render_outputs ps = comma_sep (map (\<lambda>p. quoted (fst p) @ '':'' @ satoshi_to_bitcoin (snd p)) ps)"

definition total_paid :: "(string \<times> u64) list \<Rightarrow> nat" where
  "total_paid ps = sum_list (map (\<lambda>p. unat (snd p)) ps)"

lemma sint_pos_small:
  fixes w :: u64
  assumes "unat w < 2 ^ 63"
  shows "0 < sint w \<longleftrightarrow> w \<noteq> 0"
proof -
  have "uint w < 2 ^ 63"
    using assms by (metis (mono_tags, lifting) of_nat_less_numeral_power_cancel_iff of_nat_unat)
  moreover have "- (2 ^ 63) \<le> uint w" by (rule order_trans [OF _ uint_ge_0]) simp
  ultimately have "signed_take_bit 63 (uint w) = uint w"
    by (intro signed_take_bit_int_eq_self)
  then have "sint w = uint w" by (simp add: sint_uint)
  then show ?thesis by (metis linorder_neqE_linordered_idom uint_0_iff uint_ge_0 not_less)
qed

text \<open>
  The text of the outputs is the text of the abstract list, as long as the amounts are below
  \<open>2^63\<close>, the range of the signed intermediate values.
\<close>

lemma append_output_refines:
  assumes "fee \<le> my_bal" and "unat my_bal + unat remote_bal < 2 ^ 63"
  shows "append_output_to_settlement_transaction out my_addr remote_addr my_bal remote_bal fee
    = out @ render_outputs (settlement_outputs my_addr remote_addr (my_bal - fee) remote_bal)"
proof -
  have tp: "unat (my_bal - fee) = unat my_bal - unat fee"
    using assms(1) by (rule unat_sub_of_le)
  with assms(2) have small: "unat (my_bal - fee) < 2 ^ 63" by simp
  have "unat (my_bal - fee) + unat remote_bal < 2 ^ 64" using tp assms(2) by simp
  then have "unat (my_bal - fee + remote_bal) = unat (my_bal - fee) + unat remote_bal"
    by (simp add: unat_add_no_wrap)
  with tp assms(2) have "unat (my_bal - fee + remote_bal) < 2 ^ 63" by simp
  from sint_pos_small [OF small] sint_pos_small [OF this] show ?thesis
    by (auto simp: append_output_to_settlement_transaction_def settlement_outputs_def
        render_outputs_def Let_def word_pos_iff)
qed

lemma total_paid_settlement:
  assumes "fee \<le> my_bal" and "unat my_bal + unat remote_bal < 2 ^ 64"
  shows "total_paid (settlement_outputs my_addr remote_addr (my_bal - fee) remote_bal) + unat fee
    = unat my_bal + unat remote_bal"
proof -
  have tp: "unat (my_bal - fee) = unat my_bal - unat fee" "unat fee \<le> unat my_bal"
    using assms(1) by (simp_all add: unat_sub_of_le word_le_nat_alt)
  then have "unat (my_bal - fee + remote_bal) = unat (my_bal - fee) + unat remote_bal"
    using assms(2) by (intro unat_add_no_wrap) simp
  with tp show ?thesis
    by (auto simp: settlement_outputs_def total_paid_def)
qed

lemma settlement_fee_le: "settlement_fee f n my_bal \<le> my_bal"
  by (auto simp: settlement_fee_def Let_def not_le)

end
