(* ===== verification/Teechain_Messages.thy ===== *)
theory Teechain_Messages
  imports Teechain_Settle
begin

text \<open>
  The \<open>send_\<close> functions of \<open>teechain.cpp\<close> and \<open>backups.cpp\<close>: each fills a message, encrypts it
  under the key of the channel it goes out on, copies cyphertext, MAC and channel to the output
  buffers and tells the untrusted side what to do. \<open>send_encrypted\<close> is the part they share.
\<close>

section \<open>Encrypt and copy out\<close>

definition send_encrypted ::
  "ext \<Rightarrow> ChannelState \<Rightarrow> plaintext \<Rightarrow> nat \<Rightarrow> string \<Rightarrow> action \<Rightarrow> enclave \<Rightarrow> (reply \<times> enclave) outcome" where
  "send_encrypted x st p failed_code next_cid act e =
     (case sgx_encrypt x st p of
        None \<Rightarrow> Returns (code_reply failed_code, e)
      | Some c \<Rightarrow>
          bindo (memcpy_str next_cid CHANNEL_ID_LEN) (\<lambda>n.
          Returns ((code_reply REQUEST_OK)\<lparr>encrypted_out := Some c, next_channel_out := Some n,
            action_out := Some act\<rparr>, e)))"

text \<open>Acknowledgements that carry no cyphertext.\<close>

definition send_plain :: "string \<Rightarrow> action \<Rightarrow> enclave \<Rightarrow> (reply \<times> enclave) outcome" where
  "send_plain cid act e =
     bindo (memcpy_str cid CHANNEL_ID_LEN) (\<lambda>n.
     Returns ((code_reply REQUEST_OK)\<lparr>next_channel_out := Some n, action_out := Some act\<rparr>, e))"

definition send_local_ack :: "string \<Rightarrow> enclave \<Rightarrow> (reply \<times> enclave) outcome" where
  "send_local_ack cid e = send_plain cid SEND_LOCAL_ACK e"

definition send_channel_create_ack :: "string \<Rightarrow> enclave \<Rightarrow> (reply \<times> enclave) outcome" where
  "send_channel_create_ack cid e = send_plain cid SEND_CHANNEL_CREATE_ACK e"

definition send_receive_ack :: "string \<Rightarrow> enclave \<Rightarrow> (reply \<times> enclave) outcome" where
  "send_receive_ack cid e =
     bindo (get_channel_state e cid) (\<lambda>_. send_plain cid SEND_INSECURE_ACK e)"

section \<open>Payments\<close>

definition bump_counters :: "ChannelState \<Rightarrow> ChannelState" where
  "bump_counters st = st\<lparr>my_monotonic_counter := my_monotonic_counter st + 1,
     my_sends := my_sends st + 1\<rparr>"

definition send_bitcoin_payment_message ::
  "ext \<Rightarrow> string \<Rightarrow> u64 \<Rightarrow> enclave \<Rightarrow> (reply \<times> enclave) outcome" where
  "send_bitcoin_payment_message x cid amount e =
     bindo (get_channel_state e cid) (\<lambda>st.
     (let st' = bump_counters st;
          msg = \<lparr>sm_monotoniccount = my_monotonic_counter st', sm_amount = amount\<rparr>
      in send_encrypted x st' (P_Send msg) REQUEST_ERROR cid SEND_BITCOIN_PAYMENT
           (put_channel cid st' e)))"

section \<open>Deposits\<close>

text \<open>
  Both acknowledgements read the amount of the deposit with \<open>operator[]\<close>, for a variable they never
  use: an identifier that is not in the table gets an empty deposit.
\<close>

definition touch_remote_deposit :: "u64 \<Rightarrow> ChannelState \<Rightarrow> ChannelState" where
  "touch_remote_deposit did st = st\<lparr>remote_setup_transaction := (remote_setup_transaction st)
     \<lparr>deposit_ids_to_deposits := touch_deposit (deposit_ids_to_deposits (remote_setup_transaction st)) did\<rparr>\<rparr>"

definition send_deposit_ack ::
  "ext \<Rightarrow> nat \<Rightarrow> action \<Rightarrow> string \<Rightarrow> string \<Rightarrow> u64 \<Rightarrow> enclave \<Rightarrow> (reply \<times> enclave) outcome" where
  "send_deposit_ack x res act cid nonce did e =
     bindo (get_channel_state e cid) (\<lambda>st.
     (let st' = touch_remote_deposit did st in
     bindo (memcpy_str cid CHANNEL_ID_LEN) (\<lambda>c.
     bindo (memcpy_str nonce NONCE_BYTE_LEN) (\<lambda>n.
     send_encrypted x st' (P_SecureAck \<lparr>sa_channel_id = c, sa_nonce = n, sa_result = res\<rparr>)
       REQUEST_ERROR cid act (put_channel cid st' e)))))"

definition send_add_deposit_ack ::
  "ext \<Rightarrow> string \<Rightarrow> string \<Rightarrow> u64 \<Rightarrow> enclave \<Rightarrow> (reply \<times> enclave) outcome" where
  "send_add_deposit_ack x cid nonce did e =
     send_deposit_ack x ADD_DEPOSIT_ACK SEND_DEPOSIT_ADD_ACK cid nonce did e"

definition send_remove_deposit_ack ::
  "ext \<Rightarrow> string \<Rightarrow> string \<Rightarrow> u64 \<Rightarrow> enclave \<Rightarrow> (reply \<times> enclave) outcome" where
  "send_remove_deposit_ack x cid nonce did e =
     send_deposit_ack x REMOVE_DEPOSIT_ACK SEND_DEPOSIT_REMOVE_ACK cid nonce did e"

definition send_deposit_request ::
  "ext \<Rightarrow> nat \<Rightarrow> action \<Rightarrow> string \<Rightarrow> u64 \<Rightarrow> enclave \<Rightarrow> (reply \<times> enclave) outcome" where
  "send_deposit_request x op act cid did e =
     bindo (get_channel_state e cid) (\<lambda>st.
     (let (nonce, e1) = generate_random_nonce x e;
          st' = st\<lparr>most_recent_nonce := nonce\<rparr>;
          e2 = put_channel cid st' e1
      in
      bindo (memcpy_str nonce NONCE_BYTE_LEN) (\<lambda>n.
      bindo (memcpy_str cid CHANNEL_ID_LEN) (\<lambda>c.
      send_encrypted x st' (P_Deposit \<lparr>dm_deposit_operation = op, dm_nonce = n,
          dm_channel_id = c, dm_deposit_id = did\<rparr>) REQUEST_CRASHED cid act e2))))"

definition send_remove_deposit_request ::
  "ext \<Rightarrow> string \<Rightarrow> u64 \<Rightarrow> enclave \<Rightarrow> (reply \<times> enclave) outcome" where
  "send_remove_deposit_request x cid did e =
     send_deposit_request x REMOVE_DEPOSIT SEND_DEPOSIT_REMOVE_REQUEST cid did e"

definition send_add_deposit_request ::
  "ext \<Rightarrow> string \<Rightarrow> u64 \<Rightarrow> enclave \<Rightarrow> (reply \<times> enclave) outcome" where
  "send_add_deposit_request x cid did e =
     send_deposit_request x ADD_DEPOSIT SEND_DEPOSIT_ADD_REQUEST cid did e"

section \<open>Backups\<close>

definition send_stored_ack ::
  "ext \<Rightarrow> nat \<Rightarrow> action \<Rightarrow> string \<Rightarrow> string \<Rightarrow> string \<Rightarrow> bool \<Rightarrow> enclave \<Rightarrow> (reply \<times> enclave) outcome" where
  "send_stored_ack x res act cid blocked nonce failures e =
     bindo (get_channel_state e cid) (\<lambda>st.
     bindo (memcpy_str cid CHANNEL_ID_LEN) (\<lambda>c.
     bindo (memcpy_str blocked CHANNEL_ID_LEN) (\<lambda>b.
     bindo (memcpy_str nonce NONCE_BYTE_LEN) (\<lambda>n.
     send_encrypted x st (P_BackupStoredAck \<lparr>ba_channel_id = c, ba_blocked_channel_id = b,
         ba_nonce = n, ba_result = res, ba_any_failures = failures\<rparr>) REQUEST_ERROR cid act e))))"

definition send_secure_update_channel_ack ::
  "ext \<Rightarrow> string \<Rightarrow> string \<Rightarrow> string \<Rightarrow> bool \<Rightarrow> enclave \<Rightarrow> (reply \<times> enclave) outcome" where
  "send_secure_update_channel_ack x cid blocked nonce failures e =
     send_stored_ack x CHANNEL_UPDATE_ACK SEND_UPDATE_CHANNEL_BALANCE_ACK cid blocked nonce failures e"

definition send_secure_backup_ack ::
  "ext \<Rightarrow> string \<Rightarrow> string \<Rightarrow> string \<Rightarrow> bool \<Rightarrow> enclave \<Rightarrow> (reply \<times> enclave) outcome" where
  "send_secure_backup_ack x cid blocked nonce failures e =
     send_stored_ack x BACKUP_STORE_ACK SEND_SECURE_ACK cid blocked nonce failures e"

definition have_backup :: "enclave \<Rightarrow> bool" where
  "have_backup e \<longleftrightarrow> length (prev_backup_channel_id e) \<noteq> 0"

definition have_existing_backup_state :: "enclave \<Rightarrow> bool" where
  "have_existing_backup_state e = saved_first_backup_state e"

text \<open>
  The state is packed and encrypted, the cyphertext is dropped (only the time of the counter
  increment is simulated), so what remains is the random nonce that was drawn.
\<close>

definition increment_monotonic_counter_and_write_state_to_storage ::
  "ext \<Rightarrow> string \<Rightarrow> enclave \<Rightarrow> enclave outcome" where
  "increment_monotonic_counter_and_write_state_to_storage x cid e =
     (let (nonce, e1) = generate_random_nonce x e in
      bindo (generate_backup_message_for_storage x e1) (\<lambda>_.
      bindo (get_channel_state e1 cid) (\<lambda>_.
      Returns e1)))"

definition send_backup_store_request ::
  "ext \<Rightarrow> string \<Rightarrow> BackupRequest \<Rightarrow> bool \<Rightarrow> enclave \<Rightarrow> (reply \<times> enclave) outcome" where
  "send_backup_store_request x blocked req failures e =
     bindo (generate_backup_message x (prev_backup_channel_id e) blocked req failures e) (\<lambda>msg.
     bindo (get_channel_state e (prev_backup_channel_id e)) (\<lambda>bst.
     send_encrypted x bst (P_BackupEnclaveState msg) REQUEST_ERROR (prev_backup_channel_id e)
       SEND_BACKUP_STORE_REQUEST e))"

definition channel_balance_update ::
  "ext \<Rightarrow> string \<Rightarrow> string \<Rightarrow> bool \<Rightarrow> enclave \<Rightarrow> UpdateChannelBalanceMsg outcome" where
  "channel_balance_update x blocked nonce failures e =
     (if check_state e Funded then
        bindo (get_channel_state e blocked) (\<lambda>st.
        bindo (memcpy_str (prev_backup_channel_id e) CHANNEL_ID_LEN) (\<lambda>p.
        bindo (memcpy_str blocked CHANNEL_ID_LEN) (\<lambda>b.
        bindo (memcpy_str (my_address (my_setup_transaction e)) BITCOIN_ADDRESS_LEN) (\<lambda>addr_a.
        bindo (memcpy_str (my_address (remote_setup_transaction st)) BITCOIN_ADDRESS_LEN) (\<lambda>addr_b.
        bindo (memcpy_str nonce NONCE_BYTE_LEN) (\<lambda>n.
        Returns \<lparr>uc_backup_channel_id = p, uc_blocked_channel_id = b, uc_any_failures = False,
          uc_my_balance = my_balance st, uc_remote_balance = remote_balance st,
          uc_my_bitcoin_address = addr_a, uc_remote_bitcoin_address = addr_b, uc_nonce = n\<rparr>))))))
      else if teechain_state e = Backup then
        bindo (memcpy_str (prev_backup_channel_id e) CHANNEL_ID_LEN) (\<lambda>p.
        Returns ((most_recent_channel_update_state e)\<lparr>uc_any_failures := failures,
          uc_backup_channel_id := p\<rparr>))
      else Returns (x_junk_update x))"

definition send_update_channel_balance_request ::
  "ext \<Rightarrow> string \<Rightarrow> string \<Rightarrow> bool \<Rightarrow> enclave \<Rightarrow> (reply \<times> enclave) outcome" where
  "send_update_channel_balance_request x blocked nonce failures e =
     bindo (get_channel_state e (prev_backup_channel_id e)) (\<lambda>bst.
     bindo (channel_balance_update x blocked nonce failures e) (\<lambda>msg.
     send_encrypted x bst (P_UpdateChannelBalance msg) REQUEST_ERROR (prev_backup_channel_id e)
       SEND_UPDATE_CHANNEL_BALANCE_REQUEST e))"

text \<open>A local \<open>BackupRequest\<close>: the fields a caller does not set are uninitialised.\<close>

definition junk_BackupRequest :: "ext \<Rightarrow> BackupBlockRequest \<Rightarrow> string \<Rightarrow> BackupRequest" where
  "junk_BackupRequest x r nonce = \<lparr>request_blocked_on = r, send_amount_blocked_on = x_junk_u64 x,
     deposit_id_blocked_on = x_junk_u64 x, br_nonce = nonce\<rparr>"

text \<open>\<open>get_channel_state(prev_backup_channel_id)->backup_requests[nonce] = request\<close>.\<close>

definition record_backup_request :: "string \<Rightarrow> BackupRequest \<Rightarrow> enclave \<Rightarrow> enclave outcome" where
  "record_backup_request nonce req e =
     bindo (get_channel_state e (prev_backup_channel_id e)) (\<lambda>bst.
     Returns (put_channel (prev_backup_channel_id e)
       (bst\<lparr>backup_requests := om_put nonce req (backup_requests bst)\<rparr>) e))"

section \<open>What sending leaves alone\<close>

lemma send_encrypted_state: "send_encrypted x st p f n a e = Returns (r, e') \<Longrightarrow> e' = e"
  by (auto simp: send_encrypted_def split: option.splits)

lemma send_plain_state: "send_plain c a e = Returns (r, e') \<Longrightarrow> e' = e"
  by (auto simp: send_plain_def)

lemma send_acks_state:
  "send_local_ack c e = Returns (r, e') \<Longrightarrow> e' = e"
  "send_channel_create_ack c e = Returns (r, e') \<Longrightarrow> e' = e"
  "send_receive_ack c e = Returns (r, e') \<Longrightarrow> e' = e"
  "send_stored_ack x k a c b n f e = Returns (r, e') \<Longrightarrow> e' = e"
  "send_secure_update_channel_ack x c b n f e = Returns (r, e') \<Longrightarrow> e' = e"
  "send_secure_backup_ack x c b n f e = Returns (r, e') \<Longrightarrow> e' = e"
  "send_backup_store_request x b req f e = Returns (r, e') \<Longrightarrow> e' = e"
  "send_update_channel_balance_request x b n f e = Returns (r, e') \<Longrightarrow> e' = e"
  by (auto simp: send_local_ack_def send_channel_create_ack_def send_receive_ack_def
      send_stored_ack_def send_secure_update_channel_ack_def send_secure_backup_ack_def
      send_backup_store_request_def send_update_channel_balance_request_def
      dest: send_encrypted_state send_plain_state)

text \<open>
  The sends that do change the state: a payment bumps the counters of its channel, a deposit
  request draws a nonce and remembers it in its channel, and the acknowledgement of a deposit may
  add an empty deposit to the remote table of its channel.
\<close>

lemma send_deposit_acks_state:
  "send_deposit_ack x k a c n did e = Returns (r, e') \<Longrightarrow>
     \<exists>st. get_channel_state e c = Returns st \<and> e' = put_channel c (touch_remote_deposit did st) e"
  "send_add_deposit_ack x c n did e = Returns (r, e') \<Longrightarrow>
     \<exists>st. get_channel_state e c = Returns st \<and> e' = put_channel c (touch_remote_deposit did st) e"
  "send_remove_deposit_ack x c n did e = Returns (r, e') \<Longrightarrow>
     \<exists>st. get_channel_state e c = Returns st \<and> e' = put_channel c (touch_remote_deposit did st) e"
  by (auto simp: send_deposit_ack_def send_add_deposit_ack_def send_remove_deposit_ack_def Let_def
      dest!: send_encrypted_state)

lemma send_payment_state:
  "send_bitcoin_payment_message x cid amount e = Returns (r, e') \<Longrightarrow>
     \<exists>st. get_channel_state e cid = Returns st \<and> e' = put_channel cid (bump_counters st) e"
  by (auto simp: send_bitcoin_payment_message_def Let_def dest: send_encrypted_state)

lemma send_deposit_request_state:
  "send_deposit_request x op act cid did e = Returns (r, e') \<Longrightarrow>
     \<exists>st. get_channel_state e cid = Returns st \<and>
       e' = put_channel cid (st\<lparr>most_recent_nonce := fst (generate_random_nonce x e)\<rparr>)
              (snd (generate_random_nonce x e))"
  by (auto simp: send_deposit_request_def Let_def split_beta dest!: send_encrypted_state)

lemma increment_state:
  "increment_monotonic_counter_and_write_state_to_storage x cid e = Returns e' \<Longrightarrow>
     e' = snd (generate_random_nonce x e) \<and> (\<exists>st. get_channel_state e cid = Returns st)"
  by (auto simp: increment_monotonic_counter_and_write_state_to_storage_def Let_def split_beta)

lemma record_backup_request_state:
  "record_backup_request nonce req e = Returns e' \<Longrightarrow>
     \<exists>bst. get_channel_state e (prev_backup_channel_id e) = Returns bst \<and>
       e' = put_channel (prev_backup_channel_id e)
         (bst\<lparr>backup_requests := om_put nonce req (backup_requests bst)\<rparr>) e"
  by (auto simp: record_backup_request_def)

end
