(* ===== verification/Teechain_Primary.thy ===== *)
theory Teechain_Primary
  imports Teechain_Messages
begin

text \<open>
  The entry points of \<open>Teechain/src/trusted/teechain.cpp\<close>, one definition per ecall: funding
  the enclave, creating and verifying channels, payments, moving deposits in and out of
  channels, settlement and shutdown. An ecall takes the external code, its arguments (a buffer
  with its length is one string) and the globals, and gives its reply and the new globals.
\<close>

abbreviation (input) nl :: string where
  "nl \<equiv> [CHR 0x0A]"

abbreviation (input) TOSTR :: "u64 \<Rightarrow> string" where
  "TOSTR n \<equiv> long_long_to_string n"

definition with_user_output ::
  "string \<Rightarrow> (reply \<times> enclave) outcome \<Rightarrow> (reply \<times> enclave) outcome" where
  "with_user_output s m = bindo m (\<lambda>(r, e). Returns (r\<lparr>user_output := Some s\<rparr>, e))"

definition set_user_output :: "string \<Rightarrow> string \<Rightarrow> enclave \<Rightarrow> enclave" where
  "set_user_output cid s e =
     e\<lparr>channel_ids_to_user_outputs := om_put cid s (channel_ids_to_user_outputs e)\<rparr>"

section \<open>Assigning a role and funding\<close>

definition ecall_debug_enclave :: "enclave \<Rightarrow> reply \<times> enclave" where
  "ecall_debug_enclave e = (code_reply REQUEST_OK, e\<lparr>debug := True\<rparr>)"

definition ecall_benchmark_enclave :: "enclave \<Rightarrow> reply \<times> enclave" where
  "ecall_benchmark_enclave e = (code_reply REQUEST_OK, e\<lparr>benchmark := True\<rparr>)"

definition ecall_primary :: "bool \<Rightarrow> enclave \<Rightarrow> reply \<times> enclave" where
  "ecall_primary use_monotonic_counters e =
     (if \<not> check_state e Ghost then (code_reply REQUEST_ERROR, e)
      else (output_reply REQUEST_OK
              (''Your Enclave has been made into a Primary Teechain node!'' @ nl
               @ ''To use it, please fund your enclave by setting up your funding deposits!'' @ nl),
            e\<lparr>teechain_state := Primary, write_to_stable_storage := use_monotonic_counters\<rparr>))"

definition redeem_script_of :: "enclave \<Rightarrow> bitcoin_key \<Rightarrow> string outcome" where
  "redeem_script_of e k =
     (if debug e then Returns ''76a914c0cbe7ba8f82ef38aed886fba742942a9893497788ac''
      else bindo (substr (bk_script_asm k) 18 40) (\<lambda>h. Returns (''76a914'' @ h @ ''88ac'')))"

definition setup_one_deposit ::
  "ext \<Rightarrow> nat \<Rightarrow> string \<times> enclave \<Rightarrow> (string \<times> enclave) outcome" where
  "setup_one_deposit x i acc =
     (case acc of (out, e) \<Rightarrow>
        let k = x_bitcoin_key x (keys_made e) in
        bindo (redeem_script_of e k) (\<lambda>sc.
        let d = zero_Deposit\<lparr>is_spent := False, deposit_amount := 0,
                  bitcoin_address := bk_address k, public_key := bk_public_key k,
                  private_key := bk_private_key k, script := sc, tx_index := x_junk_u64 x\<rparr>;
            s = my_setup_transaction e
        in Returns (out @ ''Please deposit into bitcoin address '' @ bk_address k @ nl,
             e\<lparr>keys_made := Suc (keys_made e),
               my_setup_transaction := s\<lparr>deposit_ids_to_deposits :=
                 om_put (of_nat i) d (deposit_ids_to_deposits s)\<rparr>\<rparr>)))"

definition ecall_setup_deposits :: "ext \<Rightarrow> u64 \<Rightarrow> enclave \<Rightarrow> (reply \<times> enclave) outcome" where
  "ecall_setup_deposits x num_deposits e =
     (if \<not> check_state e Primary then Returns (code_reply REQUEST_ERROR, e)
      else
        bindo (foldo (setup_one_deposit x) [0..<unat num_deposits]
          (''Please generate bitcoin funding transactions that deposit funds into the following Bitcoin addresses.'' @ nl
           @ ''For each of the Bitcoin addresses generated below, you'' @ [CHR 0x27]
           @ ''ll have the chance to specify the transaction id, unspent transaction output, and the amount deposited into that address in the next step of the protocol.'' @ nl,
           e)) (\<lambda>(out, e').
        Returns (output_reply REQUEST_OK out, e'\<lparr>teechain_state := WaitingForFunds\<rparr>)))"

definition record_funding ::
  "string \<Rightarrow> u64 list \<Rightarrow> u64 list \<Rightarrow> nat \<Rightarrow> (u64, Deposit) omap \<Rightarrow> (u64, Deposit) omap outcome" where
  "record_funding txids tx_indexes amounts i ds =
     bindo (string_from (drop (i * BITCOIN_TX_HASH_LEN) txids) BITCOIN_TX_HASH_LEN) (\<lambda>tx.
     bindo (array_get i tx_indexes) (\<lambda>idx.
     bindo (array_get i amounts) (\<lambda>amt.
     Returns (om_put (of_nat i)
       ((deposit_at ds (of_nat i))\<lparr>txid := tx, tx_index := idx, deposit_amount := amt\<rparr>) ds))))"

definition ecall_deposits_made ::
  "string \<Rightarrow> u64 \<Rightarrow> u64 \<Rightarrow> string \<Rightarrow> u64 list \<Rightarrow> u64 list \<Rightarrow> enclave \<Rightarrow> (reply \<times> enclave) outcome" where
  "ecall_deposits_made address fee num_deposits txids tx_indexes amounts e =
     (if \<not> check_state e WaitingForFunds then Returns (code_reply REQUEST_ERROR, e)
      else if num_deposits \<noteq> of_nat (length (deposit_ids_to_deposits (my_setup_transaction e)))
      then Returns (code_reply REQUEST_ERROR, e)
      else
        bindo (foldo (record_funding txids tx_indexes amounts) [0..<unat num_deposits]
                 (deposit_ids_to_deposits (my_setup_transaction e))) (\<lambda>ds.
        Returns (output_reply REQUEST_OK
            (''Loaded your '' @ TOSTR num_deposits @ '' funding deposits into the Enclave.'' @ nl
             @ ''You are ready to begin creating channels!'' @ nl),
          e\<lparr>my_setup_transaction := (my_setup_transaction e)\<lparr>my_address := address,
              miner_fee := fee, deposit_ids_to_deposits := ds\<rparr>,
            teechain_state := Funded\<rparr>)))"

section \<open>Creating channels\<close>

definition update_backup_channels :: "bool \<Rightarrow> string \<Rightarrow> enclave \<Rightarrow> enclave" where
  "update_backup_channels initiator cid e =
     (if initiator then e\<lparr>next_backup_channel_id := cid\<rparr> else e\<lparr>prev_backup_channel_id := cid\<rparr>)"

definition ecall_channel_id_generated ::
  "string \<Rightarrow> bool \<Rightarrow> enclave \<Rightarrow> (reply \<times> enclave) outcome" where
  "ecall_channel_id_generated cid is_backup e =
     (if \<not> check_state e Funded \<and> \<not> check_state e Backup then Returns (code_reply REQUEST_ERROR, e)
      else
        let temp = take CHANNEL_ID_LEN TEMPORARY_CHANNEL_ID in
        bindo (get_channel_state e temp) (\<lambda>st.
        let e1 = associate_channel_state cid st (remove_association temp e);
            e2 = (if is_backup then
                    set_user_output cid
                      (''A backup channel has been created!'' @ nl
                       @ ''Backup Channel ID: '' @ cid @ nl)
                      (update_backup_channels (is_initiator st) cid e1)
                  else e1)
        in Returns (code_reply REQUEST_OK, e2)))"

definition ecall_create_new_channel ::
  "ext \<Rightarrow> string \<Rightarrow> bool \<Rightarrow> enclave \<Rightarrow> reply \<times> enclave" where
  "ecall_create_new_channel x cid initiator e =
     (if \<not> check_state e Funded then (code_reply REQUEST_ERROR, e)
      else (code_reply REQUEST_OK,
            associate_channel_state cid
              ((create_channel_state x)\<lparr>is_initiator := initiator, is_backup_channel := False,
                 my_balance := 0\<rparr>) e))"

definition ecall_remote_verify_deposits :: "string \<Rightarrow> enclave \<Rightarrow> (reply \<times> enclave) outcome" where
  "ecall_remote_verify_deposits cid e =
     bindo (get_channel_state e cid) (\<lambda>st.
     if \<not> check_status st Unverified then Returns (code_reply REQUEST_FAILED, e)
     else
       let st1 = st\<lparr>other_party_deposits_verified := True\<rparr>;
           st2 = (if deposits_verified st1 then st1\<lparr>status := Alive\<rparr> else st1)
       in Returns (code_reply REQUEST_OK, put_channel cid st2 e))"

definition ecall_verify_deposits :: "string \<Rightarrow> enclave \<Rightarrow> (reply \<times> enclave) outcome" where
  "ecall_verify_deposits cid e =
     bindo (get_channel_state e cid) (\<lambda>st.
     if \<not> check_status st Unverified then Returns (code_reply REQUEST_FAILED, e)
     else
       let st1 = st\<lparr>deposits_verified := True\<rparr>;
           st2 = (if other_party_deposits_verified st1 then st1\<lparr>status := Alive\<rparr> else st1)
       in Returns (output_reply REQUEST_OK
              (''You have verified the funding transaction of the remote party in channel: ''
               @ cid @ ''.'' @ nl),
            put_channel cid st2 e))"

text \<open>\<open>operator[]\<close> creates an empty text for a channel that has none.\<close>

definition user_output_of :: "string \<Rightarrow> enclave \<Rightarrow> string \<times> enclave" where
  "user_output_of cid e =
     (case om_get (channel_ids_to_user_outputs e) cid of
        Some s \<Rightarrow> (s, e)
      | None \<Rightarrow> ('''', set_user_output cid '''' e))"

definition ecall_get_user_output :: "string \<Rightarrow> enclave \<Rightarrow> reply \<times> enclave" where
  "ecall_get_user_output cid e =
     (case user_output_of cid e of (s, e') \<Rightarrow> (output_reply REQUEST_OK s, e'))"

definition ecall_balance :: "string \<Rightarrow> enclave \<Rightarrow> (reply \<times> enclave) outcome" where
  "ecall_balance cid e =
     bindo (get_channel_state e cid) (\<lambda>st.
     if \<not> check_status st Alive then Returns (code_reply REQUEST_FAILED, e)
     else
       let ids = find_deposit_ids_in_channel cid (deposit_ids_to_channels (my_setup_transaction e));
           line = (\<lambda>k. let k32 = ucast (ucast k :: u32) :: u64 in
             ''Deposit index: '' @ TOSTR k32 @ '', amount: ''
             @ TOSTR (deposit_amount (deposit_at (deposit_ids_to_deposits (my_setup_transaction e)) k32))
             @ '' (satoshi).'' @ nl);
           held = (if ids = [] then ''You have no deposits in this channel.'' @ nl
                   else ''You have '' @ TOSTR (of_nat (length ids)) @ '' deposits in this channel.''
                     @ nl @ concat (map line ids))
       in Returns (output_reply REQUEST_OK
            (''Printing balance and deposits for channel: '' @ cid @ ''.'' @ nl @ held
             @ ''My balance is: '' @ TOSTR (my_balance st) @ '', remote balance is: ''
             @ TOSTR (remote_balance st) @ '' (satoshi).'' @ nl), e))"

section \<open>Payments\<close>

definition debit :: "u64 \<Rightarrow> ChannelState \<Rightarrow> ChannelState" where
  "debit amount st = st\<lparr>my_balance := my_balance st - amount,
     remote_balance := remote_balance st + amount\<rparr>"

definition ecall_send_bitcoins ::
  "ext \<Rightarrow> string \<Rightarrow> u64 \<Rightarrow> enclave \<Rightarrow> (reply \<times> enclave) outcome" where
  "ecall_send_bitcoins x cid amount e =
     bindo (get_channel_state e cid) (\<lambda>st.
     if \<not> check_status st Alive then Returns (code_reply REQUEST_FAILED, e)
     else if amount \<le> 0 \<or> amount > my_balance st then Returns (code_reply REQUEST_FAILED, e)
     else
       let e1 = put_channel cid (debit amount st) e in
       if write_to_stable_storage e1 then
         bindo (increment_monotonic_counter_and_write_state_to_storage x cid e1) (\<lambda>e2.
         send_bitcoin_payment_message x cid amount e2)
       else if have_backup e1 then
         (let (nonce, e2) = generate_random_nonce x e1;
              req = (junk_BackupRequest x Send_Bitcoin_Request nonce)\<lparr>send_amount_blocked_on := amount\<rparr>
          in bindo (record_backup_request nonce req e2) (\<lambda>e3.
             send_update_channel_balance_request x cid nonce False e3))
       else send_bitcoin_payment_message x cid amount e1)"

definition credit :: "SendMsg \<Rightarrow> ChannelState \<Rightarrow> ChannelState" where
  "credit m st = st\<lparr>remote_last_seen := sm_monotoniccount m,
     my_balance := my_balance st + sm_amount m, remote_balance := remote_balance st - sm_amount m,
     my_receives := my_receives st + 1,
     unsynced_bitcoin_amount := unsynced_bitcoin_amount st + sm_amount m\<rparr>"

definition received_text :: "string \<Rightarrow> u64 \<Rightarrow> ChannelState \<Rightarrow> string" where
  "received_text cid amount st =
     ''Received '' @ TOSTR amount @ '' satoshi on channel: '' @ cid @ ''.'' @ nl
     @ ''My balance is now: '' @ TOSTR (my_balance st) @ '', remote balance is: ''
     @ TOSTR (remote_balance st) @ '' (satoshi).'' @ nl"

definition ecall_receive_bitcoins ::
  "ext \<Rightarrow> string \<Rightarrow> string \<Rightarrow> nat \<Rightarrow> enclave \<Rightarrow> (reply \<times> enclave) outcome" where
  "ecall_receive_bitcoins x cid blob context e =
     bindo (get_channel_state e cid) (\<lambda>st.
     if \<not> check_deposits_verified st then Returns (code_reply REQUEST_ERROR, e)
     else
       case check_and_decrypt_message x blob context sizeof_SendMsg of
         None \<Rightarrow> Returns (code_reply REQUEST_ERROR, e)
       | Some p \<Rightarrow>
           bindo (as_SendMsg p) (\<lambda>msg.
           if sm_monotoniccount msg \<le> remote_last_seen st then Returns (code_reply REQUEST_ERROR, e)
           else
             let st1 = credit msg st;
                 e1 = put_channel cid st1 e
             in with_user_output (received_text cid (sm_amount msg) st1)
                (if unsynced_bitcoin_amount st1 > MAX_AMOUNT_TO_RECEIVE_BEFORE_SYNC
                    \<and> write_to_stable_storage e1 then
                   bindo (increment_monotonic_counter_and_write_state_to_storage x cid e1)
                     (send_receive_ack cid)
                 else if unsynced_bitcoin_amount st1 > MAX_AMOUNT_TO_RECEIVE_BEFORE_SYNC
                    \<and> have_backup e1 then
                   (let (nonce, e2) = generate_random_nonce x e1;
                        req = (junk_BackupRequest x Receive_Bitcoin_Request nonce)
                                \<lparr>send_amount_blocked_on := sm_amount msg\<rparr>
                    in bindo (record_backup_request nonce req e2) (\<lambda>e3.
                       send_update_channel_balance_request x cid nonce False e3))
                 else send_receive_ack cid e1)))"

section \<open>Moving deposits\<close>

definition verify_deposit_ack ::
  "ext \<Rightarrow> nat \<Rightarrow> string \<Rightarrow> nat \<Rightarrow> enclave \<Rightarrow> (reply \<times> enclave) outcome" where
  "verify_deposit_ack x expected blob context e =
     (case check_and_decrypt_message x blob context sizeof_SecureAckMsg of
        None \<Rightarrow> Returns (code_reply REQUEST_ERROR, e)
      | Some p \<Rightarrow>
          bindo (as_SecureAckMsg p) (\<lambda>msg.
          bindo (get_channel_state e (sa_channel_id msg)) (\<lambda>st.
          if \<not> check_message_nonce st (sa_nonce msg) then Returns (code_reply REQUEST_ERROR, e)
          else if sa_result msg \<noteq> expected then Returns (code_reply REQUEST_ERROR, e)
          else
            (case user_output_of (sa_channel_id msg) e of (s, e') \<Rightarrow>
               Returns (output_reply REQUEST_OK s, e')))))"

definition ecall_verify_deposit_removed_from_channel ::
  "ext \<Rightarrow> string \<Rightarrow> nat \<Rightarrow> enclave \<Rightarrow> (reply \<times> enclave) outcome" where
  "ecall_verify_deposit_removed_from_channel x blob context e =
     verify_deposit_ack x REMOVE_DEPOSIT_ACK blob context e"

definition ecall_verify_deposit_added_to_channel ::
  "ext \<Rightarrow> string \<Rightarrow> nat \<Rightarrow> enclave \<Rightarrow> (reply \<times> enclave) outcome" where
  "ecall_verify_deposit_added_to_channel x blob context e =
     verify_deposit_ack x ADD_DEPOSIT_ACK blob context e"

text \<open>
  The last part of the four operations that move a deposit: with stable storage the counter is
  incremented and the message goes out, without a backup the message goes out, with a backup the
  request is recorded under its nonce and the state is sent to the backup first.
\<close>

definition sync_then_send ::
  "ext \<Rightarrow> string \<Rightarrow> (enclave \<Rightarrow> (reply \<times> enclave) outcome) \<Rightarrow> (string \<Rightarrow> BackupRequest)
     \<Rightarrow> string option \<Rightarrow> enclave \<Rightarrow> (reply \<times> enclave) outcome" where
  "sync_then_send x cid send req given_nonce e =
     (if write_to_stable_storage e then
        bindo (increment_monotonic_counter_and_write_state_to_storage x cid e) send
      else if \<not> have_backup e then send e
      else
        (let (nonce, e1) = (case given_nonce of
                              Some n \<Rightarrow> (n, e) | None \<Rightarrow> generate_random_nonce x e)
         in bindo (record_backup_request nonce (req nonce) e1) (\<lambda>e2.
            send_backup_store_request x cid (req nonce) False e2)))"

definition ecall_remove_remote_deposit_from_channel ::
  "ext \<Rightarrow> string \<Rightarrow> nat \<Rightarrow> enclave \<Rightarrow> (reply \<times> enclave) outcome" where
  "ecall_remove_remote_deposit_from_channel x blob context e =
     (case check_and_decrypt_message x blob context sizeof_DepositMsg of
        None \<Rightarrow> Returns (code_reply REQUEST_ERROR, e)
      | Some p \<Rightarrow>
          bindo (as_DepositMsg p) (\<lambda>msg.
          if dm_deposit_operation msg \<noteq> REMOVE_DEPOSIT then Returns (code_reply REQUEST_ERROR, e)
          else
            let cid = dm_channel_id msg; did = dm_deposit_id msg in
            bindo (get_channel_state e cid) (\<lambda>st.
            let r = remote_setup_transaction st in
            if did \<ge> of_nat (length (deposit_ids_to_deposits r))
            then Returns (code_reply REQUEST_ERROR, e)
            else
              bindo (of_option_ub (om_get (deposit_ids_to_channels r) did)) (\<lambda>owner.
              if owner \<noteq> cid then Returns (code_reply REQUEST_ERROR, e)
              else
                bindo (remove_deposit_from_channel did (deposit_ids_to_channels r)) (\<lambda>cs.
                let amount = deposit_amount (deposit_at (deposit_ids_to_deposits r) did);
                    st' = st\<lparr>remote_setup_transaction := r\<lparr>deposit_ids_to_channels := cs,
                              deposit_ids_to_deposits := touch_deposit (deposit_ids_to_deposits r) did\<rparr>,
                            remote_balance := remote_balance st - amount\<rparr>
                in sync_then_send x cid (send_remove_deposit_ack x cid (dm_nonce msg) did)
                     (\<lambda>n. (junk_BackupRequest x Remove_Deposit_Ack n)\<lparr>deposit_id_blocked_on := did\<rparr>)
                     (Some (dm_nonce msg)) (put_channel cid st' e))))))"

definition ecall_add_remote_deposit_to_channel ::
  "ext \<Rightarrow> string \<Rightarrow> nat \<Rightarrow> enclave \<Rightarrow> (reply \<times> enclave) outcome" where
  "ecall_add_remote_deposit_to_channel x blob context e =
     (case check_and_decrypt_message x blob context sizeof_DepositMsg of
        None \<Rightarrow> Returns (code_reply REQUEST_ERROR, e)
      | Some p \<Rightarrow>
          bindo (as_DepositMsg p) (\<lambda>msg.
          if dm_deposit_operation msg \<noteq> ADD_DEPOSIT then Returns (code_reply REQUEST_CRASHED, e)
          else
            let cid = dm_channel_id msg; did = dm_deposit_id msg in
            bindo (get_channel_state e cid) (\<lambda>st.
            let r = remote_setup_transaction st in
            if did \<ge> of_nat (length (deposit_ids_to_deposits r))
            then Returns (code_reply REQUEST_FAILED, e)
            else
              let amount = deposit_amount (deposit_at (deposit_ids_to_deposits r) did);
                  st' = st\<lparr>remote_setup_transaction := r
                            \<lparr>deposit_ids_to_channels := om_put did cid (deposit_ids_to_channels r),
                             deposit_ids_to_deposits := touch_deposit (deposit_ids_to_deposits r) did\<rparr>,
                          remote_balance := remote_balance st + amount\<rparr>
              in sync_then_send x cid (send_add_deposit_ack x cid (dm_nonce msg) did)
                   (\<lambda>n. (junk_BackupRequest x Add_Deposit_Ack n)\<lparr>deposit_id_blocked_on := did\<rparr>)
                   (Some (dm_nonce msg)) (put_channel cid st' e))))"

definition deposit_moved_text :: "string \<Rightarrow> u64 \<Rightarrow> string \<Rightarrow> string \<Rightarrow> ChannelState \<Rightarrow> string" where
  "deposit_moved_text verb did prep cid st =
     verb @ '' deposit '' @ TOSTR did @ prep @ cid @ ''.'' @ nl
     @ ''My balance is now: '' @ TOSTR (my_balance st) @ '', remote balance is: ''
     @ TOSTR (remote_balance st) @ '' (satoshi).'' @ nl"

definition ecall_remove_deposit_from_channel ::
  "ext \<Rightarrow> string \<Rightarrow> u64 \<Rightarrow> enclave \<Rightarrow> (reply \<times> enclave) outcome" where
  "ecall_remove_deposit_from_channel x cid did e =
     bindo (get_channel_state e cid) (\<lambda>st.
     let s = my_setup_transaction e in
     if \<not> check_status st Alive then Returns (code_reply REQUEST_FAILED, e)
     else if did \<ge> of_nat (length (deposit_ids_to_deposits s)) then Returns (code_reply REQUEST_FAILED, e)
     else
       bindo (of_option_ub (om_get (deposit_ids_to_channels s) did)) (\<lambda>owner.
       if owner \<noteq> cid then Returns (code_reply REQUEST_FAILED, e)
       else
         let amount = deposit_amount (deposit_at (deposit_ids_to_deposits s) did);
             s1 = s\<lparr>deposit_ids_to_deposits := touch_deposit (deposit_ids_to_deposits s) did\<rparr>
         in if my_balance st < amount
            then Returns (code_reply REQUEST_FAILED, e\<lparr>my_setup_transaction := s1\<rparr>)
            else
              bindo (remove_deposit_from_channel did (deposit_ids_to_channels s)) (\<lambda>cs.
              let st' = st\<lparr>my_balance := my_balance st - amount\<rparr>;
                  e1 = set_user_output cid (deposit_moved_text ''Removed'' did '' from channel '' cid st')
                    (put_channel cid st' (e\<lparr>my_setup_transaction := s1\<lparr>deposit_ids_to_channels := cs\<rparr>\<rparr>))
              in sync_then_send x cid (send_remove_deposit_request x cid did)
                   (\<lambda>n. (junk_BackupRequest x Remove_Deposit_Request n)\<lparr>deposit_id_blocked_on := did\<rparr>)
                   None e1)))"

definition ecall_add_deposit_to_channel ::
  "ext \<Rightarrow> string \<Rightarrow> u64 \<Rightarrow> enclave \<Rightarrow> (reply \<times> enclave) outcome" where
  "ecall_add_deposit_to_channel x cid did e =
     bindo (get_channel_state e cid) (\<lambda>st.
     let s = my_setup_transaction e in
     if \<not> check_status st Alive then Returns (code_reply REQUEST_FAILED, e)
     else if did \<ge> of_nat (length (deposit_ids_to_deposits s)) then Returns (code_reply REQUEST_FAILED, e)
     else if is_deposit_spent s did then Returns (code_reply REQUEST_FAILED, e)
     else if is_deposit_in_use s did then Returns (code_reply REQUEST_FAILED, e)
     else
       let amount = deposit_amount (deposit_at (deposit_ids_to_deposits s) did);
           s' = s\<lparr>deposit_ids_to_channels := om_put did cid (deposit_ids_to_channels s),
                  deposit_ids_to_deposits := touch_deposit (deposit_ids_to_deposits s) did\<rparr>;
           st' = st\<lparr>my_balance := my_balance st + amount\<rparr>;
           e1 = set_user_output cid (deposit_moved_text ''Added'' did '' to channel '' cid st')
                  (put_channel cid st' (e\<lparr>my_setup_transaction := s'\<rparr>))
       in sync_then_send x cid (send_add_deposit_request x cid did)
            (\<lambda>n. (junk_BackupRequest x Add_Deposit_Request n)\<lparr>deposit_id_blocked_on := did\<rparr>)
            None e1)"

section \<open>Exchanging the funding deposits\<close>

text \<open>Copying one deposit into its slots of the message's arrays.\<close>

definition put_deposit_data ::
  "(u64, Deposit) omap \<Rightarrow> nat \<Rightarrow> CreateChannelMsg \<Rightarrow> CreateChannelMsg outcome" where
  "put_deposit_data ds i m =
     (let d = deposit_at ds (of_nat i) in
      bindo (memcpy_str (txid d) BITCOIN_TX_HASH_LEN) (\<lambda>tx.
      bindo (blit (i * BITCOIN_TX_HASH_LEN) tx (cc_txids m)) (\<lambda>txs.
      bindo (array_set MAX_NUM_SETUP_DEPOSITS i (tx_index d) (cc_tx_indexes m)) (\<lambda>idx.
      bindo (array_set MAX_NUM_SETUP_DEPOSITS i (deposit_amount d) (cc_deposit_amounts m)) (\<lambda>amt.
      bindo (array_set MAX_NUM_SETUP_DEPOSITS i (of_nat (length (script d)))
               (cc_deposit_script_lengths m)) (\<lambda>lens.
      bindo (blit (i * MAX_BITCOIN_TX_SCRIPT_LEN) (script d) (cc_deposit_scripts m)) (\<lambda>scs.
      bindo (memcpy_str (bitcoin_address d) BITCOIN_ADDRESS_LEN) (\<lambda>a.
      bindo (blit (i * BITCOIN_ADDRESS_LEN) a (cc_deposit_bitcoin_addresses m)) (\<lambda>addrs.
      bindo (memcpy_str (public_key d) BITCOIN_PUBLIC_KEY_LEN) (\<lambda>pk.
      bindo (blit (i * BITCOIN_PUBLIC_KEY_LEN) pk (cc_deposit_public_keys m)) (\<lambda>pks.
      bindo (memcpy_str (private_key d) BITCOIN_PRIVATE_KEY_LEN) (\<lambda>sk.
      bindo (blit (i * BITCOIN_PRIVATE_KEY_LEN) sk (cc_deposit_private_keys m)) (\<lambda>sks.
      Returns (m\<lparr>cc_txids := txs, cc_tx_indexes := idx, cc_deposit_amounts := amt,
        cc_deposit_script_lengths := lens, cc_deposit_scripts := scs,
        cc_deposit_bitcoin_addresses := addrs, cc_deposit_public_keys := pks,
        cc_deposit_private_keys := sks\<rparr>))))))))))))))"

definition junk_CreateChannelMsg :: "ext \<Rightarrow> CreateChannelMsg" where
  "junk_CreateChannelMsg x =
     (let c = x_junk_char x; n = MAX_NUM_SETUP_DEPOSITS in
      \<lparr>cc_channel_id = replicate CHANNEL_ID_LEN c, cc_bitcoin_address = replicate BITCOIN_ADDRESS_LEN c,
       cc_num_deposits = x_junk_u64 x,
       cc_txids = replicate (n * BITCOIN_TX_HASH_LEN) c,
       cc_tx_indexes = replicate n (x_junk_u64 x), cc_deposit_amounts = replicate n (x_junk_u64 x),
       cc_deposit_script_lengths = replicate n (x_junk_u64 x),
       cc_deposit_scripts = replicate (n * MAX_BITCOIN_TX_SCRIPT_LEN) c,
       cc_deposit_bitcoin_addresses = replicate (n * BITCOIN_ADDRESS_LEN) c,
       cc_deposit_public_keys = replicate (n * BITCOIN_PUBLIC_KEY_LEN) c,
       cc_deposit_private_keys = replicate (n * BITCOIN_PRIVATE_KEY_LEN) c\<rparr>)"

definition create_channel_message ::
  "ext \<Rightarrow> string \<Rightarrow> SetupTransaction \<Rightarrow> CreateChannelMsg outcome" where
  "create_channel_message x cid s =
     bindo (string_from cid CHANNEL_ID_LEN) (\<lambda>c.
     bindo (memcpy_str (my_address s) BITCOIN_ADDRESS_LEN) (\<lambda>addr.
     let n = length (deposit_ids_to_deposits s) in
     foldo (put_deposit_data (deposit_ids_to_deposits s)) [0..<n]
       ((junk_CreateChannelMsg x)\<lparr>cc_channel_id := c, cc_bitcoin_address := addr,
          cc_num_deposits := of_nat n\<rparr>)))"

definition ecall_get_deposit_data_encrypted ::
  "ext \<Rightarrow> string \<Rightarrow> enclave \<Rightarrow> (reply \<times> enclave) outcome" where
  "ecall_get_deposit_data_encrypted x cid e =
     bindo (get_channel_state e cid) (\<lambda>st.
     bindo (create_channel_message x cid (my_setup_transaction e)) (\<lambda>m.
     Returns (case sgx_encrypt x st (P_CreateChannel m) of
                None \<Rightarrow> (code_reply REQUEST_ERROR, e)
              | Some c \<Rightarrow> ((code_reply REQUEST_OK)\<lparr>encrypted_out := Some c\<rparr>, e))))"

text \<open>Reading one deposit back; \<open>is_spent\<close> of the new \<open>Deposit\<close> is never set.\<close>

definition get_deposit_data :: "ext \<Rightarrow> CreateChannelMsg \<Rightarrow> nat \<Rightarrow> Deposit outcome" where
  "get_deposit_data x m i =
     bindo (string_from (drop (i * BITCOIN_TX_HASH_LEN) (cc_txids m)) BITCOIN_TX_HASH_LEN) (\<lambda>tx.
     bindo (array_get i (cc_tx_indexes m)) (\<lambda>idx.
     bindo (array_get i (cc_deposit_amounts m)) (\<lambda>amt.
     bindo (string_from (drop (i * BITCOIN_ADDRESS_LEN) (cc_deposit_bitcoin_addresses m))
              BITCOIN_ADDRESS_LEN) (\<lambda>a.
     bindo (string_from (drop (i * BITCOIN_PUBLIC_KEY_LEN) (cc_deposit_public_keys m))
              BITCOIN_PUBLIC_KEY_LEN) (\<lambda>pk.
     bindo (string_from (drop (i * BITCOIN_PRIVATE_KEY_LEN) (cc_deposit_private_keys m))
              BITCOIN_PRIVATE_KEY_LEN) (\<lambda>sk.
     bindo (array_get i (cc_deposit_script_lengths m)) (\<lambda>len.
     bindo (string_from (drop (i * MAX_BITCOIN_TX_SCRIPT_LEN) (cc_deposit_scripts m)) (unat len)) (\<lambda>sc.
     Returns \<lparr>is_spent = x_junk_bool x, bitcoin_address = a, public_key = pk, private_key = sk,
       script = sc, txid = tx, tx_index = idx, deposit_amount = amt\<rparr>))))))))"

definition store_one_deposit ::
  "ext \<Rightarrow> CreateChannelMsg \<Rightarrow> nat \<Rightarrow> string \<times> (u64, Deposit) omap
     \<Rightarrow> (string \<times> (u64, Deposit) omap) outcome" where
  "store_one_deposit x m i acc =
     bindo (get_deposit_data x m i) (\<lambda>d.
     Returns (fst acc @ ''Transaction ID: '' @ txid d @ '', Deposit index '' @ TOSTR (tx_index d)
         @ '' should pay '' @ TOSTR (deposit_amount d) @ '' satoshi into address ''
         @ bitcoin_address d @ ''.'' @ nl,
       om_put (of_nat i) d (snd acc)))"

definition ecall_store_encrypted_deposit_data ::
  "ext \<Rightarrow> string \<Rightarrow> string \<Rightarrow> nat \<Rightarrow> enclave \<Rightarrow> (reply \<times> enclave) outcome" where
  "ecall_store_encrypted_deposit_data x cid blob context e =
     bindo (get_channel_state e cid) (\<lambda>st.
     case check_and_decrypt_message x blob context sizeof_CreateChannelMsg of
       None \<Rightarrow> Returns (code_reply REQUEST_ERROR, e)
     | Some p \<Rightarrow>
         bindo (as_CreateChannelMsg p) (\<lambda>m.
         if cc_channel_id m \<noteq> cid then Returns (code_reply REQUEST_ERROR, e)
         else
           bindo (foldo (store_one_deposit x m) [0..<unat (cc_num_deposits m)]
             (''A channel has been created!'' @ nl @ ''Channel ID: '' @ cid @ nl
              @ ''The remote has presented their funding deposits. Please verify the following unspent transaction outputs are in the blockchain.'' @ nl
              @ ''Number of outputs: '' @ TOSTR (cc_num_deposits m) @ ''.'' @ nl, om_empty))
           (\<lambda>(out, ds).
           let st' = st\<lparr>remote_setup_transaction := (remote_setup_transaction st)
                          \<lparr>my_address := cc_bitcoin_address m, deposit_ids_to_deposits := ds,
                           deposit_ids_to_channels := om_empty\<rparr>,
                        remote_balance := 0\<rparr>;
               e1 = put_channel cid st' (set_user_output cid out e)
           in sync_then_send x cid (send_local_ack cid)
                (junk_BackupRequest x Channel_Create_Request) None e1)))"

section \<open>Settlement and shutdown\<close>

definition ecall_settle :: "ext \<Rightarrow> string \<Rightarrow> enclave \<Rightarrow> (reply \<times> enclave) outcome" where
  "ecall_settle x cid e =
     (if \<not> check_state e Funded then Returns (code_reply REQUEST_FAILED, e)
      else
        bindo (get_channel_state e cid) (\<lambda>st.
        if \<not> check_status st Alive \<and> \<not> check_status st Settled
        then Returns (code_reply REQUEST_FAILED, e)
        else bindo (settle x cid '''' e) (\<lambda>(out, e').
             Returns (output_reply REQUEST_OK out, e'))))"

definition ecall_return_deposits :: "ext \<Rightarrow> enclave \<Rightarrow> (reply \<times> enclave) outcome" where
  "ecall_return_deposits x e =
     (if \<not> check_state e Funded then Returns (output_reply REQUEST_FAILED '''', e)
      else bindo (return_deposits x '''' e) (\<lambda>(ok, out, e').
           if \<not> ok then Returns (output_reply REQUEST_FAILED out, e')
           else Returns (output_reply REQUEST_OK out, e')))"

definition channel_balances :: "ext \<Rightarrow> string \<Rightarrow> enclave \<Rightarrow> (u64 \<times> u64) outcome" where
  "channel_balances x cid e =
     (if check_state e Backup then
        bindo (find_channel_backup_state_for x cid (most_recent_backup_state e)) (\<lambda>cb.
        Returns (bc_balance_a cb, bc_balance_b cb))
      else bindo (get_channel_state e cid) (\<lambda>st. Returns (my_balance st, remote_balance st)))"

text \<open>The loop over the channels stops (\<open>break\<close>) at the first one that is empty.\<close>

primrec settle_channels ::
  "ext \<Rightarrow> string list \<Rightarrow> string \<Rightarrow> enclave \<Rightarrow> (string \<times> enclave) outcome" where
  "settle_channels x [] out e = Returns (out, e)"
| "settle_channels x (cid # cids) out e =
     bindo (channel_balances x cid e) (\<lambda>(mine, theirs).
     if mine = 0 \<and> theirs = 0 then Returns (out, e)
     else bindo (settle x cid out e) (\<lambda>(out', e'). settle_channels x cids out' e'))"

definition ecall_shutdown :: "ext \<Rightarrow> enclave \<Rightarrow> (reply \<times> enclave) outcome" where
  "ecall_shutdown x e =
     (if \<not> check_state e Backup \<and> \<not> check_state e Funded then Returns (code_reply REQUEST_FAILED, e)
      else
        bindo (return_deposits x '''' e) (\<lambda>(ok, out, e1).
        bindo (if check_state e1 Backup then get_channel_ids_from_backup (most_recent_backup_state e1)
               else Returns (get_all_non_backup_channel_ids e1)) (\<lambda>cids.
        bindo (settle_channels x cids out e1) (\<lambda>(out', e2).
        Returns (output_reply REQUEST_OK out', e2)))))"

end
