(* ===== verification/Teechain_Backup.thy ===== *)
theory Teechain_Backup
  imports Teechain_Primary
begin

text \<open>
  The entry points of \<open>Teechain/src/trusted/backups.cpp\<close>: joining and leaving a chain of backup
  nodes, storing the state and the balance updates of the node in front, and handling the
  acknowledgements that come back along the chain. A primary releases a payment or a deposit
  message only from these acknowledgement handlers.
\<close>

section \<open>Chain membership\<close>

definition ecall_create_new_backup_channel ::
  "ext \<Rightarrow> string \<Rightarrow> bool \<Rightarrow> enclave \<Rightarrow> reply \<times> enclave" where
  "ecall_create_new_backup_channel x cid initiator e =
     (if \<not> check_state e Funded \<and> \<not> check_state e Backup then (code_reply REQUEST_ERROR, e)
      else if write_to_stable_storage e then (code_reply REQUEST_ERROR, e)
      else if initiator \<and> check_state e Funded then (code_reply REQUEST_ERROR, e)
      else if initiator \<and> length (next_backup_channel_id e) \<noteq> 0 then (code_reply REQUEST_ERROR, e)
      else if \<not> initiator \<and> length (prev_backup_channel_id e) \<noteq> 0 then (code_reply REQUEST_ERROR, e)
      else (code_reply REQUEST_OK,
            update_backup_channels initiator cid
              (associate_channel_state cid
                 ((create_channel_state x)\<lparr>is_initiator := initiator, is_backup_channel := True\<rparr>) e)))"

definition ecall_backup :: "enclave \<Rightarrow> reply \<times> enclave" where
  "ecall_backup e =
     (if \<not> check_state e Ghost then (code_reply REQUEST_ERROR, e)
      else (code_reply REQUEST_OK, e\<lparr>teechain_state := Backup\<rparr>))"

definition ecall_verify_backup_removed ::
  "ext \<Rightarrow> string \<Rightarrow> nat \<Rightarrow> enclave \<Rightarrow> (reply \<times> enclave) outcome" where
  "ecall_verify_backup_removed x blob context e =
     (case check_and_decrypt_message x blob context sizeof_SecureAckMsg of
        None \<Rightarrow> Returns (code_reply REQUEST_ERROR, e)
      | Some p \<Rightarrow>
          bindo (as_SecureAckMsg p) (\<lambda>msg.
          bindo (get_channel_state e (sa_channel_id msg)) (\<lambda>st.
          if sa_channel_id msg \<noteq> prev_backup_channel_id e then Returns (code_reply REQUEST_ERROR, e)
          else if \<not> check_message_nonce st (sa_nonce msg) then Returns (code_reply REQUEST_ERROR, e)
          else if sa_result msg \<noteq> BACKUP_REMOVE_ACK then Returns (code_reply REQUEST_ERROR, e)
          else Returns (code_reply REQUEST_OK, e))))"

definition ecall_remove_remote_backup ::
  "ext \<Rightarrow> string \<Rightarrow> nat \<Rightarrow> enclave \<Rightarrow> (reply \<times> enclave) outcome" where
  "ecall_remove_remote_backup x blob context e =
     (case check_and_decrypt_message x blob context sizeof_RemoveBackupMsg of
        None \<Rightarrow> Returns (code_reply REQUEST_ERROR, e)
      | Some p \<Rightarrow>
          bindo (as_RemoveBackupMsg p) (\<lambda>msg.
          if rb_request msg \<noteq> REMOVE_BACKUP then Returns (code_reply REQUEST_ERROR, e)
          else
            let cid = rb_backup_channel_id msg in
            bindo (get_channel_state e cid) (\<lambda>st.
            if cid \<noteq> prev_backup_channel_id e then Returns (code_reply REQUEST_ERROR, e)
            else
              let e1 = e\<lparr>prev_backup_channel_id := ''''\<rparr>;
                  ack = \<lparr>sa_channel_id = cid, sa_nonce = rb_nonce msg, sa_result = BACKUP_REMOVE_ACK\<rparr>
              in Returns (case sgx_encrypt x st (P_SecureAck ack) of
                            None \<Rightarrow> (code_reply REQUEST_ERROR, e1)
                          | Some c \<Rightarrow> ((code_reply REQUEST_OK)\<lparr>encrypted_out := Some c\<rparr>, e1)))))"

definition ecall_remove_backup ::
  "ext \<Rightarrow> string \<Rightarrow> enclave \<Rightarrow> (reply \<times> enclave) outcome" where
  "ecall_remove_backup x cid e =
     (if \<not> check_state e Backup then Returns (code_reply REQUEST_ERROR, e)
      else if have_backup e then Returns (code_reply REQUEST_ERROR, e)
      else if cid \<noteq> next_backup_channel_id e then Returns (code_reply REQUEST_ERROR, e)
      else
        let e1 = e\<lparr>next_backup_channel_id := ''''\<rparr> in
        bindo (get_channel_state e1 cid) (\<lambda>st.
        bindo (memcpy_str cid CHANNEL_ID_LEN) (\<lambda>c.
        let (nonce, e2) = generate_random_nonce x e1;
            st' = st\<lparr>most_recent_nonce := nonce\<rparr>;
            e3 = put_channel cid st' e2;
            msg = \<lparr>rb_backup_channel_id = c, rb_nonce = nonce, rb_request = REMOVE_BACKUP\<rparr>
        in Returns (case sgx_encrypt x st' (P_RemoveBackup msg) of
                      None \<Rightarrow> (code_reply REQUEST_ERROR, e3)
                    | Some c \<Rightarrow> ((code_reply REQUEST_OK)\<lparr>encrypted_out := Some c\<rparr>, e3)))))"

section \<open>Handing over and storing state\<close>

definition ecall_get_backup_data_encrypted ::
  "ext \<Rightarrow> string \<Rightarrow> enclave \<Rightarrow> (reply \<times> enclave) outcome" where
  "ecall_get_backup_data_encrypted x cid e =
     bindo (get_channel_state e cid) (\<lambda>st.
     if cid \<noteq> prev_backup_channel_id e then Returns (code_reply REQUEST_ERROR, e)
     else
       let (nonce, e1) = generate_random_nonce x e;
           req = junk_BackupRequest x Channel_Create_Request nonce
       in bindo (generate_backup_message x cid cid req False e1) (\<lambda>m.
          Returns (case sgx_encrypt x st (P_BackupEnclaveState m) of
                     None \<Rightarrow> (code_reply REQUEST_ERROR, e1)
                   | Some c \<Rightarrow> ((code_reply REQUEST_OK)\<lparr>encrypted_out := Some c\<rparr>, e1))))"

definition verify_backup_request :: "ext \<Rightarrow> BackupEnclaveStateMsg \<Rightarrow> enclave \<Rightarrow> bool outcome" where
  "verify_backup_request x m e =
     (let r = be_blocked_request m in
      if request_blocked_on r = Add_Deposit_Request \<or> request_blocked_on r = Remove_Deposit_Request then
        bindo (extract_deposit_mapping_from_backup x (most_recent_backup_state e)) (\<lambda>ds.
        Returns (case om_get ds (deposit_id_blocked_on r) of
                   None \<Rightarrow> False
                 | Some d \<Rightarrow> \<not> is_spent d))
      else Returns True)"

definition ecall_store_encrypted_backup_data ::
  "ext \<Rightarrow> string \<Rightarrow> nat \<Rightarrow> enclave \<Rightarrow> (reply \<times> enclave) outcome" where
  "ecall_store_encrypted_backup_data x blob context e =
     (case check_and_decrypt_message x blob context sizeof_BackupEnclaveStateMsg of
        None \<Rightarrow> Returns (code_reply REQUEST_FAILED, e)
      | Some p \<Rightarrow>
          bindo (as_BackupEnclaveStateMsg p) (\<lambda>msg.
          let cid = be_backup_channel_id msg;
              blocked = be_blocked_channel_id msg;
              nonce = br_nonce (be_blocked_request msg);
              failures = (be_any_failures msg \<or> cid \<noteq> next_backup_channel_id e);
              e1 = e\<lparr>most_recent_backup_state := msg\<rparr>
          in
          bindo (get_channel_state e1 cid) (\<lambda>_.
          if \<not> have_existing_backup_state e1 then
            send_local_ack cid (e1\<lparr>saved_first_backup_state := True\<rparr>)
          else if \<not> have_backup e1 then
            send_secure_backup_ack x (next_backup_channel_id e1) blocked nonce failures e1
          else
            bindo (record_backup_request nonce (be_blocked_request msg) e1) (\<lambda>e2.
            send_backup_store_request x blocked (be_blocked_request msg) failures e2))))"

text \<open>The first stored channel with the identifier takes the new balances and addresses.\<close>

primrec update_channel_slots ::
  "UpdateChannelBalanceMsg \<Rightarrow> nat list \<Rightarrow> BackupChannelStateMsg list
     \<Rightarrow> (bool \<times> BackupChannelStateMsg list) outcome" where
  "update_channel_slots m [] slots = Returns (False, slots)"
| "update_channel_slots m (i # is) slots =
     bindo (array_get i slots) (\<lambda>ch.
     if bc_channel_id ch = uc_blocked_channel_id m then
       Returns (True, slots[i := ch\<lparr>bc_balance_a := uc_my_balance m,
         bc_balance_b := uc_remote_balance m,
         bc_bitcoin_address_a := uc_my_bitcoin_address m,
         bc_bitcoin_address_b := uc_remote_bitcoin_address m\<rparr>])
     else update_channel_slots m is slots)"

definition update_channel_data ::
  "UpdateChannelBalanceMsg \<Rightarrow> enclave \<Rightarrow> (bool \<times> enclave) outcome" where
  "update_channel_data m e =
     (let b = most_recent_backup_state e in
      bindo (update_channel_slots m [0..<unat (be_num_channels b)] (be_channel_states b))
        (\<lambda>(found, slots).
        Returns (found, e\<lparr>most_recent_backup_state := b\<lparr>be_channel_states := slots\<rparr>\<rparr>)))"

definition ecall_store_encrypted_channel_update_data ::
  "ext \<Rightarrow> string \<Rightarrow> nat \<Rightarrow> enclave \<Rightarrow> (reply \<times> enclave) outcome" where
  "ecall_store_encrypted_channel_update_data x blob context e =
     (case check_and_decrypt_message x blob context sizeof_UpdateChannelBalanceMsg of
        None \<Rightarrow> Returns (code_reply REQUEST_ERROR, e)
      | Some p \<Rightarrow>
          bindo (as_UpdateChannelBalanceMsg p) (\<lambda>msg.
          let cid = uc_backup_channel_id msg;
              blocked = uc_blocked_channel_id msg;
              nonce = uc_nonce msg
          in
          bindo (update_channel_data msg (e\<lparr>most_recent_channel_update_state := msg\<rparr>))
            (\<lambda>(found, e1).
          let failures = (uc_any_failures msg \<or> cid \<noteq> next_backup_channel_id e \<or> \<not> found) in
          bindo (get_channel_state e1 cid) (\<lambda>_.
          if \<not> have_backup e1 then
            send_secure_update_channel_ack x (next_backup_channel_id e1) blocked nonce failures e1
          else
            bindo (record_backup_request nonce (junk_BackupRequest x Backup_Store_Request nonce) e1)
              (\<lambda>e2.
            send_update_channel_balance_request x blocked nonce failures e2)))))"

section \<open>Acknowledgements\<close>

text \<open>\<open>backup_requests[nonce]\<close>: a missing entry is created with all bytes zero.\<close>

definition request_at :: "(string, BackupRequest) omap \<Rightarrow> string \<Rightarrow> BackupRequest" where
  "request_at m n = (case om_get m n of None \<Rightarrow> zero_BackupRequest | Some r \<Rightarrow> r)"

definition touch_request ::
  "(string, BackupRequest) omap \<Rightarrow> string \<Rightarrow> (string, BackupRequest) omap" where
  "touch_request m n = (case om_get m n of None \<Rightarrow> om_put n zero_BackupRequest m | Some _ \<Rightarrow> m)"

text \<open>\<open>get_channel_state(channel_id.c_str())\<close>: the identifier is cut at its first NUL.\<close>

definition c_str :: "string \<Rightarrow> string" where
  "c_str s = takeWhile (\<lambda>c. c \<noteq> CHR 0x00) s"

text \<open>
  When decryption fails the handler does not return: the statement is \<open>REQUEST_CRASHED;\<close>, and
  the rest runs on the uninitialised message \<open>x_junk_ack\<close>.
\<close>

definition channel_update_ack_message ::
  "ext \<Rightarrow> string \<Rightarrow> nat \<Rightarrow> BackupStoredAckMsg outcome" where
  "channel_update_ack_message x blob context =
     (case check_and_decrypt_message x blob context sizeof_BackupStoredAckMsg of
        None \<Rightarrow> Returns (x_junk_ack x)
      | Some p \<Rightarrow> as_BackupStoredAckMsg p)"

definition ecall_verify_channel_update_stored ::
  "ext \<Rightarrow> string \<Rightarrow> nat \<Rightarrow> enclave \<Rightarrow> (reply \<times> enclave) outcome" where
  "ecall_verify_channel_update_stored x blob context e =
     bindo (channel_update_ack_message x blob context) (\<lambda>msg.
     let cid = ba_channel_id msg;
         blocked = ba_blocked_channel_id msg;
         nonce = ba_nonce msg
     in
     bindo (get_channel_state e (c_str cid)) (\<lambda>st.
     let missing = (om_get (backup_requests st) nonce = None);
         req = request_at (backup_requests st) nonce;
         e1 = put_channel (c_str cid)
                (st\<lparr>backup_requests := touch_request (backup_requests st) nonce\<rparr>) e;
         failures = (ba_any_failures msg \<or> cid \<noteq> prev_backup_channel_id e \<or> missing
                     \<or> ba_result msg \<noteq> CHANNEL_UPDATE_ACK \<or> nonce \<noteq> br_nonce req)
     in
     if teechain_state e1 = Backup then
       bindo (get_channel_state e1 (next_backup_channel_id e1)) (\<lambda>_.
       send_secure_update_channel_ack x (next_backup_channel_id e1) blocked nonce failures e1)
     else if failures then Returns (code_reply REQUEST_FAILED, e1)
     else if request_blocked_on req = Send_Bitcoin_Request then
       send_bitcoin_payment_message x blocked (send_amount_blocked_on req) e1
     else if request_blocked_on req = Receive_Bitcoin_Request then
       bindo (get_channel_state e1 blocked) (\<lambda>bst.
       send_receive_ack blocked
         (put_channel blocked (bst\<lparr>unsynced_bitcoin_amount :=
            unsynced_bitcoin_amount bst - send_amount_blocked_on req\<rparr>) e1))
     else Returns (code_reply REQUEST_CRASHED, e1)))"

text \<open>What the primary does once the whole chain has stored its state.\<close>

definition release_blocked_request ::
  "ext \<Rightarrow> string \<Rightarrow> BackupRequest \<Rightarrow> enclave \<Rightarrow> (reply \<times> enclave) outcome" where
  "release_blocked_request x blocked req e =
     (case request_blocked_on req of
        Channel_Create_Request \<Rightarrow> send_channel_create_ack blocked e
      | Add_Deposit_Request \<Rightarrow> send_add_deposit_request x blocked (deposit_id_blocked_on req) e
      | Add_Deposit_Ack \<Rightarrow>
          send_add_deposit_ack x blocked (br_nonce req) (deposit_id_blocked_on req) e
      | Remove_Deposit_Request \<Rightarrow> send_remove_deposit_request x blocked (deposit_id_blocked_on req) e
      | Remove_Deposit_Ack \<Rightarrow>
          send_remove_deposit_ack x blocked (br_nonce req) (deposit_id_blocked_on req) e
      | Backup_Store_Request \<Rightarrow> send_local_ack blocked e
      | _ \<Rightarrow> Returns (code_reply REQUEST_CRASHED, e))"

definition ecall_verify_backup_stored ::
  "ext \<Rightarrow> string \<Rightarrow> nat \<Rightarrow> enclave \<Rightarrow> (reply \<times> enclave) outcome" where
  "ecall_verify_backup_stored x blob context e =
     (case check_and_decrypt_message x blob context sizeof_BackupStoredAckMsg of
        None \<Rightarrow> Returns (code_reply REQUEST_CRASHED, e)
      | Some p \<Rightarrow>
          bindo (as_BackupStoredAckMsg p) (\<lambda>msg.
          let cid = ba_channel_id msg;
              blocked = ba_blocked_channel_id msg;
              nonce = ba_nonce msg
          in
          bindo (get_channel_state e cid) (\<lambda>st.
          let missing = (om_get (backup_requests st) nonce = None);
              req = request_at (backup_requests st) nonce;
              e1 = put_channel cid
                     (st\<lparr>backup_requests := om_del nonce (touch_request (backup_requests st) nonce)\<rparr>) e;
              failures = (ba_any_failures msg \<or> cid \<noteq> prev_backup_channel_id e \<or> missing
                          \<or> ba_result msg \<noteq> BACKUP_STORE_ACK \<or> nonce \<noteq> br_nonce req)
          in
          if teechain_state e1 = Backup then
            bindo (get_channel_state e1 (next_backup_channel_id e1)) (\<lambda>_.
            send_secure_backup_ack x (next_backup_channel_id e1) blocked (br_nonce req) failures e1)
          else if failures then
            bindo (memcpy_str blocked CHANNEL_ID_LEN) (\<lambda>n.
            Returns ((code_reply REQUEST_FAILED)\<lparr>next_channel_out := Some n\<rparr>, e1))
          else release_blocked_request x blocked req e1)))"

end
