(* ===== verification/Teechain_Refinement.thy ===== *)
theory Teechain_Refinement
  imports Teechain_Ledger Teechain_Backup
begin

text \<open>
  Every entry point of the trusted code implements the ledger: lemma by lemma, what an ecall does
  to the balances, the deposits and the life cycle is a (possibly empty) sequence of
  \<open>ledger_step\<close>s. The send functions, the synchronisation with backups and the bookkeeping of
  nonces and texts leave the ledger alone (collection \<open>silent\<close>).
\<close>

named_theorems silent \<open>operations that do not change the ledger\<close>

section \<open>Fields outside the ledger\<close>

lemma ledger_of_frame [simp]:
  "ledger_of (e\<lparr>rng := n\<rparr>) = ledger_of e"
  "ledger_of (e\<lparr>keys_made := n\<rparr>) = ledger_of e"
  "ledger_of (e\<lparr>debug := b\<rparr>) = ledger_of e"
  "ledger_of (e\<lparr>benchmark := b\<rparr>) = ledger_of e"
  "ledger_of (e\<lparr>saved_first_backup_state := b\<rparr>) = ledger_of e"
  "ledger_of (e\<lparr>prev_backup_channel_id := s\<rparr>) = ledger_of e"
  "ledger_of (e\<lparr>next_backup_channel_id := s\<rparr>) = ledger_of e"
  "ledger_of (e\<lparr>most_recent_backup_state := m\<rparr>) = ledger_of e"
  "ledger_of (e\<lparr>most_recent_channel_update_state := u\<rparr>) = ledger_of e"
  "ledger_of (e\<lparr>channel_ids_to_user_outputs := o'\<rparr>) = ledger_of e"
  "ledger_of (set_user_output cid t e) = ledger_of e"
  "ledger_of (update_backup_channels i cid e) = ledger_of e"
  "ledger_of (snd (generate_random_nonce x e)) = ledger_of e"
  by (simp_all add: ledger_of_def set_user_output_def update_backup_channels_def
      generate_random_nonce_def)

lemma ledger_of_simps [simp]:
  "l_state (ledger_of e) = teechain_state e"
  "l_setup (ledger_of e) = my_setup_transaction e"
  by (simp_all add: ledger_of_def)

lemma l_channels_ledger_of:
  "l_channels (ledger_of e) cid = map_option acct_of (om_get (channelStates e) cid)"
  by (simp add: ledger_of_def)

lemma ledger_of_put: "ledger_of (put_channel cid st e) = upd_acct cid (acct_of st) (ledger_of e)"
  by (auto simp: ledger_of_def upd_acct_def put_channel_def)

lemma ledger_of_put_same:
  "om_get (channelStates e) cid = Some st0 \<Longrightarrow> acct_of st = acct_of st0 \<Longrightarrow>
     ledger_of (put_channel cid st e) = ledger_of e"
  by (simp add: ledger_of_put upd_acct_def l_channels_ledger_of fun_upd_idem)

lemma acct_of_frame [simp]:
  "acct_of (st\<lparr>most_recent_nonce := n\<rparr>) = acct_of st"
  "acct_of (st\<lparr>backup_requests := q\<rparr>) = acct_of st"
  "acct_of (st\<lparr>unsynced_bitcoin_amount := u\<rparr>) = acct_of st"
  "acct_of (st\<lparr>channel_id := c\<rparr>) = acct_of st"
  "acct_of (bump_counters st) = acct_of st"
  by (simp_all add: acct_of_def bump_counters_def)

section \<open>Sending is silent\<close>

lemma silent_payment [silent]:
  "send_bitcoin_payment_message x cid amount e = Returns (r, e') \<Longrightarrow> ledger_of e' = ledger_of e"
  by (auto dest!: send_payment_state intro: ledger_of_put_same)

lemma silent_deposit_request [silent]:
  "send_deposit_request x op act cid did e = Returns (r, e') \<Longrightarrow> ledger_of e' = ledger_of e"
proof -
  assume "send_deposit_request x op act cid did e = Returns (r, e')"
  then obtain st where st: "get_channel_state e cid = Returns st"
    and e': "e' = put_channel cid (st\<lparr>most_recent_nonce := fst (generate_random_nonce x e)\<rparr>)
              (snd (generate_random_nonce x e))"
    using send_deposit_request_state by blast
  show ?thesis
    unfolding e' using st
      ledger_of_put_same [of "snd (generate_random_nonce x e)" cid st
        "st\<lparr>most_recent_nonce := fst (generate_random_nonce x e)\<rparr>"] by simp
qed

lemma silent_requests [silent]:
  "send_add_deposit_request x cid did e = Returns (r, e') \<Longrightarrow> ledger_of e' = ledger_of e"
  "send_remove_deposit_request x cid did e = Returns (r, e') \<Longrightarrow> ledger_of e' = ledger_of e"
  by (simp_all add: send_add_deposit_request_def send_remove_deposit_request_def
      silent_deposit_request)

lemma silent_increment [silent]:
  "increment_monotonic_counter_and_write_state_to_storage x cid e = Returns e' \<Longrightarrow>
     ledger_of e' = ledger_of e"
  by (auto dest!: increment_state)

lemma silent_record [silent]:
  "record_backup_request n req e = Returns e' \<Longrightarrow> ledger_of e' = ledger_of e"
  by (auto dest!: record_backup_request_state intro: ledger_of_put_same)

lemma silent_sync:
  assumes "sync_then_send x cid send req g e = Returns (r, e')"
    and "\<And>e1 r1 e2. send e1 = Returns (r1, e2) \<Longrightarrow> ledger_of e2 = ledger_of e1"
  shows "ledger_of e' = ledger_of e"
proof (cases "write_to_stable_storage e \<or> \<not> have_backup e")
  case True
  then show ?thesis
    using assms by (fastforce simp: sync_then_send_def split: if_splits dest: silent_increment)
next
  case False
  then obtain nonce e1 e2 where
      "(nonce, e1) = (case g of Some n \<Rightarrow> (n, e) | None \<Rightarrow> generate_random_nonce x e)"
    and rec: "record_backup_request nonce (req nonce) e1 = Returns e2"
    and snd: "send_backup_store_request x cid (req nonce) False e2 = Returns (r, e')"
    using assms(1) by (auto simp: sync_then_send_def split: prod.splits)
  then have "ledger_of e1 = ledger_of e"
    by (auto split: option.splits) (metis ledger_of_frame(13) snd_conv)
  moreover have "ledger_of e2 = ledger_of e1" by (rule silent_record [OF rec])
  moreover have "e' = e2" by (rule send_acks_state(7) [OF snd])
  ultimately show ?thesis by simp
qed

lemma silent_with_user_output:
  "with_user_output t m = Returns (r, e') \<Longrightarrow> \<exists>r0. m = Returns (r0, e')"
  by (auto simp: with_user_output_def)

lemma silent_user_output_of [silent]: "user_output_of cid e = (t, e') \<Longrightarrow> ledger_of e' = ledger_of e"
  by (auto simp: user_output_of_def split: option.splits)

section \<open>Steps\<close>

abbreviation ledger_steps :: "bool \<Rightarrow> enclave \<Rightarrow> enclave \<Rightarrow> bool" where
  "ledger_steps g e e' \<equiv> (ledger_step g)\<^sup>*\<^sup>* (ledger_of e) (ledger_of e')"

lemma steps_silent: "ledger_of e' = ledger_of e \<Longrightarrow> ledger_steps g e e'"
  by simp

lemma steps_one: "ledger_step g (ledger_of e) (ledger_of e1) \<Longrightarrow> ledger_of e' = ledger_of e1 \<Longrightarrow> ledger_steps g e e'"
  by auto

lemma acct_lookup:
  "om_get (channelStates e) cid = Some st \<Longrightarrow> l_channels (ledger_of e) cid = Some (acct_of st)"
  by (simp add: l_channels_ledger_of)

subsection \<open>Roles and funding\<close>

lemma refines_primary: "ecall_primary m e = (r, e') \<Longrightarrow> ledger_steps g e e'"
proof -
  assume a: "ecall_primary m e = (r, e')"
  show ?thesis
  proof (cases "check_state e Ghost")
    case True
    with a have "ledger_of e' = (ledger_of e)\<lparr>l_state := Primary\<rparr>"
      by (auto simp: ecall_primary_def ledger_of_def)
    moreover have "ledger_step g (ledger_of e) ((ledger_of e)\<lparr>l_state := Primary\<rparr>)"
      using True by (intro ledger_step.primary) (simp add: check_state_def)
    ultimately show ?thesis by auto
  next
    case False
    with a show ?thesis by (auto simp: ecall_primary_def)
  qed
qed

lemma refines_backup: "ecall_backup e = (r, e') \<Longrightarrow> ledger_steps g e e'"
proof -
  assume a: "ecall_backup e = (r, e')"
  show ?thesis
  proof (cases "check_state e Ghost")
    case True
    with a have "ledger_of e' = (ledger_of e)\<lparr>l_state := Backup\<rparr>"
      by (auto simp: ecall_backup_def ledger_of_def)
    moreover have "ledger_step g (ledger_of e) ((ledger_of e)\<lparr>l_state := Backup\<rparr>)"
      using True by (intro ledger_step.backup) (simp add: check_state_def)
    ultimately show ?thesis by auto
  next
    case False
    with a show ?thesis by (auto simp: ecall_backup_def)
  qed
qed

text \<open>A loop that stores a value under the next index at each turn numbers its results from zero.\<close>

lemma foldo_numbered:
  assumes "foldo f [0..<n] a = Returns b" and "sel a = []" and "n < 2 ^ 64"
    and step: "\<And>i c d. f i c = Returns d \<Longrightarrow> \<exists>v. Q v \<and> sel d = om_put (of_nat i) v (sel c)"
  shows "contiguous (sel b) \<and> length (sel b) = n \<and> (\<forall>k v. om_get (sel b) k = Some v \<longrightarrow> Q v)"
  using assms(1,3)
proof (induction n arbitrary: b)
  case 0
  then show ?case using assms(2) by simp
next
  case (Suc n)
  then obtain c where c: "foldo f [0..<n] a = Returns c" and fc: "f n c = Returns b"
    by (auto simp: foldo_append)
  from Suc.IH [OF c] Suc.prems(2) have ih: "contiguous (sel c)" "length (sel c) = n"
      "\<forall>k v. om_get (sel c) k = Some v \<longrightarrow> Q v"
    by auto
  from step [OF fc] obtain v where v: "Q v" "sel b = om_put (of_nat (length (sel c))) v (sel c)"
    using ih(2) by auto
  have "Suc (length (sel c)) < 2 ^ 64" using Suc.prems(2) ih(2) by simp
  from contiguous_put_next [OF ih(1) this] length_put_next [OF ih(1) this] show ?case
    using v ih by auto
qed

lemma setup_one_deposit_effect:
  assumes "setup_one_deposit x i (out, e) = Returns (out', e')"
  shows "\<exists>d. \<not> is_spent d \<and>
      my_setup_transaction e' = (my_setup_transaction e)\<lparr>deposit_ids_to_deposits :=
        om_put (of_nat i) d (deposit_ids_to_deposits (my_setup_transaction e))\<rparr>
    \<and> channelStates e' = channelStates e \<and> teechain_state e' = teechain_state e"
proof -
  let ?k = "x_bitcoin_key x (keys_made e)"
  let ?d = "\<lambda>sc. zero_Deposit\<lparr>is_spent := False, deposit_amount := 0,
             bitcoin_address := bk_address ?k, public_key := bk_public_key ?k,
             private_key := bk_private_key ?k, script := sc, tx_index := x_junk_u64 x\<rparr>"
  from assms obtain sc where
      "e' = e\<lparr>keys_made := Suc (keys_made e), my_setup_transaction :=
        (my_setup_transaction e)\<lparr>deposit_ids_to_deposits := om_put (of_nat i) (?d sc)
          (deposit_ids_to_deposits (my_setup_transaction e))\<rparr>\<rparr>"
    by (auto simp: setup_one_deposit_def Let_def)
  then show ?thesis by (intro exI [of _ "?d sc"]) simp
qed

lemma setup_deposits_effect:
  assumes "foldo (setup_one_deposit x) is (out, e) = Returns (out', e')"
  shows "(\<exists>ds. my_setup_transaction e' = (my_setup_transaction e)\<lparr>deposit_ids_to_deposits := ds\<rparr>)
    \<and> channelStates e' = channelStates e \<and> teechain_state e' = teechain_state e"
  using assms
proof (induction "is" arbitrary: out e)
  case Nil
  then show ?case by (auto intro: exI [of _ "deposit_ids_to_deposits (my_setup_transaction e)"])
next
  case (Cons i js)
  then obtain out1 e1 where
      1: "setup_one_deposit x i (out, e) = Returns (out1, e1)"
    and 2: "foldo (setup_one_deposit x) js (out1, e1) = Returns (out', e')"
    by (auto split: prod.splits)
  from setup_one_deposit_effect [OF 1] Cons.IH [OF 2] show ?case by auto
qed

lemma refines_setup_deposits:
  assumes "ecall_setup_deposits x n e = Returns (r, e')" and "ledger_inv (ledger_of e)"
  shows "ledger_steps g e e'"
proof (cases "check_state e Primary")
  case False
  with assms(1) show ?thesis by (auto simp: ecall_setup_deposits_def)
next
  case True
  then obtain out e1 out0 where
      loop: "foldo (setup_one_deposit x) [0..<unat n] (out0, e) = Returns (out, e1)"
    and e': "e' = e1\<lparr>teechain_state := WaitingForFunds\<rparr>"
    using assms(1) by (auto simp: ecall_setup_deposits_def)
  let ?sel = "\<lambda>p :: string \<times> enclave. deposit_ids_to_deposits (my_setup_transaction (snd p))"
  let ?ds = "?sel (out, e1)"
  have ph: "teechain_state e = Primary" using True by (simp add: check_state_def)
  have empty: "deposit_ids_to_deposits (my_setup_transaction e) = []"
    using assms(2) ph by (auto simp: ledger_inv_def phase_inv_def)
  have st: "\<exists>v. \<not> is_spent v \<and> ?sel d = om_put (of_nat i) v (?sel c)"
    if "setup_one_deposit x i c = Returns d" for i c d
    using that setup_one_deposit_effect [of x i "fst c" "snd c" "fst d" "snd d"] by auto
  have "contiguous ?ds \<and> length ?ds = unat n \<and> (\<forall>k v. om_get ?ds k = Some v \<longrightarrow> \<not> is_spent v)"
    using foldo_numbered [where sel = ?sel and Q = "\<lambda>v. \<not> is_spent v", OF loop _ _ st] empty
      unsigned_less [of n] by simp
  moreover from setup_deposits_effect [OF loop] have
      "ledger_of e' = (set_my_deposits ?ds (ledger_of e))\<lparr>l_state := WaitingForFunds\<rparr>"
    unfolding e' by (auto simp: ledger_of_def set_my_deposits_def)
  ultimately show ?thesis
    using ph empty by (auto intro!: r_into_rtranclp ledger_step.setup_made)
qed

lemma record_funding_effect:
  assumes "record_funding ts is as i ds = Returns ds'" and "om_ok ds"
    and "om_get ds (of_nat i) \<noteq> None"
  shows "om_keys ds' = om_keys ds \<and> om_ok ds'
    \<and> (\<forall>k. is_spent (deposit_at ds' k) = is_spent (deposit_at ds k))"
  using assms om_put_same_keys [OF assms(2,3)]
  by (auto simp: record_funding_def deposit_at_def split: option.splits if_splits)

lemma refines_deposits_made:
  assumes "ecall_deposits_made addr fee n ts is as e = Returns (r, e')"
    and "ledger_inv (ledger_of e)"
  shows "ledger_steps g e e'"
proof (cases "check_state e WaitingForFunds
    \<and> n = of_nat (length (deposit_ids_to_deposits (my_setup_transaction e)))")
  case False
  with assms(1) show ?thesis by (auto simp: ecall_deposits_made_def split: if_splits)
next
  case True
  let ?ds = "deposit_ids_to_deposits (my_setup_transaction e)"
  from True obtain ds where loop: "foldo (record_funding ts is as) [0..<unat n] ?ds = Returns ds"
    and e': "e' = e\<lparr>my_setup_transaction := (my_setup_transaction e)\<lparr>my_address := addr,
              miner_fee := fee, deposit_ids_to_deposits := ds\<rparr>, teechain_state := Funded\<rparr>"
    using assms(1) by (auto simp: ecall_deposits_made_def)
  have ct: "contiguous ?ds"
    using assms(2) by (simp add: ledger_inv_def deposits_inv_def)
  then have len: "unat n = length ?ds"
    using True by (simp add: contiguous_def unat_of_nat)
  let ?P = "\<lambda>d. om_keys d = om_keys ?ds \<and> om_ok d
      \<and> (\<forall>k. is_spent (deposit_at d k) = is_spent (deposit_at ?ds k))"
  have "?P ds"
  proof (rule foldo_invariant [OF loop])
    show "?P ?ds" using contiguous_ok [OF ct] by simp
  next
    fix i c d
    assume i: "i \<in> set [0..<unat n]" and c: "?P c" and d: "record_funding ts is as i c = Returns d"
    have "i < 2 ^ LENGTH(64)" using i ct len by (simp add: contiguous_def)
    then have "unat (of_nat i :: u64) < length ?ds" using i len by (simp add: unat_of_nat)
    then have "om_get ?ds (of_nat i) \<noteq> None" using contiguous_get [OF ct] by blast
    then have "om_get c (of_nat i) \<noteq> None" using c om_keys_iff by metis
    with record_funding_effect [OF d] c show "?P d" by simp
  qed
  then have "ledger_step g (ledger_of e) (ledger_of e')"
    unfolding e' using True ledger_step.fund [where s = "ledger_of e" and ds = ds and addr = addr
      and fee = fee]
    by (auto simp: ledger_of_def check_state_def)
  then show ?thesis by blast
qed

subsection \<open>Channels\<close>

lemma refines_channel_id_generated:
  assumes "ecall_channel_id_generated cid b e = Returns (r, e')"
  shows "ledger_steps False e e'"
proof (cases "check_state e Funded \<or> check_state e Backup")
  case False
  with assms show ?thesis by (auto simp: ecall_channel_id_generated_def)
next
  case True
  let ?temp = "take CHANNEL_ID_LEN TEMPORARY_CHANNEL_ID"
  from True assms obtain st where st: "om_get (channelStates e) ?temp = Some st"
    and e': "ledger_of e' = ledger_of (associate_channel_state cid st (remove_association ?temp e))"
    by (auto simp: ecall_channel_id_generated_def Let_def split: if_splits)
  have "ledger_of e' = (ledger_of e)\<lparr>l_channels :=
      ((l_channels (ledger_of e))(?temp := None))(cid \<mapsto> acct_of st)\<rparr>"
    unfolding e'
    by (auto simp: ledger_of_def associate_channel_state_def put_channel_def remove_association_def
        acct_of_def)
  then show ?thesis
    using True ledger_step.rename [where new = cid and g = False, OF _ acct_lookup [OF st]]
    by (auto simp: check_state_def)
qed

lemma refines_create:
  assumes "check_state e Funded \<or> check_state e Backup" and "fresh_acct (acct_of st)"
    and "ledger_of e' = ledger_of (associate_channel_state cid st e)"
  shows "ledger_steps False e e'"
proof -
  have "ledger_of e' = upd_acct cid (acct_of st) (ledger_of e)"
    using assms(3) by (simp add: associate_channel_state_def ledger_of_put)
  with assms(1,2) show ?thesis
    by (auto simp: check_state_def intro!: r_into_rtranclp ledger_step.create)
qed

lemma refines_create_new_channel:
  "ecall_create_new_channel x cid i e = (r, e') \<Longrightarrow> ledger_steps False e e'"
  by (cases "check_state e Funded")
    (auto simp: ecall_create_new_channel_def create_channel_state_def fresh_acct_def acct_of_def
      intro!: refines_create)

lemma refines_create_new_backup_channel:
  "ecall_create_new_backup_channel x cid i e = (r, e') \<Longrightarrow> ledger_steps False e e'"
  by (cases "check_state e Funded \<or> check_state e Backup")
    (auto simp: ecall_create_new_backup_channel_def create_channel_state_def fresh_acct_def
      acct_of_def split: if_splits intro!: refines_create)

lemma refines_verify:
  assumes "om_get (channelStates e) cid = Some st" and "status st = Unverified"
    and "acct_of st' = mark_verified m (acct_of st)" and "e' = put_channel cid st' e"
  shows "ledger_steps g e e'"
proof -
  have "ledger_of e' = upd_acct cid (mark_verified m (acct_of st)) (ledger_of e)"
    using assms(3,4) by (simp add: ledger_of_put)
  moreover have "a_status (acct_of st) = Unverified" using assms(2) by (simp add: acct_of_def)
  ultimately show ?thesis
    using ledger_step.verify [OF acct_lookup [OF assms(1)]] by auto
qed

lemma refines_verify_deposits:
  assumes "ecall_verify_deposits cid e = Returns (r, e')"
  shows "ledger_steps g e e'"
proof -
  from assms obtain st where st: "om_get (channelStates e) cid = Some st"
    by (auto simp: ecall_verify_deposits_def)
  show ?thesis
  proof (cases "status st = Unverified")
    case True
    with assms st show ?thesis
      by (intro refines_verify [OF st, where m = True and st' = "if other_party_deposits_verified st
          then st\<lparr>deposits_verified := True, status := Alive\<rparr> else st\<lparr>deposits_verified := True\<rparr>"])
        (auto simp: ecall_verify_deposits_def Let_def check_status_def mark_verified_def acct_of_def)
  next
    case False
    with assms st show ?thesis by (simp add: ecall_verify_deposits_def check_status_def)
  qed
qed

lemma refines_remote_verify_deposits:
  assumes "ecall_remote_verify_deposits cid e = Returns (r, e')"
  shows "ledger_steps g e e'"
proof -
  from assms obtain st where st: "om_get (channelStates e) cid = Some st"
    by (auto simp: ecall_remote_verify_deposits_def)
  show ?thesis
  proof (cases "status st = Unverified")
    case True
    with assms st show ?thesis
      by (intro refines_verify [OF st, where m = False and st' = "if deposits_verified st
          then st\<lparr>other_party_deposits_verified := True, status := Alive\<rparr>
          else st\<lparr>other_party_deposits_verified := True\<rparr>"])
        (auto simp: ecall_remote_verify_deposits_def Let_def check_status_def mark_verified_def
          acct_of_def)
  next
    case False
    with assms st show ?thesis by (simp add: ecall_remote_verify_deposits_def check_status_def)
  qed
qed

lemma silent_acks [silent]:
  "send_local_ack c e = Returns (r, e') \<Longrightarrow> ledger_of e' = ledger_of e"
  "send_channel_create_ack c e = Returns (r, e') \<Longrightarrow> ledger_of e' = ledger_of e"
  "send_receive_ack c e = Returns (r, e') \<Longrightarrow> ledger_of e' = ledger_of e"
  "send_secure_update_channel_ack x c b n f e = Returns (r, e') \<Longrightarrow> ledger_of e' = ledger_of e"
  "send_secure_backup_ack x c b n f e = Returns (r, e') \<Longrightarrow> ledger_of e' = ledger_of e"
  "send_backup_store_request x b req f e = Returns (r, e') \<Longrightarrow> ledger_of e' = ledger_of e"
  "send_update_channel_balance_request x b n f e = Returns (r, e') \<Longrightarrow> ledger_of e' = ledger_of e"
  by (auto dest: send_acks_state)

text \<open>The acknowledgement of a deposit touches the entry of the deposit in the remote table.\<close>

lemma acct_of_touch [simp]: "acct_of (touch_remote_deposit did st) = touch_remote did (acct_of st)"
  by (simp add: acct_of_def touch_remote_deposit_def touch_remote_def)

lemma steps_deposit_acks:
  "send_add_deposit_ack x c n did e = Returns (r, e') \<Longrightarrow> ledger_steps g e e'"
  "send_remove_deposit_ack x c n did e = Returns (r, e') \<Longrightarrow> ledger_steps g e e'"
  using ledger_step.remote_touch [OF acct_lookup, of e c _ g did]
  by (auto simp: ledger_of_put dest!: send_deposit_acks_state)

text \<open>An ecall that changes the ledger by one step and then synchronises.\<close>

lemma steps_sync:
  assumes "ledger_step g (ledger_of e) (ledger_of e1)"
    and "sync_then_send x cid send req given e1 = Returns (r, e')"
    and "\<And>a r1 b. send a = Returns (r1, b) \<Longrightarrow> ledger_of b = ledger_of a"
  shows "ledger_steps g e e'"
  using silent_sync [OF assms(2)] assms(1,3) by auto

lemma steps_sync_ack:
  assumes "ledger_step g (ledger_of e) (ledger_of e1)"
    and "sync_then_send x cid send req given e1 = Returns (r, e')"
    and "\<And>a r1 b. send a = Returns (r1, b) \<Longrightarrow> ledger_steps g a b"
  shows "ledger_steps g e e'"
proof (cases "write_to_stable_storage e1 \<or> \<not> have_backup e1")
  case True
  then obtain e2 r1 where "ledger_of e2 = ledger_of e1" and "send e2 = Returns (r1, e')"
    using assms(2) by (fastforce simp: sync_then_send_def split: if_splits dest: silent_increment)
  with assms(1) assms(3) [of e2 r1 e'] show ?thesis by simp
next
  case False
  then have "sync_then_send x cid (\<lambda>_. Undefined) req given e1 = Returns (r, e')"
    using assms(2) by (simp add: sync_then_send_def)
  from steps_sync [OF assms(1) this] show ?thesis by simp
qed

lemma store_one_deposit_effect:
  "store_one_deposit x m i acc = Returns acc' \<Longrightarrow> \<exists>v. True \<and> snd acc' = om_put (of_nat i) v (snd acc)"
  by (auto simp: store_one_deposit_def)

lemma refines_store_deposit_data:
  assumes "ecall_store_encrypted_deposit_data x cid blob context e = Returns (r, e')"
  shows "ledger_steps False e e'"
proof (cases "check_and_decrypt_message x blob context sizeof_CreateChannelMsg")
  case None
  with assms show ?thesis by (auto simp: ecall_store_encrypted_deposit_data_def)
next
  case (Some p)
  from assms obtain st where st: "om_get (channelStates e) cid = Some st"
    by (auto simp: ecall_store_encrypted_deposit_data_def)
  from assms Some obtain m where m: "as_CreateChannelMsg p = Returns m"
    by (auto simp: ecall_store_encrypted_deposit_data_def)
  show ?thesis
  proof (cases "cc_channel_id m = cid")
    case False
    with assms Some st m show ?thesis by (auto simp: ecall_store_encrypted_deposit_data_def)
  next
    case True
    let ?st = "\<lambda>ds. st\<lparr>remote_setup_transaction := (remote_setup_transaction st)
         \<lparr>my_address := cc_bitcoin_address m, deposit_ids_to_deposits := ds,
          deposit_ids_to_channels := om_empty\<rparr>, remote_balance := 0\<rparr>"
    from assms Some st m True obtain out0 out ds where
        loop: "foldo (store_one_deposit x m) [0..<unat (cc_num_deposits m)] (out0, om_empty)
          = Returns (out, ds)"
      and sync: "sync_then_send x cid (send_local_ack cid)
          (junk_BackupRequest x Channel_Create_Request) None
          (put_channel cid (?st ds) (set_user_output cid out e)) = Returns (r, e')"
      by (auto simp: ecall_store_encrypted_deposit_data_def Let_def)
    have "unat (cc_num_deposits m) < 2 ^ 64" using unsigned_less [of "cc_num_deposits m"] by simp
    from foldo_numbered [where sel = snd and Q = "\<lambda>_. True", OF loop _ this,
        OF _ store_one_deposit_effect [where x = x and m = m]]
    have "contiguous ds" by simp
    then have "ledger_step False (ledger_of e)
        (ledger_of (put_channel cid (?st ds) (set_user_output cid out e)))"
      using ledger_step.store [where g = False, OF acct_lookup [OF st]]
      by (simp add: ledger_of_put acct_of_def)
    from steps_sync [OF this sync silent_acks(1)] show ?thesis .
  qed
qed

subsection \<open>Payments\<close>

lemma refines_send_bitcoins:
  assumes "ecall_send_bitcoins x cid amount e = Returns (r, e')"
  shows "ledger_steps g e e'"
proof -
  from assms obtain st where st: "om_get (channelStates e) cid = Some st"
    by (auto simp: ecall_send_bitcoins_def)
  show ?thesis
  proof (cases "status st = Alive \<and> amount \<noteq> 0 \<and> amount \<le> my_balance st")
    case False
    with assms st show ?thesis
      by (auto simp: ecall_send_bitcoins_def check_status_def split: if_splits)
  next
    case True
    let ?e1 = "put_channel cid (debit amount st) e"
    have "ledger_step g (ledger_of e) (ledger_of ?e1)"
      using True ledger_step.pay [OF acct_lookup [OF st], of amount]
      by (simp add: ledger_of_put acct_of_def debit_def)
    moreover have "ledger_of e' = ledger_of ?e1"
      using assms st True
      by (auto simp: ecall_send_bitcoins_def check_status_def Let_def split_beta
          split: if_splits dest!: silent)
    ultimately show ?thesis by auto
  qed
qed

lemma refines_receive_bitcoins:
  assumes "ecall_receive_bitcoins x cid blob context e = Returns (r, e')"
  shows "ledger_steps g e e'"
proof (cases "check_and_decrypt_message x blob context sizeof_SendMsg")
  case None
  with assms show ?thesis by (auto simp: ecall_receive_bitcoins_def split: if_splits)
next
  case (Some p)
  from assms obtain st where st: "om_get (channelStates e) cid = Some st"
    by (auto simp: ecall_receive_bitcoins_def)
  show ?thesis
  proof (cases "check_deposits_verified st")
    case False
    with assms st show ?thesis by (auto simp: ecall_receive_bitcoins_def)
  next
    case True
    with assms Some st obtain m where m: "as_SendMsg p = Returns m"
      by (auto simp: ecall_receive_bitcoins_def)
    show ?thesis
    proof (cases "sm_monotoniccount m \<le> remote_last_seen st")
      case old: True
      with assms Some st m True show ?thesis by (auto simp: ecall_receive_bitcoins_def)
    next
      case False
      let ?e1 = "put_channel cid (credit m st) e"
      have "ledger_step g (ledger_of e) (ledger_of ?e1)"
        using True False ledger_step.paid [where count = "sm_monotoniccount m" and
            amount = "sm_amount m", OF acct_lookup [OF st]]
        by (simp add: ledger_of_put acct_of_def credit_def check_deposits_verified_def)
      moreover have "ledger_of e' = ledger_of ?e1"
        using assms Some st m True False
        by (auto simp: ecall_receive_bitcoins_def Let_def split_beta
            split: if_splits dest!: silent_with_user_output silent)
      ultimately show ?thesis by auto
    qed
  qed
qed

subsection \<open>Moving deposits\<close>

lemma silent_verify_deposit_ack [silent]:
  "verify_deposit_ack x k blob context e = Returns (r, e') \<Longrightarrow> ledger_of e' = ledger_of e"
  by (auto simp: verify_deposit_ack_def split: option.splits if_splits prod.splits dest!: silent)

lemma refines_add_deposit:
  assumes "ecall_add_deposit_to_channel x cid did e = Returns (r, e')"
  shows "ledger_steps g e e'"
proof -
  from assms obtain st where st: "om_get (channelStates e) cid = Some st"
    by (auto simp: ecall_add_deposit_to_channel_def)
  let ?s = "my_setup_transaction e"
  show ?thesis
  proof (cases "status st = Alive \<and> in_range did (deposit_ids_to_deposits ?s)
      \<and> \<not> is_deposit_spent ?s did \<and> \<not> is_deposit_in_use ?s did")
    case False
    with assms st show ?thesis
      by (auto simp: ecall_add_deposit_to_channel_def check_status_def in_range_def Let_def
          split: if_splits)
  next
    case True
    let ?st = "st\<lparr>my_balance := my_balance st
       + deposit_amount (deposit_at (deposit_ids_to_deposits ?s) did)\<rparr>"
    let ?e0 = "e\<lparr>my_setup_transaction := ?s\<lparr>
        deposit_ids_to_channels := om_put did cid (deposit_ids_to_channels ?s),
        deposit_ids_to_deposits := touch_deposit (deposit_ids_to_deposits ?s) did\<rparr>\<rparr>"
    let ?e1 = "set_user_output cid (deposit_moved_text ''Added'' did '' to channel '' cid ?st)
       (put_channel cid ?st ?e0)"
    have sync: "sync_then_send x cid (send_add_deposit_request x cid did)
        (\<lambda>n. (junk_BackupRequest x Add_Deposit_Request n)\<lparr>deposit_id_blocked_on := did\<rparr>) None ?e1
        = Returns (r, e')"
      using assms st True
      by (simp add: ecall_add_deposit_to_channel_def check_status_def in_range_def Let_def)
    have "ledger_of ?e0 = set_my_uses (om_put did cid (my_uses (ledger_of e)))
        (set_my_deposits (touch_deposit (my_deposits (ledger_of e)) did) (ledger_of e))"
      by (simp add: ledger_of_def set_my_uses_def set_my_deposits_def)
    then have "ledger_step g (ledger_of e) (ledger_of ?e1)"
      using True ledger_step.add [OF acct_lookup [OF st], of did]
      by (simp add: ledger_of_put acct_of_def)
    from steps_sync [OF this sync silent_requests(1)] show ?thesis .
  qed
qed

lemma refines_touch:
  assumes "ledger_of e' = set_my_deposits (touch_deposit (my_deposits (ledger_of e)) did) (ledger_of e)"
    and "in_range did (my_deposits (ledger_of e))"
  shows "ledger_steps g e e'"
  unfolding assms(1) by (rule r_into_rtranclp, rule ledger_step.touch, rule assms(2))

lemma refines_remove_deposit:
  assumes "ecall_remove_deposit_from_channel x cid did e = Returns (r, e')"
  shows "ledger_steps g e e'"
proof -
  from assms obtain st where st: "om_get (channelStates e) cid = Some st"
    by (auto simp: ecall_remove_deposit_from_channel_def)
  let ?s = "my_setup_transaction e"
  let ?amount = "deposit_amount (deposit_at (deposit_ids_to_deposits ?s) did)"
  let ?s1 = "?s\<lparr>deposit_ids_to_deposits := touch_deposit (deposit_ids_to_deposits ?s) did\<rparr>"
  show ?thesis
  proof (cases "status st = Alive \<and> in_range did (deposit_ids_to_deposits ?s)
      \<and> om_get (deposit_ids_to_channels ?s) did = Some cid")
    case False
    with assms st show ?thesis
      by (auto simp: ecall_remove_deposit_from_channel_def check_status_def in_range_def Let_def
          split: if_splits)
  next
    case True
    show ?thesis
    proof (cases "my_balance st < ?amount")
      case poor: True
      then have "e' = e\<lparr>my_setup_transaction := ?s1\<rparr>"
        using assms st True
        by (simp add: ecall_remove_deposit_from_channel_def check_status_def in_range_def Let_def)
      then show ?thesis
        using True by (intro refines_touch [where did = did])
          (simp_all add: ledger_of_def set_my_deposits_def)
    next
      case False
      let ?st = "st\<lparr>my_balance := my_balance st - ?amount\<rparr>"
      let ?e0 = "e\<lparr>my_setup_transaction := ?s1\<lparr>deposit_ids_to_channels :=
          om_del did (deposit_ids_to_channels ?s)\<rparr>\<rparr>"
      let ?e1 = "set_user_output cid (deposit_moved_text ''Removed'' did '' from channel '' cid ?st)
         (put_channel cid ?st ?e0)"
      have sync: "sync_then_send x cid (send_remove_deposit_request x cid did)
          (\<lambda>n. (junk_BackupRequest x Remove_Deposit_Request n)\<lparr>deposit_id_blocked_on := did\<rparr>) None ?e1
          = Returns (r, e')"
        using assms st True False
        by (simp add: ecall_remove_deposit_from_channel_def check_status_def in_range_def Let_def
            remove_deposit_from_channel_def)
      have "ledger_of ?e0 = set_my_uses (om_del did (my_uses (ledger_of e)))
          (set_my_deposits (touch_deposit (my_deposits (ledger_of e)) did) (ledger_of e))"
        by (simp add: ledger_of_def set_my_uses_def set_my_deposits_def)
      then have "ledger_step g (ledger_of e) (ledger_of ?e1)"
        using True False ledger_step.remove [OF acct_lookup [OF st], of did]
        by (simp add: ledger_of_put acct_of_def)
      from steps_sync [OF this sync silent_requests(2)] show ?thesis .
    qed
  qed
qed

text \<open>The guard the code misses: the deposit that a message adds is not in the channel yet.\<close>

definition remote_deposit_fresh :: "ext \<Rightarrow> string \<Rightarrow> nat \<Rightarrow> enclave \<Rightarrow> bool" where
  "remote_deposit_fresh x blob context e =
     (case check_and_decrypt_message x blob context sizeof_DepositMsg of
        Some (P_Deposit m) \<Rightarrow>
          (case om_get (channelStates e) (dm_channel_id m) of
             Some st \<Rightarrow> om_get (deposit_ids_to_channels (remote_setup_transaction st))
               (dm_deposit_id m) = None
           | None \<Rightarrow> True)
      | _ \<Rightarrow> True)"

lemma remote_deposit_freshD:
  assumes "remote_deposit_fresh x blob context e"
    and "check_and_decrypt_message x blob context sizeof_DepositMsg = Some p"
    and "as_DepositMsg p = Returns m" and "om_get (channelStates e) (dm_channel_id m) = Some st"
  shows "om_get (deposit_ids_to_channels (remote_setup_transaction st)) (dm_deposit_id m) = None"
  using assms by (cases p) (simp_all add: remote_deposit_fresh_def as_DepositMsg_def)

lemma refines_add_remote_deposit:
  assumes "ecall_add_remote_deposit_to_channel x blob context e = Returns (r, e')"
    and fresh: "g \<Longrightarrow> remote_deposit_fresh x blob context e"
  shows "ledger_steps g e e'"
proof (cases "check_and_decrypt_message x blob context sizeof_DepositMsg")
  case None
  with assms(1) show ?thesis by (auto simp: ecall_add_remote_deposit_to_channel_def)
next
  case (Some p)
  from assms(1) Some obtain m where m: "as_DepositMsg p = Returns m"
    by (auto simp: ecall_add_remote_deposit_to_channel_def)
  show ?thesis
  proof (cases "dm_deposit_operation m = ADD_DEPOSIT")
    case False
    with assms(1) Some m show ?thesis by (auto simp: ecall_add_remote_deposit_to_channel_def)
  next
    case True
    let ?cid = "dm_channel_id m" and ?did = "dm_deposit_id m"
    from assms(1) Some m True obtain st where st: "om_get (channelStates e) ?cid = Some st"
      by (auto simp: ecall_add_remote_deposit_to_channel_def Let_def)
    let ?r = "remote_setup_transaction st"
    show ?thesis
    proof (cases "in_range ?did (deposit_ids_to_deposits ?r)")
      case False
      with assms(1) Some m True st show ?thesis
        by (auto simp: ecall_add_remote_deposit_to_channel_def Let_def in_range_def)
    next
      case ok: True
      let ?st = "st\<lparr>remote_setup_transaction := ?r
          \<lparr>deposit_ids_to_channels := om_put ?did ?cid (deposit_ids_to_channels ?r),
           deposit_ids_to_deposits := touch_deposit (deposit_ids_to_deposits ?r) ?did\<rparr>,
          remote_balance := remote_balance st
            + deposit_amount (deposit_at (deposit_ids_to_deposits ?r) ?did)\<rparr>"
      have sync: "sync_then_send x ?cid (send_add_deposit_ack x ?cid (dm_nonce m) ?did)
          (\<lambda>n. (junk_BackupRequest x Add_Deposit_Ack n)\<lparr>deposit_id_blocked_on := ?did\<rparr>)
          (Some (dm_nonce m)) (put_channel ?cid ?st e) = Returns (r, e')"
        using assms(1) Some m True st ok
        by (simp add: ecall_add_remote_deposit_to_channel_def Let_def in_range_def)
      have "ledger_step g (ledger_of e) (ledger_of (put_channel ?cid ?st e))"
        using ok ledger_step.remote_add [OF acct_lookup [OF st], of ?did g]
          remote_deposit_freshD [OF fresh Some m st]
        by (simp add: ledger_of_put acct_of_def with_remote_uses_def)
      from steps_sync_ack [OF this sync steps_deposit_acks(1)] show ?thesis .
    qed
  qed
qed

lemma refines_remove_remote_deposit:
  assumes "ecall_remove_remote_deposit_from_channel x blob context e = Returns (r, e')"
  shows "ledger_steps g e e'"
proof (cases "check_and_decrypt_message x blob context sizeof_DepositMsg")
  case None
  with assms show ?thesis by (auto simp: ecall_remove_remote_deposit_from_channel_def)
next
  case (Some p)
  from assms Some obtain m where m: "as_DepositMsg p = Returns m"
    by (auto simp: ecall_remove_remote_deposit_from_channel_def)
  show ?thesis
  proof (cases "dm_deposit_operation m = REMOVE_DEPOSIT")
    case False
    with assms Some m show ?thesis by (auto simp: ecall_remove_remote_deposit_from_channel_def)
  next
    case True
    let ?cid = "dm_channel_id m" and ?did = "dm_deposit_id m"
    from assms Some m True obtain st where st: "om_get (channelStates e) ?cid = Some st"
      by (auto simp: ecall_remove_remote_deposit_from_channel_def Let_def)
    let ?r = "remote_setup_transaction st"
    show ?thesis
    proof (cases "in_range ?did (deposit_ids_to_deposits ?r)
        \<and> om_get (deposit_ids_to_channels ?r) ?did = Some ?cid")
      case False
      with assms Some m True st show ?thesis
        by (auto simp: ecall_remove_remote_deposit_from_channel_def Let_def in_range_def
            split: if_splits)
    next
      case ok: True
      let ?st = "st\<lparr>remote_setup_transaction := ?r
          \<lparr>deposit_ids_to_channels := om_del ?did (deposit_ids_to_channels ?r),
           deposit_ids_to_deposits := touch_deposit (deposit_ids_to_deposits ?r) ?did\<rparr>,
          remote_balance := remote_balance st
            - deposit_amount (deposit_at (deposit_ids_to_deposits ?r) ?did)\<rparr>"
      have sync: "sync_then_send x ?cid (send_remove_deposit_ack x ?cid (dm_nonce m) ?did)
          (\<lambda>n. (junk_BackupRequest x Remove_Deposit_Ack n)\<lparr>deposit_id_blocked_on := ?did\<rparr>)
          (Some (dm_nonce m)) (put_channel ?cid ?st e) = Returns (r, e')"
        using assms Some m True st ok
        by (simp add: ecall_remove_remote_deposit_from_channel_def Let_def in_range_def
            remove_deposit_from_channel_def)
      have "ledger_step g (ledger_of e) (ledger_of (put_channel ?cid ?st e))"
        using ok ledger_step.remote_remove [OF acct_lookup [OF st], of ?did]
        by (simp add: ledger_of_put acct_of_def with_remote_uses_def)
      from steps_sync_ack [OF this sync steps_deposit_acks(2)] show ?thesis .
    qed
  qed
qed

subsection \<open>Settlement\<close>

lemma refines_settle_channel:
  assumes "settle x cid out e = Returns (out', e')"
  shows "ledger_steps g e e'"
proof (cases "check_state e Backup")
  case True
  with assms show ?thesis by (auto simp: settle_def)
next
  case False
  with assms obtain st where st: "om_get (channelStates e) cid = Some st"
    and e': "e' = put_channel cid (st\<lparr>status := Settled\<rparr>) e"
    by (auto simp: settle_def)
  have "ledger_of e' = upd_acct cid ((acct_of st)\<lparr>a_status := Settled\<rparr>) (ledger_of e)"
    unfolding e' by (simp add: ledger_of_put acct_of_def)
  then show ?thesis
    using False ledger_step.settled [OF acct_lookup [OF st]]
    by (auto simp: check_state_def)
qed

lemma refines_settle:
  assumes "ecall_settle x cid e = Returns (r, e')"
  shows "ledger_steps g e e'"
  using assms refines_settle_channel [of x cid "''''" e]
  by (auto simp: ecall_settle_def split: if_splits)

lemma refines_return:
  assumes "return_deposits x out e = Returns (ok, out', e')" and "check_state e Funded \<or> check_state e Backup"
  shows "ledger_steps g e e'"
proof (cases "e' = e")
  case True
  then show ?thesis by simp
next
  case False
  then have nb: "\<not> check_state e Backup"
    using assms(1) by (auto simp: return_deposits_def Let_def split: if_splits)
  let ?s = "my_setup_transaction e"
  have "e' = mark_unused_deposits_spent
      (find_unused_deposits (deposit_ids_to_deposits ?s) (deposit_ids_to_channels ?s)) e"
    using assms(1) nb False by (auto simp: return_deposits_def Let_def split: if_splits)
  then have "ledger_of e' = set_my_deposits (mark_deposits_spent
      (find_unused_deposits (my_deposits (ledger_of e)) (my_uses (ledger_of e)))
      (my_deposits (ledger_of e))) (ledger_of e)"
    by (simp add: ledger_of_def set_my_deposits_def mark_unused_deposits_spent_def)
  moreover have "l_state (ledger_of e) = Funded"
    using assms(2) nb by (simp add: check_state_def)
  ultimately show ?thesis
    using ledger_step.return_unused [of "ledger_of e"] by auto
qed

lemma refines_return_deposits:
  assumes "ecall_return_deposits x e = Returns (r, e')"
  shows "ledger_steps g e e'"
  using assms refines_return [of x "''''" e]
  by (auto simp: ecall_return_deposits_def split: if_splits)

lemma refines_settle_channels:
  "settle_channels x cids out e = Returns (out', e') \<Longrightarrow> ledger_steps g e e'"
proof (induction cids arbitrary: out e)
  case Nil
  then show ?case by simp
next
  case (Cons cid cids)
  then show ?case
    by (auto split: if_splits dest!: refines_settle_channel intro: rtranclp_trans)
qed

lemma refines_shutdown:
  assumes "ecall_shutdown x e = Returns (r, e')"
  shows "ledger_steps g e e'"
proof (cases "check_state e Backup \<or> check_state e Funded")
  case False
  with assms show ?thesis by (auto simp: ecall_shutdown_def)
next
  case True
  with assms obtain ok out e1 cids out' where
      "return_deposits x '''' e = Returns (ok, out, e1)"
      "settle_channels x cids out e1 = Returns (out', e')"
    by (auto simp: ecall_shutdown_def)
  then show ?thesis
    using True refines_return refines_settle_channels by (blast intro: rtranclp_trans)
qed

section \<open>The entry points of \<open>backups.cpp\<close>\<close>

lemma silent_update_channel_data [silent]:
  "update_channel_data m e = Returns (b, e') \<Longrightarrow> ledger_of e' = ledger_of e"
  by (auto simp: update_channel_data_def Let_def)

lemma silent_touch_request:
  assumes "om_get (channelStates e) cid = Some st"
  shows "ledger_of (put_channel cid (st\<lparr>backup_requests := q\<rparr>) e) = ledger_of e"
    and "ledger_of (put_channel cid (st\<lparr>unsynced_bitcoin_amount := u\<rparr>) e) = ledger_of e"
    and "ledger_of (put_channel cid (st\<lparr>most_recent_nonce := n\<rparr>) e) = ledger_of e"
  using assms by (auto intro: ledger_of_put_same)

lemma refines_release:
  assumes "release_blocked_request x b req e = Returns (r, e')"
  shows "ledger_steps g e e'"
proof (cases "request_blocked_on req \<in> {Add_Deposit_Ack, Remove_Deposit_Ack}")
  case True
  with assms show ?thesis by (auto simp: release_blocked_request_def intro: steps_deposit_acks)
next
  case False
  with assms show ?thesis
    by (auto simp: release_blocked_request_def split: BackupBlockRequest.splits dest!: silent)
qed

lemma silent_verify_backup_removed [silent]:
  "ecall_verify_backup_removed x blob context e = Returns (r, e') \<Longrightarrow> ledger_of e' = ledger_of e"
  by (auto simp: ecall_verify_backup_removed_def split: option.splits if_splits)

lemma silent_remove_remote_backup [silent]:
  "ecall_remove_remote_backup x blob context e = Returns (r, e') \<Longrightarrow> ledger_of e' = ledger_of e"
  by (auto simp: ecall_remove_remote_backup_def Let_def split: option.splits if_splits)

lemma silent_remove_backup [silent]:
  assumes "ecall_remove_backup x cid e = Returns (r, e')"
  shows "ledger_of e' = ledger_of e"
proof (cases "check_state e Backup \<and> \<not> have_backup e \<and> cid = next_backup_channel_id e")
  case False
  with assms show ?thesis by (auto simp: ecall_remove_backup_def split: if_splits)
next
  case True
  let ?e2 = "snd (generate_random_nonce x (e\<lparr>next_backup_channel_id := ''''\<rparr>))"
  from assms True obtain st n where st: "om_get (channelStates ?e2) cid = Some st"
    and "e' = put_channel cid (st\<lparr>most_recent_nonce := n\<rparr>) ?e2"
    by (auto simp: ecall_remove_backup_def Let_def split_beta split: option.splits)
  then show ?thesis by (simp add: silent_touch_request(3) [OF st])
qed

lemma silent_get_backup_data [silent]:
  "ecall_get_backup_data_encrypted x cid e = Returns (r, e') \<Longrightarrow> ledger_of e' = ledger_of e"
  by (auto simp: ecall_get_backup_data_encrypted_def Let_def split_beta
      split: option.splits if_splits)

lemma silent_store_backup_data [silent]:
  "ecall_store_encrypted_backup_data x blob context e = Returns (r, e') \<Longrightarrow>
     ledger_of e' = ledger_of e"
  by (auto simp: ecall_store_encrypted_backup_data_def Let_def split: option.splits if_splits
      dest!: silent)

lemma silent_store_channel_update [silent]:
  "ecall_store_encrypted_channel_update_data x blob context e = Returns (r, e') \<Longrightarrow>
     ledger_of e' = ledger_of e"
  by (auto simp: ecall_store_encrypted_channel_update_data_def Let_def
      split: option.splits if_splits dest!: silent)

lemma silent_verify_channel_update [silent]:
  "ecall_verify_channel_update_stored x blob context e = Returns (r, e') \<Longrightarrow>
     ledger_of e' = ledger_of e"
  by (auto simp: ecall_verify_channel_update_stored_def Let_def silent_touch_request
      split: if_splits dest!: silent)

lemma refines_verify_backup_stored:
  assumes "ecall_verify_backup_stored x blob context e = Returns (r, e')"
  shows "ledger_steps g e e'"
proof -
  have "ledger_of e' = ledger_of e \<or> (\<exists>b req e1. ledger_of e1 = ledger_of e
      \<and> release_blocked_request x b req e1 = Returns (r, e'))"
    using assms
    by (fastforce simp: ecall_verify_backup_stored_def Let_def silent_touch_request
        split: if_splits option.splits dest!: silent)
  then show ?thesis using refines_release by (metis steps_silent)
qed

end
