(* ===== verification/Teechain_Exchange.thy ===== *)
theory Teechain_Exchange
  imports Teechain_Refinement
begin

text \<open>
  The two encodings of deposits in messages: the one a new channel starts with
  (\<open>ecall_get_deposit_data_encrypted\<close>, \<open>ecall_store_encrypted_deposit_data\<close>) and the one a primary
  sends to its backup. What the receiver reads is what the sender wrote, slot by slot; only
  \<open>is_spent\<close> is lost. More deposits than a message has slots are written past its arrays.
\<close>

section \<open>Slots of a buffer\<close>

definition slot :: "nat \<Rightarrow> nat \<Rightarrow> string \<Rightarrow> string" where
  "slot i n buf = take n (drop (i * n) buf)"

lemma blit_Returns:
  "blit off s buf = Returns b \<longleftrightarrow>
     off + length s \<le> length buf \<and> b = take off buf @ s @ drop (off + length s) buf"
  by (auto simp: blit_def)

lemma slot_end: "i * n + n \<le> k * n" if "i < (k::nat)"
proof -
  have "Suc i * n \<le> k * n" using that by (intro mult_le_mono1) simp
  then show ?thesis by simp
qed

lemma blit_slot_same:
  assumes "blit (i * n) s buf = Returns b"
  shows "take (length s) (drop (i * n) b) = s"
  using assms by (auto simp: blit_Returns)

lemma blit_slot_other:
  assumes "blit (i * n) s buf = Returns b" and "length s \<le> n" and "j \<noteq> i"
  shows "slot j n b = slot j n buf"
proof (cases "j < i")
  case True
  have "j * n + n \<le> i * n" by (rule slot_end [OF True])
  moreover have "i * n \<le> length buf" using assms(1) by (simp add: blit_Returns)
  ultimately show ?thesis
    using assms(1) by (simp add: blit_Returns slot_def take_drop min_def)
next
  case False
  then have "i * n + n \<le> j * n" using assms(3) by (intro slot_end) simp
  then have *: "i * n + length s \<le> j * n" using assms(2) by simp
  let ?pre = "take (i * n) buf @ s" and ?k = "i * n + length s"
  have "b = ?pre @ drop ?k buf" and "length ?pre = ?k"
    using assms(1) by (auto simp: blit_Returns)
  then have "drop (j * n) b = drop (j * n - ?k) (drop ?k buf)" using * False by simp
  also have "\<dots> = drop (j * n) buf" using * by simp
  finally have "drop (j * n) b = drop (j * n) buf" .
  then show ?thesis by (simp add: slot_def)
qed

lemma slot_exact: "length s = n \<Longrightarrow> blit (i * n) s buf = Returns b \<Longrightarrow> slot i n b = s"
  using blit_slot_same [of i n s buf b] by (simp add: slot_def)

lemma string_from_slot:
  "(i + 1) * n \<le> length buf \<Longrightarrow> string_from (drop (i * n) buf) n = Returns (slot i n buf)"
  by (auto simp: string_from_def slot_def)

lemma array_set_Returns:
  "array_set n i v xs = Returns ys \<longleftrightarrow> i < n \<and> ys = xs[i := v]"
  by (auto simp: array_set_def)

section \<open>The first message of a channel\<close>

definition message_shape :: "CreateChannelMsg \<Rightarrow> bool" where
  "message_shape m \<longleftrightarrow>
     length (cc_txids m) = MAX_NUM_SETUP_DEPOSITS * BITCOIN_TX_HASH_LEN
   \<and> length (cc_tx_indexes m) = MAX_NUM_SETUP_DEPOSITS
   \<and> length (cc_deposit_amounts m) = MAX_NUM_SETUP_DEPOSITS
   \<and> length (cc_deposit_script_lengths m) = MAX_NUM_SETUP_DEPOSITS
   \<and> length (cc_deposit_scripts m) = MAX_NUM_SETUP_DEPOSITS * MAX_BITCOIN_TX_SCRIPT_LEN
   \<and> length (cc_deposit_bitcoin_addresses m) = MAX_NUM_SETUP_DEPOSITS * BITCOIN_ADDRESS_LEN
   \<and> length (cc_deposit_public_keys m) = MAX_NUM_SETUP_DEPOSITS * BITCOIN_PUBLIC_KEY_LEN
   \<and> length (cc_deposit_private_keys m) = MAX_NUM_SETUP_DEPOSITS * BITCOIN_PRIVATE_KEY_LEN"

definition deposit_shape :: "Deposit \<Rightarrow> bool" where
  "deposit_shape d \<longleftrightarrow> length (txid d) = BITCOIN_TX_HASH_LEN
     \<and> length (bitcoin_address d) = BITCOIN_ADDRESS_LEN
     \<and> length (public_key d) = BITCOIN_PUBLIC_KEY_LEN
     \<and> length (private_key d) = BITCOIN_PRIVATE_KEY_LEN
     \<and> length (script d) \<le> MAX_BITCOIN_TX_SCRIPT_LEN"

text \<open>What slot \<open>i\<close> of a message says.\<close>

definition slot_holds :: "CreateChannelMsg \<Rightarrow> nat \<Rightarrow> Deposit \<Rightarrow> bool" where
  "slot_holds m i d \<longleftrightarrow> deposit_shape d
     \<and> slot i BITCOIN_TX_HASH_LEN (cc_txids m) = txid d
     \<and> cc_tx_indexes m ! i = tx_index d \<and> cc_deposit_amounts m ! i = deposit_amount d
     \<and> cc_deposit_script_lengths m ! i = of_nat (length (script d))
     \<and> take (length (script d)) (slot i MAX_BITCOIN_TX_SCRIPT_LEN (cc_deposit_scripts m)) = script d
     \<and> slot i BITCOIN_ADDRESS_LEN (cc_deposit_bitcoin_addresses m) = bitcoin_address d
     \<and> slot i BITCOIN_PUBLIC_KEY_LEN (cc_deposit_public_keys m) = public_key d
     \<and> slot i BITCOIN_PRIVATE_KEY_LEN (cc_deposit_private_keys m) = private_key d"

lemma put_deposit_dataE:
  assumes "put_deposit_data ds i m = Returns m'" and "deposit_shape (deposit_at ds (of_nat i))"
  obtains txs scs addrs pks sks where
    "i < MAX_NUM_SETUP_DEPOSITS"
    "blit (i * BITCOIN_TX_HASH_LEN) (txid (deposit_at ds (of_nat i))) (cc_txids m) = Returns txs"
    "blit (i * MAX_BITCOIN_TX_SCRIPT_LEN) (script (deposit_at ds (of_nat i))) (cc_deposit_scripts m)
       = Returns scs"
    "blit (i * BITCOIN_ADDRESS_LEN) (bitcoin_address (deposit_at ds (of_nat i)))
       (cc_deposit_bitcoin_addresses m) = Returns addrs"
    "blit (i * BITCOIN_PUBLIC_KEY_LEN) (public_key (deposit_at ds (of_nat i)))
       (cc_deposit_public_keys m) = Returns pks"
    "blit (i * BITCOIN_PRIVATE_KEY_LEN) (private_key (deposit_at ds (of_nat i)))
       (cc_deposit_private_keys m) = Returns sks"
    "m' = m\<lparr>cc_txids := txs,
       cc_tx_indexes := (cc_tx_indexes m)[i := tx_index (deposit_at ds (of_nat i))],
       cc_deposit_amounts := (cc_deposit_amounts m)[i := deposit_amount (deposit_at ds (of_nat i))],
       cc_deposit_script_lengths := (cc_deposit_script_lengths m)
         [i := of_nat (length (script (deposit_at ds (of_nat i))))],
       cc_deposit_scripts := scs, cc_deposit_bitcoin_addresses := addrs,
       cc_deposit_public_keys := pks, cc_deposit_private_keys := sks\<rparr>"
  using assms
  by (auto simp: put_deposit_data_def deposit_shape_def Let_def array_set_Returns)

lemma put_deposit_data_shape:
  assumes "put_deposit_data ds i m = Returns m'" and "deposit_shape (deposit_at ds (of_nat i))"
    and "message_shape m"
  shows "message_shape m'"
  by (rule put_deposit_dataE [OF assms(1,2)])
    (use assms(3) in \<open>simp add: message_shape_def blit_length\<close>)

lemma put_deposit_data_same:
  assumes "put_deposit_data ds i m = Returns m'" and "deposit_shape (deposit_at ds (of_nat i))"
    and "message_shape m"
  shows "slot_holds m' i (deposit_at ds (of_nat i))"
proof -
  let ?d = "deposit_at ds (of_nat i)"
  from assms(2) have len: "length (txid ?d) = BITCOIN_TX_HASH_LEN"
      "length (bitcoin_address ?d) = BITCOIN_ADDRESS_LEN"
      "length (public_key ?d) = BITCOIN_PUBLIC_KEY_LEN"
      "length (private_key ?d) = BITCOIN_PRIVATE_KEY_LEN"
      "length (script ?d) \<le> MAX_BITCOIN_TX_SCRIPT_LEN"
    by (simp_all add: deposit_shape_def)
  show ?thesis
    by (rule put_deposit_dataE [OF assms(1,2)])
      (use assms(2,3) in \<open>simp add: slot_holds_def message_shape_def slot_exact [OF len(1)]
        slot_exact [OF len(2)] slot_exact [OF len(3)] slot_exact [OF len(4)] blit_slot_same
        slot_def [of _ MAX_BITCOIN_TX_SCRIPT_LEN] min_absorb1 [OF len(5)]\<close>)
qed

lemma put_deposit_data_other:
  assumes "put_deposit_data ds i m = Returns m'" and "deposit_shape (deposit_at ds (of_nat i))"
    and "j \<noteq> i" and "slot_holds m j d"
  shows "slot_holds m' j d"
proof -
  let ?d = "deposit_at ds (of_nat i)"
  from assms(2) have len: "length (txid ?d) \<le> BITCOIN_TX_HASH_LEN"
      "length (bitcoin_address ?d) \<le> BITCOIN_ADDRESS_LEN"
      "length (public_key ?d) \<le> BITCOIN_PUBLIC_KEY_LEN"
      "length (private_key ?d) \<le> BITCOIN_PRIVATE_KEY_LEN"
      "length (script ?d) \<le> MAX_BITCOIN_TX_SCRIPT_LEN"
    by (simp_all add: deposit_shape_def)
  show ?thesis
    by (rule put_deposit_dataE [OF assms(1,2)])
      (use assms(3,4) in \<open>simp add: slot_holds_def blit_slot_other [OF _ len(1)]
        blit_slot_other [OF _ len(2)] blit_slot_other [OF _ len(3)] blit_slot_other [OF _ len(4)]
        blit_slot_other [OF _ len(5)]\<close>)
qed

lemma put_all_deposits:
  assumes "foldo (put_deposit_data ds) [0..<n] m = Returns m'" and "message_shape m"
    and "\<forall>i < n. deposit_shape (deposit_at ds (of_nat i))"
  shows "message_shape m' \<and> n \<le> MAX_NUM_SETUP_DEPOSITS
    \<and> (\<forall>i < n. slot_holds m' i (deposit_at ds (of_nat i)))"
  using assms(1,3)
proof (induction n arbitrary: m')
  case 0
  with assms(2) show ?case by simp
next
  case (Suc n)
  then obtain m1 where 1: "foldo (put_deposit_data ds) [0..<n] m = Returns m1"
    and 2: "put_deposit_data ds n m1 = Returns m'"
    by (auto simp: foldo_append)
  have ok: "deposit_shape (deposit_at ds (of_nat n))" using Suc.prems(2) by simp
  have ih: "message_shape m1" "\<forall>i < n. slot_holds m1 i (deposit_at ds (of_nat i))"
    using Suc.IH [OF 1] Suc.prems(2) by auto
  have "n < MAX_NUM_SETUP_DEPOSITS" by (rule put_deposit_dataE [OF 2 ok])
  then show ?case
    using put_deposit_data_shape [OF 2 ok ih(1)] put_deposit_data_same [OF 2 ok ih(1)]
      put_deposit_data_other [OF 2 ok] ih(2)
    by (auto simp: less_Suc_eq)
qed

lemma get_deposit_data_slot:
  assumes "slot_holds m i d" and "message_shape m" and "i < MAX_NUM_SETUP_DEPOSITS"
  shows "get_deposit_data x m i = Returns (d\<lparr>is_spent := x_junk_bool x\<rparr>)"
proof -
  let ?sc = "drop (i * MAX_BITCOIN_TX_SCRIPT_LEN) (cc_deposit_scripts m)"
  have fits: "(i + 1) * n \<le> MAX_NUM_SETUP_DEPOSITS * n" for n
    using assms(3) by (intro mult_le_mono1) simp
  have small: "length (script d) \<le> MAX_BITCOIN_TX_SCRIPT_LEN"
    using assms(1) by (simp add: slot_holds_def deposit_shape_def)
  then have len: "unat (of_nat (length (script d)) :: u64) = length (script d)"
    by (simp add: unat_of_nat MAX_BITCOIN_TX_SCRIPT_LEN_def)
  have "(i + 1) * MAX_BITCOIN_TX_SCRIPT_LEN \<le> length (cc_deposit_scripts m)"
    using assms(2) fits by (simp add: message_shape_def)
  then have "string_from ?sc (length (script d)) = Returns (take (length (script d)) ?sc)"
    using small by (auto simp: string_from_def)
  moreover have "take (length (script d)) ?sc = script d"
    using assms(1) small by (simp add: slot_holds_def slot_def min_absorb1)
  ultimately have sc: "string_from ?sc (length (script d)) = Returns (script d)" by simp
  show ?thesis
    using assms fits
    by (simp add: get_deposit_data_def slot_holds_def message_shape_def string_from_slot
        array_get_def len sc)
qed

text \<open>The table a receiver builds: the sender's, with \<open>is_spent\<close> whatever the memory held.\<close>

definition received_deposits :: "bool \<Rightarrow> (u64, Deposit) omap \<Rightarrow> (u64, Deposit) omap" where
  "received_deposits b ds = map (\<lambda>p. (fst p, (snd p)\<lparr>is_spent := b\<rparr>)) ds"

lemma contiguous_nth:
  assumes "contiguous ds" and "i < length ds"
  shows "ds ! i = (of_nat i, deposit_at ds (of_nat i))"
proof -
  have "om_keys ds ! i = of_nat i" using assms by (simp add: contiguous_def)
  then have k: "fst (ds ! i) = of_nat i" using assms(2) by (simp add: om_keys_def)
  have "om_get ds (of_nat i) = Some (snd (ds ! i))"
    using om_get_Some_iff [OF contiguous_ok [OF assms(1)]] nth_mem [OF assms(2)] k
    by (metis prod.collapse)
  with k show ?thesis by (simp add: deposit_at_def prod_eq_iff)
qed

lemma received_snoc:
  assumes "contiguous ds" and "Suc n \<le> length ds"
  shows "om_put (of_nat n) ((deposit_at ds (of_nat n))\<lparr>is_spent := b\<rparr>) (received_deposits b (take n ds))
    = received_deposits b (take (Suc n) ds)"
proof -
  have "n < length ds" using assms(2) by simp
  have "take (Suc n) ds = take n ds @ [(of_nat n, deposit_at ds (of_nat n))]"
    using contiguous_nth [OF assms(1) \<open>n < length ds\<close>] \<open>n < length ds\<close>
    by (simp add: take_Suc_conv_app_nth)
  moreover have "om_keys (received_deposits b (take n ds)) = map of_nat [0..<n]"
  proof -
    have "om_keys (received_deposits b (take n ds)) = take n (om_keys ds)"
      by (simp add: om_keys_def received_deposits_def take_map o_def)
    then show ?thesis using assms by (simp add: contiguous_def take_map)
  qed
  moreover have "\<forall>a \<in> set (map of_nat [0..<n]). a < (of_nat n :: u64)"
    using assms by (auto simp: contiguous_def intro: of_nat_less_u64)
  ultimately show ?thesis by (simp add: om_put_last received_deposits_def)
qed

lemma store_one_deposit_put:
  "get_deposit_data x m i = Returns d \<Longrightarrow>
     \<exists>t. store_one_deposit x m i acc = Returns (t, om_put (of_nat i) d (snd acc))"
  by (simp add: store_one_deposit_def)

lemma store_all_deposits:
  assumes "contiguous ds" and "n \<le> length ds"
    and "\<forall>i < n. get_deposit_data x m i = Returns ((deposit_at ds (of_nat i))\<lparr>is_spent := x_junk_bool x\<rparr>)"
  shows "\<exists>out'. foldo (store_one_deposit x m) [0..<n] (out, om_empty)
    = Returns (out', received_deposits (x_junk_bool x) (take n ds))"
  using assms(2,3)
proof (induction n)
  case 0
  then show ?case by (simp add: received_deposits_def)
next
  case (Suc n)
  then obtain out' where "foldo (store_one_deposit x m) [0..<n] (out, om_empty)
      = Returns (out', received_deposits (x_junk_bool x) (take n ds))" by auto
  moreover have "get_deposit_data x m n
      = Returns ((deposit_at ds (of_nat n))\<lparr>is_spent := x_junk_bool x\<rparr>)"
    using Suc.prems(2) by simp
  ultimately show ?case
    using store_one_deposit_put [of x m n _ "(out', received_deposits (x_junk_bool x) (take n ds))"]
      received_snoc [OF assms(1) Suc.prems(1)]
    by (auto simp: foldo_append)
qed

lemma message_shape_junk: "message_shape ((junk_CreateChannelMsg x)\<lparr>cc_channel_id := c,
    cc_bitcoin_address := a, cc_num_deposits := n\<rparr>)"
  by (simp add: junk_CreateChannelMsg_def message_shape_def Let_def)

lemma put_deposit_data_header:
  "put_deposit_data ds i m = Returns m' \<Longrightarrow> cc_channel_id m' = cc_channel_id m
     \<and> cc_bitcoin_address m' = cc_bitcoin_address m \<and> cc_num_deposits m' = cc_num_deposits m"
  by (auto simp: put_deposit_data_def Let_def)

lemma put_all_header:
  "foldo (put_deposit_data ds) is m = Returns m' \<Longrightarrow> cc_channel_id m' = cc_channel_id m
     \<and> cc_bitcoin_address m' = cc_bitcoin_address m \<and> cc_num_deposits m' = cc_num_deposits m"
  by (induction "is" arbitrary: m) (auto dest: put_deposit_data_header)

lemma exchange_deposits:
  assumes "create_channel_message x cid s = Returns m"
    and "contiguous (deposit_ids_to_deposits s)"
    and "\<forall>k d. om_get (deposit_ids_to_deposits s) k = Some d \<longrightarrow> deposit_shape d"
  shows "\<exists>out'. foldo (store_one_deposit x' m) [0..<unat (cc_num_deposits m)] (out, om_empty)
    = Returns (out', received_deposits (x_junk_bool x') (deposit_ids_to_deposits s))"
    and "cc_channel_id m = take CHANNEL_ID_LEN cid"
proof -
  let ?ds = "deposit_ids_to_deposits s" and ?n = "length (deposit_ids_to_deposits s)"
  from assms(1) obtain c addr where c: "string_from cid CHANNEL_ID_LEN = Returns c"
    and loop: "foldo (put_deposit_data ?ds) [0..<?n] ((junk_CreateChannelMsg x)\<lparr>cc_channel_id := c,
        cc_bitcoin_address := addr, cc_num_deposits := of_nat ?n\<rparr>) = Returns m"
    by (auto simp: create_channel_message_def Let_def)
  have "deposit_shape (deposit_at ?ds (of_nat i))" if "i < ?n" for i
  proof -
    have "om_get ?ds (of_nat i) = Some (deposit_at ?ds (of_nat i))"
      using om_get_Some_iff [OF contiguous_ok [OF assms(2)]] nth_mem [OF that]
        contiguous_nth [OF assms(2) that] by metis
    then show ?thesis using assms(3) by blast
  qed
  with put_all_deposits [OF loop message_shape_junk] have
      m: "message_shape m" "?n \<le> MAX_NUM_SETUP_DEPOSITS" "\<forall>i < ?n. slot_holds m i (deposit_at ?ds (of_nat i))"
    by auto
  have "unat (cc_num_deposits m) = ?n"
    using put_all_header [OF loop] assms(2) by (simp add: contiguous_def unat_of_nat)
  moreover have "\<forall>i < ?n. get_deposit_data x' m i
      = Returns ((deposit_at ?ds (of_nat i))\<lparr>is_spent := x_junk_bool x'\<rparr>)"
    using m get_deposit_data_slot by auto
  ultimately show "\<exists>out'. foldo (store_one_deposit x' m) [0..<unat (cc_num_deposits m)] (out, om_empty)
      = Returns (out', received_deposits (x_junk_bool x') ?ds)"
    using store_all_deposits [OF assms(2), of ?n x' m] by simp
  show "cc_channel_id m = take CHANNEL_ID_LEN cid"
    using put_all_header [OF loop] c by (auto simp: string_from_def split: if_splits)
qed

text \<open>A message has room for ten deposits; one more is written past the end of its arrays.\<close>

lemma bindo_never_ends: "m \<noteq> Terminated \<Longrightarrow> (\<And>v. f v \<noteq> Terminated) \<Longrightarrow> bindo m f \<noteq> Terminated"
  by (cases m) auto

lemma copies_never_end [simp]:
  "memcpy_str s n \<noteq> Terminated" "blit off s buf \<noteq> Terminated" "array_set n i v xs \<noteq> Terminated"
  "string_from s n \<noteq> Terminated"
  by (simp_all add: memcpy_str_def blit_def array_set_def string_from_def)

lemma put_deposit_data_never_ends: "put_deposit_data ds i m \<noteq> Terminated"
  by (simp add: put_deposit_data_def Let_def bindo_never_ends)

lemma put_all_never_ends: "foldo (put_deposit_data ds) is m \<noteq> Terminated"
  by (induction "is" arbitrary: m) (simp_all add: bindo_never_ends put_deposit_data_never_ends)

lemma too_many_deposits:
  assumes "MAX_NUM_SETUP_DEPOSITS < length (deposit_ids_to_deposits s)"
    and "\<forall>i < length (deposit_ids_to_deposits s).
      deposit_shape (deposit_at (deposit_ids_to_deposits s) (of_nat i))"
  shows "create_channel_message x cid s = Undefined"
proof -
  have "create_channel_message x cid s \<noteq> Terminated"
    by (simp add: create_channel_message_def Let_def bindo_never_ends put_all_never_ends)
  moreover have "create_channel_message x cid s \<noteq> Returns m" for m
  proof
    assume "create_channel_message x cid s = Returns m"
    then obtain c addr where "foldo (put_deposit_data (deposit_ids_to_deposits s))
        [0..<length (deposit_ids_to_deposits s)] ((junk_CreateChannelMsg x)\<lparr>cc_channel_id := c,
        cc_bitcoin_address := addr,
        cc_num_deposits := of_nat (length (deposit_ids_to_deposits s))\<rparr>) = Returns m"
      by (auto simp: create_channel_message_def Let_def)
    from put_all_deposits [OF this message_shape_junk assms(2)] assms(1) show False by simp
  qed
  ultimately show ?thesis by (cases "create_channel_message x cid s") auto
qed

text \<open>Up to ten deposits of the right sizes always fit.\<close>

lemma blit_slot_returns:
  assumes "i < k" and "length s \<le> n" and "length buf = k * n"
  shows "\<exists>b. blit (i * n) s buf = Returns b"
proof -
  have "i * n + n \<le> k * n" by (rule slot_end [OF assms(1)])
  with assms(2,3) show ?thesis by (simp add: blit_def)
qed

lemma put_deposit_data_returns:
  assumes "message_shape m" and "deposit_shape (deposit_at ds (of_nat i))"
    and "i < MAX_NUM_SETUP_DEPOSITS"
  shows "\<exists>m'. put_deposit_data ds i m = Returns m'"
proof -
  let ?d = "deposit_at ds (of_nat i)"
  from assms(2) have len: "length (txid ?d) \<le> BITCOIN_TX_HASH_LEN"
      "length (bitcoin_address ?d) \<le> BITCOIN_ADDRESS_LEN"
      "length (public_key ?d) \<le> BITCOIN_PUBLIC_KEY_LEN"
      "length (private_key ?d) \<le> BITCOIN_PRIVATE_KEY_LEN"
      "length (script ?d) \<le> MAX_BITCOIN_TX_SCRIPT_LEN"
    by (simp_all add: deposit_shape_def)
  obtain txs where 1: "blit (i * BITCOIN_TX_HASH_LEN) (txid ?d) (cc_txids m) = Returns txs"
    using blit_slot_returns [OF assms(3) len(1)] assms(1) by (auto simp: message_shape_def)
  obtain scs where 2: "blit (i * MAX_BITCOIN_TX_SCRIPT_LEN) (script ?d) (cc_deposit_scripts m) = Returns scs"
    using blit_slot_returns [OF assms(3) len(5)] assms(1) by (auto simp: message_shape_def)
  obtain ads where 3: "blit (i * BITCOIN_ADDRESS_LEN) (bitcoin_address ?d)
      (cc_deposit_bitcoin_addresses m) = Returns ads"
    using blit_slot_returns [OF assms(3) len(2)] assms(1) by (auto simp: message_shape_def)
  obtain pks where 4: "blit (i * BITCOIN_PUBLIC_KEY_LEN) (public_key ?d)
      (cc_deposit_public_keys m) = Returns pks"
    using blit_slot_returns [OF assms(3) len(3)] assms(1) by (auto simp: message_shape_def)
  obtain sks where 5: "blit (i * BITCOIN_PRIVATE_KEY_LEN) (private_key ?d)
      (cc_deposit_private_keys m) = Returns sks"
    using blit_slot_returns [OF assms(3) len(4)] assms(1) by (auto simp: message_shape_def)
  show ?thesis
    using assms(2,3) 1 2 3 4 5
    by (simp add: put_deposit_data_def Let_def array_set_Returns deposit_shape_def array_set_def)
qed

lemma put_all_returns:
  assumes "message_shape m" and "n \<le> MAX_NUM_SETUP_DEPOSITS"
    and "\<forall>i < n. deposit_shape (deposit_at ds (of_nat i))"
  shows "\<exists>m'. foldo (put_deposit_data ds) [0..<n] m = Returns m'"
  using assms(2,3)
proof (induction n)
  case 0
  then show ?case by simp
next
  case (Suc n)
  then obtain m1 where 1: "foldo (put_deposit_data ds) [0..<n] m = Returns m1" by auto
  have "message_shape m1" using put_all_deposits [OF 1 assms(1)] Suc.prems(2) by simp
  from put_deposit_data_returns [OF this, of ds n] Suc.prems obtain m' where
      "put_deposit_data ds n m1 = Returns m'" by auto
  with 1 show ?case by (simp add: foldo_append)
qed

lemma create_channel_message_returns:
  assumes "CHANNEL_ID_LEN \<le> length cid" and "BITCOIN_ADDRESS_LEN \<le> length (my_address s)"
    and "length (deposit_ids_to_deposits s) \<le> MAX_NUM_SETUP_DEPOSITS"
    and "\<forall>i < length (deposit_ids_to_deposits s).
      deposit_shape (deposit_at (deposit_ids_to_deposits s) (of_nat i))"
  shows "\<exists>m. create_channel_message x cid s = Returns m"
  using assms(1,2) put_all_returns [OF message_shape_junk assms(3,4)]
  by (simp add: create_channel_message_def string_from_def memcpy_str_def Let_def)

section \<open>The deposits in a backup\<close>

text \<open>A stored slot that reads back as the deposit it was made from.\<close>

definition backup_slot_holds :: "BackupDepositStateMsg \<Rightarrow> u64 \<Rightarrow> Deposit \<Rightarrow> bool" where
  "backup_slot_holds b did d \<longleftrightarrow> ds_deposit_id (bd_deposit_state b) = did
     \<and> (\<forall>x. create_deposit_from_deposit_backup x b = Returns (d\<lparr>is_spent := x_junk_bool x\<rparr>))"

lemma fill_backup_deposit_holds:
  assumes "deposit_shape d" and "fill_backup_deposit_state x remote did d = Returns b"
  shows "backup_slot_holds b did d"
proof -
  let ?n = "length (script d)"
  have small: "?n \<le> MAX_BITCOIN_TX_SCRIPT_LEN" using assms(1) by (simp add: deposit_shape_def)
  then have len: "unat (of_nat ?n :: u64) = ?n"
    by (simp add: unat_of_nat MAX_BITCOIN_TX_SCRIPT_LEN_def)
  from assms obtain sc where
      sc: "blit 0 (script d) (replicate MAX_BITCOIN_TX_SCRIPT_LEN (x_junk_char x)) = Returns sc"
    and b: "b = \<lparr>bd_deposit_state = \<lparr>ds_is_remote_deposit = remote, ds_txid = txid d,
       ds_tx_index = tx_index d, ds_deposit_amount = deposit_amount d,
       ds_deposit_script_length = of_nat ?n, ds_deposit_script = sc,
       ds_public_key = public_key d, ds_bitcoin_address = bitcoin_address d, ds_deposit_id = did\<rparr>,
       bd_private_key = private_key d\<rparr>"
    by (auto simp: fill_backup_deposit_state_def fill_deposit_state_def deposit_shape_def)
  have "string_from sc ?n = Returns (script d)"
    using sc small by (auto simp: blit_start string_from_def)
  then show ?thesis
    by (simp add: backup_slot_holds_def b create_deposit_from_deposit_backup_def len)
qed

lemma backup_slots:
  assumes "foldo (\<lambda>i slots. let d = deposit_at ds (of_nat i) in
             if is_spent d then Returns slots
             else bindo (fill_backup_deposit_state x False (of_nat i) d) (\<lambda>b.
               array_set MAX_NUM_SETUP_DEPOSITS i b slots)) [0..<n] slots0 = Returns slots"
    and "length slots0 = MAX_NUM_SETUP_DEPOSITS"
    and "\<forall>i < n. deposit_shape (deposit_at ds (of_nat i)) \<and> \<not> is_spent (deposit_at ds (of_nat i))"
  shows "length slots = MAX_NUM_SETUP_DEPOSITS \<and> n \<le> MAX_NUM_SETUP_DEPOSITS
    \<and> (\<forall>i < n. backup_slot_holds (slots ! i) (of_nat i) (deposit_at ds (of_nat i)))"
  using assms(1,3)
proof (induction n arbitrary: slots)
  case 0
  with assms(2) show ?case by simp
next
  case (Suc n)
  then obtain sl b where 1: "foldo (\<lambda>i slots. let d = deposit_at ds (of_nat i) in
             if is_spent d then Returns slots
             else bindo (fill_backup_deposit_state x False (of_nat i) d) (\<lambda>b.
               array_set MAX_NUM_SETUP_DEPOSITS i b slots)) [0..<n] slots0 = Returns sl"
    and 2: "fill_backup_deposit_state x False (of_nat n) (deposit_at ds (of_nat n)) = Returns b"
    and 3: "n < MAX_NUM_SETUP_DEPOSITS" "slots = sl[n := b]"
    by (auto simp: foldo_append array_set_Returns)
  have ih: "length sl = MAX_NUM_SETUP_DEPOSITS"
      "\<forall>i < n. backup_slot_holds (sl ! i) (of_nat i) (deposit_at ds (of_nat i))"
    using Suc.IH [OF 1] Suc.prems(2) by auto
  have "backup_slot_holds b (of_nat n) (deposit_at ds (of_nat n))"
    using fill_backup_deposit_holds [OF _ 2] Suc.prems(2) by simp
  then show ?case using ih 3 by (auto simp: less_Suc_eq nth_list_update)
qed

lemma extract_slots:
  assumes "contiguous ds" and "n \<le> length ds"
    and "\<forall>i < n. i < length slots \<and> backup_slot_holds (slots ! i) (of_nat i) (deposit_at ds (of_nat i))"
  shows "foldo (\<lambda>i acc. bindo (array_get i slots) (\<lambda>b.
           bindo (create_deposit_from_deposit_backup x b) (\<lambda>d.
           Returns (om_put (ds_deposit_id (bd_deposit_state b)) d acc)))) [0..<n] om_empty
    = Returns (received_deposits (x_junk_bool x) (take n ds))"
  using assms(2,3)
proof (induction n)
  case 0
  then show ?case by (simp add: received_deposits_def)
next
  case (Suc n)
  then show ?case
    using received_snoc [OF assms(1) Suc.prems(1)]
    by (simp add: foldo_append array_get_def backup_slot_holds_def)
qed

lemma backup_deposits_round_trip:
  assumes "backup_my_setup_transaction x s = Returns su" and "be_my_setup_transaction m = su"
    and "contiguous (deposit_ids_to_deposits s)"
    and "\<forall>k d. om_get (deposit_ids_to_deposits s) k = Some d \<longrightarrow> deposit_shape d \<and> \<not> is_spent d"
  shows "extract_deposit_mapping_from_backup x' m
    = Returns (received_deposits (x_junk_bool x') (deposit_ids_to_deposits s))"
proof -
  let ?ds = "deposit_ids_to_deposits s"
  from assms(1) obtain addr slots where su: "su = \<lparr>bs_my_address = addr, bs_miner_fee = miner_fee s,
       bs_num_deposits = of_nat (length ?ds), bs_deposit_states = slots\<rparr>"
    and loop: "foldo (\<lambda>i slots. let d = deposit_at ?ds (of_nat i) in
             if is_spent d then Returns slots
             else bindo (fill_backup_deposit_state x False (of_nat i) d) (\<lambda>b.
               array_set MAX_NUM_SETUP_DEPOSITS i b slots)) [0..<length ?ds]
          (replicate MAX_NUM_SETUP_DEPOSITS (x_junk_deposit x)) = Returns slots"
    by (auto simp: backup_my_setup_transaction_def)
  have "deposit_shape (deposit_at ?ds (of_nat i)) \<and> \<not> is_spent (deposit_at ?ds (of_nat i))"
    if "i < length ?ds" for i
  proof -
    have "om_get ?ds (of_nat i) = Some (deposit_at ?ds (of_nat i))"
      using om_get_Some_iff [OF contiguous_ok [OF assms(3)]] nth_mem [OF that]
        contiguous_nth [OF assms(3) that] by metis
    then show ?thesis using assms(4) by blast
  qed
  with backup_slots [OF loop] have
      "\<forall>i < length ?ds. i < length slots \<and> backup_slot_holds (slots ! i) (of_nat i) (deposit_at ?ds (of_nat i))"
    by auto
  moreover have "unat (of_nat (length ?ds) :: u64) = length ?ds"
    using assms(3) by (simp add: contiguous_def unat_of_nat)
  ultimately show ?thesis
    using extract_slots [OF assms(3), of "length ?ds" slots x'] assms(2)
    by (simp add: extract_deposit_mapping_from_backup_def su Let_def)
qed

end
