(* ===== verification/Teechain_System.thy ===== *)
theory Teechain_System
  imports Teechain_Refinement
begin

text \<open>
  The enclave as a whole (\<open>Teechain/src/trusted/teechain.edl\<close>): the untrusted host calls any entry
  point with any arguments, in any order. \<open>run_ecall\<close> is the dispatch, \<open>enclave_step\<close> a call
  that returns, with the external code and the uninitialised values chosen by the environment at
  every call. Every call implements ledger steps (\<open>refines_ecall\<close>), so the invariants of the
  ledger are invariants of the enclave.
\<close>

section \<open>Entry points\<close>

text \<open>The calls of \<open>teechain.edl\<close>; a blob comes with the context of its attestation session.\<close>

datatype ecall =
    Debug_Enclave
  | Benchmark_Enclave
  | Make_Primary bool
  | Setup_Deposits u64
  | Deposits_Made string u64 u64 string "u64 list" "u64 list"
  | Channel_Id_Generated string bool
  | Create_New_Channel string bool
  | Get_Deposit_Data_Encrypted string
  | Store_Encrypted_Deposit_Data string string nat
  | Verify_Deposits string
  | Remote_Verify_Deposits string
  | Send_Bitcoins string u64
  | Receive_Bitcoins string string nat
  | Balance string
  | Get_User_Output string
  | Add_Deposit_To_Channel string u64
  | Add_Remote_Deposit_To_Channel string nat
  | Remove_Deposit_From_Channel string u64
  | Remove_Remote_Deposit_From_Channel string nat
  | Verify_Deposit_Added_To_Channel string nat
  | Verify_Deposit_Removed_From_Channel string nat
  | Make_Backup
  | Create_New_Backup_Channel string bool
  | Get_Backup_Data_Encrypted string
  | Store_Encrypted_Backup_Data string nat
  | Verify_Backup_Stored string nat
  | Verify_Channel_Update_Stored string nat
  | Store_Encrypted_Channel_Update_Data string nat
  | Remove_Backup string
  | Remove_Remote_Backup string nat
  | Verify_Backup_Removed string nat
  | Return_Deposits
  | Settle string
  | Shutdown

fun run_ecall :: "ext \<Rightarrow> ecall \<Rightarrow> enclave \<Rightarrow> (reply \<times> enclave) outcome" where
  "run_ecall x Debug_Enclave e = Returns (ecall_debug_enclave e)"
| "run_ecall x Benchmark_Enclave e = Returns (ecall_benchmark_enclave e)"
| "run_ecall x (Make_Primary m) e = Returns (ecall_primary m e)"
| "run_ecall x (Setup_Deposits n) e = ecall_setup_deposits x n e"
| "run_ecall x (Deposits_Made addr fee n txids idxs amts) e =
     ecall_deposits_made addr fee n txids idxs amts e"
| "run_ecall x (Channel_Id_Generated cid b) e = ecall_channel_id_generated cid b e"
| "run_ecall x (Create_New_Channel cid i) e = Returns (ecall_create_new_channel x cid i e)"
| "run_ecall x (Get_Deposit_Data_Encrypted cid) e = ecall_get_deposit_data_encrypted x cid e"
| "run_ecall x (Store_Encrypted_Deposit_Data cid blob ctx) e =
     ecall_store_encrypted_deposit_data x cid blob ctx e"
| "run_ecall x (Verify_Deposits cid) e = ecall_verify_deposits cid e"
| "run_ecall x (Remote_Verify_Deposits cid) e = ecall_remote_verify_deposits cid e"
| "run_ecall x (Send_Bitcoins cid amount) e = ecall_send_bitcoins x cid amount e"
| "run_ecall x (Receive_Bitcoins cid blob ctx) e = ecall_receive_bitcoins x cid blob ctx e"
| "run_ecall x (Balance cid) e = ecall_balance cid e"
| "run_ecall x (Get_User_Output cid) e = Returns (ecall_get_user_output cid e)"
| "run_ecall x (Add_Deposit_To_Channel cid did) e = ecall_add_deposit_to_channel x cid did e"
| "run_ecall x (Add_Remote_Deposit_To_Channel blob ctx) e =
     ecall_add_remote_deposit_to_channel x blob ctx e"
| "run_ecall x (Remove_Deposit_From_Channel cid did) e =
     ecall_remove_deposit_from_channel x cid did e"
| "run_ecall x (Remove_Remote_Deposit_From_Channel blob ctx) e =
     ecall_remove_remote_deposit_from_channel x blob ctx e"
| "run_ecall x (Verify_Deposit_Added_To_Channel blob ctx) e =
     ecall_verify_deposit_added_to_channel x blob ctx e"
| "run_ecall x (Verify_Deposit_Removed_From_Channel blob ctx) e =
     ecall_verify_deposit_removed_from_channel x blob ctx e"
| "run_ecall x Make_Backup e = Returns (ecall_backup e)"
| "run_ecall x (Create_New_Backup_Channel cid i) e =
     Returns (ecall_create_new_backup_channel x cid i e)"
| "run_ecall x (Get_Backup_Data_Encrypted cid) e = ecall_get_backup_data_encrypted x cid e"
| "run_ecall x (Store_Encrypted_Backup_Data blob ctx) e =
     ecall_store_encrypted_backup_data x blob ctx e"
| "run_ecall x (Verify_Backup_Stored blob ctx) e = ecall_verify_backup_stored x blob ctx e"
| "run_ecall x (Verify_Channel_Update_Stored blob ctx) e =
     ecall_verify_channel_update_stored x blob ctx e"
| "run_ecall x (Store_Encrypted_Channel_Update_Data blob ctx) e =
     ecall_store_encrypted_channel_update_data x blob ctx e"
| "run_ecall x (Remove_Backup cid) e = ecall_remove_backup x cid e"
| "run_ecall x (Remove_Remote_Backup blob ctx) e = ecall_remove_remote_backup x blob ctx e"
| "run_ecall x (Verify_Backup_Removed blob ctx) e = ecall_verify_backup_removed x blob ctx e"
| "run_ecall x Return_Deposits e = ecall_return_deposits x e"
| "run_ecall x (Settle cid) e = ecall_settle x cid e"
| "run_ecall x Shutdown e = ecall_shutdown x e"

inductive enclave_step :: "enclave \<Rightarrow> enclave \<Rightarrow> bool" where
  call: "run_ecall x c e = Returns (r, e') \<Longrightarrow> enclave_step e e'"

abbreviation enclave_start :: "enclave \<Rightarrow> bool" where
  "enclave_start e \<equiv> e = initial_enclave"

section \<open>Refinement\<close>

text \<open>
  The calls that set up a channel are outside the guarded steps, and so is a call that adds a
  remote deposit that is in the channel already.
\<close>

fun guarded_ecall :: "ext \<Rightarrow> ecall \<Rightarrow> enclave \<Rightarrow> bool" where
  "guarded_ecall x (Channel_Id_Generated cid b) e = False"
| "guarded_ecall x (Create_New_Channel cid i) e = False"
| "guarded_ecall x (Create_New_Backup_Channel cid i) e = False"
| "guarded_ecall x (Store_Encrypted_Deposit_Data cid blob ctx) e = False"
| "guarded_ecall x (Add_Remote_Deposit_To_Channel blob ctx) e = remote_deposit_fresh x blob ctx e"
| "guarded_ecall x c e = True"

lemma silent_reads:
  "ecall_balance cid e = Returns (r, e') \<Longrightarrow> ledger_of e' = ledger_of e"
  "ecall_get_user_output cid e = (r, e') \<Longrightarrow> ledger_of e' = ledger_of e"
  "ecall_get_deposit_data_encrypted x cid e = Returns (r, e') \<Longrightarrow> ledger_of e' = ledger_of e"
  by (auto simp: ecall_balance_def ecall_get_user_output_def ecall_get_deposit_data_encrypted_def
      Let_def split: if_splits prod.splits option.splits dest: silent_user_output_of)

lemmas refines_all =
  refines_primary refines_backup refines_setup_deposits refines_deposits_made
  refines_channel_id_generated refines_create_new_channel refines_create_new_backup_channel
  refines_store_deposit_data refines_verify_deposits refines_remote_verify_deposits
  refines_send_bitcoins refines_receive_bitcoins refines_add_deposit refines_remove_deposit
  refines_add_remote_deposit refines_remove_remote_deposit refines_settle refines_return_deposits
  refines_shutdown refines_verify_backup_stored

lemma refines_ecall:
  assumes "run_ecall x c e = Returns (r, e')" and "ledger_inv (ledger_of e)"
    and "g \<Longrightarrow> guarded_ecall x c e"
  shows "ledger_steps g e e'"
proof (cases c)
  case Debug_Enclave
  with assms(1) show ?thesis by (auto simp: ecall_debug_enclave_def)
next
  case Benchmark_Enclave
  with assms(1) show ?thesis by (auto simp: ecall_benchmark_enclave_def)
next
  case (Channel_Id_Generated cid b)
  with assms show ?thesis using refines_channel_id_generated by (cases g) auto
next
  case (Create_New_Channel cid i)
  with assms show ?thesis using refines_create_new_channel by (cases g) auto
next
  case (Create_New_Backup_Channel cid i)
  with assms show ?thesis using refines_create_new_backup_channel by (cases g) auto
next
  case (Store_Encrypted_Deposit_Data cid blob ctx)
  with assms show ?thesis using refines_store_deposit_data by (cases g) auto
next
  case (Add_Remote_Deposit_To_Channel blob ctx)
  with assms show ?thesis using refines_add_remote_deposit by auto
qed (use assms(1,2) in \<open>auto intro: steps_silent silent_reads silent
  simp: ecall_verify_deposit_added_to_channel_def ecall_verify_deposit_removed_from_channel_def
  elim: refines_all\<close>)

section \<open>Invariants of the enclave\<close>

lemma initial_ledger_enclave: "initial_ledger (ledger_of initial_enclave)"
  by (simp add: initial_ledger_def ledger_of_def initial_enclave_def zero_SetupTransaction_def)

lemma enclave_step_inv:
  assumes "ledger_inv (ledger_of e)" and "enclave_step e e'"
  shows "ledger_inv (ledger_of e')"
proof -
  from assms(2) obtain x c r where "run_ecall x c e = Returns (r, e')"
    by (auto elim: enclave_step.cases)
  from refines_ecall [OF this assms(1), of False] have "ledger_steps False e e'" by simp
  then show ?thesis using assms(1) by (rule ledger.inv_steps)
qed

interpretation enclave: invariant_system enclave_start enclave_step "\<lambda>e. ledger_inv (ledger_of e)"
  by unfold_locales (auto simp: initial_ledger_enclave ledger_inv_initial enclave_step_inv)

text \<open>States an enclave can be in.\<close>

definition reachable :: "enclave \<Rightarrow> bool" where
  "reachable e \<longleftrightarrow> enclave_step\<^sup>*\<^sup>* initial_enclave e"

lemma reachable_initial [intro]: "reachable initial_enclave"
  by (simp add: reachable_def)

lemma reachable_call:
  "reachable e \<Longrightarrow> run_ecall x c e = Returns (r, e') \<Longrightarrow> reachable e'"
  unfolding reachable_def by (blast intro: rtranclp.rtrancl_into_rtrancl enclave_step.call)

lemma reachable_inv: "reachable e \<Longrightarrow> ledger_inv (ledger_of e)"
  unfolding reachable_def by (rule enclave.inv_reachable) simp

text \<open>Only a funded enclave and a backup have channels.\<close>

lemma channel_needs_role:
  assumes "reachable e" and "om_get (channelStates e) cid = Some st"
  shows "teechain_state e \<in> {Funded, Backup}"
proof -
  have "l_channels (ledger_of e) \<noteq> Map.empty"
    using acct_lookup [OF assms(2)] by (metis option.distinct(1))
  then show ?thesis
    using reachable_inv [OF assms(1)]
    by (cases "teechain_state e") (auto simp: ledger_inv_def phase_inv_def)
qed

lemma enclave_steps_ledger:
  assumes "enclave_step\<^sup>*\<^sup>* e e'" and "reachable e"
  shows "ledger_steps False e e'"
  using assms(1)
proof (induction rule: rtranclp_induct)
  case base
  then show ?case by simp
next
  case (step e1 e2)
  have "reachable e1" using assms(2) step.hyps(1) unfolding reachable_def by (rule rtranclp_trans)
  from step.hyps(2) obtain x c r where "run_ecall x c e1 = Returns (r, e2)"
    by (auto elim: enclave_step.cases)
  from refines_ecall [OF this reachable_inv [OF \<open>reachable e1\<close>], of False] step.IH
  show ?case by (auto intro: rtranclp_trans)
qed

lemma call_sound:
  assumes "run_ecall x c e = Returns (r, e')" and "guarded_ecall x c e"
    and "sound_ledger C (ledger_of e)"
  shows "sound_ledger C (ledger_of e')"
proof -
  have "ledger_steps True e e'"
    using refines_ecall [OF assms(1), of True] assms(2,3) by (simp add: sound_ledger_def)
  then show ?thesis using assms(3) by (rule solvency.inv_steps)
qed

lemma enclave_steps_lifecycle:
  "enclave_step\<^sup>*\<^sup>* e e' \<Longrightarrow> reachable e \<Longrightarrow> lifecycle_le (teechain_state e) (teechain_state e')"
  using lifecycle.steps_below [OF enclave_steps_ledger] by fastforce

text \<open>Guarded calls: between them no channel disappears or falls back.\<close>

inductive guarded_step :: "enclave \<Rightarrow> enclave \<Rightarrow> bool" where
  guarded_call: "run_ecall x c e = Returns (r, e') \<Longrightarrow> guarded_ecall x c e \<Longrightarrow> guarded_step e e'"

lemma guarded_steps_progress:
  assumes "guarded_step\<^sup>*\<^sup>* e e'" and "reachable e"
  shows "reachable e' \<and> progress (ledger_of e) (ledger_of e')"
  using assms(1)
proof (induction rule: rtranclp_induct)
  case base
  then show ?case using assms(2) progress_refl by blast
next
  case (step e1 e2)
  from step.hyps(2) obtain x c r where run: "run_ecall x c e1 = Returns (r, e2)"
    and "guarded_ecall x c e1" by (auto elim: guarded_step.cases)
  then have "ledger_steps True e1 e2" using refines_ecall [OF run reachable_inv] step.IH by blast
  then have "progress (ledger_of e1) (ledger_of e2)" by (rule progress.steps_below)
  then show ?case using reachable_call [OF _ run] step.IH progress_trans by blast
qed

lemma guarded_steps_channel:
  assumes "guarded_step\<^sup>*\<^sup>* e e'" and "reachable e" and "om_get (channelStates e) cid = Some st"
  shows "\<exists>st'. om_get (channelStates e') cid = Some st' \<and> acct_le (acct_of st) (acct_of st')"
  using guarded_steps_progress [OF assms(1,2)] acct_lookup [OF assms(3)]
  by (fastforce simp: progress_def l_channels_ledger_of)

end
