(* ===== verification/Teechain_Payments.thy ===== *)
theory Teechain_Payments
  imports Teechain_System "HOL-Library.Sublist"
begin

text \<open>
  Two enclaves that share a channel, and a network that delivers what it likes: Alice's enclave
  sends payments, the hosts and the network hold every message back, drop it, reorder it or
  deliver it any number of times to Bob's enclave. The authenticity of the encryption is the one
  thing the network cannot break: a blob that decrypts was encrypted by Alice. Neither side has a
  backup or stable storage, so a payment leaves the enclave in the call that debits it.
\<close>

section \<open>One side\<close>

definition direct_mode :: "enclave \<Rightarrow> bool" where
  "direct_mode e \<longleftrightarrow> \<not> write_to_stable_storage e \<and> \<not> have_backup e"

lemma direct_mode_put [simp]: "direct_mode (put_channel c st e) = direct_mode e"
  by (simp add: direct_mode_def have_backup_def)

text \<open>What a successful payment encrypts.\<close>

definition payment_message :: "u64 \<Rightarrow> ChannelState \<Rightarrow> SendMsg" where
  "payment_message amount st =
     \<lparr>sm_monotoniccount = my_monotonic_counter st + 1, sm_amount = amount\<rparr>"

definition payment_allowed :: "u64 \<Rightarrow> ChannelState \<Rightarrow> bool" where
  "payment_allowed amount st \<longleftrightarrow> status st = Alive \<and> amount \<noteq> 0 \<and> amount \<le> my_balance st"

lemma send_direct:
  assumes "om_get (channelStates e) cid = Some st" and "direct_mode e"
    and "ecall_send_bitcoins x cid amount e = Returns (r, e')"
  shows "if payment_allowed amount st
    then e' = put_channel cid (bump_counters (debit amount st)) (put_channel cid (debit amount st) e)
    else e' = e \<and> ret_code r = REQUEST_FAILED"
proof (cases "payment_allowed amount st")
  case True
  with assms have "send_bitcoin_payment_message x cid amount (put_channel cid (debit amount st) e)
      = Returns (r, e')"
    by (auto simp: ecall_send_bitcoins_def payment_allowed_def check_status_def direct_mode_def
        Let_def have_backup_def split: if_splits)
  from send_payment_state [OF this] True show ?thesis by auto
next
  case False
  with assms show ?thesis
    by (auto simp: ecall_send_bitcoins_def payment_allowed_def check_status_def split: if_splits)
qed

text \<open>
  With a backup, and without stable storage, the debit is recorded under a nonce in the channel of
  the backup, and the message waits for the acknowledgement of the backup.
\<close>

definition payment_pending :: "enclave \<Rightarrow> string \<Rightarrow> u64 \<Rightarrow> bool" where
  "payment_pending e nonce amount \<longleftrightarrow>
     (\<exists>bst req. om_get (channelStates e) (prev_backup_channel_id e) = Some bst
        \<and> om_get (backup_requests bst) nonce = Some req
        \<and> request_blocked_on req = Send_Bitcoin_Request \<and> send_amount_blocked_on req = amount)"

definition pays_at_once :: "enclave \<Rightarrow> bool" where
  "pays_at_once e \<longleftrightarrow> write_to_stable_storage e \<or> \<not> have_backup e"

lemma have_backup_frame [simp]:
  "have_backup (put_channel c st e) = have_backup e"
  "have_backup (snd (generate_random_nonce x e)) = have_backup e"
  by (simp_all add: have_backup_def)

lemma send_at_once:
  assumes "om_get (channelStates e) cid = Some st" and "pays_at_once e"
    and "payment_allowed amount st" and "ecall_send_bitcoins x cid amount e = Returns (r, e')"
  shows "channelStates e' = om_put cid (bump_counters (debit amount st)) (channelStates e)
    \<and> my_setup_transaction e' = my_setup_transaction e"
proof -
  let ?e1 = "put_channel cid (debit amount st) e"
  have "\<not> my_balance st < amount" using assms(3) by (auto simp: payment_allowed_def)
  with assms have "send_bitcoin_payment_message x cid amount
      (if write_to_stable_storage e then snd (generate_random_nonce x ?e1) else ?e1) = Returns (r, e')"
    by (cases "write_to_stable_storage e")
      (auto simp: ecall_send_bitcoins_def payment_allowed_def check_status_def pays_at_once_def
        Let_def dest!: increment_state)
  from send_payment_state [OF this] show ?thesis by (auto split: if_splits)
qed

lemma send_with_backup:
  assumes "om_get (channelStates e) cid = Some st" and "\<not> pays_at_once e"
    and "payment_allowed amount st" and "ecall_send_bitcoins x cid amount e = Returns (r, e')"
  obtains nonce req bst where
    "om_get (om_put cid (debit amount st) (channelStates e)) (prev_backup_channel_id e) = Some bst"
    "channelStates e' = om_put (prev_backup_channel_id e)
       (bst\<lparr>backup_requests := om_put nonce req (backup_requests bst)\<rparr>)
       (om_put cid (debit amount st) (channelStates e))"
    "request_blocked_on req = Send_Bitcoin_Request" "send_amount_blocked_on req = amount"
    "my_setup_transaction e' = my_setup_transaction e"
    "prev_backup_channel_id e' = prev_backup_channel_id e"
proof -
  let ?e1 = "put_channel cid (debit amount st) e"
  let ?e2 = "snd (generate_random_nonce x ?e1)" and ?n = "fst (generate_random_nonce x ?e1)"
  let ?req = "(junk_BackupRequest x Send_Bitcoin_Request ?n)\<lparr>send_amount_blocked_on := amount\<rparr>"
  have "\<not> my_balance st < amount" "\<not> write_to_stable_storage e" "have_backup e"
    using assms(2,3) by (auto simp: payment_allowed_def pays_at_once_def)
  with assms(1,3,4) obtain e3 where "record_backup_request ?n ?req ?e2 = Returns e3"
      and "send_update_channel_balance_request x cid ?n False e3 = Returns (r, e')"
    by (auto simp: ecall_send_bitcoins_def payment_allowed_def check_status_def Let_def split_beta)
  then have "record_backup_request ?n ?req ?e2 = Returns e'" by (auto dest!: send_acks_state(8))
  from record_backup_request_state [OF this] show thesis
    using that [of _ ?n ?req] by (auto simp: junk_BackupRequest_def)
qed

definition payment_fresh :: "SendMsg \<Rightarrow> ChannelState \<Rightarrow> bool" where
  "payment_fresh m st \<longleftrightarrow> check_deposits_verified st \<and> remote_last_seen st < sm_monotoniccount m"

lemma receive_direct:
  assumes "om_get (channelStates e) cid = Some st" and "direct_mode e"
    and "ecall_receive_bitcoins x cid blob ctx e = Returns (r, e')"
  shows "(e' = e \<and> ret_code r = REQUEST_ERROR) \<or>
    (\<exists>m. check_and_decrypt_message x blob ctx sizeof_SendMsg = Some (P_Send m)
       \<and> payment_fresh m st \<and> e' = put_channel cid (credit m st) e
       \<and> ret_code r = REQUEST_OK)"
proof (cases "check_and_decrypt_message x blob ctx sizeof_SendMsg")
  case None
  with assms show ?thesis by (auto simp: ecall_receive_bitcoins_def split: if_splits)
next
  case (Some p)
  show ?thesis
  proof (cases "e' = e \<and> ret_code r = REQUEST_ERROR")
    case False
    with assms Some obtain m where m: "p = P_Send m" and fresh: "payment_fresh m st"
      by (auto simp: ecall_receive_bitcoins_def as_SendMsg_def payment_fresh_def not_le
          split: if_splits plaintext.splits)
    have "e' = put_channel cid (credit m st) e \<and> ret_code r = REQUEST_OK"
      using assms Some m fresh
      by (auto simp: ecall_receive_bitcoins_def as_SendMsg_def payment_fresh_def not_le[symmetric]
          Let_def direct_mode_def have_backup_def with_user_output_def send_receive_ack_def
          send_plain_def)
    with Some m fresh show ?thesis by blast
  qed simp
qed

text \<open>In every mode, a call either refuses and changes nothing or has seen the counter of the message.\<close>

lemma receive_refused_or_seen:
  assumes "ecall_receive_bitcoins x cid blob ctx e = Returns (r, e')"
  shows "(r = code_reply REQUEST_ERROR \<and> e' = e) \<or>
    (\<exists>m st. check_and_decrypt_message x blob ctx sizeof_SendMsg = Some (P_Send m)
       \<and> om_get (channelStates e') cid = Some st \<and> remote_last_seen st = sm_monotoniccount m)"
proof -
  obtain st where st: "om_get (channelStates e) cid = Some st"
    using assms by (auto simp: ecall_receive_bitcoins_def)
  show ?thesis
  proof (cases "r = code_reply REQUEST_ERROR \<and> e' = e")
    case False
    with assms st obtain m where
        m: "check_and_decrypt_message x blob ctx sizeof_SendMsg = Some (P_Send m)"
      and old: "\<not> sm_monotoniccount m \<le> remote_last_seen st" and ok: "check_deposits_verified st"
      by (auto simp: ecall_receive_bitcoins_def as_SendMsg_def split: if_splits option.splits
          plaintext.splits)
    let ?e1 = "put_channel cid (credit m st) e"
    let ?sync = "unsynced_bitcoin_amount (credit m st) > MAX_AMOUNT_TO_RECEIVE_BEFORE_SYNC"
    let ?n = "fst (generate_random_nonce x ?e1)"
    let ?req = "(junk_BackupRequest x Receive_Bitcoin_Request ?n)
        \<lparr>send_amount_blocked_on := sm_amount m\<rparr>"
    have "(\<exists>r0. (if ?sync \<and> write_to_stable_storage e then
           bindo (increment_monotonic_counter_and_write_state_to_storage x cid ?e1)
             (send_receive_ack cid)
         else if ?sync \<and> have_backup e then
           bindo (record_backup_request ?n ?req (snd (generate_random_nonce x ?e1)))
             (send_update_channel_balance_request x cid ?n False)
         else send_receive_ack cid ?e1) = Returns (r0, e'))"
      using assms st m old ok
      by (simp add: ecall_receive_bitcoins_def as_SendMsg_def Let_def split_beta)
        (auto simp: split_beta dest!: silent_with_user_output)
    then have "channelStates e' = channelStates ?e1 \<or> (\<exists>e2 n req.
        channelStates e2 = channelStates ?e1 \<and> record_backup_request n req e2 = Returns e')"
      by (auto split: if_splits dest!: increment_state send_acks_state(3,8))
    then have "\<exists>st'. om_get (channelStates e') cid = Some st' \<and> remote_last_seen st' = sm_monotoniccount m"
    proof (elim disjE exE conjE)
      fix e2 n req
      assume e2: "channelStates e2 = channelStates ?e1" and rec: "record_backup_request n req e2 = Returns e'"
      from record_backup_request_state [OF rec] obtain bst where
          "om_get (channelStates e2) (prev_backup_channel_id e2) = Some bst"
          "e' = put_channel (prev_backup_channel_id e2)
            (bst\<lparr>backup_requests := om_put n req (backup_requests bst)\<rparr>) e2" by auto
      with e2 show ?thesis
        by (cases "cid = prev_backup_channel_id e2") (auto simp: credit_def)
    qed (simp add: credit_def)
    with m show ?thesis by blast
  qed simp
qed

lemma receive_seen_refused:
  assumes "check_and_decrypt_message x blob ctx sizeof_SendMsg = Some (P_Send m)"
    and "om_get (channelStates e) cid = Some st" and "sm_monotoniccount m \<le> remote_last_seen st"
  shows "ecall_receive_bitcoins x cid blob ctx e = Returns (code_reply REQUEST_ERROR, e)"
  using assms by (simp add: ecall_receive_bitcoins_def get_channel_state_def as_SendMsg_def)

section \<open>The network\<close>

record world =
  alice :: enclave
  bob :: enclave
  issued :: "plaintext list"
  sent :: "u64 list"
  accepted :: "u64 list"

text \<open>
  \<open>issued\<close>, \<open>sent\<close> and \<open>accepted\<close> are history: the plaintexts Alice has encrypted, the amounts
  she has paid and the amounts Bob has credited. A payment that Alice could not encrypt, or
  whose reply was lost, is in \<open>sent\<close> as well, because it has been debited.
\<close>

inductive payment_step :: "string \<Rightarrow> world \<Rightarrow> world \<Rightarrow> bool" for cid where
  pay: "om_get (channelStates (alice w)) cid = Some st \<Longrightarrow>
    ecall_send_bitcoins x cid amount (alice w) = Returns (r, a') \<Longrightarrow> payment_allowed amount st \<Longrightarrow>
    payment_step cid w (w\<lparr>alice := a', issued := issued w @ [P_Send (payment_message amount st)],
      sent := sent w @ [amount]\<rparr>)"
| refused: "om_get (channelStates (alice w)) cid = Some st \<Longrightarrow>
    ecall_send_bitcoins x cid amount (alice w) = Returns (r, a') \<Longrightarrow> \<not> payment_allowed amount st \<Longrightarrow>
    payment_step cid w (w\<lparr>alice := a'\<rparr>)"
| deliver: "om_get (channelStates (bob w)) cid = Some st \<Longrightarrow>
    ecall_receive_bitcoins x cid blob ctx (bob w) = Returns (r, b') \<Longrightarrow>
    check_and_decrypt_message x blob ctx sizeof_SendMsg = Some (P_Send m) \<Longrightarrow>
    P_Send m \<in> set (issued w) \<Longrightarrow>
    payment_step cid w (w\<lparr>bob := b', accepted := accepted w
      @ (if ret_code r = REQUEST_OK then [sm_amount m] else [])\<rparr>)"
| garbage: "ecall_receive_bitcoins x cid blob ctx (bob w) = Returns (r, b') \<Longrightarrow>
    check_and_decrypt_message x blob ctx sizeof_SendMsg = None \<Longrightarrow>
    payment_step cid w (w\<lparr>bob := b'\<rparr>)"

text \<open>The channel as both sides have it before the first payment.\<close>

definition payment_start :: "string \<Rightarrow> u64 \<Rightarrow> u64 \<Rightarrow> world \<Rightarrow> bool" where
  "payment_start cid a0 b0 w \<longleftrightarrow>
     (\<exists>sa sb. om_get (channelStates (alice w)) cid = Some sa \<and> my_monotonic_counter sa = 0
        \<and> my_balance sa = a0
        \<and> om_get (channelStates (bob w)) cid = Some sb \<and> remote_last_seen sb = 0 \<and> my_balance sb = b0)
   \<and> direct_mode (alice w) \<and> direct_mode (bob w) \<and> issued w = [] \<and> sent w = [] \<and> accepted w = []"

text \<open>
  The invariant: Alice's payments carry the counters 1, 2, ...; Bob has accepted some of the
  first \<open>remote_last_seen\<close> of them, in order; balances are what the histories say.
\<close>

definition numbered :: "u64 list \<Rightarrow> plaintext list" where
  "numbered xs = map (\<lambda>i. P_Send \<lparr>sm_monotoniccount = of_nat (Suc i), sm_amount = xs ! i\<rparr>) [0..<length xs]"

definition payment_inv :: "string \<Rightarrow> u64 \<Rightarrow> u64 \<Rightarrow> world \<Rightarrow> bool" where
  "payment_inv cid a0 b0 w \<longleftrightarrow>
     direct_mode (alice w) \<and> direct_mode (bob w) \<and> issued w = numbered (sent w) \<and>
     (\<exists>sa sb. om_get (channelStates (alice w)) cid = Some sa
        \<and> my_monotonic_counter sa = of_nat (length (sent w)) \<and> my_balance sa = a0 - sum_list (sent w)
        \<and> om_get (channelStates (bob w)) cid = Some sb
        \<and> my_balance sb = b0 + sum_list (accepted w)
        \<and> (length (sent w) < 2 ^ 64 \<longrightarrow> unat (remote_last_seen sb) \<le> length (sent w)
             \<and> subseq (accepted w) (take (unat (remote_last_seen sb)) (sent w))))"

lemma payment_inv_start: "payment_start cid a0 b0 w \<Longrightarrow> payment_inv cid a0 b0 w"
  by (auto simp: payment_start_def payment_inv_def numbered_def)

lemma numbered_snoc:
  "numbered (xs @ [v]) = numbered xs @ [P_Send \<lparr>sm_monotoniccount = of_nat (Suc (length xs)), sm_amount = v\<rparr>]"
  by (simp add: numbered_def nth_append)

lemma numbered_member:
  assumes "P_Send m \<in> set (numbered xs)" and "length xs < 2 ^ 64"
  shows "0 < unat (sm_monotoniccount m)" "unat (sm_monotoniccount m) \<le> length xs"
    "sm_amount m = xs ! (unat (sm_monotoniccount m) - 1)"
proof -
  from assms(1) obtain i where i: "i < length xs"
    and m: "m = \<lparr>sm_monotoniccount = of_nat (Suc i), sm_amount = xs ! i\<rparr>"
    by (auto simp: numbered_def)
  have "Suc i < 2 ^ LENGTH(64)" using i assms(2) by simp
  then have "unat (of_nat (Suc i) :: u64) = Suc i" by (simp only: unat_of_nat mod_less)
  with i m show "0 < unat (sm_monotoniccount m)" "unat (sm_monotoniccount m) \<le> length xs"
    "sm_amount m = xs ! (unat (sm_monotoniccount m) - 1)"
    by simp_all
qed

text \<open>Accepting the entry at a later position extends a subsequence of an earlier prefix.\<close>

lemma subseq_take_later:
  assumes "subseq ys (take k xs)" and "k < n" and "n \<le> length xs"
  shows "subseq (ys @ [xs ! (n - 1)]) (take n xs)"
proof -
  have "take n xs = take (n - 1) xs @ [xs ! (n - 1)]"
    using assms(2,3) take_Suc_conv_app_nth [of "n - 1" xs] by simp
  moreover have "subseq ys (take (n - 1) xs)"
  proof -
    have "take k xs = take k (take (n - 1) xs)" using assms(2) by simp
    then have "prefix (take k xs) (take (n - 1) xs)" by (metis take_is_prefix)
    then show ?thesis using assms(1) prefix_imp_subseq subseq_order.trans by blast
  qed
  ultimately show ?thesis by (simp add: list_emb_append_mono)
qed

lemma payment_inv_step:
  assumes "payment_inv cid a0 b0 w" and "payment_step cid w w'"
  shows "payment_inv cid a0 b0 w'"
  using assms(2)
proof cases
  case (pay st x amount r a')
  have "a' = put_channel cid (bump_counters (debit amount st)) (put_channel cid (debit amount st) (alice w))"
    using send_direct [OF pay(2) _ pay(3)] pay(4) assms(1) by (simp add: payment_inv_def)
  moreover have "my_monotonic_counter st + 1 = of_nat (Suc (length (sent w)))"
    using assms(1) pay(2) by (auto simp: payment_inv_def)
  ultimately show ?thesis
    using assms(1) pay(1,2)
    by (auto simp: payment_inv_def numbered_snoc payment_message_def bump_counters_def debit_def)
next
  case (refused st x amount r a')
  have "a' = alice w"
    using send_direct [OF refused(2) _ refused(3)] refused(4) assms(1) by (simp add: payment_inv_def)
  then show ?thesis using assms(1) refused(1) by simp
next
  case (garbage x blob ctx r b')
  obtain sb where "om_get (channelStates (bob w)) cid = Some sb"
    using assms(1) by (auto simp: payment_inv_def)
  from receive_direct [OF this _ garbage(2)] garbage(3) assms(1) have "b' = bob w"
    by (simp add: payment_inv_def)
  then show ?thesis using assms(1) garbage(1) by simp
next
  case (deliver sb x blob ctx r b' m)
  consider "b' = bob w" "ret_code r = REQUEST_ERROR"
    | "payment_fresh m sb" "b' = put_channel cid (credit m sb) (bob w)" "ret_code r = REQUEST_OK"
    using receive_direct [OF deliver(2) _ deliver(3)] deliver(4) assms(1)
    by (auto simp: payment_inv_def)
  then show ?thesis
  proof cases
    case 1
    then show ?thesis using assms(1) deliver(1) by (simp add: payment_inv_def)
  next
    case 2
    let ?c = "unat (sm_monotoniccount m)"
    have later: "unat (remote_last_seen sb) < ?c"
      using 2(1) by (simp add: payment_fresh_def word_less_nat_alt)
    have "?c \<le> length (sent w) \<and> subseq (accepted w @ [sm_amount m]) (take ?c (sent w))"
      if len: "length (sent w) < 2 ^ 64"
    proof -
      have mem: "P_Send m \<in> set (numbered (sent w))"
        using deliver(5) assms(1) by (simp add: payment_inv_def)
      have "subseq (accepted w) (take (unat (remote_last_seen sb)) (sent w))"
        using assms(1) len deliver(2) by (auto simp: payment_inv_def)
      from subseq_take_later [OF this later numbered_member(2) [OF mem len]]
      show ?thesis using numbered_member(2,3) [OF mem len] by simp
    qed
    then show ?thesis
      using assms(1) deliver(1,2) 2(2,3)
      by (auto simp: payment_inv_def credit_def)
  qed
qed

interpretation payments: invariant_system "payment_start cid a0 b0" "payment_step cid"
    "payment_inv cid a0 b0" for cid a0 b0
  by unfold_locales (auto intro: payment_inv_start payment_inv_step)

end
