(* ===== verification/Teechain_Demo.thy ===== *)
theory Teechain_Demo
  imports Teechain_Exchange Teechain_Payments
begin

text \<open>
  A concrete run of an enclave, for the examples that show the hypotheses of theorems to be
  satisfiable: two deposits of 100 and 200 satoshi are funded, a channel is created and
  verified, and deposit 0 is added to it. The library functions are constant or identities.
\<close>

section \<open>External code\<close>

definition demo_key :: bitcoin_key where
  "demo_key = \<lparr>bk_address = replicate 34 (CHR ''a''), bk_public_key = replicate 66 (CHR ''b''),
     bk_private_key = replicate 52 (CHR ''c''), bk_script_asm = replicate 60 (CHR ''d'')\<rparr>"

text \<open>Every blob decrypts to \<open>p\<close>.\<close>

definition demo_ext :: "plaintext \<Rightarrow> ext" where
  "demo_ext p = \<lparr>x_attest = False,
     x_encrypt = (\<lambda>k q. Some ([], replicate SAMPLE_SP_TAG_SIZE (CHR ''m''))),
     x_decrypt = (\<lambda>k c m. Some p), x_ra_key = (\<lambda>c. None), x_rand = (\<lambda>n. CHR ''r''),
     x_bitcoin_key = (\<lambda>n. demo_key), x_rpc = (\<lambda>s. s), x_rpc_hex = (\<lambda>s. s), x_junk_key = [],
     x_junk_u64 = 0, x_junk_char = CHR ''j'', x_junk_bool = False,
     x_junk_setup = zero_SetupTransaction, x_junk_deposit = zero_BackupDepositStateMsg,
     x_junk_channel = zero_BackupChannelStateMsg, x_junk_backup = zero_BackupEnclaveStateMsg,
     x_junk_update = zero_UpdateChannelBalanceMsg,
     x_junk_ack = \<lparr>ba_channel_id = [], ba_blocked_channel_id = [], ba_nonce = [], ba_result = 0,
       ba_any_failures = True\<rparr>\<rparr>"

definition demo_blob :: string where
  "demo_blob = replicate 100 (CHR ''z'')"

lemma demo_decrypt:
  assumes "n \<le> 84"
  shows "check_and_decrypt_message (demo_ext p) demo_blob ctx n = Some p"
  using assms by (simp add: check_and_decrypt_message_def sgx_decrypt_def demo_ext_def demo_blob_def
      SAMPLE_SP_TAG_SIZE_def)

section \<open>The run\<close>

definition demo_cid :: string where
  "demo_cid = ''AAAAAAAAAAAAAAAA''"

fun run_calls :: "ext \<Rightarrow> ecall list \<Rightarrow> enclave \<Rightarrow> enclave outcome" where
  "run_calls x [] e = Returns e"
| "run_calls x (c # cs) e = bindo (run_ecall x c e) (\<lambda>(r, e'). run_calls x cs e')"

lemma run_calls_reachable:
  "run_calls x cs e = Returns e' \<Longrightarrow> reachable e \<Longrightarrow> reachable e'"
  by (induction cs arbitrary: e) (auto dest: reachable_call)

definition demo_calls :: "ecall list" where
  "demo_calls = [Debug_Enclave, Make_Primary False, Setup_Deposits 2,
     Deposits_Made (replicate 34 (CHR ''a'')) 1 2 (replicate 128 (CHR ''t'')) [0, 0] [100, 200],
     Create_New_Channel demo_cid True, Verify_Deposits demo_cid, Remote_Verify_Deposits demo_cid,
     Add_Deposit_To_Channel demo_cid 0]"

definition demo_enclave :: enclave where
  "demo_enclave = (case run_calls (demo_ext (P_Send \<lparr>sm_monotoniccount = 1, sm_amount = 5\<rparr>))
     demo_calls initial_enclave of Returns e \<Rightarrow> e | _ \<Rightarrow> initial_enclave)"

lemma int_key_0 [simp]: "int_key 0 = 0"
  by (simp add: int_key_def)

lemmas demo_defs = demo_calls_def ecall_debug_enclave_def ecall_primary_def check_state_def
  initial_enclave_def ecall_setup_deposits_def ecall_deposits_made_def setup_one_deposit_def
  record_funding_def redeem_script_of_def demo_ext_def demo_key_def upt_rec string_from_def
  Let_def BITCOIN_TX_HASH_LEN_def array_get_def zero_SetupTransaction_def deposit_at_def
  ecall_create_new_channel_def associate_channel_state_def put_channel_def
  create_channel_state_def ecall_verify_deposits_def ecall_remote_verify_deposits_def
  get_channel_state_def check_status_def ecall_add_deposit_to_channel_def is_deposit_spent_def
  is_deposit_in_use_def touch_deposit_def set_user_output_def sync_then_send_def have_backup_def
  send_add_deposit_request_def send_deposit_request_def generate_random_nonce_def
  NONCE_BYTE_LEN_def CHANNEL_ID_LEN_def memcpy_str_def send_encrypted_def sgx_encrypt_def
  zero_Deposit_def demo_cid_def

lemma demo_run:
  "\<exists>e. run_calls (demo_ext (P_Send \<lparr>sm_monotoniccount = 1, sm_amount = 5\<rparr>)) demo_calls initial_enclave
     = Returns e"
  by (simp add: demo_defs)

lemma demo_enclave_run:
  "run_calls (demo_ext (P_Send \<lparr>sm_monotoniccount = 1, sm_amount = 5\<rparr>)) demo_calls initial_enclave
     = Returns demo_enclave"
  using demo_run by (auto simp: demo_enclave_def)

lemma demo_reachable: "reachable demo_enclave"
  using run_calls_reachable [OF demo_enclave_run] by blast

definition demo_channel :: ChannelState where
  "demo_channel = the (om_get (channelStates demo_enclave) demo_cid)"

abbreviation demo_setup :: SetupTransaction where
  "demo_setup \<equiv> my_setup_transaction demo_enclave"

lemma demo_state:
  "teechain_state demo_enclave = Funded" "write_to_stable_storage demo_enclave = False"
  "prev_backup_channel_id demo_enclave = []"
  "om_keys (channelStates demo_enclave) = [demo_cid]"
  "om_get (channelStates demo_enclave) demo_cid = Some demo_channel"
  "status demo_channel = Alive" "check_deposits_verified demo_channel"
  "my_balance demo_channel = 100" "remote_balance demo_channel = 0"
  "remote_last_seen demo_channel = 0" "my_monotonic_counter demo_channel = 0"
  "\<not> is_backup_channel demo_channel" "backup_requests demo_channel = []"
  "deposit_ids_to_deposits (remote_setup_transaction demo_channel) = []"
  "deposit_ids_to_channels (remote_setup_transaction demo_channel) = []"
  "deposit_ids_to_channels demo_setup = [(0, demo_cid)]"
  "map fst (deposit_ids_to_deposits demo_setup) = [0, 1]"
  "deposit_amount (deposit_at (deposit_ids_to_deposits demo_setup) 0) = 100"
  "deposit_amount (deposit_at (deposit_ids_to_deposits demo_setup) 1) = 200"
  "\<not> is_spent (deposit_at (deposit_ids_to_deposits demo_setup) 0)"
  "\<not> is_spent (deposit_at (deposit_ids_to_deposits demo_setup) 1)"
  "miner_fee demo_setup = 1" "my_address demo_setup = replicate 34 (CHR ''a'')"
  "list_all (\<lambda>p. deposit_shape (snd p)) (deposit_ids_to_deposits demo_setup)"
  unfolding demo_channel_def demo_enclave_def
  by (simp_all add: demo_defs check_deposits_verified_def om_keys_def deposit_shape_def
      BITCOIN_ADDRESS_LEN_def BITCOIN_PUBLIC_KEY_LEN_def BITCOIN_PRIVATE_KEY_LEN_def
      MAX_BITCOIN_TX_SCRIPT_LEN_def)

lemma demo_deposits:
  "contiguous (deposit_ids_to_deposits demo_setup)" "length (deposit_ids_to_deposits demo_setup) = 2"
  "om_get (deposit_ids_to_deposits demo_setup) k = Some d \<Longrightarrow> deposit_shape d \<and> \<not> is_spent d"
proof -
  let ?ds = "deposit_ids_to_deposits demo_setup"
  show ct: "contiguous ?ds"
    using reachable_inv [OF demo_reachable] by (simp add: ledger_inv_def deposits_inv_def)
  show "length ?ds = 2"
    using demo_state(17) by (metis length_map length_Cons list.size(3) numeral_2_eq_2)
  assume d: "om_get ?ds k = Some d"
  then have "(k, d) \<in> set ?ds" using om_get_Some_iff [OF contiguous_ok [OF ct]] by blast
  then have "deposit_shape d" using demo_state(24) by (auto simp: list_all_iff)
  moreover have "k \<in> set (om_keys ?ds)" using d om_keys_iff [of k ?ds] by simp
  then have "k = 0 \<or> k = 1" using demo_state(17) by (simp add: om_keys_def)
  then have "\<not> is_spent d" using demo_state(20,21) deposit_at_get [OF d] by auto
  ultimately show "deposit_shape d \<and> \<not> is_spent d" by blast
qed

end
