(* ===== verification/Teechain_Properties.thy ===== *)
theory Teechain_Properties
  imports Teechain_Demo
begin

text \<open>
  What makes the trusted code of Teechain correct, and where it is not: the properties of the
  enclave as a whole, of payments between two enclaves, of settlement and of the deposits, with
  an example on the run of \<open>Teechain_Demo\<close> for each property that has hypotheses.
\<close>

section \<open>The enclave under an arbitrary host\<close>

text \<open>The examples: a payment of 5 satoshi on the channel of the demo.\<close>

definition demo_pay_ext :: ext where
  "demo_pay_ext = demo_ext (P_Send \<lparr>sm_monotoniccount = 1, sm_amount = 5\<rparr>)"

definition demo_paid :: enclave where
  "demo_paid = put_channel demo_cid (bump_counters (debit 5 demo_channel))
     (put_channel demo_cid (debit 5 demo_channel) demo_enclave)"

lemma demo_encrypt [simp]: "sgx_encrypt demo_pay_ext st p = Some ([], replicate 16 (CHR ''m''))"
  by (simp add: sgx_encrypt_def demo_pay_ext_def demo_ext_def SAMPLE_SP_TAG_SIZE_def)

lemma demo_direct: "direct_mode demo_enclave"
  by (simp add: direct_mode_def have_backup_def demo_state)

lemma demo_memcpy [simp]: "memcpy_str demo_cid CHANNEL_ID_LEN = Returns demo_cid"
  by (simp add: demo_cid_def CHANNEL_ID_LEN_def)

lemma demo_payment:
  "\<exists>r. run_ecall demo_pay_ext (Send_Bitcoins demo_cid 5) demo_enclave = Returns (r, demo_paid)"
  by (simp add: ecall_send_bitcoins_def demo_state check_status_def Let_def have_backup_def
      send_bitcoin_payment_message_def send_encrypted_def get_channel_state_def demo_paid_def)

text \<open>
  C1: every entry point of the trusted code, called by an arbitrary host in a state the enclave
  can be in, changes balances, deposits and life cycle only by steps of the ledger.\<close>

theorem ecall_refines_ledger:
  assumes "reachable e" and "run_ecall x c e = Returns (r, e')"
  shows "(ledger_step False)\<^sup>*\<^sup>* (ledger_of e) (ledger_of e')"
  using refines_ecall [OF assms(2) reachable_inv [OF assms(1)], of False] by simp

theorem ecall_refines_ledger_witness:
  "(ledger_step False)\<^sup>*\<^sup>* (ledger_of demo_enclave) (ledger_of demo_paid)"
  using ecall_refines_ledger [OF demo_reachable] demo_payment by blast

text \<open>
  C2: in every state the enclave can be in, a deposit that is in a channel exists, has an
  identifier below the number of deposits, and is not spent (for fewer than \<open>2^31\<close> deposits).\<close>

theorem deposits_in_use_are_good:
  assumes "reachable e"
    and "om_get (deposit_ids_to_channels (my_setup_transaction e)) k = Some cid"
    and "length (deposit_ids_to_deposits (my_setup_transaction e)) < 2 ^ 31"
  shows "\<exists>d. om_get (deposit_ids_to_deposits (my_setup_transaction e)) k = Some d \<and> \<not> is_spent d
    \<and> unat k < length (deposit_ids_to_deposits (my_setup_transaction e))"
proof -
  let ?s = "my_setup_transaction e"
  have inv: "deposits_inv (deposit_ids_to_deposits ?s) (deposit_ids_to_channels ?s)"
    using reachable_inv [OF assms(1)] by (simp add: ledger_inv_def)
  then obtain d where d: "om_get (deposit_ids_to_deposits ?s) k = Some d"
    using assms(2) by (auto simp: deposits_inv_def uses_exist_def)
  moreover have "\<not> is_spent d"
    using inv assms(2,3) d by (auto simp: deposits_inv_def spent_unused_def)
  moreover have "unat k < length (deposit_ids_to_deposits ?s)"
    using contiguous_get [of "deposit_ids_to_deposits ?s" k] inv d by (simp add: deposits_inv_def)
  ultimately show ?thesis by blast
qed

theorem deposits_in_use_are_good_witness:
  "\<exists>d. om_get (deposit_ids_to_deposits demo_setup) 0 = Some d \<and> \<not> is_spent d"
proof -
  have "length (deposit_ids_to_deposits demo_setup) = 2"
    using demo_state(17) by (metis length_map length_Cons list.size(3) numeral_2_eq_2)
  then show ?thesis
    using deposits_in_use_are_good [OF demo_reachable, of 0 demo_cid] by (auto simp: demo_state)
qed

text \<open>
  C3: guarded calls keep a solvent channel solvent: if the two balances of a channel
  add up to the deposits in it, they still do after the call. Guarded are all calls but those that
  set up a channel (creating it, learning its identifier, storing the deposits of the other party)
  and the one that adds a remote deposit the channel has already: the code does not check that, and such a call does make the channel insolvent
  (\<open>replayed_deposit_request_counts_twice\<close>).\<close>

theorem calls_keep_solvency:
  assumes "reachable e" and "run_ecall x c e = Returns (r, e')" and "guarded_ecall x c e"
    and "length (deposit_ids_to_deposits (my_setup_transaction e')) < 2 ^ 31"
    and "solvent (ledger_of e) cid"
  shows "solvent (ledger_of e') cid"
proof -
  have "sound_ledger {cid} (ledger_of e)"
    using assms(1,5) reachable_inv by (simp add: sound_ledger_def)
  from call_sound [OF assms(2,3) this] assms(4) show ?thesis by (simp add: sound_ledger_def)
qed

lemma demo_solvent: "solvent (ledger_of demo_enclave) demo_cid"
  by (simp add: solvent_def l_channels_ledger_of demo_state acct_solvent_def acct_of_def)

theorem calls_keep_solvency_witness: "solvent (ledger_of demo_paid) demo_cid"
proof -
  have "length (deposit_ids_to_deposits (my_setup_transaction demo_paid)) = 2"
    using demo_state(17) unfolding demo_paid_def
    by (metis length_map length_Cons list.size(3) numeral_2_eq_2 put_channel_frame(2))
  then show ?thesis
    using calls_keep_solvency [OF demo_reachable _ _ _ demo_solvent] demo_payment by fastforce
qed

text \<open>
  C4: the life cycle only goes forward: a primary and a backup never change roles, and a funded
  enclave stays funded, whatever the host calls.\<close>

theorem roles_are_permanent:
  assumes "reachable e" and "enclave_step\<^sup>*\<^sup>* e e'"
  shows "lifecycle_le (teechain_state e) (teechain_state e')
    \<and> (teechain_state e = Backup \<longrightarrow> teechain_state e' = Backup)
    \<and> (teechain_state e = Funded \<longrightarrow> teechain_state e' = Funded)"
  using enclave_steps_lifecycle [OF assms(2,1)] by auto

theorem roles_are_permanent_witness: "teechain_state demo_paid = Funded"
proof -
  have "enclave_step\<^sup>*\<^sup>* demo_enclave demo_paid"
    using demo_payment by (blast intro: enclave_step.call)
  from roles_are_permanent [OF demo_reachable this] show ?thesis by (simp add: demo_state)
qed

section \<open>Payments\<close>

text \<open>
  C5: two enclaves, both without a backup and without stable storage, and payments in one direction,
  from Alice to Bob: whatever the hosts and the network do with the messages of the channel, short
  of forging them, the payments Bob accepts are a subsequence of the payments Alice sent: each is
  accepted at most once and none out of order; and both balances are the initial ones less what
  was sent, plus what was accepted (for fewer than \<open>2^64\<close> payments).\<close>

theorem accepted_payments_were_sent:
  assumes "payment_start cid a0 b0 w" and "(payment_step cid)\<^sup>*\<^sup>* w w'"
    and "length (sent w') < 2 ^ 64"
  shows "subseq (accepted w') (sent w')
    \<and> (\<exists>sa sb. om_get (channelStates (alice w')) cid = Some sa
         \<and> om_get (channelStates (bob w')) cid = Some sb
         \<and> my_balance sa = a0 - sum_list (sent w') \<and> my_balance sb = b0 + sum_list (accepted w'))"
proof -
  have inv: "payment_inv cid a0 b0 w'" by (rule payments.inv_reachable [OF assms(1,2)])
  then obtain n where "subseq (accepted w') (take n (sent w'))"
    using assms(3) by (auto simp: payment_inv_def)
  moreover have "subseq (take n (sent w')) (sent w')"
    by (intro prefix_imp_subseq take_is_prefix)
  ultimately have "subseq (accepted w') (sent w')" by (rule subseq_order.trans)
  with inv show ?thesis by (auto simp: payment_inv_def)
qed

definition demo_world :: world where
  "demo_world = \<lparr>alice = demo_enclave, bob = demo_enclave, issued = [], sent = [], accepted = []\<rparr>"

definition demo_message :: SendMsg where
  "demo_message = \<lparr>sm_monotoniccount = 1, sm_amount = 5\<rparr>"

definition demo_credited :: enclave where
  "demo_credited = put_channel demo_cid (credit demo_message demo_channel) demo_enclave"

lemma demo_receive:
  "\<exists>r. ret_code r = REQUEST_OK
     \<and> ecall_receive_bitcoins demo_pay_ext demo_cid demo_blob 0 demo_enclave = Returns (r, demo_credited)"
  by (simp add: ecall_receive_bitcoins_def demo_state get_channel_state_def demo_pay_ext_def
      demo_decrypt sizeof_values as_SendMsg_def Let_def have_backup_def send_receive_ack_def
      send_plain_def with_user_output_def demo_credited_def demo_message_def)

lemma demo_exchange:
  "(payment_step demo_cid)\<^sup>*\<^sup>* demo_world (demo_world\<lparr>alice := demo_paid, bob := demo_credited,
     issued := [P_Send demo_message], sent := [5], accepted := [5]\<rparr>)"
proof -
  obtain r1 where pay: "ecall_send_bitcoins demo_pay_ext demo_cid 5 demo_enclave = Returns (r1, demo_paid)"
    using demo_payment by auto
  obtain r2 where rec: "ret_code r2 = REQUEST_OK"
      "ecall_receive_bitcoins demo_pay_ext demo_cid demo_blob 0 demo_enclave = Returns (r2, demo_credited)"
    using demo_receive by blast
  have m: "payment_message 5 demo_channel = demo_message"
    by (simp add: payment_message_def demo_message_def demo_state)
  let ?w1 = "demo_world\<lparr>alice := demo_paid, issued := [P_Send demo_message], sent := [5]\<rparr>"
  have "payment_step demo_cid demo_world ?w1"
    using payment_step.pay [where w = demo_world and st = demo_channel and x = demo_pay_ext
        and amount = 5 and r = r1 and a' = demo_paid and cid = demo_cid] pay m
    by (simp add: demo_world_def demo_state payment_allowed_def)
  moreover have "check_and_decrypt_message demo_pay_ext demo_blob 0 sizeof_SendMsg
      = Some (P_Send demo_message)"
    by (simp add: demo_pay_ext_def demo_decrypt sizeof_values demo_message_def)
  then have "payment_step demo_cid ?w1 (?w1\<lparr>bob := demo_credited, accepted := [5]\<rparr>)"
    using payment_step.deliver [where w = ?w1 and st = demo_channel and x = demo_pay_ext
        and blob = demo_blob and ctx = 0 and r = r2 and b' = demo_credited and m = demo_message
        and cid = demo_cid] rec
    by (simp add: demo_world_def demo_state demo_message_def)
  ultimately show ?thesis by (simp add: demo_world_def)
qed

theorem accepted_payments_were_sent_witness:
  "subseq [5] [5 :: u64] \<and> (\<exists>sb. om_get (channelStates demo_credited) demo_cid = Some sb
     \<and> my_balance sb = 105)"
proof -
  have "payment_start demo_cid 100 100 demo_world"
    by (simp add: payment_start_def demo_world_def demo_state demo_direct)
  from accepted_payments_were_sent [OF this demo_exchange] show ?thesis by auto
qed

text \<open>
  C6: a payment, in any enclave: if the channel is alive, and the amount is positive and covered by
  the balance, exactly the amount moves from one balance to the other (no wrap-around), no account
  of another channel and no deposit changes. With stable storage, or without a backup, the counter
  goes up in the same call and no other channel is touched at all; with a backup the counter stays
  and the payment waits under a nonce for the backup. Otherwise the call fails and nothing changes.\<close>

theorem send_moves_exactly_the_amount:
  assumes "om_get (channelStates e) cid = Some st"
    and "ecall_send_bitcoins x cid amount e = Returns (r, e')"
  shows "if payment_allowed amount st
    then (\<exists>st'. om_get (channelStates e') cid = Some st'
            \<and> unat (my_balance st') + unat amount = unat (my_balance st)
            \<and> my_balance st' + remote_balance st' = my_balance st + remote_balance st
            \<and> remote_last_seen st' = remote_last_seen st \<and> status st' = status st
            \<and> (if pays_at_once e
                then my_monotonic_counter st' = my_monotonic_counter st + 1
                  \<and> channelStates e' = om_put cid st' (channelStates e)
                else my_monotonic_counter st' = my_monotonic_counter st
                  \<and> (\<exists>nonce. payment_pending e' nonce amount)))
         \<and> (\<forall>c. c \<noteq> cid \<longrightarrow> l_channels (ledger_of e') c = l_channels (ledger_of e) c)
         \<and> my_setup_transaction e' = my_setup_transaction e
    else e' = e \<and> ret_code r = REQUEST_FAILED"
proof (cases "payment_allowed amount st")
  case False
  with assms show ?thesis
    by (auto simp: ecall_send_bitcoins_def payment_allowed_def check_status_def split: if_splits)
next
  case True
  then have exact: "unat (my_balance st - amount) + unat amount = unat (my_balance st)"
    by (simp add: payment_allowed_def unat_sub_of_le word_le_nat_alt)
  show ?thesis
  proof (cases "pays_at_once e")
    case now: True
    from send_at_once [OF assms(1) now True assms(2)] True now exact show ?thesis
      by (auto simp: bump_counters_def debit_def l_channels_ledger_of
          intro!: exI [of _ "bump_counters (debit amount st)"])
  next
    case False
    from send_with_backup [OF assms(1) False True assms(2)] obtain nonce req bst where *:
      "om_get (om_put cid (debit amount st) (channelStates e)) (prev_backup_channel_id e) = Some bst"
      "channelStates e' = om_put (prev_backup_channel_id e)
         (bst\<lparr>backup_requests := om_put nonce req (backup_requests bst)\<rparr>)
         (om_put cid (debit amount st) (channelStates e))"
      "request_blocked_on req = Send_Bitcoin_Request" "send_amount_blocked_on req = amount"
      "my_setup_transaction e' = my_setup_transaction e"
      "prev_backup_channel_id e' = prev_backup_channel_id e" .
    from * have "payment_pending e' nonce amount" by (simp add: payment_pending_def)
    with * True False exact show ?thesis
      by (auto simp: debit_def l_channels_ledger_of split: if_splits)
  qed
qed

theorem send_moves_exactly_the_amount_witness:
  "\<exists>st'. channelStates demo_paid = om_put demo_cid st' (channelStates demo_enclave)
     \<and> unat (my_balance st') + 5 = 100 \<and> my_monotonic_counter st' = 1"
proof -
  obtain r where "ecall_send_bitcoins demo_pay_ext demo_cid 5 demo_enclave = Returns (r, demo_paid)"
    using demo_payment by auto
  from send_moves_exactly_the_amount [OF demo_state(5) this] demo_direct show ?thesis
    by (auto simp: payment_allowed_def demo_state direct_mode_def pays_at_once_def)
qed

text \<open>
  C7: a message is accepted at most once, in any enclave, with or without a backup or stable
  storage: after any call of \<open>ecall_receive_bitcoins\<close> that returns, the same call is answered with an
  error and changes nothing; and if the call changed anything (the payment was credited), every
  later delivery of the message is refused as well, after any guarded calls of a reachable enclave
  (guarded: not the calls that set up a channel, nor adding a remote deposit a second time).\<close>

theorem receive_rejects_replay:
  assumes "ecall_receive_bitcoins x cid blob ctx e = Returns (r, e')"
  shows "ecall_receive_bitcoins x cid blob ctx e' = Returns (code_reply REQUEST_ERROR, e')
    \<and> (reachable e' \<longrightarrow> e' \<noteq> e \<longrightarrow> guarded_step\<^sup>*\<^sup>* e' e'' \<longrightarrow>
         check_and_decrypt_message x' blob' ctx' sizeof_SendMsg
           = check_and_decrypt_message x blob ctx sizeof_SendMsg \<longrightarrow>
         ecall_receive_bitcoins x' cid blob' ctx' e'' = Returns (code_reply REQUEST_ERROR, e''))"
  using receive_refused_or_seen [OF assms]
proof (elim disjE exE conjE)
  fix m st
  assume dec: "check_and_decrypt_message x blob ctx sizeof_SendMsg = Some (P_Send m)"
    and st: "om_get (channelStates e') cid = Some st" "remote_last_seen st = sm_monotoniccount m"
  have "ecall_receive_bitcoins x' cid blob' ctx' e'' = Returns (code_reply REQUEST_ERROR, e'')"
    if "reachable e'" and steps: "guarded_step\<^sup>*\<^sup>* e' e''"
      and "check_and_decrypt_message x' blob' ctx' sizeof_SendMsg = Some (P_Send m)"
  proof -
    from guarded_steps_channel [OF steps that(1) st(1)] obtain st'' where
        "om_get (channelStates e'') cid = Some st''" "remote_last_seen st \<le> remote_last_seen st''"
      by (auto simp: acct_le_def acct_of_def)
    with receive_seen_refused [OF that(3)] st(2) show ?thesis by simp
  qed
  with receive_seen_refused [OF dec st(1)] st(2) dec show ?thesis by simp
qed (use assms in auto)

theorem receive_rejects_replay_witness:
  "ecall_receive_bitcoins demo_pay_ext demo_cid demo_blob 0 demo_credited
     = Returns (code_reply REQUEST_ERROR, demo_credited)
   \<and> ecall_receive_bitcoins demo_pay_ext demo_cid demo_blob 0 (demo_credited\<lparr>benchmark := True\<rparr>)
     = Returns (code_reply REQUEST_ERROR, demo_credited\<lparr>benchmark := True\<rparr>)"
proof -
  obtain r where r: "ecall_receive_bitcoins demo_pay_ext demo_cid demo_blob 0 demo_enclave
      = Returns (r, demo_credited)"
    using demo_receive by blast
  then have "reachable demo_credited"
    using reachable_call [OF demo_reachable, of demo_pay_ext "Receive_Bitcoins demo_cid demo_blob 0"]
    by simp
  moreover have "demo_credited \<noteq> demo_enclave"
  proof
    assume "demo_credited = demo_enclave"
    then have "om_get (channelStates demo_credited) demo_cid = Some demo_channel"
      by (simp add: demo_state(5))
    then have "credit demo_message demo_channel = demo_channel"
      by (simp add: demo_credited_def)
    moreover have "remote_last_seen (credit demo_message demo_channel) = 1"
      by (simp add: credit_def demo_message_def)
    ultimately show False by (simp add: demo_state(10))
  qed
  moreover have "guarded_step demo_credited (demo_credited\<lparr>benchmark := True\<rparr>)"
    by (rule guarded_call [where c = Benchmark_Enclave])
      (simp_all add: ecall_benchmark_enclave_def)
  ultimately show ?thesis using receive_rejects_replay [OF r] by blast
qed

section \<open>Settlement\<close>

text \<open>
  C8: the command that settles a channel spends exactly the deposits of the channel, mine before
  the remote ones, and pays each party its balance, the fee being taken from mine: its text is
  the text of the list \<open>settlement_outputs\<close>, for balances that add up to less than \<open>2^63\<close>.\<close>

theorem settlement_pays_balances:
  assumes "unat my_bal + unat remote_bal < 2 ^ 63"
  shows "settle_command e cid cs rcs ds rds my_bal remote_bal fee_per_byte my_addr remote_addr =
    create_raw_transaction_rpc e
    @ ''['' @ comma_sep (map (\<lambda>k. input_item (deposit_at ds k)) (find_deposit_ids_in_channel cid cs)
        @ map (\<lambda>k. input_item (deposit_at rds k)) (find_deposit_ids_in_channel cid rcs)) @ ''] ''
    @ ''{'' @ render_outputs (settlement_outputs my_addr remote_addr
        (my_bal - settlement_fee fee_per_byte (length (find_deposit_ids_in_channel cid cs)
           + length (find_deposit_ids_in_channel cid rcs)) my_bal) remote_bal) @ ''}''"
proof -
  let ?fee = "settlement_fee fee_per_byte (length (find_deposit_ids_in_channel cid cs)
           + length (find_deposit_ids_in_channel cid rcs)) my_bal"
  have "?fee \<le> my_bal" by (rule settlement_fee_le)
  from append_output_refines [OF this assms] show ?thesis
    using append_items_both [of input_item _ rds _ ds "''[''"]
    by (simp add: settle_command_def Let_def fill_inputs_def)
qed

theorem settlement_pays_balances_witness:
  "settle_command demo_enclave demo_cid [] [] [] [] 100 50 0 ''a'' ''b'' =
     create_raw_transaction_rpc demo_enclave @ ''[] '' @ ''{''
     @ render_outputs [(''a'', 100), (''b'', 50)] @ ''}''"
  using settlement_pays_balances [of 100 50 demo_enclave demo_cid "[]" "[]" "[]" "[]" 0 "''a''" "''b''"]
  by (simp add: find_deposit_ids_in_channel_def settlement_fee_def calculate_total_fee_def
      settlement_outputs_def)

text \<open>
  C9: settlement neither creates nor destroys money: for a solvent channel whose balances do not
  wrap around, what the outputs pay plus the fee is the value of the deposits that are spent.\<close>

theorem settlement_conserves_deposits:
  assumes "om_get (channelStates e) cid = Some st" and "solvent (ledger_of e) cid"
    and "unat (my_balance st) + unat (remote_balance st) < 2 ^ 64"
  defines "s \<equiv> my_setup_transaction e" and "r \<equiv> remote_setup_transaction st"
  shows "total_paid (settlement_outputs my_addr remote_addr
      (my_balance st - settlement_fee f n (my_balance st)) (remote_balance st))
    + unat (settlement_fee f n (my_balance st))
    = unat (get_total_deposit_amount_in_channel cid (deposit_ids_to_deposits s) (deposit_ids_to_channels s)
        + get_total_deposit_amount_in_channel cid (deposit_ids_to_deposits r) (deposit_ids_to_channels r))"
proof -
  have "my_balance st + remote_balance st
      = get_total_deposit_amount_in_channel cid (deposit_ids_to_deposits s) (deposit_ids_to_channels s)
        + get_total_deposit_amount_in_channel cid (deposit_ids_to_deposits r) (deposit_ids_to_channels r)"
    using assms(1,2)
    by (simp add: solvent_def l_channels_ledger_of acct_solvent_def acct_of_def get_total_eq_value
        s_def r_def)
  moreover have "unat (my_balance st + remote_balance st)
      = unat (my_balance st) + unat (remote_balance st)"
    using assms(3) by (simp add: unat_add_no_wrap)
  ultimately show ?thesis
    using total_paid_settlement [OF settlement_fee_le assms(3)] by simp
qed

theorem settlement_conserves_deposits_witness:
  "total_paid (settlement_outputs ''a'' ''b'' (100 - settlement_fee 0 1 100) 0)
     + unat (settlement_fee 0 1 100) = 100"
  using settlement_conserves_deposits [OF demo_state(5) demo_solvent, of "''a''" "''b''" 0 1]
  by (simp add: demo_state get_total_eq_value)

lemma settle_result:
  assumes "settle x cid out e = Returns (out', e')" and "teechain_state e \<noteq> Backup"
  shows "\<exists>st. om_get (channelStates e) cid = Some st \<and> e' = put_channel cid (st\<lparr>status := Settled\<rparr>) e"
  using assms by (auto simp: settle_def check_state_def)

text \<open>
  C10: the commands of the owner stop at a settled channel: once \<open>ecall_settle\<close> has succeeded, and
  whatever guarded calls come in between, a payment, adding a deposit and removing a deposit fail
  and change nothing. The messages of the other party are not covered: the code credits its
  payments (\<open>settled_channel_accepts_payments\<close>) and moves its deposits without a look at the
  status, and a payment that waits for a backup still goes out.\<close>

theorem settled_channel_refuses_commands:
  assumes "reachable e" and "teechain_state e = Funded" and "ecall_settle x cid e = Returns (r, e')"
    and "ret_code r = REQUEST_OK" and "guarded_step\<^sup>*\<^sup>* e' e''"
  shows "ecall_send_bitcoins x' cid amount e'' = Returns (code_reply REQUEST_FAILED, e'')
    \<and> ecall_add_deposit_to_channel x' cid did e'' = Returns (code_reply REQUEST_FAILED, e'')
    \<and> ecall_remove_deposit_from_channel x' cid did e'' = Returns (code_reply REQUEST_FAILED, e'')"
proof -
  obtain out where "settle x cid '''' e = Returns (out, e')"
    using assms(2-4) by (auto simp: ecall_settle_def check_state_def split: if_splits)
  from settle_result [OF this] assms(2) obtain st where
      st: "om_get (channelStates e') cid = Some st" "status st = Settled"
    by auto
  have "reachable e'"
    using reachable_call [OF assms(1), of x "Settle cid"] assms(3) by simp
  from guarded_steps_channel [OF assms(5) this st(1)] obtain st'' where
      "om_get (channelStates e'') cid = Some st''" "Settled \<le> status st''"
    using st(2) by (auto simp: acct_le_def acct_of_def)
  moreover from this have "status st'' = Settled"
    by (cases "status st''") (simp_all add: less_eq_ChannelStatus_def)
  ultimately show ?thesis
    by (simp add: ecall_send_bitcoins_def ecall_add_deposit_to_channel_def get_channel_state_def
        ecall_remove_deposit_from_channel_def check_status_def Let_def)
qed

text \<open>A library whose answers are all a quoted \<open>00\<close>.\<close>

definition demo_rpc_ext :: ext where
  "demo_rpc_ext = demo_pay_ext\<lparr>x_rpc := (\<lambda>s. quoted ''00''), x_rpc_hex := (\<lambda>s. quoted ''00'')\<rparr>"

definition demo_settled :: enclave where
  "demo_settled = put_channel demo_cid (demo_channel\<lparr>status := Settled\<rparr>) demo_enclave"

lemma demo_settle:
  "\<exists>r. ret_code r = REQUEST_OK
     \<and> ecall_settle demo_rpc_ext demo_cid demo_enclave = Returns (r, demo_settled)"
  by (simp add: ecall_settle_def settle_def check_state_def demo_state check_status_def demo_settled_def
      get_channel_state_def generate_settle_transaction_for_channel_def create_and_sign_settlement_def
      create_settle_transaction_for_channel_def sign_settle_transaction_for_channel_def
      demo_rpc_ext_def remove_surrounding_quotes_def quoted_def Let_def substr_def)

theorem settled_channel_refuses_commands_witness:
  "ecall_send_bitcoins demo_pay_ext demo_cid 5 demo_settled
     = Returns (code_reply REQUEST_FAILED, demo_settled)"
  using settled_channel_refuses_commands [OF demo_reachable demo_state(1)] demo_settle by blast

section \<open>Deposits\<close>

text \<open>Without backup or stable storage, the message of a deposit call goes out in the call itself.\<close>

lemma sync_direct: "direct_mode e \<Longrightarrow> sync_then_send x cid send req g e = send e"
  by (simp add: sync_then_send_def direct_mode_def)

lemma direct_mode_frame [simp]:
  "direct_mode (set_user_output c t e) = direct_mode e"
  "direct_mode (e\<lparr>my_setup_transaction := s\<rparr>) = direct_mode e"
  "direct_mode (snd (generate_random_nonce x e)) = direct_mode e"
  by (simp_all add: direct_mode_def have_backup_def set_user_output_def)

lemma set_user_output_frame [simp]:
  "channelStates (set_user_output c t e) = channelStates e"
  "my_setup_transaction (set_user_output c t e) = my_setup_transaction e"
  by (simp_all add: set_user_output_def)

definition deposit_addable :: "enclave \<Rightarrow> ChannelState \<Rightarrow> u64 \<Rightarrow> bool" where
  "deposit_addable e st did \<longleftrightarrow> status st = Alive
     \<and> did < of_nat (length (deposit_ids_to_deposits (my_setup_transaction e)))
     \<and> \<not> is_deposit_spent (my_setup_transaction e) did
     \<and> \<not> is_deposit_in_use (my_setup_transaction e) did"

lemma add_deposit_refused:
  assumes "om_get (channelStates e) cid = Some st" and "\<not> deposit_addable e st did"
  shows "ecall_add_deposit_to_channel x cid did e = Returns (code_reply REQUEST_FAILED, e)"
  using assms by (auto simp: ecall_add_deposit_to_channel_def get_channel_state_def
      deposit_addable_def check_status_def Let_def not_le)

lemma add_deposit_direct:
  assumes "om_get (channelStates e) cid = Some st" and "direct_mode e"
    and "deposit_addable e st did" and "ecall_add_deposit_to_channel x cid did e = Returns (r, e')"
  defines "s \<equiv> my_setup_transaction e"
  shows "\<exists>n. channelStates e' = om_put cid (st\<lparr>my_balance := my_balance st
        + deposit_amount (deposit_at (deposit_ids_to_deposits s) did), most_recent_nonce := n\<rparr>)
        (channelStates e)
    \<and> my_setup_transaction e' = s\<lparr>
        deposit_ids_to_channels := om_put did cid (deposit_ids_to_channels s),
        deposit_ids_to_deposits := touch_deposit (deposit_ids_to_deposits s) did\<rparr>
    \<and> direct_mode e'"
proof -
  have "\<exists>e1. send_deposit_request x ADD_DEPOSIT SEND_DEPOSIT_ADD_REQUEST cid did e1 = Returns (r, e')
      \<and> direct_mode e1
      \<and> channelStates e1 = om_put cid (st\<lparr>my_balance := my_balance st
          + deposit_amount (deposit_at (deposit_ids_to_deposits s) did)\<rparr>) (channelStates e)
      \<and> my_setup_transaction e1 = s\<lparr>
          deposit_ids_to_channels := om_put did cid (deposit_ids_to_channels s),
          deposit_ids_to_deposits := touch_deposit (deposit_ids_to_deposits s) did\<rparr>"
    using assms(1-4)
    by (auto simp: ecall_add_deposit_to_channel_def deposit_addable_def check_status_def Let_def
        sync_direct send_add_deposit_request_def s_def split: if_splits)
  then show ?thesis by (auto dest!: send_deposit_request_state)
qed

text \<open>
  A deposit is in at most one channel: after a deposit has been added to a channel, adding it
  to any channel, the same or another, fails and changes nothing.\<close>

theorem deposit_in_one_channel:
  assumes "reachable e" and "direct_mode e" and "om_get (channelStates e) cid = Some st"
    and "deposit_addable e st did" and "ecall_add_deposit_to_channel x cid did e = Returns (r, e')"
    and "length (deposit_ids_to_deposits (my_setup_transaction e)) < 2 ^ 31"
    and "om_get (channelStates e') cid' \<noteq> None"
  shows "ecall_add_deposit_to_channel x' cid' did e' = Returns (code_reply REQUEST_FAILED, e')"
proof -
  let ?ds = "deposit_ids_to_deposits (my_setup_transaction e)"
  have "contiguous ?ds"
    using reachable_inv [OF assms(1)] by (simp add: ledger_inv_def deposits_inv_def)
  moreover have "\<not> did \<ge> of_nat (length ?ds)" using assms(4) by (auto simp: deposit_addable_def not_le)
  ultimately have "unat did < length ?ds" using contiguous_index contiguous_get by blast
  then have "int_key did = did" using assms(6) by (intro int_key_small) simp
  then have "is_deposit_in_use (my_setup_transaction e') did"
    using add_deposit_direct [OF assms(3,2,4,5)] by (auto simp: is_deposit_in_use_def)
  moreover obtain st' where "om_get (channelStates e') cid' = Some st'" using assms(7) by auto
  ultimately show ?thesis by (intro add_deposit_refused) (simp_all add: deposit_addable_def)
qed

text \<open>The deposit 1 of the demo is added to its channel.\<close>

lemma demo_add:
  "\<exists>r e'. ecall_add_deposit_to_channel demo_pay_ext demo_cid 1 demo_enclave = Returns (r, e')
     \<and> deposit_addable demo_enclave demo_channel 1"
proof -
  have len: "length (deposit_ids_to_deposits demo_setup) = 2"
    using demo_state(17) by (metis length_map length_Cons list.size(3) numeral_2_eq_2)
  have "int_key 1 = 1" by (rule int_key_small) simp
  then have ok: "deposit_addable demo_enclave demo_channel 1"
    using demo_state(21)
    by (auto simp: deposit_addable_def demo_state len is_deposit_spent_def is_deposit_in_use_def
        deposit_at_def split: option.splits)
  have "memcpy_str (fst (generate_random_nonce demo_pay_ext e)) NONCE_BYTE_LEN
      = Returns (fst (generate_random_nonce demo_pay_ext e))" for e
    by simp
  then have "\<exists>r e'. ecall_add_deposit_to_channel demo_pay_ext demo_cid 1 demo_enclave = Returns (r, e')"
    using ok
    by (simp add: ecall_add_deposit_to_channel_def get_channel_state_def demo_state check_status_def
        deposit_addable_def Let_def sync_direct demo_direct send_add_deposit_request_def
        send_deposit_request_def send_encrypted_def split_beta)
  with ok show ?thesis by blast
qed

theorem deposit_in_one_channel_witness:
  "\<exists>e'. ecall_add_deposit_to_channel demo_pay_ext demo_cid 1 e' = Returns (code_reply REQUEST_FAILED, e')
     \<and> om_get (deposit_ids_to_channels (my_setup_transaction e')) 1 = Some demo_cid"
proof -
  obtain r e' where add: "ecall_add_deposit_to_channel demo_pay_ext demo_cid 1 demo_enclave = Returns (r, e')"
    and ok: "deposit_addable demo_enclave demo_channel 1"
    using demo_add by blast
  have len: "length (deposit_ids_to_deposits demo_setup) = 2"
    using demo_state(17) by (metis length_map length_Cons list.size(3) numeral_2_eq_2)
  from add_deposit_direct [OF demo_state(5) demo_direct ok add] have
      "om_get (channelStates e') demo_cid \<noteq> None"
      "om_get (deposit_ids_to_channels (my_setup_transaction e')) 1 = Some demo_cid"
    by auto
  with deposit_in_one_channel [OF demo_reachable demo_direct demo_state(5) ok add] len
  show ?thesis by auto
qed

definition deposit_removable :: "enclave \<Rightarrow> string \<Rightarrow> ChannelState \<Rightarrow> u64 \<Rightarrow> bool" where
  "deposit_removable e cid st did \<longleftrightarrow> status st = Alive
     \<and> did < of_nat (length (deposit_ids_to_deposits (my_setup_transaction e)))
     \<and> om_get (deposit_ids_to_channels (my_setup_transaction e)) did = Some cid
     \<and> deposit_amount (deposit_at (deposit_ids_to_deposits (my_setup_transaction e)) did)
         \<le> my_balance st"

lemma remove_deposit_direct:
  assumes "om_get (channelStates e) cid = Some st" and "direct_mode e"
    and "deposit_removable e cid st did"
    and "ecall_remove_deposit_from_channel x cid did e = Returns (r, e')"
  defines "s \<equiv> my_setup_transaction e"
  shows "\<exists>n. channelStates e' = om_put cid (st\<lparr>my_balance := my_balance st
        - deposit_amount (deposit_at (deposit_ids_to_deposits s) did), most_recent_nonce := n\<rparr>)
        (channelStates e)
    \<and> my_setup_transaction e' = s\<lparr>
        deposit_ids_to_deposits := touch_deposit (deposit_ids_to_deposits s) did,
        deposit_ids_to_channels := om_del did (deposit_ids_to_channels s)\<rparr>"
proof -
  have "\<exists>e1. send_deposit_request x REMOVE_DEPOSIT SEND_DEPOSIT_REMOVE_REQUEST cid did e1
        = Returns (r, e')
      \<and> channelStates e1 = om_put cid (st\<lparr>my_balance := my_balance st
          - deposit_amount (deposit_at (deposit_ids_to_deposits s) did)\<rparr>) (channelStates e)
      \<and> my_setup_transaction e1 = s\<lparr>
          deposit_ids_to_deposits := touch_deposit (deposit_ids_to_deposits s) did,
          deposit_ids_to_channels := om_del did (deposit_ids_to_channels s)\<rparr>"
    using assms(1-4)
    by (auto simp: ecall_remove_deposit_from_channel_def deposit_removable_def check_status_def Let_def
        sync_direct send_remove_deposit_request_def s_def remove_deposit_from_channel_def
        split: if_splits)
  then show ?thesis by (auto dest!: send_deposit_request_state)
qed

text \<open>
  taking a deposit out of a channel undoes putting it in: the balances, the table of deposits
  and the use of every deposit are what they were before the two calls.\<close>

theorem add_then_remove_deposit:
  assumes "reachable e" and "direct_mode e" and "om_get (channelStates e) cid = Some st"
    and "deposit_addable e st did" and "om_get (deposit_ids_to_channels (my_setup_transaction e)) did = None"
    and "ecall_add_deposit_to_channel x cid did e = Returns (r, e1)"
    and "om_get (channelStates e1) cid = Some st1" and "deposit_removable e1 cid st1 did"
    and "ecall_remove_deposit_from_channel x' cid did e1 = Returns (r', e2)"
  shows "(\<exists>st2. om_get (channelStates e2) cid = Some st2 \<and> my_balance st2 = my_balance st
        \<and> remote_balance st2 = remote_balance st)
    \<and> deposit_ids_to_deposits (my_setup_transaction e2)
        = deposit_ids_to_deposits (my_setup_transaction e)
    \<and> (\<forall>k. om_get (deposit_ids_to_channels (my_setup_transaction e2)) k
        = om_get (deposit_ids_to_channels (my_setup_transaction e)) k)"
proof -
  let ?ds = "deposit_ids_to_deposits (my_setup_transaction e)"
  have ct: "contiguous ?ds"
    using reachable_inv [OF assms(1)] by (simp add: ledger_inv_def deposits_inv_def)
  have "\<not> did \<ge> of_nat (length ?ds)" using assms(4) by (auto simp: deposit_addable_def not_le)
  from contiguous_touch [OF ct this] have touch: "touch_deposit ?ds did = ?ds" .
  note add = add_deposit_direct [OF assms(3,2,4,6)]
  then have d1: "direct_mode e1" by blast
  from add remove_deposit_direct [OF assms(7) d1 assms(8,9)] show ?thesis
    using assms(5,7) touch
      om.del_put_fresh [of "deposit_ids_to_channels (my_setup_transaction e)" did cid]
    by auto
qed

lemma demo_remove:
  assumes "ecall_add_deposit_to_channel demo_pay_ext demo_cid 1 demo_enclave = Returns (r, e1)"
  shows "\<exists>st1 r' e2. om_get (channelStates e1) demo_cid = Some st1 \<and> deposit_removable e1 demo_cid st1 1
    \<and> ecall_remove_deposit_from_channel demo_pay_ext demo_cid 1 e1 = Returns (r', e2)"
proof -
  have ok: "deposit_addable demo_enclave demo_channel 1" using demo_add by blast
  have len: "length (deposit_ids_to_deposits demo_setup) = 2"
    using demo_state(17) by (metis length_map length_Cons list.size(3) numeral_2_eq_2)
  have "\<not> (1 :: u64) \<ge> of_nat (length (deposit_ids_to_deposits demo_setup))"
    by (simp add: len word_le_nat_alt)
  moreover have "contiguous (deposit_ids_to_deposits demo_setup)"
    using reachable_inv [OF demo_reachable] by (simp add: ledger_inv_def deposits_inv_def)
  ultimately have touch: "touch_deposit (deposit_ids_to_deposits demo_setup) 1
      = deposit_ids_to_deposits demo_setup"
    using contiguous_touch by blast
  from add_deposit_direct [OF demo_state(5) demo_direct ok assms] obtain n where
      cs: "channelStates e1 = om_put demo_cid (demo_channel\<lparr>my_balance := 300, most_recent_nonce := n\<rparr>)
        (channelStates demo_enclave)"
    and su: "my_setup_transaction e1 = demo_setup\<lparr>deposit_ids_to_channels :=
        om_put 1 demo_cid (deposit_ids_to_channels demo_setup)\<rparr>"
    and d1: "direct_mode e1"
    by (auto simp: demo_state touch)
  let ?st1 = "demo_channel\<lparr>my_balance := 300, most_recent_nonce := n\<rparr>"
  have "om_get (channelStates e1) demo_cid = Some ?st1" by (simp add: cs)
  moreover have "deposit_removable e1 demo_cid ?st1 1"
    by (simp add: deposit_removable_def su demo_state len)
  moreover have "\<exists>r' e2. ecall_remove_deposit_from_channel demo_pay_ext demo_cid 1 e1 = Returns (r', e2)"
    by (simp add: ecall_remove_deposit_from_channel_def get_channel_state_def cs su demo_state
        check_status_def Let_def len sync_direct d1 send_remove_deposit_request_def
        remove_deposit_from_channel_def send_deposit_request_def send_encrypted_def split_beta)
  ultimately show ?thesis by blast
qed

theorem add_then_remove_deposit_witness:
  "\<exists>(e2 :: enclave) st2. om_get (channelStates e2) demo_cid = Some st2 \<and> my_balance st2 = 100
     \<and> om_get (deposit_ids_to_channels (my_setup_transaction e2)) 1 = None"
proof -
  obtain r e1 where add: "ecall_add_deposit_to_channel demo_pay_ext demo_cid 1 demo_enclave = Returns (r, e1)"
    and ok: "deposit_addable demo_enclave demo_channel 1"
    using demo_add by blast
  obtain st1 r' e2 where "om_get (channelStates e1) demo_cid = Some st1"
      "deposit_removable e1 demo_cid st1 1"
      "ecall_remove_deposit_from_channel demo_pay_ext demo_cid 1 e1 = Returns (r', e2)"
    using demo_remove [OF add] by blast
  note removed = this
  have free: "om_get (deposit_ids_to_channels demo_setup) 1 = None" by (simp add: demo_state)
  from add_then_remove_deposit [OF demo_reachable demo_direct demo_state(5) ok free add removed]
  obtain st2 where "om_get (channelStates e2) demo_cid = Some st2 \<and> my_balance st2 = 100
      \<and> om_get (deposit_ids_to_channels (my_setup_transaction e2)) 1 = None"
    by (auto simp: demo_state)
  then show ?thesis by blast
qed

text \<open>
  C11: when the unused deposits have been returned, every deposit is spent or in a channel, no
  amount and no use has changed, and there is nothing left to return: a second call fails.\<close>

theorem unused_deposits_are_returned_once:
  assumes "reachable e" and "ecall_return_deposits x e = Returns (r, e')"
    and "ret_code r = REQUEST_OK"
  defines "s \<equiv> my_setup_transaction e" and "s' \<equiv> my_setup_transaction e'"
  shows "(\<forall>k d. om_get (deposit_ids_to_deposits s') k = Some d \<longrightarrow>
        is_spent d \<or> om_get (deposit_ids_to_channels s') k \<noteq> None)
    \<and> (\<forall>k. deposit_amount (deposit_at (deposit_ids_to_deposits s') k)
        = deposit_amount (deposit_at (deposit_ids_to_deposits s) k))
    \<and> deposit_ids_to_channels s' = deposit_ids_to_channels s
    \<and> ecall_return_deposits x' e' = Returns (output_reply REQUEST_FAILED '''', e')"
proof -
  let ?ds = "deposit_ids_to_deposits s" and ?cs = "deposit_ids_to_channels s"
  let ?un = "find_unused_deposits ?ds ?cs"
  have ok: "om_ok ?ds"
    using reachable_inv [OF assms(1)] contiguous_ok
    by (auto simp: ledger_inv_def deposits_inv_def s_def)
  obtain out where ph: "teechain_state e = Funded"
    and ret: "return_deposits x '''' e = Returns (True, out, e')"
    using assms(2,3) by (auto simp: ecall_return_deposits_def check_state_def split: if_splits)
  then have e': "e' = mark_unused_deposits_spent ?un e"
    by (auto simp: return_deposits_def Let_def check_state_def s_def split: if_splits)
  then have ds': "deposit_ids_to_deposits s' = mark_deposits_spent ?un ?ds"
    and cs': "deposit_ids_to_channels s' = ?cs"
    by (simp_all add: s'_def s_def mark_unused_deposits_spent_def)
  have all: "is_spent d \<or> om_get ?cs k \<noteq> None"
    if "om_get (mark_deposits_spent ?un ?ds) k = Some d" for k d
    using that find_unused_iff [OF ok, of k ?cs] by (auto simp: mark_deposits_spent_get split: if_splits)
  have "k \<notin> set (find_unused_deposits (mark_deposits_spent ?un ?ds) ?cs)" for k
    using all find_unused_iff [OF mark_deposits_spent_ok [OF ok]] by blast
  then have "find_unused_deposits (mark_deposits_spent ?un ?ds) ?cs = []"
    by (meson equals0I set_empty)
  then have "return_deposits x' '''' e' = Returns (False, '''', e')"
    using ds' cs' ph e' by (simp add: return_deposits_def check_state_def Let_def s'_def
        mark_unused_deposits_spent_def)
  then have "ecall_return_deposits x' e' = Returns (output_reply REQUEST_FAILED '''', e')"
    using ph e' by (simp add: ecall_return_deposits_def check_state_def mark_unused_deposits_spent_def)
  with all show ?thesis by (simp add: ds' cs')
qed

lemma demo_quotes [simp]: "remove_surrounding_quotes (quoted ''00'') = Returns ''00''"
  by (simp add: remove_surrounding_quotes_def quoted_def substr_def Let_def)

lemma demo_return:
  "\<exists>r e'. ret_code r = REQUEST_OK \<and> ecall_return_deposits demo_rpc_ext demo_enclave = Returns (r, e')"
proof -
  let ?ds = "deposit_ids_to_deposits demo_setup"
  have "contiguous ?ds"
    using reachable_inv [OF demo_reachable] by (simp add: ledger_inv_def deposits_inv_def)
  then have ok: "om_ok ?ds" by (rule contiguous_ok)
  have "1 \<in> set (om_keys ?ds)" using demo_state(17) by (simp add: om_keys_def)
  then obtain d where "om_get ?ds 1 = Some d" using om_keys_iff [of 1 ?ds] by auto
  moreover from this demo_state(21) have "\<not> is_spent d" by (simp add: deposit_at_get)
  ultimately have "1 \<in> set (find_unused_deposits ?ds (deposit_ids_to_channels demo_setup))"
    using find_unused_iff [OF ok] by (simp add: demo_state)
  then have "find_unused_deposits ?ds (deposit_ids_to_channels demo_setup) \<noteq> []" by auto
  then show ?thesis
    by (simp add: ecall_return_deposits_def check_state_def demo_state return_deposits_def Let_def
        create_return_transaction_for_unused_deposits_def
        sign_return_transaction_for_unused_deposits_def demo_rpc_ext_def)
qed

theorem unused_deposits_are_returned_once_witness:
  "\<exists>e'. ecall_return_deposits demo_pay_ext e' = Returns (output_reply REQUEST_FAILED '''', e')
     \<and> deposit_ids_to_channels (my_setup_transaction e') = [(0, demo_cid)]"
proof -
  obtain r e' where "ecall_return_deposits demo_rpc_ext demo_enclave = Returns (r, e')"
      "ret_code r = REQUEST_OK"
    using demo_return by blast
  from unused_deposits_are_returned_once [OF demo_reachable this] show ?thesis
    by (metis demo_state(16))
qed

section \<open>The deposits that messages carry\<close>

text \<open>
  the deposits a node presents when a channel is created arrive: the remote table of the
  receiver holds exactly the sender's deposits (only \<open>is_spent\<close>, which the message does not carry,
  is left as the memory was), none is in the channel yet, and the remote balance is zero.\<close>

theorem presented_deposits_arrive:
  assumes "create_channel_message x cid s = Returns m" and "length cid = CHANNEL_ID_LEN"
    and "contiguous (deposit_ids_to_deposits s)"
    and "\<forall>k d. om_get (deposit_ids_to_deposits s) k = Some d \<longrightarrow> deposit_shape d"
    and "check_and_decrypt_message x' blob ctx sizeof_CreateChannelMsg = Some (P_CreateChannel m)"
    and "direct_mode e" and "om_get (channelStates e) cid = Some st"
  shows "\<exists>r e' st'. ecall_store_encrypted_deposit_data x' cid blob ctx e = Returns (r, e')
    \<and> ret_code r = REQUEST_OK \<and> om_get (channelStates e') cid = Some st'
    \<and> deposit_ids_to_deposits (remote_setup_transaction st')
        = received_deposits (x_junk_bool x') (deposit_ids_to_deposits s)
    \<and> deposit_ids_to_channels (remote_setup_transaction st') = []
    \<and> remote_balance st' = 0 \<and> my_balance st' = my_balance st"
proof -
  let ?ds = "received_deposits (x_junk_bool x') (deposit_ids_to_deposits s)"
  let ?st = "st\<lparr>remote_setup_transaction := (remote_setup_transaction st)
     \<lparr>my_address := cc_bitcoin_address m, deposit_ids_to_deposits := ?ds,
      deposit_ids_to_channels := []\<rparr>, remote_balance := 0\<rparr>"
  have cid: "cc_channel_id m = cid"
    using exchange_deposits(2) [OF assms(1,3,4)] assms(2) by simp
  have "\<forall>out. \<exists>out'. foldo (store_one_deposit x' m) [0..<unat (cc_num_deposits m)] (out, om_empty)
      = Returns (out', ?ds)"
    using exchange_deposits(1) [OF assms(1,3,4)] by blast
  then obtain f where "foldo (store_one_deposit x' m) [0..<unat (cc_num_deposits m)] (out, om_empty)
      = Returns (f out, ?ds)" for out
    by metis
  then have "\<exists>r t. ecall_store_encrypted_deposit_data x' cid blob ctx e
      = Returns (r, put_channel cid ?st (set_user_output cid t e)) \<and> ret_code r = REQUEST_OK"
    using assms(2,5,6,7) cid
    by (simp add: ecall_store_encrypted_deposit_data_def get_channel_state_def
        as_CreateChannelMsg_def Let_def sync_direct send_local_ack_def send_plain_def) blast
  then obtain r t where "ret_code r = REQUEST_OK"
      "ecall_store_encrypted_deposit_data x' cid blob ctx e
        = Returns (r, put_channel cid ?st (set_user_output cid t e))" by blast
  then show ?thesis
    by (intro exI [of _ r] exI [of _ "put_channel cid ?st (set_user_output cid t e)"] exI [of _ ?st]) simp
qed

theorem presented_deposits_arrive_witness:
  "\<exists>(e' :: enclave) st'. om_get (channelStates e') demo_cid = Some st'
     \<and> deposit_ids_to_deposits (remote_setup_transaction st')
         = received_deposits False (deposit_ids_to_deposits demo_setup)"
proof -
  have "\<forall>i < length (deposit_ids_to_deposits demo_setup).
      deposit_shape (deposit_at (deposit_ids_to_deposits demo_setup) (of_nat i))"
    using demo_deposits(3) contiguous_nth [OF demo_deposits(1)] om_get_Some_iff [OF contiguous_ok [OF demo_deposits(1)]]
      nth_mem by (metis deposit_at_get)
  then obtain m where m: "create_channel_message demo_pay_ext demo_cid demo_setup = Returns m"
    using create_channel_message_returns [of demo_cid demo_setup demo_pay_ext] demo_deposits(2)
    by (auto simp: demo_cid_def CHANNEL_ID_LEN_def demo_state BITCOIN_ADDRESS_LEN_def
        MAX_NUM_SETUP_DEPOSITS_def)
  let ?blob = "replicate 6000 (CHR ''z'')"
  have "check_and_decrypt_message (demo_ext (P_CreateChannel m)) ?blob 0 sizeof_CreateChannelMsg
      = Some (P_CreateChannel m)"
    by (simp add: check_and_decrypt_message_def sizeof_values SAMPLE_SP_TAG_SIZE_def sgx_decrypt_def
        demo_ext_def)
  from presented_deposits_arrive [OF m _ demo_deposits(1) _ this demo_direct demo_state(5)]
  have "\<exists>(e' :: enclave) st'. om_get (channelStates e') demo_cid = Some st'
     \<and> deposit_ids_to_deposits (remote_setup_transaction st')
         = received_deposits (x_junk_bool (demo_ext (P_CreateChannel m))) (deposit_ids_to_deposits demo_setup)"
    using demo_deposits(3) by (auto simp: demo_cid_def CHANNEL_ID_LEN_def)
  then show ?thesis by (simp add: demo_ext_def)
qed

text \<open>
  C12: a backup node restores the deposits of its primary, for a setup transaction without spent
  deposits whose texts have the lengths of the message (\<open>deposit_shape\<close>): the table it reads from
  the backup is the table the primary packed, under the same identifiers, except that \<open>is_spent\<close> of
  every deposit is what the memory held. (The slot of a spent deposit is not written, so a table
  with one reads back as junk there.)\<close>

theorem backup_restores_deposits:
  assumes "backup_my_setup_transaction x s = Returns su" and "be_my_setup_transaction m = su"
    and "contiguous (deposit_ids_to_deposits s)"
    and "\<forall>k d. om_get (deposit_ids_to_deposits s) k = Some d \<longrightarrow> deposit_shape d \<and> \<not> is_spent d"
  shows "extract_deposit_mapping_from_backup x' m
    = Returns (received_deposits (x_junk_bool x') (deposit_ids_to_deposits s))"
  by (rule backup_deposits_round_trip [OF assms])

lemma demo_backup: "\<exists>su. backup_my_setup_transaction demo_pay_ext demo_setup = Returns su"
proof -
  have shape: "deposit_shape (deposit_at (deposit_ids_to_deposits demo_setup) (of_nat i))
      \<and> \<not> is_spent (deposit_at (deposit_ids_to_deposits demo_setup) (of_nat i))" if "i < 2" for i
    using that demo_deposits contiguous_nth [OF demo_deposits(1)]
      om_get_Some_iff [OF contiguous_ok [OF demo_deposits(1)]] nth_mem by (metis deposit_at_get)
  have fill: "\<exists>b. fill_backup_deposit_state demo_pay_ext False did d = Returns b"
    if "deposit_shape d" for d did
    using that by (simp add: fill_backup_deposit_state_def fill_deposit_state_def deposit_shape_def
        blit_start)
  obtain b0 where b0: "fill_backup_deposit_state demo_pay_ext False 0
      (deposit_at (deposit_ids_to_deposits demo_setup) 0) = Returns b0"
    using fill shape [of 0] by fastforce
  obtain b1 where b1: "fill_backup_deposit_state demo_pay_ext False 1
      (deposit_at (deposit_ids_to_deposits demo_setup) 1) = Returns b1"
    using fill shape [of 1] by fastforce
  show ?thesis
    by (simp add: backup_my_setup_transaction_def demo_deposits(2) demo_state memcpy_str_def
        BITCOIN_ADDRESS_LEN_def upt_rec b0 b1 array_set_def MAX_NUM_SETUP_DEPOSITS_def)
qed

theorem backup_restores_deposits_witness:
  "\<exists>m. extract_deposit_mapping_from_backup demo_pay_ext m
     = Returns (received_deposits False (deposit_ids_to_deposits demo_setup))"
proof -
  obtain su where su: "backup_my_setup_transaction demo_pay_ext demo_setup = Returns su"
    using demo_backup by blast
  have "be_my_setup_transaction (zero_BackupEnclaveStateMsg\<lparr>be_my_setup_transaction := su\<rparr>) = su"
    by simp
  from backup_restores_deposits [OF su this demo_deposits(1), of demo_pay_ext] demo_deposits(3)
  show ?thesis by (auto simp: demo_pay_ext_def demo_ext_def)
qed

text \<open>the messages hold ten deposits, the enclave lets its host fund more, and no code checks: with
  more than ten, presenting the deposits writes past the arrays of the message.\<close>

theorem eleventh_deposit_overflows:
  assumes "om_get (channelStates e) cid = Some st"
    and "MAX_NUM_SETUP_DEPOSITS < length (deposit_ids_to_deposits (my_setup_transaction e))"
    and "\<forall>i < length (deposit_ids_to_deposits (my_setup_transaction e)).
      deposit_shape (deposit_at (deposit_ids_to_deposits (my_setup_transaction e)) (of_nat i))"
  shows "ecall_get_deposit_data_encrypted x cid e = Undefined"
  using assms(1) too_many_deposits [OF assms(2,3)]
  by (simp add: ecall_get_deposit_data_encrypted_def get_channel_state_def)

definition demo_many :: enclave where
  "demo_many = demo_enclave\<lparr>my_setup_transaction := demo_setup\<lparr>deposit_ids_to_deposits :=
     map (\<lambda>i. (of_nat i, deposit_at (deposit_ids_to_deposits demo_setup) 0)) [0..<11]\<rparr>\<rparr>"

theorem eleventh_deposit_overflows_witness:
  "ecall_get_deposit_data_encrypted demo_pay_ext demo_cid demo_many = Undefined"
proof -
  let ?d = "deposit_at (deposit_ids_to_deposits demo_setup) 0"
  have len: "length (deposit_ids_to_deposits (my_setup_transaction demo_many)) = 11"
    unfolding demo_many_def by (simp del: upt.simps)
  have d: "om_get (deposit_ids_to_deposits demo_setup) 0 \<noteq> None"
    using demo_deposits(1,2) contiguous_get by fastforce
  then have "deposit_shape ?d" using demo_deposits(3) by (auto simp: deposit_at_get)
  moreover have "deposit_at (deposit_ids_to_deposits (my_setup_transaction demo_many)) (of_nat i) = ?d"
    if "i < 11" for i
  proof -
    from that have "(of_nat i, ?d) \<in> set (deposit_ids_to_deposits (my_setup_transaction demo_many))"
      by (auto simp: demo_many_def)
    moreover have ct: "contiguous (deposit_ids_to_deposits (my_setup_transaction demo_many))"
      by (simp add: demo_many_def contiguous_def om_keys_def o_def)
    ultimately show ?thesis using om_get_Some_iff [OF contiguous_ok [OF ct]] deposit_at_get by blast
  qed
  ultimately have "deposit_shape (deposit_at (deposit_ids_to_deposits (my_setup_transaction demo_many)) (of_nat i))"
    if "i < 11" for i
    using that by metis
  then have shape: "\<forall>i < length (deposit_ids_to_deposits (my_setup_transaction demo_many)).
      deposit_shape (deposit_at (deposit_ids_to_deposits (my_setup_transaction demo_many)) (of_nat i))"
    unfolding len by blast
  have "om_get (channelStates demo_many) demo_cid = Some demo_channel"
    unfolding demo_many_def by (simp add: demo_state(5))
  from eleventh_deposit_overflows [OF this _ shape] show ?thesis
    by (simp add: len MAX_NUM_SETUP_DEPOSITS_def)
qed

section \<open>Where the code breaks\<close>

text \<open>taking a deposit that is in no channel out of a channel is not refused: the code
  dereferences the end of the map.\<close>

theorem removing_a_free_deposit_is_undefined:
  assumes "om_get (channelStates e) cid = Some st" and "status st = Alive"
    and "did < of_nat (length (deposit_ids_to_deposits (my_setup_transaction e)))"
    and "om_get (deposit_ids_to_channels (my_setup_transaction e)) did = None"
  shows "ecall_remove_deposit_from_channel x cid did e = Undefined"
  using assms
  by (simp add: ecall_remove_deposit_from_channel_def get_channel_state_def check_status_def Let_def
      not_le)

theorem removing_a_free_deposit_is_undefined_witness:
  "ecall_remove_deposit_from_channel demo_pay_ext demo_cid 1 demo_enclave = Undefined"
  by (rule removing_a_free_deposit_is_undefined [OF demo_state(5)])
    (simp_all add: demo_state demo_deposits(2) word_less_nat_alt)

definition remote_add_message :: "ext \<Rightarrow> string \<Rightarrow> nat \<Rightarrow> DepositMsg \<Rightarrow> bool" where
  "remote_add_message x blob ctx m \<longleftrightarrow>
     check_and_decrypt_message x blob ctx sizeof_DepositMsg = Some (P_Deposit m)
     \<and> dm_deposit_operation m = ADD_DEPOSIT \<and> length (dm_channel_id m) = CHANNEL_ID_LEN
     \<and> length (dm_nonce m) = NONCE_BYTE_LEN"

lemma touch_remote_deposit_same:
  "contiguous (deposit_ids_to_deposits (remote_setup_transaction st)) \<Longrightarrow>
     in_range did (deposit_ids_to_deposits (remote_setup_transaction st)) \<Longrightarrow>
     touch_remote_deposit did st = st"
  by (simp add: touch_remote_deposit_def in_range_touch)

lemma put_channel_put [simp]: "put_channel c a (put_channel c b e) = put_channel c a e"
  by (simp add: put_channel_def)

lemma send_add_deposit_ack_sends:
  assumes "get_channel_state e c = Returns st" and "touch_remote_deposit did st = st"
    and "length c = CHANNEL_ID_LEN" and "length n = NONCE_BYTE_LEN"
  shows "\<exists>r. send_add_deposit_ack x c n did e = Returns (r, put_channel c st e)"
  using assms
  by (cases "sgx_encrypt x st (P_SecureAck \<lparr>sa_channel_id = c, sa_nonce = n, sa_result = ADD_DEPOSIT_ACK\<rparr>)")
    (simp_all add: send_add_deposit_ack_def send_deposit_ack_def send_encrypted_def Let_def)

lemma add_remote_direct:
  assumes "remote_add_message x blob ctx m" and "direct_mode e"
    and "om_get (channelStates e) (dm_channel_id m) = Some st"
    and "contiguous (deposit_ids_to_deposits (remote_setup_transaction st))"
    and "in_range (dm_deposit_id m) (deposit_ids_to_deposits (remote_setup_transaction st))"
  defines "R \<equiv> remote_setup_transaction st"
  shows "\<exists>r. ecall_add_remote_deposit_to_channel x blob ctx e = Returns (r,
    put_channel (dm_channel_id m) (st\<lparr>remote_setup_transaction := R\<lparr>deposit_ids_to_channels :=
        om_put (dm_deposit_id m) (dm_channel_id m) (deposit_ids_to_channels R)\<rparr>,
      remote_balance := remote_balance st
        + deposit_amount (deposit_at (deposit_ids_to_deposits R) (dm_deposit_id m))\<rparr>) e)"
proof -
  define st' where "st' = st\<lparr>remote_setup_transaction := R\<lparr>deposit_ids_to_channels :=
        om_put (dm_deposit_id m) (dm_channel_id m) (deposit_ids_to_channels R)\<rparr>,
      remote_balance := remote_balance st
        + deposit_amount (deposit_at (deposit_ids_to_deposits R) (dm_deposit_id m))\<rparr>"
  have "touch_deposit (deposit_ids_to_deposits R) (dm_deposit_id m) = deposit_ids_to_deposits R"
    using in_range_touch assms(4,5) by (simp add: R_def)
  moreover have "\<not> dm_deposit_id m \<ge> of_nat (length (deposit_ids_to_deposits R))"
    using assms(5) by (simp add: in_range_def R_def)
  ultimately have "ecall_add_remote_deposit_to_channel x blob ctx e
      = send_add_deposit_ack x (dm_channel_id m) (dm_nonce m) (dm_deposit_id m)
          (put_channel (dm_channel_id m) st' e)"
    using assms(1-3)
    by (simp add: ecall_add_remote_deposit_to_channel_def remote_add_message_def as_DepositMsg_def
        get_channel_state_def R_def [symmetric] Let_def sync_direct st'_def)
  moreover have "touch_remote_deposit (dm_deposit_id m) st' = st'"
    using assms(4,5) by (intro touch_remote_deposit_same) (simp_all add: st'_def R_def)
  ultimately show ?thesis
    using send_add_deposit_ack_sends [of "put_channel (dm_channel_id m) st' e" "dm_channel_id m" st']
      assms(1)
    by (simp add: remote_add_message_def st'_def)
qed

text \<open>
  a deposit request is not checked for freshness: delivering the same request twice credits
  the remote party twice for one deposit, and a solvent channel is not solvent any more.\<close>

theorem replayed_deposit_request_counts_twice:
  assumes "remote_add_message x blob ctx m" and "direct_mode e"
    and "om_get (channelStates e) (dm_channel_id m) = Some st"
    and "contiguous (deposit_ids_to_deposits (remote_setup_transaction st))"
    and "in_range (dm_deposit_id m) (deposit_ids_to_deposits (remote_setup_transaction st))"
    and "om_get (deposit_ids_to_channels (remote_setup_transaction st)) (dm_deposit_id m) = None"
    and "solvent (ledger_of e) (dm_channel_id m)"
  defines "amount \<equiv> deposit_amount (deposit_at (deposit_ids_to_deposits (remote_setup_transaction st))
      (dm_deposit_id m))"
  assumes "amount \<noteq> 0"
  shows "\<exists>r1 e1 r2 e2 st2. ecall_add_remote_deposit_to_channel x blob ctx e = Returns (r1, e1)
    \<and> ecall_add_remote_deposit_to_channel x blob ctx e1 = Returns (r2, e2)
    \<and> om_get (channelStates e2) (dm_channel_id m) = Some st2
    \<and> remote_balance st2 = remote_balance st + amount + amount
    \<and> \<not> solvent (ledger_of e2) (dm_channel_id m)"
proof -
  let ?cid = "dm_channel_id m" and ?did = "dm_deposit_id m" and ?R = "remote_setup_transaction st"
  let ?R1 = "?R\<lparr>deposit_ids_to_channels := om_put ?did ?cid (deposit_ids_to_channels ?R)\<rparr>"
  let ?st1 = "st\<lparr>remote_setup_transaction := ?R1, remote_balance := remote_balance st + amount\<rparr>"
  let ?st2 = "?st1\<lparr>remote_balance := remote_balance st + amount + amount\<rparr>"
  let ?e1 = "put_channel ?cid ?st1 e" and ?e2 = "put_channel ?cid ?st2 (put_channel ?cid ?st1 e)"
  obtain r1 where 1: "ecall_add_remote_deposit_to_channel x blob ctx e = Returns (r1, ?e1)"
    using add_remote_direct [OF assms(1-5)] by (auto simp: amount_def)
  obtain r2 where 2: "ecall_add_remote_deposit_to_channel x blob ctx ?e1 = Returns (r2, ?e2)"
    using add_remote_direct [OF assms(1), of ?e1 ?st1] assms(2,4,5) by (auto simp: amount_def)
  have "\<not> solvent (ledger_of ?e2) ?cid"
    using assms(3,6,7,9)
    by (simp add: solvent_def l_channels_ledger_of acct_solvent_def acct_of_def
        channel_value_put_fresh amount_def algebra_simps)
  moreover have "om_get (channelStates ?e2) ?cid = Some ?st2" by simp
  ultimately show ?thesis using 1 2 by (intro exI conjI) (assumption | simp)+
qed

definition demo_remote :: enclave where
  "demo_remote = put_channel demo_cid (demo_channel\<lparr>remote_setup_transaction :=
     (remote_setup_transaction demo_channel)\<lparr>deposit_ids_to_deposits :=
       [(0, zero_Deposit\<lparr>deposit_amount := 7\<rparr>)]\<rparr>\<rparr>) demo_enclave"

definition demo_add_request :: DepositMsg where
  "demo_add_request = \<lparr>dm_deposit_operation = ADD_DEPOSIT,
     dm_nonce = replicate NONCE_BYTE_LEN (CHR ''n''), dm_channel_id = demo_cid, dm_deposit_id = 0\<rparr>"

theorem replayed_deposit_request_counts_twice_witness:
  "\<exists>(e2 :: enclave) st2. om_get (channelStates e2) demo_cid = Some st2
     \<and> remote_balance st2 = 14 \<and> \<not> solvent (ledger_of e2) demo_cid"
proof -
  let ?x = "demo_ext (P_Deposit demo_add_request)"
  let ?st = "demo_channel\<lparr>remote_setup_transaction := (remote_setup_transaction demo_channel)
     \<lparr>deposit_ids_to_deposits := [(0, zero_Deposit\<lparr>deposit_amount := 7\<rparr>)]\<rparr>\<rparr>"
  have msg: "remote_add_message ?x demo_blob 0 demo_add_request"
    by (simp add: remote_add_message_def demo_decrypt sizeof_values demo_add_request_def demo_cid_def
        CHANNEL_ID_LEN_def)
  have dir: "direct_mode demo_remote" by (simp add: demo_remote_def demo_direct)
  have st: "om_get (channelStates demo_remote) (dm_channel_id demo_add_request) = Some ?st"
    by (simp add: demo_remote_def demo_add_request_def)
  have sol: "solvent (ledger_of demo_remote) (dm_channel_id demo_add_request)"
    by (simp add: solvent_def l_channels_ledger_of demo_remote_def demo_add_request_def
        acct_solvent_def acct_of_def demo_state)
  from replayed_deposit_request_counts_twice [OF msg dir st _ _ _ sol] obtain e2 :: enclave and st2 where
      "om_get (channelStates e2) demo_cid = Some st2 \<and> remote_balance st2 = 14
        \<and> \<not> solvent (ledger_of e2) demo_cid"
    by (auto simp: contiguous_def om_keys_def in_range_def demo_add_request_def demo_state deposit_at_def)
  then show ?thesis by blast
qed

text \<open>A payment that waits for the backup: the acknowledgement, and the request it answers.\<close>

definition pending_payment ::
  "enclave \<Rightarrow> BackupStoredAckMsg \<Rightarrow> ChannelState \<Rightarrow> BackupRequest \<Rightarrow> ChannelState \<Rightarrow> bool" where
  "pending_payment e m pst req st \<longleftrightarrow> teechain_state e \<noteq> Backup
     \<and> ba_channel_id m = prev_backup_channel_id e \<and> c_str (prev_backup_channel_id e) = prev_backup_channel_id e
     \<and> ba_result m = CHANNEL_UPDATE_ACK \<and> \<not> ba_any_failures m
     \<and> om_get (channelStates e) (prev_backup_channel_id e) = Some pst
     \<and> om_get (backup_requests pst) (ba_nonce m) = Some req
     \<and> request_blocked_on req = Send_Bitcoin_Request \<and> br_nonce req = ba_nonce m
     \<and> ba_blocked_channel_id m \<noteq> prev_backup_channel_id e
     \<and> om_get (channelStates e) (ba_blocked_channel_id m) = Some st
     \<and> length (ba_blocked_channel_id m) = CHANNEL_ID_LEN"

lemma pending_paymentE:
  assumes "pending_payment e m pst req st"
  obtains "teechain_state e \<noteq> Backup" "ba_channel_id m = prev_backup_channel_id e"
    "c_str (prev_backup_channel_id e) = prev_backup_channel_id e"
    "ba_result m = CHANNEL_UPDATE_ACK" "\<not> ba_any_failures m"
    "om_get (channelStates e) (prev_backup_channel_id e) = Some pst"
    "om_get (backup_requests pst) (ba_nonce m) = Some req"
    "request_blocked_on req = Send_Bitcoin_Request" "br_nonce req = ba_nonce m"
    "ba_blocked_channel_id m \<noteq> prev_backup_channel_id e"
    "om_get (channelStates e) (ba_blocked_channel_id m) = Some st"
    "length (ba_blocked_channel_id m) = CHANNEL_ID_LEN"
  using assms by (auto simp: pending_payment_def)

text \<open>Encryption that does not fail, as GCM on valid buffers.\<close>

definition encrypts :: "ext \<Rightarrow> bool" where
  "encrypts x \<longleftrightarrow> (\<forall>k p. x_encrypt x k p \<noteq> None)"

lemma encryptsD: "encrypts x \<Longrightarrow> \<exists>c. sgx_encrypt x st p = Some c"
  by (auto simp: encrypts_def sgx_encrypt_def)

lemma release_pending_payment:
  assumes "channel_update_ack_message x blob ctx = Returns m" and "pending_payment e m pst req st"
    and "encrypts x"
  shows "\<exists>r e' pst'. ecall_verify_channel_update_stored x blob ctx e = Returns (r, e')
    \<and> action_out r = Some SEND_BITCOIN_PAYMENT
    \<and> encrypted_out r = sgx_encrypt x (bump_counters st) (P_Send \<lparr>sm_monotoniccount =
        my_monotonic_counter st + 1, sm_amount = send_amount_blocked_on req\<rparr>)
    \<and> pending_payment e' m pst' req (bump_counters st)"
proof -
  let ?b = "ba_blocked_channel_id m" and ?p = "prev_backup_channel_id e"
  let ?msg = "P_Send \<lparr>sm_monotoniccount = my_monotonic_counter st + 1,
      sm_amount = send_amount_blocked_on req\<rparr>"
  let ?e1 = "put_channel ?p (pst\<lparr>backup_requests := backup_requests pst\<rparr>) e"
  let ?e2 = "put_channel ?b (bump_counters st) ?e1"
  obtain c where c: "sgx_encrypt x (bump_counters st) ?msg = Some c"
    using encryptsD [OF assms(3)] by blast
  have "send_bitcoin_payment_message x ?b (send_amount_blocked_on req) ?e1
      = Returns ((code_reply REQUEST_OK)\<lparr>encrypted_out := Some c, next_channel_out := Some ?b,
          action_out := Some SEND_BITCOIN_PAYMENT\<rparr>, ?e2)"
    using assms(2) c
    by (simp add: send_bitcoin_payment_message_def pending_payment_def get_channel_state_def Let_def
        send_encrypted_def bump_counters_def)
  moreover have "get_channel_state e ?p = Returns pst" "request_at (backup_requests pst) (ba_nonce m) = req"
      "touch_request (backup_requests pst) (ba_nonce m) = backup_requests pst"
    using assms(2) by (simp_all add: pending_payment_def request_at_def touch_request_def)
  ultimately have "ecall_verify_channel_update_stored x blob ctx e
      = Returns ((code_reply REQUEST_OK)\<lparr>encrypted_out := Some c, next_channel_out := Some ?b,
          action_out := Some SEND_BITCOIN_PAYMENT\<rparr>, ?e2)"
    using assms by (elim pending_paymentE) (simp add: ecall_verify_channel_update_stored_def Let_def)
  moreover have "pending_payment ?e2 m pst req (bump_counters st)"
    using assms(2) by (auto simp add: pending_payment_def)
  ultimately show ?thesis using c by (intro exI conjI) (assumption | simp)+
qed

text \<open>
  C13: the acknowledgement that a channel update is stored can be replayed: the request it answers
  stays recorded, so each delivery releases one more payment message, with the next counter, for
  an amount that was debited once.\<close>

theorem replayed_update_ack_pays_twice:
  assumes "channel_update_ack_message x blob ctx = Returns m" and "pending_payment e m pst req st"
    and "encrypts x"
  shows "\<exists>r1 e1 r2 e2 st2. ecall_verify_channel_update_stored x blob ctx e = Returns (r1, e1)
    \<and> ecall_verify_channel_update_stored x blob ctx e1 = Returns (r2, e2)
    \<and> encrypted_out r1 = sgx_encrypt x (bump_counters st) (P_Send \<lparr>sm_monotoniccount =
        my_monotonic_counter st + 1, sm_amount = send_amount_blocked_on req\<rparr>)
    \<and> encrypted_out r2 = sgx_encrypt x st2 (P_Send \<lparr>sm_monotoniccount =
        my_monotonic_counter st + 2, sm_amount = send_amount_blocked_on req\<rparr>)
    \<and> om_get (channelStates e2) (ba_blocked_channel_id m) = Some st2
    \<and> my_balance st2 = my_balance st"
proof -
  obtain r1 e1 p1 where 1: "ecall_verify_channel_update_stored x blob ctx e = Returns (r1, e1)"
      "encrypted_out r1 = sgx_encrypt x (bump_counters st) (P_Send \<lparr>sm_monotoniccount =
        my_monotonic_counter st + 1, sm_amount = send_amount_blocked_on req\<rparr>)"
      "pending_payment e1 m p1 req (bump_counters st)"
    using release_pending_payment [OF assms] by blast
  obtain r2 e2 p2 where 2: "ecall_verify_channel_update_stored x blob ctx e1 = Returns (r2, e2)"
      "encrypted_out r2 = sgx_encrypt x (bump_counters (bump_counters st)) (P_Send \<lparr>sm_monotoniccount =
        my_monotonic_counter (bump_counters st) + 1, sm_amount = send_amount_blocked_on req\<rparr>)"
      "pending_payment e2 m p2 req (bump_counters (bump_counters st))"
    using release_pending_payment [OF assms(1) 1(3) assms(3)] by blast
  have "my_monotonic_counter (bump_counters st) + 1 = my_monotonic_counter st + 2"
    by (simp add: bump_counters_def)
  with 2(2) have "encrypted_out r2 = sgx_encrypt x (bump_counters (bump_counters st)) (P_Send
      \<lparr>sm_monotoniccount = my_monotonic_counter st + 2, sm_amount = send_amount_blocked_on req\<rparr>)"
    by simp
  moreover have "om_get (channelStates e2) (ba_blocked_channel_id m)
      = Some (bump_counters (bump_counters st))"
    using 2(3) by (rule pending_paymentE)
  moreover have "my_balance (bump_counters (bump_counters st)) = my_balance st"
    by (simp add: bump_counters_def)
  ultimately show ?thesis using 1(1,2) 2(1) by blast
qed

definition demo_backup_id :: string where
  "demo_backup_id = ''BBBBBBBBBBBBBBBB''"

definition demo_request :: BackupRequest where
  "demo_request = \<lparr>request_blocked_on = Send_Bitcoin_Request, send_amount_blocked_on = 5,
     deposit_id_blocked_on = 0, br_nonce = replicate NONCE_BYTE_LEN (CHR ''n'')\<rparr>"

definition demo_ack :: BackupStoredAckMsg where
  "demo_ack = \<lparr>ba_channel_id = demo_backup_id, ba_blocked_channel_id = demo_cid,
     ba_nonce = replicate NONCE_BYTE_LEN (CHR ''n''), ba_result = CHANNEL_UPDATE_ACK,
     ba_any_failures = False\<rparr>"

text \<open>The demo with a backup, a payment of 5 debited and waiting for the acknowledgement.\<close>

definition demo_waiting :: enclave where
  "demo_waiting = (put_channel demo_backup_id (demo_channel\<lparr>is_backup_channel := True,
     backup_requests := [(replicate NONCE_BYTE_LEN (CHR ''n''), demo_request)]\<rparr>)
     (put_channel demo_cid (debit 5 demo_channel) demo_enclave))\<lparr>prev_backup_channel_id := demo_backup_id\<rparr>"

lemma demo_pending: "\<exists>pst. pending_payment demo_waiting demo_ack pst demo_request (debit 5 demo_channel)"
  by (simp add: pending_payment_def demo_waiting_def demo_ack_def demo_request_def demo_state
      demo_backup_id_def demo_cid_def c_str_def CHANNEL_ID_LEN_def)

theorem replayed_update_ack_pays_twice_witness:
  "\<exists>(e2 :: enclave) r2 st2 e1. ecall_verify_channel_update_stored (demo_ext (P_BackupStoredAck demo_ack))
       demo_blob 0 e1 = Returns (r2, e2)
     \<and> om_get (channelStates e2) demo_cid = Some st2 \<and> my_balance st2 = 95"
proof -
  let ?x = "demo_ext (P_BackupStoredAck demo_ack)"
  have msg: "channel_update_ack_message ?x demo_blob 0 = Returns demo_ack"
    by (simp add: channel_update_ack_message_def demo_decrypt sizeof_values as_BackupStoredAckMsg_def)
  obtain pst where pend: "pending_payment demo_waiting demo_ack pst demo_request (debit 5 demo_channel)"
    using demo_pending by blast
  have "encrypts ?x" by (simp add: encrypts_def demo_ext_def)
  from replayed_update_ack_pays_twice [OF msg pend this] obtain e1 e2 :: enclave and r2 st2 where
      "ecall_verify_channel_update_stored ?x demo_blob 0 e1 = Returns (r2, e2)"
      "om_get (channelStates e2) demo_cid = Some st2" "my_balance st2 = my_balance (debit 5 demo_channel)"
    by (auto simp: demo_ack_def)
  then show ?thesis by (auto simp: debit_def demo_state)
qed

text \<open>the handler does not stop when the acknowledgement cannot be decrypted: it goes on with the
  uninitialised message, so a blob of garbage releases the payment that this memory names.\<close>

theorem garbage_ack_acts_on_uninitialised_memory:
  assumes "check_and_decrypt_message x blob ctx sizeof_BackupStoredAckMsg = None"
    and "pending_payment e (x_junk_ack x) pst req st" and "encrypts x"
  shows "\<exists>r e'. ecall_verify_channel_update_stored x blob ctx e = Returns (r, e')
    \<and> action_out r = Some SEND_BITCOIN_PAYMENT
    \<and> encrypted_out r = sgx_encrypt x (bump_counters st) (P_Send \<lparr>sm_monotoniccount =
        my_monotonic_counter st + 1, sm_amount = send_amount_blocked_on req\<rparr>)"
proof -
  have "channel_update_ack_message x blob ctx = Returns (x_junk_ack x)"
    using assms(1) by (simp add: channel_update_ack_message_def)
  from release_pending_payment [OF this assms(2,3)] show ?thesis by blast
qed

theorem garbage_ack_acts_on_uninitialised_memory_witness:
  "\<exists>r e'. ecall_verify_channel_update_stored (demo_pay_ext\<lparr>x_junk_ack := demo_ack\<rparr>) [] 0 demo_waiting
      = Returns (r, e') \<and> action_out r = Some SEND_BITCOIN_PAYMENT"
proof -
  let ?x = "demo_pay_ext\<lparr>x_junk_ack := demo_ack\<rparr>"
  obtain pst where "pending_payment demo_waiting demo_ack pst demo_request (debit 5 demo_channel)"
    using demo_pending by blast
  then have pend: "pending_payment demo_waiting (x_junk_ack ?x) pst demo_request (debit 5 demo_channel)"
    by simp
  have "encrypts ?x" by (simp add: encrypts_def demo_pay_ext_def demo_ext_def)
  moreover have "check_and_decrypt_message ?x [] 0 sizeof_BackupStoredAckMsg = None"
    by (simp add: check_and_decrypt_message_def)
  ultimately show ?thesis
    using garbage_ack_acts_on_uninitialised_memory [OF _ pend] by blast
qed

text \<open>the shutdown stops at the first channel that is empty: the channels after it, whatever they
  hold, are not settled, although the call reports success.\<close>

theorem shutdown_skips_channels_after_an_empty_one:
  assumes "teechain_state e = Funded" and "get_all_non_backup_channel_ids e = cid # rest"
    and "om_get (channelStates e) cid = Some st" and "my_balance st = 0" and "remote_balance st = 0"
    and "ecall_shutdown x e = Returns (r, e')"
  shows "channelStates e' = channelStates e \<and> ret_code r = REQUEST_OK"
proof -
  obtain ok out e1 out' cids where ret: "return_deposits x '''' e = Returns (ok, out, e1)"
    and cids: "(if check_state e1 Backup then get_channel_ids_from_backup (most_recent_backup_state e1)
        else Returns (get_all_non_backup_channel_ids e1)) = Returns cids"
    and loop: "settle_channels x cids out e1 = Returns (out', e')"
    and r: "r = output_reply REQUEST_OK out'"
    using assms(1,6) by (auto simp: ecall_shutdown_def check_state_def)
  have e1: "channelStates e1 = channelStates e" "teechain_state e1 = Funded"
    using ret assms(1)
    by (auto simp: return_deposits_def Let_def check_state_def mark_unused_deposits_spent_def
        split: if_splits)
  then have "get_all_non_backup_channel_ids e1 = cid # rest"
    using assms(2) by (simp add: get_all_non_backup_channel_ids_def)
  then have "cids = cid # rest" using cids e1(2) by (simp add: check_state_def)
  with loop assms(3-5) e1 have "e' = e1"
    by (simp add: channel_balances_def check_state_def get_channel_state_def)
  with e1 r show ?thesis by simp
qed

text \<open>Two channels: the first has been emptied, the second holds the money.\<close>

definition demo_two :: enclave where
  "demo_two = demo_enclave\<lparr>channelStates :=
     [(demo_cid, demo_channel\<lparr>my_balance := 0\<rparr>), (demo_backup_id, demo_channel)]\<rparr>"

lemma demo_shutdown: "\<exists>r e'. ecall_shutdown demo_rpc_ext demo_two = Returns (r, e')"
proof -
  have ids: "get_all_non_backup_channel_ids (demo_two\<lparr>my_setup_transaction := s\<rparr>) = [demo_cid, demo_backup_id]" for s
    by (simp add: get_all_non_backup_channel_ids_def demo_two_def demo_state)
  have "\<exists>ok out e1. return_deposits demo_rpc_ext '''' demo_two = Returns (ok, out, e1)
      \<and> (\<exists>s. e1 = demo_two\<lparr>my_setup_transaction := s\<rparr>)"
    by (auto simp: return_deposits_def check_state_def demo_two_def demo_state Let_def
        create_return_transaction_for_unused_deposits_def mark_unused_deposits_spent_def
        sign_return_transaction_for_unused_deposits_def demo_rpc_ext_def
        intro: exI [of _ "my_setup_transaction demo_enclave"])
  then obtain ok out s where ret: "return_deposits demo_rpc_ext '''' demo_two
      = Returns (ok, out, demo_two\<lparr>my_setup_transaction := s\<rparr>)" by blast
  have "\<not> check_state (demo_two\<lparr>my_setup_transaction := s\<rparr>) Backup" "check_state demo_two Funded"
    by (simp_all add: check_state_def demo_two_def demo_state)
  moreover have "om_get (channelStates (demo_two\<lparr>my_setup_transaction := s\<rparr>)) demo_cid
      = Some (demo_channel\<lparr>my_balance := 0\<rparr>)"
    by (simp add: demo_two_def)
  ultimately show ?thesis
    using ret by (simp add: ecall_shutdown_def ids channel_balances_def get_channel_state_def demo_state)
qed

theorem shutdown_skips_channels_after_an_empty_one_witness:
  "\<exists>r (e' :: enclave) st. ecall_shutdown demo_rpc_ext demo_two = Returns (r, e')
     \<and> om_get (channelStates e') demo_backup_id = Some st \<and> status st = Alive \<and> my_balance st = 100"
proof -
  obtain r e' where run: "ecall_shutdown demo_rpc_ext demo_two = Returns (r, e')"
    using demo_shutdown by blast
  have ids: "get_all_non_backup_channel_ids demo_two = demo_cid # [demo_backup_id]"
    by (simp add: get_all_non_backup_channel_ids_def demo_two_def demo_state)
  have "channelStates e' = channelStates demo_two"
    using shutdown_skips_channels_after_an_empty_one [OF _ ids _ _ _ run,
        of "demo_channel\<lparr>my_balance := 0\<rparr>"]
    by (simp add: demo_two_def demo_state)
  moreover have "demo_backup_id \<noteq> demo_cid" by (simp add: demo_backup_id_def demo_cid_def)
  ultimately show ?thesis using run by (simp add: demo_two_def demo_state)
qed

text \<open>a settled channel still takes payments: a fresh message is credited to the balance although
  the transaction that pays the balances out has been handed out already.\<close>

theorem settled_channel_accepts_payments:
  assumes "om_get (channelStates e) cid = Some st" and "direct_mode e" and "status st = Settled"
    and "check_and_decrypt_message x blob ctx sizeof_SendMsg = Some (P_Send m)"
    and "payment_fresh m st" and "length cid = CHANNEL_ID_LEN"
  shows "\<exists>r st'. ecall_receive_bitcoins x cid blob ctx e = Returns (r, put_channel cid st' e)
    \<and> ret_code r = REQUEST_OK \<and> my_balance st' = my_balance st + sm_amount m \<and> status st' = Settled"
proof -
  have "\<exists>r. ecall_receive_bitcoins x cid blob ctx e = Returns (r, put_channel cid (credit m st) e)
      \<and> ret_code r = REQUEST_OK"
    using assms
    by (simp add: ecall_receive_bitcoins_def get_channel_state_def as_SendMsg_def payment_fresh_def
        Let_def direct_mode_def have_backup_def send_receive_ack_def send_plain_def
        with_user_output_def not_le)
  moreover have "my_balance (credit m st) = my_balance st + sm_amount m" "status (credit m st) = Settled"
    using assms(3) by (simp_all add: credit_def)
  ultimately show ?thesis by blast
qed

theorem settled_channel_accepts_payments_witness:
  "\<exists>r st'. ecall_receive_bitcoins demo_pay_ext demo_cid demo_blob 0 demo_settled
       = Returns (r, put_channel demo_cid st' demo_settled) \<and> my_balance st' = 105"
proof -
  have st: "om_get (channelStates demo_settled) demo_cid = Some (demo_channel\<lparr>status := Settled\<rparr>)"
    by (simp add: demo_settled_def)
  have dir: "direct_mode demo_settled" by (simp add: demo_settled_def demo_direct)
  have dec: "check_and_decrypt_message demo_pay_ext demo_blob 0 sizeof_SendMsg = Some (P_Send demo_message)"
    by (simp add: demo_pay_ext_def demo_decrypt sizeof_values demo_message_def)
  have fresh: "payment_fresh demo_message (demo_channel\<lparr>status := Settled\<rparr>)"
    using demo_state(7) by (simp add: payment_fresh_def demo_message_def demo_state
        check_deposits_verified_def)
  from settled_channel_accepts_payments [OF st dir _ dec fresh] show ?thesis
    by (auto simp: demo_cid_def CHANNEL_ID_LEN_def demo_message_def demo_state)
qed

section \<open>Backups\<close>

lemma release_keeps_requests:
  assumes "release_blocked_request x blocked req e = Returns (r, e')"
    and "om_get (channelStates e) cid = Some st"
  shows "\<exists>st'. om_get (channelStates e') cid = Some st' \<and> backup_requests st' = backup_requests st"
proof -
  have "e' = e \<or> (\<exists>k act did. send_deposit_request x k act blocked did e = Returns (r, e'))
    \<or> (\<exists>did bst. om_get (channelStates e) blocked = Some bst
        \<and> e' = put_channel blocked (touch_remote_deposit did bst) e)"
    using assms(1)
    by (cases "request_blocked_on req")
      (auto simp: release_blocked_request_def send_add_deposit_request_def
        send_remove_deposit_request_def dest: send_acks_state(1,2)
        dest!: send_deposit_acks_state(2,3))
  then consider "e' = e"
    | k act did where "send_deposit_request x k act blocked did e = Returns (r, e')"
    | bst did where "om_get (channelStates e) blocked = Some bst"
        "e' = put_channel blocked (touch_remote_deposit did bst) e"
    by blast
  then show ?thesis
  proof cases
    case (2 k act did)
    from send_deposit_request_state [OF this] obtain bst where
        "om_get (channelStates e) blocked = Some bst"
        "e' = put_channel blocked (bst\<lparr>most_recent_nonce := fst (generate_random_nonce x e)\<rparr>)
          (snd (generate_random_nonce x e))"
      by auto
    with assms(2) show ?thesis by auto
  next
    case (3 bst did)
    with assms(2) show ?thesis by (auto simp: touch_remote_deposit_def)
  qed (use assms(2) in simp)
qed

text \<open>the acknowledgement that the state is stored works once: whatever the primary did on it, the
  request is forgotten, and the same acknowledgement is answered with a failure and releases
  nothing.\<close>

theorem stored_ack_releases_once:
  assumes "check_and_decrypt_message x blob ctx sizeof_BackupStoredAckMsg = Some (P_BackupStoredAck m)"
    and "teechain_state e \<noteq> Backup" and "length (ba_blocked_channel_id m) = CHANNEL_ID_LEN"
    and "ecall_verify_backup_stored x blob ctx e = Returns (r, e')"
  shows "\<exists>r'' e''. ecall_verify_backup_stored x blob ctx e' = Returns (r'', e'')
    \<and> ret_code r'' = REQUEST_FAILED \<and> encrypted_out r'' = None \<and> action_out r'' = None"
proof -
  obtain st where st: "om_get (channelStates e) (ba_channel_id m) = Some st"
    using assms(1,4)
    by (auto simp: ecall_verify_backup_stored_def as_BackupStoredAckMsg_def Let_def)
  let ?e1 = "put_channel (ba_channel_id m) (st\<lparr>backup_requests := om_del (ba_nonce m)
      (touch_request (backup_requests st) (ba_nonce m))\<rparr>) e"
  have forgotten: "om_get (channelStates ?e1) (ba_channel_id m) = Some st1 \<Longrightarrow>
      om_get (backup_requests st1) (ba_nonce m) = None" for st1
    by auto
  have "e' = ?e1 \<or> (\<exists>req. release_blocked_request x (ba_blocked_channel_id m) req ?e1 = Returns (r, e'))"
    using assms st
    by (auto simp: ecall_verify_backup_stored_def as_BackupStoredAckMsg_def Let_def get_channel_state_def
        split: if_splits)
  then have after: "(\<exists>st'. om_get (channelStates e') (ba_channel_id m) = Some st'
      \<and> om_get (backup_requests st') (ba_nonce m) = None) \<and> teechain_state e' = teechain_state e"
  proof (elim disjE exE)
    fix req
    assume rel: "release_blocked_request x (ba_blocked_channel_id m) req ?e1 = Returns (r, e')"
    obtain st1 where st1: "om_get (channelStates ?e1) (ba_channel_id m) = Some st1" by simp
    have "teechain_state e' = teechain_state ?e1"
      using rel by (cases "request_blocked_on req")
        (auto simp: release_blocked_request_def send_add_deposit_request_def
          send_remove_deposit_request_def
          dest!: send_acks_state(1,2) send_deposit_request_state send_deposit_acks_state(2,3))
    then show ?thesis using release_keeps_requests [OF rel st1] forgotten [OF st1] by auto
  qed simp
  then obtain st' where st': "om_get (channelStates e') (ba_channel_id m) = Some st'"
      "om_get (backup_requests st') (ba_nonce m) = None" by blast
  have "ecall_verify_backup_stored x blob ctx e'
      = Returns ((code_reply REQUEST_FAILED)\<lparr>next_channel_out := Some (ba_blocked_channel_id m)\<rparr>,
          put_channel (ba_channel_id m) (st'\<lparr>backup_requests := om_del (ba_nonce m)
            (touch_request (backup_requests st') (ba_nonce m))\<rparr>) e')"
    using assms(1-3) st' after
    by (simp add: ecall_verify_backup_stored_def as_BackupStoredAckMsg_def Let_def)
  then show ?thesis by simp
qed

definition demo_stored_ack :: BackupStoredAckMsg where
  "demo_stored_ack = demo_ack\<lparr>ba_result := BACKUP_STORE_ACK\<rparr>"

definition demo_storing :: enclave where
  "demo_storing = (put_channel demo_backup_id (demo_channel\<lparr>is_backup_channel := True,
     backup_requests := [(replicate NONCE_BYTE_LEN (CHR ''n''),
       demo_request\<lparr>request_blocked_on := Backup_Store_Request\<rparr>)]\<rparr>)
     demo_enclave)\<lparr>prev_backup_channel_id := demo_backup_id\<rparr>"

lemma demo_stored:
  "\<exists>r e'. ecall_verify_backup_stored (demo_ext (P_BackupStoredAck demo_stored_ack)) demo_blob 0 demo_storing
     = Returns (r, e') \<and> action_out r = Some SEND_LOCAL_ACK"
  by (simp add: ecall_verify_backup_stored_def demo_decrypt sizeof_values as_BackupStoredAckMsg_def
      demo_stored_ack_def demo_ack_def demo_storing_def demo_state demo_request_def request_at_def
      Let_def release_blocked_request_def send_local_ack_def send_plain_def)

theorem stored_ack_releases_once_witness:
  "\<exists>(e' :: enclave) r'' e''. ecall_verify_backup_stored (demo_ext (P_BackupStoredAck demo_stored_ack))
       demo_blob 0 e' = Returns (r'', e'') \<and> ret_code r'' = REQUEST_FAILED"
proof -
  let ?x = "demo_ext (P_BackupStoredAck demo_stored_ack)"
  obtain r e' where run: "ecall_verify_backup_stored ?x demo_blob 0 demo_storing = Returns (r, e')"
    using demo_stored by blast
  have "check_and_decrypt_message ?x demo_blob 0 sizeof_BackupStoredAckMsg
      = Some (P_BackupStoredAck demo_stored_ack)"
    by (simp add: demo_decrypt sizeof_values)
  from stored_ack_releases_once [OF this _ _ run] show ?thesis
    by (auto simp: demo_storing_def demo_state demo_stored_ack_def demo_ack_def demo_cid_def
        CHANNEL_ID_LEN_def)
qed

definition updated_slot :: "UpdateChannelBalanceMsg \<Rightarrow> BackupChannelStateMsg \<Rightarrow> BackupChannelStateMsg" where
  "updated_slot m ch = ch\<lparr>bc_balance_a := uc_my_balance m, bc_balance_b := uc_remote_balance m,
     bc_bitcoin_address_a := uc_my_bitcoin_address m,
     bc_bitcoin_address_b := uc_remote_bitcoin_address m\<rparr>"

lemma update_channel_slots_from:
  "k \<le> n \<Longrightarrow> n \<le> length slots \<Longrightarrow>
     (\<exists>i. k \<le> i \<and> i < n \<and> bc_channel_id (slots ! i) = uc_blocked_channel_id m
        \<and> (\<forall>j. k \<le> j \<longrightarrow> j < i \<longrightarrow> bc_channel_id (slots ! j) \<noteq> uc_blocked_channel_id m)
        \<and> update_channel_slots m [k..<n] slots = Returns (True, slots[i := updated_slot m (slots ! i)]))
   \<or> ((\<forall>i. k \<le> i \<longrightarrow> i < n \<longrightarrow> bc_channel_id (slots ! i) \<noteq> uc_blocked_channel_id m)
        \<and> update_channel_slots m [k..<n] slots = Returns (False, slots))"
proof (induction "n - k" arbitrary: k)
  case 0
  then show ?case by simp
next
  case (Suc d)
  then have less: "k < n" and get: "array_get k slots = Returns (slots ! k)"
    by (simp_all add: array_get_def)
  show ?case
  proof (cases "bc_channel_id (slots ! k) = uc_blocked_channel_id m")
    case True
    with less get show ?thesis
      by (intro disjI1 exI [of _ k]) (simp add: upt_conv_Cons updated_slot_def)
  next
    case False
    with less get have same: "update_channel_slots m [k..<n] slots = update_channel_slots m [Suc k..<n] slots"
      by (simp add: upt_conv_Cons)
    have "d = n - Suc k" "Suc k \<le> n" using Suc.hyps(2) less by simp_all
    from Suc.hyps(1) [OF this Suc.prems(2)] consider
        i where "Suc k \<le> i" "i < n" "bc_channel_id (slots ! i) = uc_blocked_channel_id m"
          "\<forall>j. Suc k \<le> j \<longrightarrow> j < i \<longrightarrow> bc_channel_id (slots ! j) \<noteq> uc_blocked_channel_id m"
          "update_channel_slots m [Suc k..<n] slots = Returns (True, slots[i := updated_slot m (slots ! i)])"
      | "\<forall>i. Suc k \<le> i \<longrightarrow> i < n \<longrightarrow> bc_channel_id (slots ! i) \<noteq> uc_blocked_channel_id m"
          "update_channel_slots m [Suc k..<n] slots = Returns (False, slots)"
      by auto
    then show ?thesis
    proof cases
      case 1
      then have "\<forall>j. k \<le> j \<longrightarrow> j < i \<longrightarrow> bc_channel_id (slots ! j) \<noteq> uc_blocked_channel_id m"
        using False by (metis Suc_leI le_neq_implies_less)
      with 1 same show ?thesis by (intro disjI1 exI [of _ i]) simp
    next
      case 2
      then have "\<forall>i. k \<le> i \<longrightarrow> i < n \<longrightarrow> bc_channel_id (slots ! i) \<noteq> uc_blocked_channel_id m"
        using False by (metis Suc_leI le_neq_implies_less)
      with 2 same show ?thesis by simp
    qed
  qed
qed

text \<open>
  a balance update changes, of the stored backup, exactly the first channel with the identifier
  of the message, and of that channel only balances and addresses; without such a channel nothing
  changes and the update is reported as failed.\<close>

theorem update_changes_one_channel:
  assumes "unat (be_num_channels (most_recent_backup_state e))
      \<le> length (be_channel_states (most_recent_backup_state e))"
  defines "n \<equiv> unat (be_num_channels (most_recent_backup_state e))"
    and "slots \<equiv> be_channel_states (most_recent_backup_state e)"
  shows "(\<exists>i < n. bc_channel_id (slots ! i) = uc_blocked_channel_id m
        \<and> (\<forall>j < i. bc_channel_id (slots ! j) \<noteq> uc_blocked_channel_id m)
        \<and> update_channel_data m e = Returns (True, e\<lparr>most_recent_backup_state :=
            (most_recent_backup_state e)\<lparr>be_channel_states := slots[i := updated_slot m (slots ! i)]\<rparr>\<rparr>))
   \<or> ((\<forall>i < n. bc_channel_id (slots ! i) \<noteq> uc_blocked_channel_id m)
        \<and> update_channel_data m e = Returns (False, e))"
proof -
  let ?set = "\<lambda>sl. e\<lparr>most_recent_backup_state :=
      (most_recent_backup_state e)\<lparr>be_channel_states := sl\<rparr>\<rparr>"
  have run: "update_channel_data m e = Returns (found, ?set sl)"
    if "update_channel_slots m [0..<n] slots = Returns (found, sl)" for found sl
    using that by (simp add: update_channel_data_def Let_def n_def slots_def)
  have same: "?set slots = e" by (simp add: slots_def)
  have "n \<le> length slots" using assms(1) by (simp add: n_def slots_def)
  from update_channel_slots_from [OF le0 this, of m] show ?thesis
  proof (elim disjE exE conjE)
    fix i
    assume "i < n" "bc_channel_id (slots ! i) = uc_blocked_channel_id m"
      "\<forall>j\<ge>0. j < i \<longrightarrow> bc_channel_id (slots ! j) \<noteq> uc_blocked_channel_id m"
      "update_channel_slots m [0..<n] slots = Returns (True, slots[i := updated_slot m (slots ! i)])"
    then show ?thesis using run by (intro disjI1 exI [of _ i]) simp
  next
    assume "\<forall>i\<ge>0. i < n \<longrightarrow> bc_channel_id (slots ! i) \<noteq> uc_blocked_channel_id m"
      "update_channel_slots m [0..<n] slots = Returns (False, slots)"
    from run [OF this(2)] this(1) show ?thesis unfolding same by simp
  qed
qed

theorem update_changes_one_channel_witness:
  "update_channel_data zero_UpdateChannelBalanceMsg initial_enclave = Returns (False, initial_enclave)"
  using update_changes_one_channel [of initial_enclave zero_UpdateChannelBalanceMsg]
  by (simp add: initial_enclave_def zero_BackupEnclaveStateMsg_def)

text \<open>
  no call but the ones that set up or rename a channel removes a channel, takes its status
  back, lowers the highest payment counter seen from the other side, or withdraws a verification.\<close>

theorem channels_only_advance:
  assumes "reachable e" and "run_ecall x c e = Returns (r, e')" and "guarded_ecall x c e"
    and "om_get (channelStates e) cid = Some st"
  shows "\<exists>st'. om_get (channelStates e') cid = Some st' \<and> status st \<le> status st'
    \<and> remote_last_seen st \<le> remote_last_seen st'
    \<and> (deposits_verified st \<longrightarrow> deposits_verified st')
    \<and> (other_party_deposits_verified st \<longrightarrow> other_party_deposits_verified st')"
proof -
  have "ledger_steps True e e'"
    using refines_ecall [OF assms(2) reachable_inv [OF assms(1)], of True] assms(3) by simp
  then have "progress (ledger_of e) (ledger_of e')" by (rule progress.steps_below)
  then obtain b where "l_channels (ledger_of e') cid = Some b" and le: "acct_le (acct_of st) b"
    using acct_lookup [OF assms(4)] by (auto simp: progress_def)
  then obtain st' where "om_get (channelStates e') cid = Some st'" "b = acct_of st'"
    by (auto simp: l_channels_ledger_of)
  with le show ?thesis by (auto simp: acct_le_def acct_of_def)
qed

theorem channels_only_advance_witness:
  "\<exists>st'. om_get (channelStates demo_paid) demo_cid = Some st' \<and> Alive \<le> status st'"
proof -
  obtain r where "run_ecall demo_pay_ext (Send_Bitcoins demo_cid 5) demo_enclave = Returns (r, demo_paid)"
    using demo_payment by blast
  from channels_only_advance [OF demo_reachable this _ demo_state(5)] show ?thesis
    by (auto simp: demo_state)
qed

section \<open>Amounts as text\<close>

text \<open>
  the text of an amount in a transaction denotes exactly the amount: read as a decimal number
  with eight fractional digits, it is the number of satoshi.\<close>

theorem bitcoin_text_is_exact:
  "decimal_satoshi (satoshi_to_bitcoin a) = unat a
   \<and> (\<exists>ip fp. satoshi_to_bitcoin a = ip @ ''.'' @ fp \<and> length fp = 8
        \<and> list_all is_digit ip \<and> list_all is_digit fp)"
  using decimal_satoshi_to_bitcoin satoshi_to_bitcoin_fraction by blast

text \<open>Reading a number that the code has printed gives the number back, for all 64-bit values.\<close>

theorem number_text_round_trip: "string_to_long_long (long_long_to_string w) = w"
  by (rule string_to_long_long_to_string)

end
