(* ===== verification/Byte_Order.thy ===== *)
theory Byte_Order
  imports Prelude
begin

text \<open>
  Numbers in the memory of a little-endian machine: how both programs read and write the integers
  of their messages (\<open>memcpy\<close>, pointer casts and structs laid over a buffer).
\<close>

fun bytes_le :: "nat \<Rightarrow> nat \<Rightarrow> string" where
  "bytes_le 0 n = []"
| "bytes_le (Suc k) n = char_of (n mod 256) # bytes_le k (n div 256)"

fun le_value :: "string \<Rightarrow> nat" where
  "le_value [] = 0"
| "le_value (c # s) = of_char c + 256 * le_value s"

section \<open>Laws\<close>

lemma of_char_less: "of_char (c :: char) < (256 :: nat)"
  by (metis of_char_mod_256 mod_less_divisor zero_less_numeral)

lemma length_bytes_le [simp]: "length (bytes_le k n) = k"
  by (induction k arbitrary: n) simp_all

lemma le_value_bytes_le: "le_value (bytes_le k n) = n mod 256 ^ k"
proof (induction k arbitrary: n)
  case (Suc k)
  have "n mod 256 ^ Suc k = n mod 256 + 256 * (n div 256 mod 256 ^ k)"
    by (simp add: mod_mult2_eq mult.commute)
  with Suc show ?case by simp
qed simp

lemma le_value_append: "le_value (s @ t) = le_value s + 256 ^ length s * le_value t"
  by (induction s) (simp_all add: algebra_simps)

end
