(* ===== verification/Teechain_Host.thy ===== *)
theory Teechain_Host
  imports Teechain_System Byte_Order
begin

text \<open>
  The untrusted host of an enclave (\<open>Teechain/src/untrusted\<close>): its globals, its table of channels
  (\<open>channel.h\<close>, \<open>channel.cpp\<close>), the framing of messages (\<open>network.cpp\<close>, \<open>teechain.cpp\<close>) and the
  way it ends when something goes wrong (\<open>error\<close> of \<open>utils.cpp\<close>).

  A function of the host takes its arguments and the globals. It comes back with a value
  (\<open>Ran\<close>), or the process exits (\<open>Exited\<close>, with the globals at that moment), or the behaviour is
  undefined (\<open>Broken\<close>): reading past the packet, reading an output buffer the enclave has not
  written, or writing past an array. What the host calls but does not contain is the record
  \<open>host_ext\<close>.
\<close>

section \<open>Constants\<close>

definition OP_LOCAL_ACK :: nat where "OP_LOCAL_ACK = 1"
definition OP_LOCAL_FAIL :: nat where "OP_LOCAL_FAIL = 2"
definition OP_LOCAL_PRIMARY :: nat where "OP_LOCAL_PRIMARY = 10"
definition OP_LOCAL_BACKUP :: nat where "OP_LOCAL_BACKUP = 11"
definition OP_LOCAL_TEECHAIN_SETUP_DEPOSITS :: nat where "OP_LOCAL_TEECHAIN_SETUP_DEPOSITS = 20"
definition OP_LOCAL_TEECHAIN_DEPOSITS_MADE :: nat where "OP_LOCAL_TEECHAIN_DEPOSITS_MADE = 23"
definition OP_LOCAL_CREATE :: nat where "OP_LOCAL_CREATE = 30"
definition OP_REMOTE_CHANNEL_ID_GENERATED :: nat where "OP_REMOTE_CHANNEL_ID_GENERATED = 31"
definition OP_REMOTE_CHANNEL_CREATE_DATA :: nat where "OP_REMOTE_CHANNEL_CREATE_DATA = 32"
definition OP_LOCAL_VERIFY_DEPOSITS :: nat where "OP_LOCAL_VERIFY_DEPOSITS = 33"
definition OP_REMOTE_VERIFY_DEPOSITS_ACK :: nat where "OP_REMOTE_VERIFY_DEPOSITS_ACK = 34"
definition OP_LOCAL_TEECHAIN_DEPOSIT_ADD :: nat where "OP_LOCAL_TEECHAIN_DEPOSIT_ADD = 40"
definition OP_LOCAL_TEECHAIN_DEPOSIT_REMOVE :: nat where "OP_LOCAL_TEECHAIN_DEPOSIT_REMOVE = 41"
definition OP_REMOTE_TEECHAIN_DEPOSIT_ADD :: nat where "OP_REMOTE_TEECHAIN_DEPOSIT_ADD = 42"
definition OP_REMOTE_TEECHAIN_DEPOSIT_REMOVE :: nat where "OP_REMOTE_TEECHAIN_DEPOSIT_REMOVE = 43"
definition OP_REMOTE_TEECHAIN_DEPOSIT_ADD_ACK :: nat where "OP_REMOTE_TEECHAIN_DEPOSIT_ADD_ACK = 44"
definition OP_REMOTE_TEECHAIN_DEPOSIT_REMOVE_ACK :: nat where
  "OP_REMOTE_TEECHAIN_DEPOSIT_REMOVE_ACK = 45"
definition OP_LOCAL_SEND :: nat where "OP_LOCAL_SEND = 50"
definition OP_REMOTE_SEND :: nat where "OP_REMOTE_SEND = 51"
definition OP_REMOTE_SEND_ACK :: nat where "OP_REMOTE_SEND_ACK = 52"
definition OP_LOCAL_BALANCE :: nat where "OP_LOCAL_BALANCE = 53"
definition OP_LOCAL_ADD_BACKUP :: nat where "OP_LOCAL_ADD_BACKUP = 70"
definition OP_REMOTE_BACKUP_DATA :: nat where "OP_REMOTE_BACKUP_DATA = 71"
definition OP_REMOTE_BACKUP_DATA_ACK :: nat where "OP_REMOTE_BACKUP_DATA_ACK = 72"
definition OP_LOCAL_REMOVE_BACKUP :: nat where "OP_LOCAL_REMOVE_BACKUP = 73"
definition OP_REMOTE_REMOVE_BACKUP :: nat where "OP_REMOTE_REMOVE_BACKUP = 74"
definition OP_REMOTE_REMOVE_BACKUP_ACK :: nat where "OP_REMOTE_REMOVE_BACKUP_ACK = 75"
definition OP_REMOTE_UPDATE_CHANNEL_BALANCE_DATA :: nat where
  "OP_REMOTE_UPDATE_CHANNEL_BALANCE_DATA = 76"
definition OP_REMOTE_UPDATE_CHANNEL_BALANCE_DATA_ACK :: nat where
  "OP_REMOTE_UPDATE_CHANNEL_BALANCE_DATA_ACK = 77"
definition OP_LOCAL_SETTLE :: nat where "OP_LOCAL_SETTLE = 80"
definition OP_LOCAL_SHUTDOWN :: nat where "OP_LOCAL_SHUTDOWN = 81"
definition OP_LOCAL_RETURN_UNUSED :: nat where "OP_LOCAL_RETURN_UNUSED = 83"

lemmas op_defs = OP_LOCAL_ACK_def OP_LOCAL_FAIL_def OP_LOCAL_PRIMARY_def OP_LOCAL_BACKUP_def
  OP_LOCAL_TEECHAIN_SETUP_DEPOSITS_def OP_LOCAL_TEECHAIN_DEPOSITS_MADE_def OP_LOCAL_CREATE_def
  OP_REMOTE_CHANNEL_ID_GENERATED_def OP_REMOTE_CHANNEL_CREATE_DATA_def
  OP_LOCAL_VERIFY_DEPOSITS_def OP_REMOTE_VERIFY_DEPOSITS_ACK_def
  OP_LOCAL_TEECHAIN_DEPOSIT_ADD_def OP_LOCAL_TEECHAIN_DEPOSIT_REMOVE_def
  OP_REMOTE_TEECHAIN_DEPOSIT_ADD_def OP_REMOTE_TEECHAIN_DEPOSIT_REMOVE_def
  OP_REMOTE_TEECHAIN_DEPOSIT_ADD_ACK_def OP_REMOTE_TEECHAIN_DEPOSIT_REMOVE_ACK_def
  OP_LOCAL_SEND_def OP_REMOTE_SEND_def OP_REMOTE_SEND_ACK_def OP_LOCAL_BALANCE_def
  OP_LOCAL_ADD_BACKUP_def OP_REMOTE_BACKUP_DATA_def OP_REMOTE_BACKUP_DATA_ACK_def
  OP_LOCAL_REMOVE_BACKUP_def OP_REMOTE_REMOVE_BACKUP_def OP_REMOTE_REMOVE_BACKUP_ACK_def
  OP_REMOTE_UPDATE_CHANNEL_BALANCE_DATA_def OP_REMOTE_UPDATE_CHANNEL_BALANCE_DATA_ACK_def
  OP_LOCAL_SETTLE_def OP_LOCAL_SHUTDOWN_def OP_LOCAL_RETURN_UNUSED_def

definition MSG_LEN_BYTES :: nat where "MSG_LEN_BYTES = 8"
definition MAXCONN :: int where "MAXCONN = 10000"
definition REMOTE_HOST_LEN :: nat where "REMOTE_HOST_LEN = 128"
definition MAX_ECALL_USER_OUTPUT :: nat where "MAX_ECALL_USER_OUTPUT = 500"
definition MAX_ECALL_SEND_RETURN_LENGTH :: nat where "MAX_ECALL_SEND_RETURN_LENGTH = 10000"
definition MAX_ECALL_RETURN_LENGTH :: nat where "MAX_ECALL_RETURN_LENGTH = 100000"

section \<open>The globals\<close>

text \<open>
  \<open>ChannelState\<close> with its \<open>ChannelConnection\<close>. \<open>malloc\<close> leaves \<open>local_sockfd\<close> uninitialised
  (\<open>None\<close>); \<open>context\<close> is unsigned, so \<open>-1\<close> is its largest value. \<open>status\<close>, written once and
  never read, is left out.
\<close>

record HostChannel =
  hc_is_initiator :: bool
  hc_is_backup_channel :: bool
  hc_remote_host :: string
  hc_remote_host_len :: nat
  hc_remote_port :: int
  hc_id :: string
  hc_remote_sockfd :: int
  hc_local_sockfd :: "int option"
  hc_context :: nat
  hc_enclave_lost_retry_time :: int
  hc_busy_retry_time :: int

record Connection =
  cn_fd :: int
  cn_inuse :: bool
  cn_islocalhost :: bool
  cn_input :: string

text \<open>\<open>wire\<close> is what has been written to the sockets: the socket and the bytes of each message.\<close>

record host =
  encl :: enclave
  hchannels :: "(string, HostChannel) omap"
  connections :: "int \<Rightarrow> Connection"
  wire :: "(int \<times> string) list"
  error_count :: nat

definition zero_Connection :: Connection where
  "zero_Connection = \<lparr>cn_fd = 0, cn_inuse = False, cn_islocalhost = False, cn_input = []\<rparr>"

definition initial_host :: host where
  "initial_host = \<lparr>encl = initial_enclave, hchannels = om_empty,
     connections = (\<lambda>_. zero_Connection), wire = [], error_count = 0\<rparr>"

text \<open>
  Outside the program: the SGX runtime may refuse a call, a socket may be closed, and a connection
  attempt gives a descriptor or fails. \<open>srand\<close> and \<open>rand\<close> are one stream per seed.
\<close>

record host_ext =
  hx_ext :: ext
  hx_call_fails :: "ecall \<Rightarrow> bool"  \<comment> \<open>the status of the call is not \<open>SGX_SUCCESS\<close>\<close>
  hx_writable :: "int \<Rightarrow> bool"
  hx_connect :: "string \<Rightarrow> int \<Rightarrow> int option"
  hx_epoll_ok :: "int \<Rightarrow> bool"
  hx_peer_is_inet :: "int \<Rightarrow> bool"  \<comment> \<open>\<open>getpeername\<close>: an IPv4 address\<close>
  hx_peer_ip :: "int \<Rightarrow> string"
  hx_time :: nat
  hx_rand :: "nat \<Rightarrow> nat \<Rightarrow> nat"

section \<open>Functions of the host\<close>

datatype 'a run = Ran 'a host | Exited host | Broken

type_synonym 'a hostm = "host \<Rightarrow> 'a run"

definition returnh :: "'a \<Rightarrow> 'a hostm" where
  "returnh a h = Ran a h"

definition bindh :: "'a hostm \<Rightarrow> ('a \<Rightarrow> 'b hostm) \<Rightarrow> 'b hostm" where
  "bindh m f h = (case m h of Ran a h' \<Rightarrow> f a h' | Exited h' \<Rightarrow> Exited h' | Broken \<Rightarrow> Broken)"

definition broken :: "'a hostm" where
  "broken h = Broken"

definition geth :: "(host \<Rightarrow> 'a) \<Rightarrow> 'a hostm" where
  "geth f h = Ran (f h) h"

definition known :: "'a option \<Rightarrow> 'a hostm" where
  "known v = (case v of None \<Rightarrow> broken | Some w \<Rightarrow> returnh w)"

lemma returnh_bind [simp]: "bindh (returnh a) f = f a"
  by (rule ext) (simp add: bindh_def returnh_def)

lemma bindh_returnh [simp]: "bindh m returnh = m"
  by (rule ext) (simp add: bindh_def returnh_def split: run.split)

lemma broken_bind [simp]: "bindh broken f = broken"
  by (rule ext) (simp add: bindh_def broken_def)

lemma bindh_assoc: "bindh (bindh m f) g = bindh m (\<lambda>a. bindh (f a) g)"
  by (rule ext) (simp add: bindh_def split: run.split)

lemma known_simps [simp]: "known None = broken" "known (Some v) = returnh v"
  by (simp_all add: known_def)

section \<open>Calling the enclave and giving up\<close>

text \<open>
  The enclave writes its outputs through \<open>user_check\<close> pointers: an output longer than the
  caller's array overwrites the stack of the host.
\<close>

definition outputs_fit :: "nat \<Rightarrow> nat \<Rightarrow> reply \<Rightarrow> bool" where
  "outputs_fit out_len data_len r \<longleftrightarrow>
     (\<forall>s. user_output r = Some s \<longrightarrow> length s < out_len) \<and>
     (\<forall>c m. encrypted_out r = Some (c, m) \<longrightarrow> length c \<le> data_len)"

lemma outputs_fit_code [code]:
  "outputs_fit out_len data_len r \<longleftrightarrow>
     (case user_output r of None \<Rightarrow> True | Some s \<Rightarrow> length s < out_len) \<and>
     (case encrypted_out r of None \<Rightarrow> True | Some p \<Rightarrow> length (fst p) \<le> data_len)"
  by (auto simp: outputs_fit_def split: option.splits)

text \<open>
  An enclave that gives up calls \<open>ocall_error\<close>, which is \<open>error\<close>. The call to \<open>ecall_shutdown\<close> that
  \<open>error\<close> then makes is nested in the ocall, and \<open>teechain.edl\<close> allows no ecall there
  (\<open>ocall_error\<close> has no \<open>allow\<close> list), so it fails and \<open>error\<close> is entered once more.
\<close>

definition enclave_gave_up :: "host \<Rightarrow> host" where
  "enclave_gave_up h = h\<lparr>error_count := (if error_count h = 0 then 2 else error_count h + 1)\<rparr>"

definition host_call :: "host_ext \<Rightarrow> nat \<Rightarrow> nat \<Rightarrow> ecall \<Rightarrow> reply option hostm" where
  "host_call hx out_len data_len c h =
     (if hx_call_fails hx c then Ran None h
      else case run_ecall (hx_ext hx) c (encl h) of
        Returns (r, e) \<Rightarrow>
          if outputs_fit out_len data_len r then Ran (Some r) (h\<lparr>encl := e\<rparr>) else Broken
      | Terminated \<Rightarrow> Exited (enclave_gave_up h)
      | Undefined \<Rightarrow> Broken)"

text \<open>\<open>command_return != SGX_SUCCESS || ecall_return == REQUEST_CRASHED\<close> and its variants.\<close>

definition crashed :: "reply option \<Rightarrow> bool" where
  "crashed r = (case r of None \<Rightarrow> True | Some a \<Rightarrow> ret_code a = REQUEST_CRASHED)"

definition not_ok :: "reply option \<Rightarrow> bool" where
  "not_ok r = (case r of None \<Rightarrow> True | Some a \<Rightarrow> ret_code a \<noteq> REQUEST_OK)"

definition failed :: "reply option \<Rightarrow> bool" where
  "failed r = (case r of None \<Rightarrow> False | Some a \<Rightarrow> ret_code a = REQUEST_FAILED)"

text \<open>Reading an output buffer: undefined when the enclave has not written it.\<close>

definition out_text :: "reply option \<Rightarrow> string hostm" where
  "out_text r = known (Option.bind r user_output)"

definition out_action :: "reply option \<Rightarrow> action hostm" where
  "out_action r = known (Option.bind r action_out)"

definition out_next :: "reply option \<Rightarrow> string hostm" where
  "out_next r = known (Option.bind r next_channel_out)"

definition out_data :: "reply option \<Rightarrow> (string \<times> string) hostm" where
  "out_data r = known (Option.bind r encrypted_out)"

text \<open>
  \<open>error\<close>: the first error shuts the enclave down and prints what \<open>ecall_shutdown\<close> has written into
  an uninitialised array; it writes nothing when the enclave is neither funded nor a backup. An
  error on the way (the second) only ends the process, with \<open>cleanup\<close> and \<open>exit(1)\<close>.
\<close>

definition count_error :: "unit hostm" where
  "count_error h = Ran () (h\<lparr>error_count := error_count h + 1\<rparr>)"

definition exit_process :: "'a hostm" where
  "exit_process h = Exited h"

definition shutdown_or :: "host_ext \<Rightarrow> reply option hostm \<Rightarrow> reply option hostm" where
  "shutdown_or hx on_error =
     bindh (host_call hx MAX_ECALL_RETURN_LENGTH 0 Shutdown) (\<lambda>r.
     if crashed r then on_error else returnh r)"

definition host_error :: "host_ext \<Rightarrow> 'a hostm" where
  "host_error hx =
     bindh count_error (\<lambda>_ h.
     if error_count h = 1 then
       bindh (shutdown_or hx (bindh count_error (\<lambda>_. exit_process)))
         (\<lambda>r. bindh (out_text r) (\<lambda>_. exit_process)) h
     else exit_process h)"

definition shutdown_enclave :: "host_ext \<Rightarrow> reply option hostm" where
  "shutdown_enclave hx = shutdown_or hx (host_error hx)"

section \<open>The table of channels\<close>

definition host_create_channel_state :: HostChannel where
  "host_create_channel_state = \<lparr>hc_is_initiator = False, hc_is_backup_channel = False,
     hc_remote_host = [], hc_remote_host_len = 0, hc_remote_port = -1, hc_id = [],
     hc_remote_sockfd = -1, hc_local_sockfd = None, hc_context = 4294967295,
     hc_enclave_lost_retry_time = 1, hc_busy_retry_time = 4\<rparr>"

definition host_initialise_channel_state :: "HostChannel \<Rightarrow> bool \<Rightarrow> HostChannel" where
  "host_initialise_channel_state st initiator = st\<lparr>hc_is_initiator := initiator\<rparr>"

text \<open>\<open>map::insert\<close> leaves a key that is there alone; the new state is then only a local pointer.\<close>

definition table_insert ::
  "string \<Rightarrow> HostChannel \<Rightarrow> (string, HostChannel) omap \<Rightarrow> (string, HostChannel) omap" where
  "table_insert cid st t = (case om_get t cid of None \<Rightarrow> om_put cid st t | Some _ \<Rightarrow> t)"

definition host_associate_channel_state :: "string \<Rightarrow> HostChannel \<Rightarrow> unit hostm" where
  "host_associate_channel_state cid st h =
     Ran () (h\<lparr>hchannels := table_insert cid (st\<lparr>hc_id := take CHANNEL_ID_LEN cid\<rparr>) (hchannels h)\<rparr>)"

definition host_remove_association :: "string \<Rightarrow> unit hostm" where
  "host_remove_association cid h = Ran () (h\<lparr>hchannels := om_del cid (hchannels h)\<rparr>)"

definition host_get_channel_state :: "host_ext \<Rightarrow> string \<Rightarrow> HostChannel hostm" where
  "host_get_channel_state hx cid h =
     (case om_get (hchannels h) cid of None \<Rightarrow> host_error hx h | Some st \<Rightarrow> Ran st h)"

definition exists_state :: "string \<Rightarrow> host \<Rightarrow> bool" where
  "exists_state cid h \<longleftrightarrow> om_get (hchannels h) cid \<noteq> None"

definition get_all_channel_ids :: "host \<Rightarrow> string list" where
  "get_all_channel_ids h = om_keys (hchannels h)"

text \<open>
  \<open>destroy_channel_state\<close> declares \<open>found\<close> without a value: for an identifier that is not in the
  table it tests, and then frees, an uninitialised pointer.
\<close>

definition destroy_channel_state :: "string \<Rightarrow> unit hostm" where
  "destroy_channel_state cid h =
     (case om_get (hchannels h) cid of
        None \<Rightarrow> Broken
      | Some _ \<Rightarrow> Ran () (h\<lparr>hchannels := om_del cid (hchannels h)\<rparr>))"

text \<open>\<open>channel_state->connection.local_sockfd = fd\<close> through the pointer of the table.\<close>

definition set_local_sockfd :: "string \<Rightarrow> int \<Rightarrow> unit hostm" where
  "set_local_sockfd cid fd h =
     (case om_get (hchannels h) cid of
        None \<Rightarrow> Broken
      | Some st \<Rightarrow> Ran () (h\<lparr>hchannels := om_put cid (st\<lparr>hc_local_sockfd := Some fd\<rparr>) (hchannels h)\<rparr>))"

section \<open>Messages and their framing\<close>

text \<open>
  A message goes out behind eight bytes with its length, those eight included. A descriptor that
  is negative or closed cannot be written to.
\<close>

definition frame_message :: "string \<Rightarrow> string" where
  "frame_message msg = bytes_le MSG_LEN_BYTES (length msg + MSG_LEN_BYTES) @ msg"

definition send_on_socket :: "host_ext \<Rightarrow> string \<Rightarrow> int \<Rightarrow> unit hostm" where
  "send_on_socket hx msg fd h =
     (if fd < 0 \<or> \<not> hx_writable hx fd then host_error hx h
      else Ran () (h\<lparr>wire := wire h @ [(fd, frame_message msg)]\<rparr>))"

definition send_message :: "host_ext \<Rightarrow> nat \<Rightarrow> string \<Rightarrow> string \<Rightarrow> int \<Rightarrow> unit hostm" where
  "send_message hx operation cid blob fd =
     send_on_socket hx (char_of operation # take CHANNEL_ID_LEN cid @ blob) fd"

text \<open>The MAC goes first.\<close>

definition send_encrypted_message ::
  "host_ext \<Rightarrow> nat \<Rightarrow> string \<Rightarrow> string \<times> string \<Rightarrow> int \<Rightarrow> unit hostm" where
  "send_encrypted_message hx operation cid enc fd =
     send_message hx operation cid (snd enc @ fst enc) fd"

definition send_ack :: "host_ext \<Rightarrow> int \<Rightarrow> nat \<Rightarrow> string \<Rightarrow> unit hostm" where
  "send_ack hx fd response info = send_on_socket hx (char_of response # c_str info) fd"

text \<open>\<open>send_ack\<close> on the socket that waits for the channel; uninitialised until it is set.\<close>

definition ack_waiting :: "host_ext \<Rightarrow> HostChannel \<Rightarrow> string \<Rightarrow> unit hostm" where
  "ack_waiting hx st info =
     bindh (known (hc_local_sockfd st)) (\<lambda>fd. send_ack hx fd OP_LOCAL_ACK info)"

section \<open>Reading a packet\<close>

text \<open>
  \<open>data\<close> is the memory from the operation byte on, to the end of the input buffer; \<open>data_len\<close> is
  the length the handler is told. \<open>LocalGenericMsg\<close> is the operation, the channel and the blob.
\<close>

definition SIZEOF_LocalGenericMsg :: nat where
  "SIZEOF_LocalGenericMsg = struct_size [(1, 1), (CHANNEL_ID_LEN, 1)]"

definition message_channel :: "string \<Rightarrow> string hostm" where
  "message_channel data =
     (if SIZEOF_LocalGenericMsg \<le> length data then returnh (take CHANNEL_ID_LEN (drop 1 data))
      else broken)"

text \<open>
  \<open>[in, size=blob_len]\<close> with a negative length is refused by the generated bridge: no blob. The
  bridge copies the blob, so it must lie in the input buffer.
\<close>

definition message_blob :: "string \<Rightarrow> int \<Rightarrow> string option hostm" where
  "message_blob data data_len =
     (let n = data_len - int SIZEOF_LocalGenericMsg in
      if n < 0 then returnh None
      else if SIZEOF_LocalGenericMsg + nat n \<le> length data
      then returnh (Some (take (nat n) (drop SIZEOF_LocalGenericMsg data)))
      else broken)"

definition host_call_blob ::
  "host_ext \<Rightarrow> nat \<Rightarrow> nat \<Rightarrow> (string \<Rightarrow> ecall) \<Rightarrow> string option \<Rightarrow> reply option hostm" where
  "host_call_blob hx out_len data_len c blob =
     (case blob of None \<Rightarrow> returnh None | Some b \<Rightarrow> host_call hx out_len data_len (c b))"

text \<open>A struct copied out of the packet, and its fields by offset.\<close>

definition read_struct :: "nat \<Rightarrow> string \<Rightarrow> string hostm" where
  "read_struct n data = (if n \<le> length data then returnh (take n data) else broken)"

definition u64_field :: "nat \<Rightarrow> string \<Rightarrow> u64" where
  "u64_field off s = of_nat (le_value (take 8 (drop off s)))"

definition bool_field :: "nat \<Rightarrow> string \<Rightarrow> bool" where
  "bool_field off s \<longleftrightarrow> s ! off \<noteq> CHR 0x00"

end
