(* ===== verification/Teechain_Routing.thy ===== *)
theory Teechain_Routing
  imports Teechain_Host
begin

text \<open>
  The handlers of the untrusted host (\<open>Teechain/src/untrusted/teechain.cpp\<close> and \<open>backups.cpp\<close>),
  one definition per function, in the order of the code: the commands of a local client, the
  messages of remote nodes, and \<open>process_packet\<close>, which chooses between them. A handler gets
  the packet from its operation byte on; \<open>fd\<close> is the socket it came from.
\<close>

section \<open>Commands about the whole enclave\<close>

text \<open>\<open>send_ack(client_fd, OP_LOCAL_FAIL, ...); error(...);\<close>\<close>

definition fail_and_exit :: "host_ext \<Rightarrow> int \<Rightarrow> string \<Rightarrow> unit hostm" where
  "fail_and_exit hx fd info =
     bindh (send_ack hx fd OP_LOCAL_FAIL info) (\<lambda>_. host_error hx)"

definition ack_output :: "host_ext \<Rightarrow> int \<Rightarrow> reply option \<Rightarrow> unit hostm" where
  "ack_output hx fd r = bindh (out_text r) (\<lambda>s. send_ack hx fd OP_LOCAL_ACK s)"

definition host_settle :: "host_ext \<Rightarrow> string \<Rightarrow> int \<Rightarrow> unit hostm" where
  "host_settle hx data fd =
     bindh (message_channel data) (\<lambda>cid.
     bindh (host_call hx MAX_ECALL_RETURN_LENGTH 0 (Settle cid)) (\<lambda>r.
     if crashed r then fail_and_exit hx fd ''ecall_settle''
     else if failed r then send_ack hx fd OP_LOCAL_ACK ''Unable to settle channel''
     else ack_output hx fd r))"

definition return_unused_deposits :: "host_ext \<Rightarrow> string \<Rightarrow> int \<Rightarrow> unit hostm" where
  "return_unused_deposits hx data fd =
     bindh (host_call hx MAX_ECALL_RETURN_LENGTH 0 Return_Deposits) (\<lambda>r.
     if crashed r then fail_and_exit hx fd ''ecall_return_deposits''
     else ack_output hx fd r)"

definition host_shutdown :: "host_ext \<Rightarrow> string \<Rightarrow> int \<Rightarrow> unit hostm" where
  "host_shutdown hx data fd =
     bindh (shutdown_enclave hx) (\<lambda>r.
     bindh (ack_output hx fd r) (\<lambda>_. exit_process))"

definition host_primary :: "host_ext \<Rightarrow> string \<Rightarrow> int \<Rightarrow> unit hostm" where
  "host_primary hx data fd =
     bindh (read_struct 2 data) (\<lambda>msg.
     bindh (host_call hx MAX_ECALL_RETURN_LENGTH 0 (Make_Primary (bool_field 1 msg))) (\<lambda>r.
     if not_ok r then fail_and_exit hx fd ''ecall_primary''
     else ack_output hx fd r))"

definition host_balance :: "host_ext \<Rightarrow> string \<Rightarrow> int \<Rightarrow> unit hostm" where
  "host_balance hx data fd =
     bindh (message_channel data) (\<lambda>cid.
     bindh (host_call hx MAX_ECALL_RETURN_LENGTH 0 (Balance cid)) (\<lambda>r.
     if crashed r then fail_and_exit hx fd ''ecall_balance''
     else ack_output hx fd r))"

definition host_verify_deposits :: "host_ext \<Rightarrow> string \<Rightarrow> int \<Rightarrow> unit hostm" where
  "host_verify_deposits hx data fd =
     bindh (message_channel data) (\<lambda>cid.
     bindh (host_call hx MAX_ECALL_RETURN_LENGTH 0 (Verify_Deposits cid)) (\<lambda>r.
     if not_ok r then fail_and_exit hx fd ''ecall_verify_deposits''
     else
       bindh (host_get_channel_state hx cid) (\<lambda>st.
       bindh (send_message hx OP_REMOTE_VERIFY_DEPOSITS_ACK (hc_id st) '''' (hc_remote_sockfd st)) (\<lambda>_.
       ack_output hx fd r))))"

section \<open>Messages between channels\<close>

definition generate_and_send_encrypted_deposit_data :: "host_ext \<Rightarrow> HostChannel \<Rightarrow> unit hostm" where
  "generate_and_send_encrypted_deposit_data hx st =
     bindh (host_call hx 0 MAX_ECALL_RETURN_LENGTH (Get_Deposit_Data_Encrypted (hc_id st))) (\<lambda>r.
     if not_ok r then host_error hx
     else
       bindh (out_data r) (\<lambda>enc.
       send_encrypted_message hx OP_REMOTE_CHANNEL_CREATE_DATA (hc_id st) enc (hc_remote_sockfd st)))"

text \<open>Sixteen digits from the C library's generator, seeded with the time in seconds.\<close>

definition generate_channel_id :: "host_ext \<Rightarrow> string" where
  "generate_channel_id hx =
     map (\<lambda>i. digit_char (hx_rand hx (hx_time hx) i mod 10)) [0..<CHANNEL_ID_LEN]"

definition get_user_output_for_channel :: "host_ext \<Rightarrow> string \<Rightarrow> string hostm" where
  "get_user_output_for_channel hx cid =
     bindh (host_call hx MAX_ECALL_RETURN_LENGTH 0 (Get_User_Output cid)) (\<lambda>r.
     if not_ok r then host_error hx else out_text r)"

text \<open>The message the enclave has prepared goes out on the channel it names.\<close>

definition forward_message :: "host_ext \<Rightarrow> HostChannel \<Rightarrow> nat \<Rightarrow> reply option \<Rightarrow> unit hostm" where
  "forward_message hx st operation r =
     bindh (out_data r) (\<lambda>enc.
     send_encrypted_message hx operation (hc_id st) enc (hc_remote_sockfd st))"

definition next_channel_state :: "host_ext \<Rightarrow> reply option \<Rightarrow> HostChannel hostm" where
  "next_channel_state hx r = bindh (out_next r) (host_get_channel_state hx)"

text \<open>
  The last part of the handlers that forward: which operation goes with the action the enclave
  asked for; an action without one is an error.
\<close>

definition forward_action ::
  "host_ext \<Rightarrow> (action \<Rightarrow> nat option) \<Rightarrow> HostChannel \<Rightarrow> reply option \<Rightarrow> unit hostm" where
  "forward_action hx operation_of st r =
     bindh (out_action r) (\<lambda>a.
     case operation_of a of
       None \<Rightarrow> host_error hx
     | Some operation \<Rightarrow> forward_message hx st operation r)"

section \<open>Connections\<close>

definition is_local_address :: "bool \<Rightarrow> string \<Rightarrow> bool" where
  "is_local_address inet ip \<longleftrightarrow>
     ip = (if inet then ''127.0.0.1'' else ''::1'') \<or> ip = ''192.168.0.101''"

definition register_new_connection :: "host_ext \<Rightarrow> int \<Rightarrow> unit hostm" where
  "register_new_connection hx s =
     (\<lambda>h. if \<not> hx_epoll_ok hx s then host_error hx h
      else if s < 0 \<or> MAXCONN \<le> s then Broken
      else Ran () (h\<lparr>connections := (connections h)(s :=
             \<lparr>cn_fd = s, cn_inuse = True,
              cn_islocalhost = is_local_address (hx_peer_is_inet hx s) (hx_peer_ip hx s),
              cn_input = []\<rparr>)\<rparr>))"

definition accept_new_connection :: "host_ext \<Rightarrow> int \<Rightarrow> unit hostm" where
  "accept_new_connection hx conn_sock =
     (if conn_sock < 0 then host_error hx else register_new_connection hx conn_sock)"

definition close_socket :: "host_ext \<Rightarrow> int \<Rightarrow> unit hostm" where
  "close_socket hx fd =
     (\<lambda>h. if \<not> hx_epoll_ok hx fd then host_error hx h
      else if fd < 0 \<or> MAXCONN \<le> fd then Broken
      else Ran () (h\<lparr>connections := (connections h)(fd := zero_Connection)\<rparr>))"

section \<open>Messages of remote nodes\<close>

text \<open>The rename needs the state under the temporary identifier; the old entry goes away.\<close>

definition process_channel_id_generated :: "host_ext \<Rightarrow> string \<Rightarrow> int \<Rightarrow> unit hostm" where
  "process_channel_id_generated hx data data_len =
     bindh (message_channel data) (\<lambda>cid.
     bindh (host_get_channel_state hx (take CHANNEL_ID_LEN TEMPORARY_CHANNEL_ID)) (\<lambda>st.
     bindh (host_remove_association (take CHANNEL_ID_LEN TEMPORARY_CHANNEL_ID)) (\<lambda>_.
     bindh (host_associate_channel_state cid st) (\<lambda>_.
     bindh (read_struct (SIZEOF_LocalGenericMsg + 1) data) (\<lambda>msg.
     bindh (host_call hx 0 0 (Channel_Id_Generated cid (bool_field SIZEOF_LocalGenericMsg msg))) (\<lambda>r.
     if not_ok r then host_error hx else returnh ()))))))"

definition process_channel_create_data :: "host_ext \<Rightarrow> string \<Rightarrow> int \<Rightarrow> int \<Rightarrow> unit hostm" where
  "process_channel_create_data hx data data_len fd =
     bindh (message_channel data) (\<lambda>cid.
     bindh (host_get_channel_state hx cid) (\<lambda>st.
     bindh (message_blob data data_len) (\<lambda>blob.
     bindh (host_call_blob hx 0 MAX_ECALL_RETURN_LENGTH
              (\<lambda>b. Store_Encrypted_Deposit_Data cid b (hc_context st)) blob) (\<lambda>r.
     if not_ok r then host_error hx
     else
       bindh (next_channel_state hx r) (\<lambda>next.
       bindh (out_action r) (\<lambda>a.
       if a = SEND_LOCAL_ACK then
         bindh (if hc_is_initiator st then generate_and_send_encrypted_deposit_data hx st
                else returnh ()) (\<lambda>_.
         bindh (get_user_output_for_channel hx cid) (ack_waiting hx next))
       else if a = SEND_BACKUP_STORE_REQUEST then
         forward_message hx next OP_REMOTE_BACKUP_DATA r
       else host_error hx))))))"

definition process_verify_deposits_ack :: "host_ext \<Rightarrow> string \<Rightarrow> int \<Rightarrow> int \<Rightarrow> unit hostm" where
  "process_verify_deposits_ack hx data data_len fd =
     bindh (message_channel data) (\<lambda>cid.
     bindh (host_get_channel_state hx cid) (\<lambda>_.
     bindh (host_call hx 0 0 (Remote_Verify_Deposits cid)) (\<lambda>r.
     if not_ok r then host_error hx else returnh ())))"

definition process_send_ack :: "host_ext \<Rightarrow> string \<Rightarrow> int \<Rightarrow> int \<Rightarrow> unit hostm" where
  "process_send_ack hx data data_len fd =
     bindh (message_channel data) (\<lambda>cid.
     bindh (host_get_channel_state hx cid) (\<lambda>st. ack_waiting hx st ''''))"

definition process_send_request :: "host_ext \<Rightarrow> string \<Rightarrow> int \<Rightarrow> int \<Rightarrow> unit hostm" where
  "process_send_request hx data data_len fd =
     bindh (message_channel data) (\<lambda>cid.
     bindh (host_get_channel_state hx cid) (\<lambda>st.
     bindh (message_blob data data_len) (\<lambda>blob.
     bindh (host_call_blob hx MAX_ECALL_USER_OUTPUT MAX_ECALL_SEND_RETURN_LENGTH
              (\<lambda>b. Receive_Bitcoins cid b (hc_context st)) blob) (\<lambda>r.
     if not_ok r then host_error hx
     else
       bindh (out_action r) (\<lambda>a.
       if a = SEND_INSECURE_ACK then
         send_message hx OP_REMOTE_SEND_ACK (hc_id st) '''' (hc_remote_sockfd st)
       else if a = SEND_UPDATE_CHANNEL_BALANCE_REQUEST then
         bindh (next_channel_state hx r) (\<lambda>next.
         forward_message hx next OP_REMOTE_UPDATE_CHANNEL_BALANCE_DATA r)
       else host_error hx)))))"

definition deposit_remove_reply :: "action \<Rightarrow> nat option" where
  "deposit_remove_reply a =
     (if a = SEND_BACKUP_STORE_REQUEST then Some OP_REMOTE_BACKUP_DATA
      else if a = SEND_DEPOSIT_REMOVE_ACK then Some OP_REMOTE_TEECHAIN_DEPOSIT_REMOVE_ACK
      else None)"

definition process_deposit_remove :: "host_ext \<Rightarrow> string \<Rightarrow> int \<Rightarrow> int \<Rightarrow> unit hostm" where
  "process_deposit_remove hx data data_len fd =
     bindh (message_channel data) (\<lambda>cid.
     bindh (host_get_channel_state hx cid) (\<lambda>st.
     bindh (message_blob data data_len) (\<lambda>blob.
     bindh (host_call_blob hx 0 MAX_ECALL_RETURN_LENGTH
              (\<lambda>b. Remove_Remote_Deposit_From_Channel b (hc_context st)) blob) (\<lambda>r.
     if not_ok r then host_error hx
     else bindh (next_channel_state hx r) (\<lambda>next.
          forward_action hx deposit_remove_reply next r)))))"

definition deposit_add_reply :: "action \<Rightarrow> nat option" where
  "deposit_add_reply a =
     (if a = SEND_BACKUP_STORE_REQUEST then Some OP_REMOTE_BACKUP_DATA
      else if a = SEND_DEPOSIT_ADD_ACK then Some OP_REMOTE_TEECHAIN_DEPOSIT_ADD_ACK
      else None)"

definition process_deposit_add :: "host_ext \<Rightarrow> string \<Rightarrow> int \<Rightarrow> int \<Rightarrow> unit hostm" where
  "process_deposit_add hx data data_len fd =
     bindh (message_channel data) (\<lambda>cid.
     bindh (host_get_channel_state hx cid) (\<lambda>st.
     bindh (message_blob data data_len) (\<lambda>blob.
     bindh (host_call_blob hx 0 MAX_ECALL_RETURN_LENGTH
              (\<lambda>b. Add_Remote_Deposit_To_Channel b (hc_context st)) blob) (\<lambda>r.
     if crashed r then host_error hx
     else if failed r then returnh ()
     else bindh (next_channel_state hx r) (\<lambda>next.
          forward_action hx deposit_add_reply next r)))))"

text \<open>These look the channel up by \<open>channel_id.c_str()\<close>, which a NUL cuts short.\<close>

definition process_deposit_remove_ack :: "host_ext \<Rightarrow> string \<Rightarrow> int \<Rightarrow> int \<Rightarrow> unit hostm" where
  "process_deposit_remove_ack hx data data_len fd =
     bindh (message_channel data) (\<lambda>cid.
     bindh (host_get_channel_state hx (c_str cid)) (\<lambda>st.
     bindh (message_blob data data_len) (\<lambda>blob.
     bindh (host_call_blob hx MAX_ECALL_RETURN_LENGTH 0
              (\<lambda>b. Verify_Deposit_Removed_From_Channel b (hc_context st)) blob) (\<lambda>r.
     if not_ok r then host_error hx
     else bindh (out_text r) (ack_waiting hx st)))))"

definition process_deposit_add_ack :: "host_ext \<Rightarrow> string \<Rightarrow> int \<Rightarrow> int \<Rightarrow> unit hostm" where
  "process_deposit_add_ack hx data data_len fd =
     bindh (message_channel data) (\<lambda>cid.
     bindh (host_get_channel_state hx (c_str cid)) (\<lambda>st.
     bindh (message_blob data data_len) (\<lambda>blob.
     bindh (host_call_blob hx MAX_ECALL_RETURN_LENGTH 0
              (\<lambda>b. Verify_Deposit_Added_To_Channel b (hc_context st)) blob) (\<lambda>r.
     if not_ok r then host_error hx
     else bindh (out_text r) (ack_waiting hx st)))))"

definition update_ack_reply :: "action \<Rightarrow> nat option" where
  "update_ack_reply a =
     (if a = SEND_UPDATE_CHANNEL_BALANCE_ACK then Some OP_REMOTE_UPDATE_CHANNEL_BALANCE_DATA_ACK
      else if a = SEND_BITCOIN_PAYMENT then Some OP_REMOTE_SEND
      else None)"

definition process_update_channel_balance_ack ::
  "host_ext \<Rightarrow> string \<Rightarrow> int \<Rightarrow> int \<Rightarrow> unit hostm" where
  "process_update_channel_balance_ack hx data data_len fd =
     bindh (message_channel data) (\<lambda>cid.
     bindh (host_get_channel_state hx (c_str cid)) (\<lambda>st.
     bindh (message_blob data data_len) (\<lambda>blob.
     bindh (host_call_blob hx 0 MAX_ECALL_RETURN_LENGTH
              (\<lambda>b. Verify_Channel_Update_Stored b (hc_context st)) blob) (\<lambda>r.
     if not_ok r then host_error hx
     else
       bindh (next_channel_state hx r) (\<lambda>next.
       bindh (out_action r) (\<lambda>a.
       if a = SEND_INSECURE_ACK then
         send_message hx OP_REMOTE_SEND_ACK (hc_id next) '''' (hc_remote_sockfd next)
       else forward_action hx update_ack_reply next r))))))"

section \<open>Payments and deposits\<close>

definition SIZEOF_LocalSendMsg :: nat where
  "SIZEOF_LocalSendMsg = struct_size [(1, 1), (CHANNEL_ID_LEN, 1), (8, 8)]"

definition payment_operation :: "action \<Rightarrow> nat option" where
  "payment_operation a =
     (if a = SEND_UPDATE_CHANNEL_BALANCE_REQUEST then Some OP_REMOTE_UPDATE_CHANNEL_BALANCE_DATA
      else if a = SEND_BITCOIN_PAYMENT then Some OP_REMOTE_SEND
      else None)"

definition host_send :: "host_ext \<Rightarrow> string \<Rightarrow> int \<Rightarrow> unit hostm" where
  "host_send hx data fd =
     bindh (read_struct SIZEOF_LocalSendMsg data) (\<lambda>msg.
     let cid = take CHANNEL_ID_LEN (drop 1 msg); amount = u64_field 24 msg in
     bindh (host_get_channel_state hx cid) (\<lambda>_.
     bindh (host_call hx 0 MAX_ECALL_SEND_RETURN_LENGTH (Send_Bitcoins cid amount)) (\<lambda>r.
     if crashed r then send_ack hx fd OP_LOCAL_FAIL ''ecall_send_bitcoins failed''
     else if failed r then send_ack hx fd OP_LOCAL_ACK ''send request failed''
     else
       bindh (next_channel_state hx r) (\<lambda>next.
       bindh (forward_action hx payment_operation next r) (\<lambda>_.
       set_local_sockfd cid fd)))))"

definition SIZEOF_LocalSetupDepositsMsg :: nat where
  "SIZEOF_LocalSetupDepositsMsg = struct_size [(1, 1), (8, 8)]"

definition host_setup_deposits :: "host_ext \<Rightarrow> string \<Rightarrow> int \<Rightarrow> unit hostm" where
  "host_setup_deposits hx data fd =
     bindh (read_struct SIZEOF_LocalSetupDepositsMsg data) (\<lambda>msg.
     bindh (host_call hx MAX_ECALL_RETURN_LENGTH 0 (Setup_Deposits (u64_field 8 msg))) (\<lambda>r.
     if not_ok r then host_error hx else ack_output hx fd r))"

definition SIZEOF_LocalDepositMadeMsg :: nat where
  "SIZEOF_LocalDepositMadeMsg = struct_size [(BITCOIN_TX_HASH_LEN, 1), (8, 8), (8, 8)]"

definition SIZEOF_LocalDepositsMadeMsg :: nat where
  "SIZEOF_LocalDepositsMadeMsg = struct_size [(1, 1), (BITCOIN_ADDRESS_LEN, 1), (8, 8), (8, 8),
     (MAX_NUM_SETUP_DEPOSITS * SIZEOF_LocalDepositMadeMsg, 8)]"

text \<open>
  The loop copies \<open>num_deposits\<close> entries out of the message's ten and into arrays of ten; the
  entries of the arrays it does not reach are zero (\<open>txids\<close>) or uninitialised.
\<close>

definition deposit_entry :: "string \<Rightarrow> nat \<Rightarrow> string" where
  "deposit_entry msg i =
     take SIZEOF_LocalDepositMadeMsg (drop (56 + i * SIZEOF_LocalDepositMadeMsg) msg)"

definition host_deposits_made :: "host_ext \<Rightarrow> string \<Rightarrow> int \<Rightarrow> unit hostm" where
  "host_deposits_made hx data fd =
     bindh (read_struct SIZEOF_LocalDepositsMadeMsg data) (\<lambda>msg.
     let num_deposits = u64_field 48 msg; n = unat num_deposits in
     if MAX_NUM_SETUP_DEPOSITS < n then broken
     else
       let entries = map (deposit_entry msg) [0..<n]; rest = MAX_NUM_SETUP_DEPOSITS - n;
           junk = replicate rest (x_junk_u64 (hx_ext hx));
           txids = concat (map (take BITCOIN_TX_HASH_LEN) entries)
                   @ replicate (rest * BITCOIN_TX_HASH_LEN) (CHR 0x00)
       in
       bindh (host_call hx MAX_ECALL_RETURN_LENGTH 0
                (Deposits_Made (take BITCOIN_ADDRESS_LEN (drop 1 msg)) (u64_field 40 msg)
                   num_deposits txids (map (u64_field 64) entries @ junk)
                   (map (u64_field 72) entries @ junk))) (\<lambda>r.
       if not_ok r then host_error hx else ack_output hx fd r))"

definition SIZEOF_LocalDepositMsg :: nat where
  "SIZEOF_LocalDepositMsg = struct_size [(1, 1), (CHANNEL_ID_LEN, 1), (8, 8)]"

definition remove_deposit_operation :: "action \<Rightarrow> nat option" where
  "remove_deposit_operation a =
     (if a = SEND_BACKUP_STORE_REQUEST then Some OP_REMOTE_BACKUP_DATA
      else if a = SEND_DEPOSIT_REMOVE_REQUEST then Some OP_REMOTE_TEECHAIN_DEPOSIT_REMOVE
      else None)"

definition host_remove_deposit :: "host_ext \<Rightarrow> string \<Rightarrow> int \<Rightarrow> unit hostm" where
  "host_remove_deposit hx data fd =
     bindh (read_struct SIZEOF_LocalDepositMsg data) (\<lambda>msg.
     let cid = take CHANNEL_ID_LEN (drop 1 msg); did = u64_field 24 msg in
     bindh (host_get_channel_state hx cid) (\<lambda>_.
     bindh (host_call hx 0 MAX_ECALL_RETURN_LENGTH (Remove_Deposit_From_Channel cid did)) (\<lambda>r.
     if crashed r then host_error hx
     else if failed r then send_ack hx fd OP_LOCAL_ACK ''remove deposit''
     else
       bindh (next_channel_state hx r) (\<lambda>next.
       bindh (forward_action hx remove_deposit_operation next r) (\<lambda>_.
       set_local_sockfd cid fd)))))"

definition add_deposit_operation :: "action \<Rightarrow> nat option" where
  "add_deposit_operation a =
     (if a = SEND_BACKUP_STORE_REQUEST then Some OP_REMOTE_BACKUP_DATA
      else if a = SEND_DEPOSIT_ADD_REQUEST then Some OP_REMOTE_TEECHAIN_DEPOSIT_ADD
      else None)"

definition host_add_deposit :: "host_ext \<Rightarrow> string \<Rightarrow> int \<Rightarrow> unit hostm" where
  "host_add_deposit hx data fd =
     bindh (read_struct SIZEOF_LocalDepositMsg data) (\<lambda>msg.
     let cid = take CHANNEL_ID_LEN (drop 1 msg); did = u64_field 24 msg in
     bindh (host_get_channel_state hx cid) (\<lambda>_.
     bindh (host_call hx 0 MAX_ECALL_RETURN_LENGTH (Add_Deposit_To_Channel cid did)) (\<lambda>r.
     if crashed r then host_error hx
     else if failed r then send_ack hx fd OP_LOCAL_ACK ''''
     else
       bindh (next_channel_state hx r) (\<lambda>next.
       bindh (forward_action hx add_deposit_operation next r) (\<lambda>_.
       set_local_sockfd cid fd)))))"

section \<open>Creating a channel\<close>

definition SIZEOF_LocalCreateMsg :: nat where
  "SIZEOF_LocalCreateMsg = struct_size
     [(1, 1), (CHANNEL_ID_LEN, 1), (1, 1), (8, 8), (REMOTE_HOST_LEN, 1), (8, 8)]"

text \<open>
  The fields the initiator fills in, the connection and the first message. \<open>stored\<close> tells whether
  the new state went into the table; when its identifier was taken, it is only a local pointer.
\<close>

definition store_if :: "bool \<Rightarrow> string \<Rightarrow> HostChannel \<Rightarrow> unit hostm" where
  "store_if stored cid st h =
     Ran () (if stored then h\<lparr>hchannels := om_put cid st (hchannels h)\<rparr> else h)"

definition connect_to_socket :: "host_ext \<Rightarrow> string \<Rightarrow> int \<Rightarrow> int hostm" where
  "connect_to_socket hx hostname port =
     (case hx_connect hx hostname port of None \<Rightarrow> host_error hx | Some s \<Rightarrow> returnh s)"

definition initiate_channel ::
  "host_ext \<Rightarrow> bool \<Rightarrow> bool \<Rightarrow> string \<Rightarrow> string \<Rightarrow> HostChannel \<Rightarrow> int \<Rightarrow> unit hostm" where
  "initiate_channel hx is_backup stored msg cid st fd =
     (let port = sint (ucast (u64_field 160 msg) :: u32); len = unat (u64_field 24 msg) in
      if REMOTE_HOST_LEN < len then broken
      else
        let hostname = take len (drop 32 msg);
            st1 = st\<lparr>hc_remote_port := port, hc_remote_host_len := len,
                    hc_remote_host := hostname, hc_local_sockfd := Some fd\<rparr>
        in
        bindh (connect_to_socket hx (c_str hostname) port) (\<lambda>s.
        let st2 = st1\<lparr>hc_remote_sockfd := s\<rparr> in
        bindh (store_if stored cid st2) (\<lambda>_.
        bindh (send_message hx OP_REMOTE_CHANNEL_ID_GENERATED cid
                 [if is_backup then CHR 0x01 else CHR 0x00] s) (\<lambda>_.
        register_new_connection hx s))))"

definition open_channel ::
  "host_ext \<Rightarrow> bool \<Rightarrow> bool \<Rightarrow> string \<Rightarrow> string \<Rightarrow> int \<Rightarrow> unit hostm" where
  "open_channel hx is_backup initiator msg cid fd =
     (let st = (host_initialise_channel_state host_create_channel_state initiator)
                 \<lparr>hc_is_backup_channel := is_backup\<rparr>;
          st1 = st\<lparr>hc_id := take CHANNEL_ID_LEN cid\<rparr>
      in
      bindh (geth (exists_state cid)) (\<lambda>taken.
      bindh (host_associate_channel_state cid st) (\<lambda>_.
      if initiator then initiate_channel hx is_backup (\<not> taken) msg cid st1 fd
      else store_if (\<not> taken) cid (st1\<lparr>hc_local_sockfd := Some fd\<rparr>))))"

definition host_create :: "host_ext \<Rightarrow> bool \<Rightarrow> string \<Rightarrow> int \<Rightarrow> unit hostm" where
  "host_create hx is_backup data fd =
     bindh (read_struct SIZEOF_LocalCreateMsg data) (\<lambda>msg.
     let initiator = bool_field 17 msg;
         cid = (if initiator then generate_channel_id hx else take CHANNEL_ID_LEN (drop 1 msg))
     in
     bindh (host_call hx 0 0 (if is_backup then Create_New_Backup_Channel cid initiator
                              else Create_New_Channel cid initiator)) (\<lambda>r.
     if (if is_backup then not_ok r else crashed r) then host_error hx
     else if failed r then send_ack hx fd OP_LOCAL_ACK ''failed to create new channel''
     else open_channel hx is_backup initiator msg cid fd))"

section \<open>Backups\<close>

definition host_backup :: "host_ext \<Rightarrow> string \<Rightarrow> int \<Rightarrow> unit hostm" where
  "host_backup hx data fd =
     bindh (host_call hx 0 0 Make_Backup) (\<lambda>r.
     if not_ok r then fail_and_exit hx fd ''ecall_backup''
     else send_ack hx fd OP_LOCAL_ACK '''')"

definition generate_and_send_encrypted_backup_state :: "host_ext \<Rightarrow> HostChannel \<Rightarrow> unit hostm" where
  "generate_and_send_encrypted_backup_state hx st =
     bindh (host_call hx 0 MAX_ECALL_RETURN_LENGTH (Get_Backup_Data_Encrypted (hc_id st))) (\<lambda>r.
     if not_ok r then host_error hx else forward_message hx st OP_REMOTE_BACKUP_DATA r)"

abbreviation (input) newline :: string where
  "newline \<equiv> [CHR 0x0A]"

definition backup_data_reply :: "action \<Rightarrow> nat option" where
  "backup_data_reply a =
     (if a = SEND_BACKUP_STORE_REQUEST then Some OP_REMOTE_BACKUP_DATA
      else if a = SEND_SECURE_ACK then Some OP_REMOTE_BACKUP_DATA_ACK
      else None)"

definition process_backup_data :: "host_ext \<Rightarrow> string \<Rightarrow> int \<Rightarrow> int \<Rightarrow> unit hostm" where
  "process_backup_data hx data data_len fd =
     bindh (message_channel data) (\<lambda>cid.
     bindh (host_get_channel_state hx cid) (\<lambda>st.
     bindh (message_blob data data_len) (\<lambda>blob.
     bindh (host_call_blob hx 0 MAX_ECALL_RETURN_LENGTH
              (\<lambda>b. Store_Encrypted_Backup_Data b (hc_context st)) blob) (\<lambda>r.
     if crashed r then host_error hx
     else if failed r then returnh ()
     else
       bindh (next_channel_state hx r) (\<lambda>next.
       bindh (out_action r) (\<lambda>a.
       if a = SEND_LOCAL_ACK then
         ack_waiting hx next (''A backup channel has been created!'' @ newline
           @ ''Backup Channel ID: '' @ cid @ ''.'' @ newline)
       else forward_action hx backup_data_reply next r))))))"

definition update_balance_reply :: "action \<Rightarrow> nat option" where
  "update_balance_reply a =
     (if a = SEND_UPDATE_CHANNEL_BALANCE_REQUEST then Some OP_REMOTE_UPDATE_CHANNEL_BALANCE_DATA
      else if a = SEND_UPDATE_CHANNEL_BALANCE_ACK then Some OP_REMOTE_UPDATE_CHANNEL_BALANCE_DATA_ACK
      else None)"

definition process_update_channel_balance :: "host_ext \<Rightarrow> string \<Rightarrow> int \<Rightarrow> int \<Rightarrow> unit hostm" where
  "process_update_channel_balance hx data data_len fd =
     bindh (message_channel data) (\<lambda>cid.
     bindh (host_get_channel_state hx cid) (\<lambda>st.
     bindh (message_blob data data_len) (\<lambda>blob.
     bindh (host_call_blob hx 0 MAX_ECALL_RETURN_LENGTH
              (\<lambda>b. Store_Encrypted_Channel_Update_Data b (hc_context st)) blob) (\<lambda>r.
     if not_ok r then host_error hx
     else bindh (next_channel_state hx r) (\<lambda>next.
          forward_action hx update_balance_reply next r)))))"

definition process_remove_backup :: "host_ext \<Rightarrow> string \<Rightarrow> int \<Rightarrow> int \<Rightarrow> unit hostm" where
  "process_remove_backup hx data data_len fd =
     bindh (message_channel data) (\<lambda>cid.
     bindh (host_get_channel_state hx cid) (\<lambda>st.
     bindh (message_blob data data_len) (\<lambda>blob.
     bindh (host_call_blob hx 0 MAX_ECALL_RETURN_LENGTH
              (\<lambda>b. Remove_Remote_Backup b (hc_context st)) blob) (\<lambda>r.
     if not_ok r then host_error hx
     else forward_message hx st OP_REMOTE_REMOVE_BACKUP_ACK r))))"

definition process_remove_backup_ack :: "host_ext \<Rightarrow> string \<Rightarrow> int \<Rightarrow> int \<Rightarrow> unit hostm" where
  "process_remove_backup_ack hx data data_len fd =
     bindh (message_channel data) (\<lambda>cid.
     bindh (host_get_channel_state hx cid) (\<lambda>st.
     bindh (message_blob data data_len) (\<lambda>blob.
     bindh (host_call_blob hx 0 0 (\<lambda>b. Verify_Backup_Removed b (hc_context st)) blob) (\<lambda>r.
     if not_ok r then host_error hx
     else ack_waiting hx st ''removed backup''))))"

definition backup_ack_reply :: "action \<Rightarrow> nat option" where
  "backup_ack_reply a =
     (if a = SEND_SECURE_ACK then Some OP_REMOTE_BACKUP_DATA_ACK
      else if a = SEND_DEPOSIT_ADD_REQUEST then Some OP_REMOTE_TEECHAIN_DEPOSIT_ADD
      else if a = SEND_DEPOSIT_ADD_ACK then Some OP_REMOTE_TEECHAIN_DEPOSIT_ADD_ACK
      else if a = SEND_DEPOSIT_REMOVE_REQUEST then Some OP_REMOTE_TEECHAIN_DEPOSIT_REMOVE
      else if a = SEND_DEPOSIT_REMOVE_ACK then Some OP_REMOTE_TEECHAIN_DEPOSIT_REMOVE_ACK
      else if a = SEND_BACKUP_STORE_REQUEST then Some OP_REMOTE_SEND
      else None)"

definition process_backup_ack :: "host_ext \<Rightarrow> string \<Rightarrow> int \<Rightarrow> int \<Rightarrow> unit hostm" where
  "process_backup_ack hx data data_len fd =
     bindh (message_channel data) (\<lambda>cid.
     bindh (host_get_channel_state hx cid) (\<lambda>st.
     bindh (message_blob data data_len) (\<lambda>blob.
     bindh (host_call_blob hx 0 MAX_ECALL_RETURN_LENGTH
              (\<lambda>b. Verify_Backup_Stored b (hc_context st)) blob) (\<lambda>r.
     if crashed r then host_error hx
     else
       bindh (out_next r) (\<lambda>next_cid.
       bindh (host_get_channel_state hx next_cid) (\<lambda>next.
       if failed r then ack_waiting hx next ''failed to get backup_ack''
       else
         bindh (out_action r) (\<lambda>a.
         if a = SEND_LOCAL_ACK then ack_waiting hx next ''processed_backup_ack''
         else if a = SEND_CHANNEL_CREATE_ACK then
           bindh (if hc_is_initiator next then generate_and_send_encrypted_deposit_data hx next
                  else returnh ()) (\<lambda>_.
           bindh (get_user_output_for_channel hx next_cid) (ack_waiting hx next))
         else if a = SEND_INSECURE_ACK then
           send_message hx OP_REMOTE_SEND_ACK (hc_id next) '''' (hc_remote_sockfd next)
         else forward_action hx backup_ack_reply next r)))))))"

definition SIZEOF_LocalRemoveBackupMsg :: nat where
  "SIZEOF_LocalRemoveBackupMsg = struct_size [(1, 1), (CHANNEL_ID_LEN, 1)]"

definition host_remove_backup :: "host_ext \<Rightarrow> string \<Rightarrow> int \<Rightarrow> unit hostm" where
  "host_remove_backup hx data fd =
     bindh (read_struct SIZEOF_LocalRemoveBackupMsg data) (\<lambda>msg.
     let cid = take CHANNEL_ID_LEN (drop 1 msg) in
     bindh (host_get_channel_state hx cid) (\<lambda>st.
     bindh (host_call hx 0 MAX_ECALL_RETURN_LENGTH (Remove_Backup cid)) (\<lambda>r.
     if not_ok r then host_error hx
     else
       bindh (forward_message hx st OP_REMOTE_REMOVE_BACKUP r) (\<lambda>_.
       set_local_sockfd cid fd))))"

end
