(* ===== verification/Teechain_Node.thy ===== *)
theory Teechain_Node
  imports Teechain_Routing
begin

text \<open>
  The host as it runs (\<open>process_packet\<close>, \<open>process_events\<close> and \<open>ghost_enclave\<close> of
  \<open>Teechain/src/untrusted/teechain.cpp\<close>): the choice of a handler, the loop that takes packets off
  the input of a connection, and the events of \<open>epoll\<close> as a step relation.
\<close>

section \<open>Choosing a handler\<close>

definition dispatch :: "host_ext \<Rightarrow> bool \<Rightarrow> string \<Rightarrow> int \<Rightarrow> int \<Rightarrow> unit hostm" where
  "dispatch hx islocalhost packet pktlen fd =
     (let operation = of_char (packet ! MSG_LEN_BYTES);
          data = drop MSG_LEN_BYTES packet;
          msglen = pktlen - int MSG_LEN_BYTES
      in
      if islocalhost \<and> operation = OP_LOCAL_SEND then host_send hx data fd
      else if operation = OP_REMOTE_SEND then process_send_request hx data msglen fd
      else if operation = OP_REMOTE_SEND_ACK then process_send_ack hx data msglen fd
      else if operation = OP_REMOTE_UPDATE_CHANNEL_BALANCE_DATA
      then process_update_channel_balance hx data msglen fd
      else if operation = OP_REMOTE_UPDATE_CHANNEL_BALANCE_DATA_ACK
      then process_update_channel_balance_ack hx data msglen fd
      else if islocalhost \<and> operation = OP_LOCAL_BALANCE then host_balance hx data fd
      else if islocalhost \<and> operation = OP_LOCAL_PRIMARY then host_primary hx data fd
      else if islocalhost \<and> operation = OP_LOCAL_TEECHAIN_SETUP_DEPOSITS
      then host_setup_deposits hx data fd
      else if islocalhost \<and> operation = OP_LOCAL_TEECHAIN_DEPOSITS_MADE
      then host_deposits_made hx data fd
      else if islocalhost \<and> operation = OP_LOCAL_VERIFY_DEPOSITS then host_verify_deposits hx data fd
      else if islocalhost \<and> operation = OP_LOCAL_CREATE then host_create hx False data fd
      else if islocalhost \<and> operation = OP_LOCAL_BACKUP then host_backup hx data fd
      else if islocalhost \<and> operation = OP_LOCAL_ADD_BACKUP then host_create hx True data fd
      else if operation = OP_REMOTE_BACKUP_DATA then process_backup_data hx data msglen fd
      else if operation = OP_REMOTE_BACKUP_DATA_ACK then process_backup_ack hx data msglen fd
      else if islocalhost \<and> operation = OP_LOCAL_REMOVE_BACKUP then host_remove_backup hx data fd
      else if operation = OP_REMOTE_REMOVE_BACKUP then process_remove_backup hx data msglen fd
      else if operation = OP_REMOTE_REMOVE_BACKUP_ACK
      then process_remove_backup_ack hx data msglen fd
      else if islocalhost \<and> operation = OP_LOCAL_SETTLE then host_settle hx data fd
      else if islocalhost \<and> operation = OP_LOCAL_RETURN_UNUSED then return_unused_deposits hx data fd
      else if islocalhost \<and> operation = OP_LOCAL_SHUTDOWN then host_shutdown hx data fd
      else if operation = OP_REMOTE_CHANNEL_CREATE_DATA
      then process_channel_create_data hx data msglen fd
      else if operation = OP_REMOTE_CHANNEL_ID_GENERATED
      then process_channel_id_generated hx data msglen
      else if operation = OP_REMOTE_VERIFY_DEPOSITS_ACK
      then process_verify_deposits_ack hx data msglen fd
      else if islocalhost \<and> operation = OP_LOCAL_TEECHAIN_DEPOSIT_ADD then host_add_deposit hx data fd
      else if islocalhost \<and> operation = OP_LOCAL_TEECHAIN_DEPOSIT_REMOVE
      then host_remove_deposit hx data fd
      else if operation = OP_REMOTE_TEECHAIN_DEPOSIT_ADD then process_deposit_add hx data msglen fd
      else if operation = OP_REMOTE_TEECHAIN_DEPOSIT_ADD_ACK
      then process_deposit_add_ack hx data msglen fd
      else if operation = OP_REMOTE_TEECHAIN_DEPOSIT_REMOVE
      then process_deposit_remove hx data msglen fd
      else if operation = OP_REMOTE_TEECHAIN_DEPOSIT_REMOVE_ACK
      then process_deposit_remove_ack hx data msglen fd
      else returnh ())"

definition process_packet :: "host_ext \<Rightarrow> string \<Rightarrow> int \<Rightarrow> int \<Rightarrow> unit hostm" where
  "process_packet hx packet pktlen fd h =
     dispatch hx (cn_islocalhost (connections h fd)) packet pktlen fd h"

section \<open>The loop over the input\<close>

text \<open>
  \<open>pktlen\<close> is the first eight bytes as a \<open>long\<close>; the comparison with \<open>size()\<close> is unsigned, and
  \<open>process_packet\<close> takes an \<open>int\<close>. After the packet, \<open>pktlen\<close> bytes are erased. Nothing makes
  \<open>pktlen\<close> positive, so the loop may not end: \<open>None\<close>.
\<close>

definition packet_length :: "string \<Rightarrow> nat" where
  "packet_length input = le_value (take MSG_LEN_BYTES input)"

definition int_of_long :: "nat \<Rightarrow> int" where
  "int_of_long n = sint (of_nat n :: u32)"

definition whole_packet :: "string \<Rightarrow> bool" where
  "whole_packet input \<longleftrightarrow> MSG_LEN_BYTES < length input \<and> packet_length input \<le> length input"

definition update_input :: "int \<Rightarrow> (string \<Rightarrow> string) \<Rightarrow> host \<Rightarrow> host" where
  "update_input fd f h =
     h\<lparr>connections := (connections h)(fd := (connections h fd)\<lparr>cn_input := f (cn_input (connections h fd))\<rparr>)\<rparr>"

abbreviation input_of :: "host \<Rightarrow> int \<Rightarrow> string" where
  "input_of h fd \<equiv> cn_input (connections h fd)"

definition take_packet :: "host_ext \<Rightarrow> int \<Rightarrow> unit hostm" where
  "take_packet hx fd =
     (\<lambda>h. let input = input_of h fd; pktlen = packet_length input in
      bindh (process_packet hx input (int_of_long pktlen) fd) (\<lambda>_ h'.
      if pktlen \<le> length (input_of h' fd) then Ran () (update_input fd (drop pktlen) h') else Broken) h)"

partial_function (option) drain :: "host_ext \<Rightarrow> int \<Rightarrow> host \<Rightarrow> unit run option" where
  "drain hx fd h =
     (if \<not> whole_packet (input_of h fd) then Some (Ran () h)
      else case take_packet hx fd h of
        Ran _ h' \<Rightarrow> drain hx fd h'
      | Exited h' \<Rightarrow> Some (Exited h')
      | Broken \<Rightarrow> Some Broken)"

declare drain.simps [code]

definition receive_bytes :: "host_ext \<Rightarrow> int \<Rightarrow> string \<Rightarrow> host \<Rightarrow> unit run option" where
  "receive_bytes hx fd bytes h = drain hx fd (update_input fd (\<lambda>s. s @ bytes) h)"

section \<open>Events\<close>

datatype event = Accepted int | Received int string | Closed int

text \<open>One entry of \<open>events\<close>: \<open>recv\<close> gives at most \<open>MAX_ECALL_RETURN_LENGTH\<close> bytes, or none.\<close>

definition process_event :: "host_ext \<Rightarrow> event \<Rightarrow> host \<Rightarrow> unit run option" where
  "process_event hx ev h =
     (case ev of
        Accepted s \<Rightarrow> Some (accept_new_connection hx s h)
      | Closed fd \<Rightarrow> Some (close_socket hx fd h)
      | Received fd bytes \<Rightarrow>
          if 0 \<le> fd \<and> fd < MAXCONN then receive_bytes hx fd bytes h else Some Broken)"

fun process_events :: "host_ext \<Rightarrow> event list \<Rightarrow> host \<Rightarrow> unit run option" where
  "process_events hx [] h = Some (Ran () h)"
| "process_events hx (ev # evs) h =
     Option.bind (process_event hx ev h) (\<lambda>r.
     case r of
       Ran _ h' \<Rightarrow> process_events hx evs h'
     | Exited h' \<Rightarrow> Some (Exited h')
     | Broken \<Rightarrow> Some Broken)"

text \<open>\<open>ghost_enclave\<close>: the calls that switch the enclave to its debug and benchmark modes.\<close>

definition ghost_enclave :: "host_ext \<Rightarrow> bool \<Rightarrow> bool \<Rightarrow> unit hostm" where
  "ghost_enclave hx debug_mode benchmark_mode =
     bindh (if debug_mode then
              bindh (host_call hx 0 0 Debug_Enclave) (\<lambda>r. if not_ok r then host_error hx else returnh ())
            else returnh ()) (\<lambda>_.
     if benchmark_mode then
       bindh (host_call hx 0 0 Benchmark_Enclave) (\<lambda>r. if not_ok r then host_error hx else returnh ())
     else returnh ())"

text \<open>
  The life of a host: it starts, and handles one event after the other, with the environment
  choosing the events and what the code outside the program does.
\<close>

inductive host_start :: "host \<Rightarrow> bool" where
  start: "ghost_enclave hx d b initial_host = Ran () h \<Longrightarrow> host_start h"

inductive host_step :: "host \<Rightarrow> host \<Rightarrow> bool" where
  event: "process_event hx ev h = Some (Ran () h') \<Longrightarrow> host_step h h'"

definition host_reachable :: "host \<Rightarrow> bool" where
  "host_reachable h \<longleftrightarrow> (\<exists>h0. host_start h0 \<and> host_step\<^sup>*\<^sup>* h0 h)"

end
