(* ===== verification/Teechain_Host_Effects.thy ===== *)
theory Teechain_Host_Effects
  imports Teechain_Node
begin

text \<open>
  How the functions of the host compose. A relation between the globals before and after that the
  elementary operations respect (a call of the enclave, a message written, a table updated) is
  respected by every handler: the locale \<open>host_frame\<close>, whose lemmas go through the handlers once.
\<close>

named_theorems respectful \<open>functions of the host that respect a relation\<close>

section \<open>How a function of the host ends\<close>

lemma run_defs_simps [simp]:
  "returnh a h = Ran b h' \<longleftrightarrow> b = a \<and> h' = h" "returnh a h \<noteq> Exited h'" "returnh a h \<noteq> Broken"
  "broken h = Broken" "exit_process h = Exited h"
  by (auto simp: returnh_def broken_def exit_process_def)

lemma bindh_Ran [simp]:
  "bindh m f h = Ran b h' \<longleftrightarrow> (\<exists>a h1. m h = Ran a h1 \<and> f a h1 = Ran b h')"
  by (auto simp: bindh_def split: run.split)

lemma bindh_Exited [simp]:
  "bindh m f h = Exited h' \<longleftrightarrow> m h = Exited h' \<or> (\<exists>a h1. m h = Ran a h1 \<and> f a h1 = Exited h')"
  by (auto simp: bindh_def split: run.split)

lemma known_Ran [simp]: "known v h = Ran a h' \<longleftrightarrow> v = Some a \<and> h' = h"
  "known v h \<noteq> Exited h'"
  by (cases v; auto)+

lemma host_call_Ran:
  "host_call hx n k c h = Ran r h' \<Longrightarrow>
     (r = None \<and> h' = h \<and> hx_call_fails hx c) \<or>
     (\<exists>a e. r = Some a \<and> run_ecall (hx_ext hx) c (encl h) = Returns (a, e) \<and> h' = h\<lparr>encl := e\<rparr>)"
  by (auto simp: host_call_def split: if_splits outcome.splits prod.splits)

lemma host_call_Exited: "host_call hx n k c h = Exited h' \<Longrightarrow> h' = enclave_gave_up h"
  by (auto simp: host_call_def split: if_splits outcome.splits prod.splits)

lemma shutdown_or_cases:
  "shutdown_or hx m h = Ran r h' \<Longrightarrow>
     (\<exists>a e. run_ecall (hx_ext hx) Shutdown (encl h) = Returns (a, e) \<and>
        (r = Some a \<and> h' = h\<lparr>encl := e\<rparr> \<or> m (h\<lparr>encl := e\<rparr>) = Ran r h')) \<or> m h = Ran r h'"
  "shutdown_or hx m h = Exited h' \<Longrightarrow>
     h' = enclave_gave_up h \<or> m h = Exited h' \<or>
     (\<exists>a e. run_ecall (hx_ext hx) Shutdown (encl h) = Returns (a, e) \<and> m (h\<lparr>encl := e\<rparr>) = Exited h')"
  by (auto simp: shutdown_or_def crashed_def split: if_splits option.splits
      dest!: host_call_Ran host_call_Exited)

text \<open>\<open>error\<close> never comes back; what it changes of the enclave is one call of \<open>ecall_shutdown\<close>.\<close>

lemma host_error_not_Ran [simp]: "host_error hx h \<noteq> Ran a h'"
  by (auto simp: host_error_def count_error_def out_text_def split: if_splits)

lemma host_error_Exited:
  assumes "host_error hx h = Exited h'"
  shows "(\<exists>n. h' = h\<lparr>error_count := n\<rparr>) \<or>
    (\<exists>n a e. run_ecall (hx_ext hx) Shutdown (encl h) = Returns (a, e) \<and>
       h' = h\<lparr>encl := e, error_count := n\<rparr>)"
proof (cases "error_count h = 0")
  case False
  with assms have "h' = h\<lparr>error_count := error_count h + 1\<rparr>"
    by (auto simp: host_error_def count_error_def)
  then show ?thesis by blast
next
  case True
  define h1 where "h1 = h\<lparr>error_count := 1\<rparr>"
  have "bindh (shutdown_or hx (bindh count_error (\<lambda>_. exit_process)))
      (\<lambda>r. bindh (out_text r) (\<lambda>_. exit_process)) h1 = Exited h'"
    using assms True by (auto simp: host_error_def count_error_def h1_def)
  then consider "h' = enclave_gave_up h1" | "h' = h\<lparr>error_count := 2\<rparr>"
    | a e where "run_ecall (hx_ext hx) Shutdown (encl h) = Returns (a, e)"
        "h' = h\<lparr>encl := e, error_count := Suc (Suc 0)\<rparr>"
    | a e where "run_ecall (hx_ext hx) Shutdown (encl h) = Returns (a, e)"
        "h' = h\<lparr>error_count := Suc 0, encl := e\<rparr>"
    by (auto dest!: shutdown_or_cases simp: count_error_def h1_def out_text_def)
  then show ?thesis
  proof cases
    case 1
    then have "h' = h\<lparr>error_count := 2\<rparr>" by (simp add: h1_def enclave_gave_up_def)
    then show ?thesis by blast
  next
    case (4 a e)
    then have "h' = h\<lparr>encl := e, error_count := Suc 0\<rparr>" by simp
    with 4(1) show ?thesis by blast
  next
    case (3 a e)
    then show ?thesis by (intro disjI2 exI conjI)
  qed blast
qed

lemma host_error_bind [simp]: "bindh (host_error hx) f = host_error hx"
  by (rule ext) (simp add: host_error_def bindh_def count_error_def shutdown_or_def exit_process_def
      out_text_def known_def broken_def returnh_def split: run.split option.split)

lemma host_error_first:
  assumes "error_count h = 0" and "run_ecall (hx_ext hx) Shutdown (encl h) = Returns (r, e)"
    and "\<not> hx_call_fails hx Shutdown" and "outputs_fit MAX_ECALL_RETURN_LENGTH 0 r"
    and "ret_code r \<noteq> REQUEST_CRASHED"
  shows "host_error hx h =
    (if user_output r = None then Broken else Exited (h\<lparr>error_count := 1, encl := e\<rparr>))"
  using assms by (auto simp: host_error_def bindh_def count_error_def shutdown_or_def host_call_def
      crashed_def returnh_def out_text_def known_def broken_def)

text \<open>Shutting down writes the text exactly when the enclave is funded or a backup.\<close>

lemma shutdown_writes:
  assumes "run_ecall x Shutdown e = Returns (r, e')"
  shows "user_output r = None \<longleftrightarrow> teechain_state e \<notin> {Funded, Backup}"
  using assms
  by (auto simp: ecall_shutdown_def check_state_def code_reply_def output_reply_def split: if_splits)

section \<open>Relations the handlers respect\<close>

definition abides :: "(host \<Rightarrow> host \<Rightarrow> bool) \<Rightarrow> (host \<Rightarrow> host \<Rightarrow> bool) \<Rightarrow> 'a hostm \<Rightarrow> bool" where
  "abides R S m \<longleftrightarrow>
     (\<forall>h a h'. m h = Ran a h' \<longrightarrow> R h h') \<and> (\<forall>h h'. m h = Exited h' \<longrightarrow> S h h')"

lemma abidesI [intro?]:
  "(\<And>h a h'. m h = Ran a h' \<Longrightarrow> R h h') \<Longrightarrow> (\<And>h h'. m h = Exited h' \<Longrightarrow> S h h') \<Longrightarrow> abides R S m"
  by (simp add: abides_def)

lemma abides_if [respectful]:
  "(b \<Longrightarrow> abides R S m) \<Longrightarrow> (\<not> b \<Longrightarrow> abides R S n) \<Longrightarrow> abides R S (if b then m else n)"
  by simp

lemma abides_case_option [respectful]:
  "abides R S m \<Longrightarrow> (\<And>a. abides R S (f a)) \<Longrightarrow> abides R S (case v of None \<Rightarrow> m | Some a \<Rightarrow> f a)"
  by (cases v) simp_all

lemmas remote_handler_defs = process_channel_create_data_def
  generate_and_send_encrypted_deposit_data_def get_user_output_for_channel_def
  process_verify_deposits_ack_def process_send_ack_def process_send_request_def
  process_deposit_remove_def process_deposit_add_def process_deposit_remove_ack_def
  process_deposit_add_ack_def process_update_channel_balance_ack_def process_backup_data_def
  process_update_channel_balance_def process_remove_backup_def process_remove_backup_ack_def
  process_backup_ack_def

lemmas local_handler_defs = host_settle_def return_unused_deposits_def host_shutdown_def
  host_primary_def host_balance_def host_verify_deposits_def host_send_def host_setup_deposits_def
  host_deposits_made_def host_remove_deposit_def host_add_deposit_def host_backup_def
  host_remove_backup_def

text \<open>Calls that a message of another node may lead to.\<close>

fun remote_ecall :: "ecall \<Rightarrow> bool" where
  "remote_ecall (Channel_Id_Generated cid b) = True"
| "remote_ecall (Get_Deposit_Data_Encrypted cid) = True"
| "remote_ecall (Store_Encrypted_Deposit_Data cid b ctx) = True"
| "remote_ecall (Remote_Verify_Deposits cid) = True"
| "remote_ecall (Receive_Bitcoins cid b ctx) = True"
| "remote_ecall (Get_User_Output cid) = True"
| "remote_ecall (Add_Remote_Deposit_To_Channel b ctx) = True"
| "remote_ecall (Remove_Remote_Deposit_From_Channel b ctx) = True"
| "remote_ecall (Verify_Deposit_Added_To_Channel b ctx) = True"
| "remote_ecall (Verify_Deposit_Removed_From_Channel b ctx) = True"
| "remote_ecall (Store_Encrypted_Backup_Data b ctx) = True"
| "remote_ecall (Verify_Backup_Stored b ctx) = True"
| "remote_ecall (Verify_Channel_Update_Stored b ctx) = True"
| "remote_ecall (Store_Encrypted_Channel_Update_Data b ctx) = True"
| "remote_ecall (Remove_Remote_Backup b ctx) = True"
| "remote_ecall (Verify_Backup_Removed b ctx) = True"
| "remote_ecall c = False"

text \<open>
  What a relation must allow. \<open>R\<close> relates the globals around a function that comes back, \<open>S\<close>
  around one that ends the process; \<open>A\<close> says which calls of the enclave they cover.
\<close>

locale host_core =
  fixes hx :: host_ext
    and A :: "ecall \<Rightarrow> bool"
    and R S :: "host \<Rightarrow> host \<Rightarrow> bool"
  assumes R_refl: "R h h"
    and R_trans: "R h h1 \<Longrightarrow> R h1 h2 \<Longrightarrow> R h h2"
    and R_S: "R h h1 \<Longrightarrow> S h1 h2 \<Longrightarrow> S h h2"
    and S_exit: "S h (h\<lparr>error_count := n\<rparr>)"
    and S_shutdown: "run_ecall (hx_ext hx) Shutdown (encl h) = Returns (r, e) \<Longrightarrow>
                     S h (h\<lparr>encl := e, error_count := n\<rparr>)"
    and R_call: "A c \<Longrightarrow> run_ecall (hx_ext hx) c (encl h) = Returns (r, e) \<Longrightarrow> R h (h\<lparr>encl := e\<rparr>)"
    and R_wire: "msg \<noteq> [] \<Longrightarrow> R h (h\<lparr>wire := wire h @ [(fd, frame_message msg)]\<rparr>)"
begin

abbreviation rsp :: "'a hostm \<Rightarrow> bool" where
  "rsp \<equiv> abides R S"

lemma S_refl: "S h h"
  using S_exit [of h "error_count h"] by simp

lemma S_gave_up: "S h (enclave_gave_up h)"
  unfolding enclave_gave_up_def by (rule S_exit)

lemma S_error: "host_error hx h = Exited h' \<Longrightarrow> S h h'"
  using host_error_Exited [of hx h h'] S_exit S_shutdown by blast

lemma rsp_bind [respectful]: "rsp m \<Longrightarrow> (\<And>a. rsp (f a)) \<Longrightarrow> rsp (bindh m f)"
  unfolding abides_def bindh_Ran bindh_Exited by (meson R_trans R_S)

lemma rsp_returnh [respectful]: "rsp (returnh a)"
  by (auto simp: abides_def R_refl)

lemma rsp_broken [respectful]: "rsp broken"
  by (auto simp: abides_def)

lemma rsp_known [respectful]: "rsp (known v)"
  by (auto simp: abides_def R_refl)

lemma rsp_exit [respectful]: "rsp exit_process"
  by (auto simp: abides_def S_refl)

lemma rsp_error [respectful]: "rsp (host_error hx)"
  by (auto simp: abides_def S_error)

lemma rsp_call [respectful]: "A c \<Longrightarrow> rsp (host_call hx n k c)"
  unfolding abides_def
  by (auto dest!: host_call_Ran host_call_Exited intro: R_refl S_gave_up R_call)

lemma rsp_call_blob [respectful]: "(\<And>b. A (c b)) \<Longrightarrow> rsp (host_call_blob hx n k c blob)"
  unfolding host_call_blob_def by (intro respectful)

lemma rsp_shutdown [respectful]: "A Shutdown \<Longrightarrow> rsp (shutdown_enclave hx)"
  unfolding shutdown_enclave_def shutdown_or_def by (intro respectful)

lemma rsp_send_on_socket [respectful]: "rsp (send_on_socket hx (c # msg) fd)"
  by (auto simp: abides_def send_on_socket_def R_wire S_error split: if_splits)

lemma rsp_get_channel [respectful]: "rsp (host_get_channel_state hx cid)"
  by (auto simp: abides_def host_get_channel_state_def R_refl S_error split: option.splits)

lemma rsp_reads [respectful]:
  "rsp (message_channel data)" "rsp (message_blob data n)" "rsp (read_struct k data)"
  unfolding message_channel_def message_blob_def read_struct_def Let_def by (intro respectful)+

lemma rsp_outputs [respectful]:
  "rsp (out_text r)" "rsp (out_action r)" "rsp (out_next r)" "rsp (out_data r)"
  unfolding out_text_def out_action_def out_next_def out_data_def by (intro respectful)+

lemma rsp_sends [respectful]:
  "rsp (send_message hx op cid blob fd)" "rsp (send_encrypted_message hx op cid enc fd)"
  "rsp (send_ack hx fd response info)" "rsp (ack_waiting hx st info)"
  "rsp (fail_and_exit hx fd info)" "rsp (ack_output hx fd r)"
  "rsp (forward_message hx st op r)" "rsp (next_channel_state hx r)"
  "rsp (forward_action hx ops st r)"
  unfolding send_message_def send_encrypted_message_def send_ack_def ack_waiting_def
    fail_and_exit_def ack_output_def forward_message_def next_channel_state_def forward_action_def
    send_message_def send_encrypted_message_def send_ack_def
  by (intro respectful)+

end

text \<open>
  The handlers that change the table of channels: a socket that waits for an answer, a channel that
  gets its identifier. What they put into the table matters, so they are part of the contract.
\<close>

locale host_frame = host_core +
  assumes R_waiting: "set_local_sockfd cid fd h = Ran () h' \<Longrightarrow> R h h'"
    and rename: "(\<And>cid b. A (Channel_Id_Generated cid b)) \<Longrightarrow>
                 abides R S (process_channel_id_generated hx data data_len)"
begin

lemma rsp_set_waiting [respectful]: "rsp (set_local_sockfd cid fd)"
  unfolding abides_def by (auto intro: R_waiting) (auto simp: set_local_sockfd_def split: option.splits)

lemma rsp_remote_handlers:
  assumes "\<And>c. remote_ecall c \<Longrightarrow> A c"
  shows "rsp (process_channel_create_data hx data n fd)" "rsp (process_verify_deposits_ack hx data n fd)"
    "rsp (process_send_ack hx data n fd)" "rsp (process_send_request hx data n fd)"
    "rsp (process_deposit_remove hx data n fd)" "rsp (process_deposit_add hx data n fd)"
    "rsp (process_deposit_remove_ack hx data n fd)" "rsp (process_deposit_add_ack hx data n fd)"
    "rsp (process_update_channel_balance_ack hx data n fd)" "rsp (process_backup_data hx data n fd)"
    "rsp (process_update_channel_balance hx data n fd)" "rsp (process_remove_backup hx data n fd)"
    "rsp (process_remove_backup_ack hx data n fd)" "rsp (process_backup_ack hx data n fd)"
    "rsp (process_channel_id_generated hx data n)"
  unfolding remote_handler_defs by (intro respectful rename assms remote_ecall.simps TrueI; simp)+

lemma rsp_dispatch_remote:
  assumes "\<And>c. remote_ecall c \<Longrightarrow> A c"
  shows "rsp (dispatch hx False packet pktlen fd)"
  unfolding dispatch_def Let_def simp_thms if_False
  by (intro respectful rsp_remote_handlers assms)

end

text \<open>The handlers of local commands may make any call; only \<open>create\<close> adds a state to the table.\<close>

locale host_frame_all = host_frame +
  assumes every_call: "A c"
    and create: "abides R S (host_create hx b data fd)"
begin

lemma rsp_local_handlers:
  "rsp (host_settle hx data fd)" "rsp (return_unused_deposits hx data fd)"
  "rsp (host_shutdown hx data fd)" "rsp (host_primary hx data fd)" "rsp (host_balance hx data fd)"
  "rsp (host_verify_deposits hx data fd)" "rsp (host_send hx data fd)"
  "rsp (host_setup_deposits hx data fd)" "rsp (host_deposits_made hx data fd)"
  "rsp (host_remove_deposit hx data fd)" "rsp (host_add_deposit hx data fd)"
  "rsp (host_backup hx data fd)" "rsp (host_remove_backup hx data fd)"
  unfolding local_handler_defs Let_def by (intro respectful every_call)+

lemma rsp_dispatch: "rsp (dispatch hx islocalhost packet pktlen fd)"
  unfolding dispatch_def Let_def
  by (intro respectful rsp_remote_handlers rsp_local_handlers create every_call)

lemma rsp_process_packet: "rsp (process_packet hx packet pktlen fd)"
  using rsp_dispatch unfolding abides_def process_packet_def by blast

end

text \<open>A relation that does not look at the table: the contract is only about the calls.\<close>

locale host_calls = host_core +
  assumes R_table: "R h (h\<lparr>hchannels := t\<rparr>)"
begin

lemma rsp_table [respectful]:
  "rsp (host_associate_channel_state cid st)" "rsp (host_remove_association cid)"
  "rsp (store_if b cid st)" "rsp (set_local_sockfd cid fd)" "rsp (geth p)"
  by (auto simp: abides_def host_associate_channel_state_def host_remove_association_def
      store_if_def set_local_sockfd_def geth_def R_table R_refl split: option.splits)

end

sublocale host_calls \<subseteq> frame: host_frame
proof
  show "R h h'" if "set_local_sockfd cid fd h = Ran () h'" for cid fd h h'
    using that rsp_table(4) unfolding abides_def by blast
  show "rsp (process_channel_id_generated hx data data_len)"
    if "\<And>cid b. A (Channel_Id_Generated cid b)" for data data_len
    unfolding process_channel_id_generated_def by (intro respectful that)
qed

locale host_calls_all = host_calls +
  assumes any_call: "A c"
    and R_connections: "R h (h\<lparr>connections := c'\<rparr>)"
begin

lemma rsp_register [respectful]: "rsp (register_new_connection hx s)"
  by (auto simp: abides_def register_new_connection_def R_connections S_error split: if_splits)

lemma rsp_close [respectful]: "rsp (close_socket hx s)"
  by (auto simp: abides_def close_socket_def R_connections S_error split: if_splits)

lemma rsp_create: "rsp (host_create hx b data fd)"
  unfolding host_create_def open_channel_def initiate_channel_def connect_to_socket_def Let_def
  by (intro respectful any_call)

end

sublocale host_calls_all \<subseteq> frame_all: host_frame_all
  by unfold_locales (rule any_call rsp_create)+

end
