(* ===== verification/Teechain_Stream.thy ===== *)
theory Teechain_Stream
  imports Teechain_Host_Effects
begin

text \<open>
  A connection is a stream of bytes. A handler does not look at the input buffers of the
  connections (\<open>commuting\<close>), and what it does to a packet does not change when more bytes follow
  it (\<open>refining\<close>, unless it reads past the packet). So the loop over the input depends on the bytes
  that have arrived and not on how they were cut into calls of \<open>recv\<close>, and it takes off exactly
  the messages that were framed.
\<close>

named_theorems commuting \<open>functions of the host that do not look at the input buffers\<close>
named_theorems refining \<open>functions of the host on a packet and on a longer one\<close>

section \<open>Functions that do not look at the input\<close>

primrec map_host :: "(host \<Rightarrow> host) \<Rightarrow> 'a run \<Rightarrow> 'a run" where
  "map_host f (Ran a h) = Ran a (f h)"
| "map_host f (Exited h) = Exited (f h)"
| "map_host f Broken = Broken"

definition commutes :: "(host \<Rightarrow> host) \<Rightarrow> 'a hostm \<Rightarrow> bool" where
  "commutes f m \<longleftrightarrow> (\<forall>h. m (f h) = map_host f (m h))"

lemma commutes_returnh [commuting]: "commutes f (returnh a)"
  by (simp add: commutes_def returnh_def)

lemma commutes_broken [commuting]: "commutes f broken"
  by (simp add: commutes_def)

lemma commutes_exit [commuting]: "commutes f exit_process"
  by (simp add: commutes_def)

lemma commutes_bind [commuting]:
  "commutes f m \<Longrightarrow> (\<And>a. commutes f (g a)) \<Longrightarrow> commutes f (bindh m g)"
  by (auto simp: commutes_def bindh_def split: run.split)

lemma commutes_if [commuting]:
  "(b \<Longrightarrow> commutes f m) \<Longrightarrow> (\<not> b \<Longrightarrow> commutes f n) \<Longrightarrow> commutes f (if b then m else n)"
  by simp

lemma commutes_case_option [commuting]:
  "commutes f m \<Longrightarrow> (\<And>a. commutes f (g a)) \<Longrightarrow> commutes f (case v of None \<Rightarrow> m | Some a \<Rightarrow> g a)"
  by (cases v) simp_all

lemma commutes_known [commuting]: "commutes f (known v)"
  unfolding known_def by (intro commuting)

text \<open>The fields a change of an input buffer leaves alone.\<close>

lemma update_input_simps [simp]:
  "encl (update_input fd g h) = encl h" "hchannels (update_input fd g h) = hchannels h"
  "wire (update_input fd g h) = wire h" "error_count (update_input fd g h) = error_count h"
  "cn_islocalhost (connections (update_input fd g h) k) = cn_islocalhost (connections h k)"
  "input_of (update_input fd g h) k = (if k = fd then g (input_of h fd) else input_of h k)"
  by (simp_all add: update_input_def)

lemma update_input_commute:
  "(update_input fd g h)\<lparr>encl := e\<rparr> = update_input fd g (h\<lparr>encl := e\<rparr>)"
  "(update_input fd g h)\<lparr>hchannels := t\<rparr> = update_input fd g (h\<lparr>hchannels := t\<rparr>)"
  "(update_input fd g h)\<lparr>wire := w\<rparr> = update_input fd g (h\<lparr>wire := w\<rparr>)"
  "(update_input fd g h)\<lparr>error_count := n\<rparr> = update_input fd g (h\<lparr>error_count := n\<rparr>)"
  "s \<noteq> fd \<Longrightarrow> (update_input fd g h)\<lparr>connections := (connections (update_input fd g h))(s := c)\<rparr> =
     update_input fd g (h\<lparr>connections := (connections h)(s := c)\<rparr>)"
  by (auto simp: update_input_def fun_upd_twist)

lemma update_input_compose:
  "update_input fd f (update_input fd g h) = update_input fd (\<lambda>s. f (g s)) h"
  by (simp add: update_input_def)

lemma commutes_call [commuting]: "commutes (update_input fd g) (host_call hx n k c)"
  by (auto simp: commutes_def host_call_def enclave_gave_up_def update_input_commute
      split: outcome.split prod.split)

lemma commutes_call_blob [commuting]: "commutes (update_input fd g) (host_call_blob hx n k c blob)"
  unfolding host_call_blob_def by (intro commuting)

lemma commutes_count [commuting]: "commutes (update_input fd g) count_error"
  by (simp add: commutes_def count_error_def update_input_commute)

lemma commutes_fun_if:
  "commutes f m \<Longrightarrow> commutes f n \<Longrightarrow> (\<And>h. b (f h) = b h) \<Longrightarrow>
     commutes f (\<lambda>h. if b h then m h else n h)"
  by (simp add: commutes_def)

lemma commutes_error [commuting]: "commutes (update_input fd g) (host_error hx)"
  unfolding host_error_def shutdown_or_def out_text_def
  by (intro commuting commutes_fun_if) simp

lemma commutes_shutdown [commuting]: "commutes (update_input fd g) (shutdown_enclave hx)"
  unfolding shutdown_enclave_def shutdown_or_def by (intro commuting)

lemma commutes_table [commuting]:
  "commutes (update_input fd g) (host_associate_channel_state cid st)"
  "commutes (update_input fd g) (host_remove_association cid)"
  "commutes (update_input fd g) (set_local_sockfd cid s)"
  "commutes (update_input fd g) (store_if b cid st)"
  by (auto simp: commutes_def host_associate_channel_state_def host_remove_association_def
      set_local_sockfd_def store_if_def update_input_commute split: option.split)

lemma commutes_get_channel [commuting]:
  "commutes (update_input fd g) (host_get_channel_state hx cid)"
  using commutes_error [of fd g hx]
  by (auto simp: commutes_def host_get_channel_state_def split: option.split)

lemma commutes_send_on_socket [commuting]: "commutes (update_input fd g) (send_on_socket hx msg s)"
  using commutes_error [where 'a = unit, of fd g hx] by (simp add: commutes_def send_on_socket_def update_input_commute)

lemma commutes_register:
  "s \<noteq> fd \<Longrightarrow> commutes (update_input fd g) (register_new_connection hx s)"
  using commutes_error [where 'a = unit, of fd g hx]
  by (simp add: commutes_def register_new_connection_def update_input_commute)

lemma commutes_small [commuting]:
  "commutes f (message_channel data)" "commutes f (message_blob data n)"
  "commutes f (read_struct k data)" "commutes f (out_text r)" "commutes f (out_action r)"
  "commutes f (out_next r)" "commutes f (out_data r)"
  unfolding message_channel_def message_blob_def read_struct_def Let_def out_text_def
    out_action_def out_next_def out_data_def
  by (intro commuting)+

lemma commutes_sends [commuting]:
  "commutes (update_input fd g) (send_message hx op cid blob s)"
  "commutes (update_input fd g) (send_encrypted_message hx op cid enc s)"
  "commutes (update_input fd g) (send_ack hx s response info)"
  "commutes (update_input fd g) (ack_waiting hx st info)"
  "commutes (update_input fd g) (fail_and_exit hx s info)"
  "commutes (update_input fd g) (ack_output hx s r)"
  "commutes (update_input fd g) (forward_message hx st op r)"
  "commutes (update_input fd g) (next_channel_state hx r)"
  "commutes (update_input fd g) (forward_action hx ops st r)"
  unfolding send_message_def send_encrypted_message_def send_ack_def ack_waiting_def
    fail_and_exit_def ack_output_def forward_message_def next_channel_state_def forward_action_def
    send_message_def send_encrypted_message_def send_ack_def
  by (intro commuting)+

text \<open>\<open>connect\<close> never gives a descriptor that is in use.\<close>

definition fresh_sockets :: "host_ext \<Rightarrow> int \<Rightarrow> bool" where
  "fresh_sockets hx fd \<longleftrightarrow> (\<forall>hostname port. hx_connect hx hostname port \<noteq> Some fd)"

lemma commutes_bind_value:
  "commutes f m \<Longrightarrow> (\<And>a h h'. m h = Ran a h' \<Longrightarrow> commutes f (g a)) \<Longrightarrow> commutes f (bindh m g)"
  by (auto simp: commutes_def bindh_def split: run.split)

lemma commutes_connect [commuting]: "commutes (update_input fd g) (connect_to_socket hx name port)"
  unfolding connect_to_socket_def by (intro commuting)

lemma connect_to_socket_Ran: "connect_to_socket hx name port h = Ran s h' \<Longrightarrow> hx_connect hx name port = Some s"
  by (auto simp: connect_to_socket_def split: option.splits)

lemma commutes_initiate:
  assumes "fresh_sockets hx fd"
  shows "commutes (update_input fd g) (initiate_channel hx b stored msg cid st s)"
proof -
  have "commutes (update_input fd g) (register_new_connection hx a)"
    if "connect_to_socket hx name port h = Ran a h'" for name port h a h'
    using connect_to_socket_Ran [OF that] assms
    by (intro commutes_register) (auto simp: fresh_sockets_def)
  then show ?thesis
    unfolding initiate_channel_def Let_def
    by (intro commutes_if commutes_broken commutes_bind_value [OF commutes_connect] commutes_bind
        commutes_table commutes_sends) blast
qed

lemma commutes_exists [commuting]: "commutes (update_input fd g) (geth (exists_state cid))"
  by (simp add: commutes_def geth_def exists_state_def)

lemma commutes_create:
  assumes "fresh_sockets hx fd"
  shows "commutes (update_input fd g) (host_create hx b data s)"
  unfolding host_create_def open_channel_def Let_def by (intro commuting commutes_initiate assms)

lemma commutes_remote_handlers [commuting]:
  "commutes (update_input fd g) (process_channel_create_data hx data n s)"
  "commutes (update_input fd g) (process_verify_deposits_ack hx data n s)"
  "commutes (update_input fd g) (process_send_ack hx data n s)"
  "commutes (update_input fd g) (process_send_request hx data n s)"
  "commutes (update_input fd g) (process_deposit_remove hx data n s)"
  "commutes (update_input fd g) (process_deposit_add hx data n s)"
  "commutes (update_input fd g) (process_deposit_remove_ack hx data n s)"
  "commutes (update_input fd g) (process_deposit_add_ack hx data n s)"
  "commutes (update_input fd g) (process_update_channel_balance_ack hx data n s)"
  "commutes (update_input fd g) (process_backup_data hx data n s)"
  "commutes (update_input fd g) (process_update_channel_balance hx data n s)"
  "commutes (update_input fd g) (process_remove_backup hx data n s)"
  "commutes (update_input fd g) (process_remove_backup_ack hx data n s)"
  "commutes (update_input fd g) (process_backup_ack hx data n s)"
  "commutes (update_input fd g) (process_channel_id_generated hx data n)"
  unfolding remote_handler_defs process_channel_id_generated_def by (intro commuting)+

lemma commutes_local_handlers [commuting]:
  "commutes (update_input fd g) (host_settle hx data s)"
  "commutes (update_input fd g) (return_unused_deposits hx data s)"
  "commutes (update_input fd g) (host_shutdown hx data s)"
  "commutes (update_input fd g) (host_primary hx data s)"
  "commutes (update_input fd g) (host_balance hx data s)"
  "commutes (update_input fd g) (host_verify_deposits hx data s)"
  "commutes (update_input fd g) (host_send hx data s)"
  "commutes (update_input fd g) (host_setup_deposits hx data s)"
  "commutes (update_input fd g) (host_deposits_made hx data s)"
  "commutes (update_input fd g) (host_remove_deposit hx data s)"
  "commutes (update_input fd g) (host_add_deposit hx data s)"
  "commutes (update_input fd g) (host_backup hx data s)"
  "commutes (update_input fd g) (host_remove_backup hx data s)"
  unfolding local_handler_defs Let_def by (intro commuting)+

lemma commutes_process_packet:
  assumes "fresh_sockets hx fd"
  shows "commutes (update_input fd g) (process_packet hx packet n s)"
proof -
  have "commutes (update_input fd g) (dispatch hx islocalhost packet n s)" for islocalhost
    unfolding dispatch_def Let_def by (intro commuting commutes_create assms)
  then show ?thesis by (simp add: commutes_def process_packet_def)
qed

section \<open>A packet and the bytes behind it\<close>

text \<open>\<open>n\<close> does what \<open>m\<close> does wherever \<open>m\<close> is defined.\<close>

definition refined :: "'a hostm \<Rightarrow> 'a hostm \<Rightarrow> bool" where
  "refined m n \<longleftrightarrow> (\<forall>h. m h \<noteq> Broken \<longrightarrow> n h = m h)"

lemma refined_refl [refining]: "refined m m"
  by (simp add: refined_def)

lemma refined_broken [refining]: "refined broken n"
  by (simp add: refined_def)

lemma refined_bind [refining]:
  "refined m n \<Longrightarrow> (\<And>a. refined (f a) (g a)) \<Longrightarrow> refined (bindh m f) (bindh n g)"
  by (auto simp: refined_def bindh_def split: run.splits)

lemma refined_if [refining]:
  "(b \<Longrightarrow> refined m n) \<Longrightarrow> (\<not> b \<Longrightarrow> refined m' n') \<Longrightarrow>
     refined (if b then m else m') (if b then n else n')"
  by simp

lemma refined_reads [refining]:
  "refined (message_channel data) (message_channel (data @ tail))"
  "refined (message_blob data k) (message_blob (data @ tail) k)"
  "refined (read_struct j data) (read_struct j (data @ tail))"
  by (auto simp: refined_def message_channel_def message_blob_def read_struct_def Let_def
      SIZEOF_LocalGenericMsg_def struct_defs CHANNEL_ID_LEN_def)

lemma refined_handlers [refining]:
  "refined (process_channel_create_data hx d n s) (process_channel_create_data hx (d @ tail) n s)"
  "refined (process_verify_deposits_ack hx d n s) (process_verify_deposits_ack hx (d @ tail) n s)"
  "refined (process_send_ack hx d n s) (process_send_ack hx (d @ tail) n s)"
  "refined (process_send_request hx d n s) (process_send_request hx (d @ tail) n s)"
  "refined (process_deposit_remove hx d n s) (process_deposit_remove hx (d @ tail) n s)"
  "refined (process_deposit_add hx d n s) (process_deposit_add hx (d @ tail) n s)"
  "refined (process_deposit_remove_ack hx d n s) (process_deposit_remove_ack hx (d @ tail) n s)"
  "refined (process_deposit_add_ack hx d n s) (process_deposit_add_ack hx (d @ tail) n s)"
  "refined (process_update_channel_balance_ack hx d n s)
     (process_update_channel_balance_ack hx (d @ tail) n s)"
  "refined (process_backup_data hx d n s) (process_backup_data hx (d @ tail) n s)"
  "refined (process_update_channel_balance hx d n s)
     (process_update_channel_balance hx (d @ tail) n s)"
  "refined (process_remove_backup hx d n s) (process_remove_backup hx (d @ tail) n s)"
  "refined (process_remove_backup_ack hx d n s) (process_remove_backup_ack hx (d @ tail) n s)"
  "refined (process_backup_ack hx d n s) (process_backup_ack hx (d @ tail) n s)"
  "refined (process_channel_id_generated hx d n) (process_channel_id_generated hx (d @ tail) n)"
  "refined (host_settle hx d s) (host_settle hx (d @ tail) s)"
  "refined (return_unused_deposits hx d s) (return_unused_deposits hx (d @ tail) s)"
  "refined (host_shutdown hx d s) (host_shutdown hx (d @ tail) s)"
  "refined (host_primary hx d s) (host_primary hx (d @ tail) s)"
  "refined (host_balance hx d s) (host_balance hx (d @ tail) s)"
  "refined (host_verify_deposits hx d s) (host_verify_deposits hx (d @ tail) s)"
  "refined (host_send hx d s) (host_send hx (d @ tail) s)"
  "refined (host_setup_deposits hx d s) (host_setup_deposits hx (d @ tail) s)"
  "refined (host_deposits_made hx d s) (host_deposits_made hx (d @ tail) s)"
  "refined (host_remove_deposit hx d s) (host_remove_deposit hx (d @ tail) s)"
  "refined (host_add_deposit hx d s) (host_add_deposit hx (d @ tail) s)"
  "refined (host_backup hx d s) (host_backup hx (d @ tail) s)"
  "refined (host_remove_backup hx d s) (host_remove_backup hx (d @ tail) s)"
  "refined (host_create hx b d s) (host_create hx b (d @ tail) s)"
  unfolding remote_handler_defs local_handler_defs process_channel_id_generated_def host_create_def
  by (intro refining)+

lemma refined_process_packet:
  assumes "MSG_LEN_BYTES < length packet"
  shows "refined (process_packet hx packet n s) (process_packet hx (packet @ tail) n s)"
proof -
  have op: "(packet @ tail) ! MSG_LEN_BYTES = packet ! MSG_LEN_BYTES"
    and data: "drop MSG_LEN_BYTES (packet @ tail) = drop MSG_LEN_BYTES packet @ tail"
    using assms by (simp_all add: nth_append)
  have "refined (dispatch hx islocalhost packet n s) (dispatch hx islocalhost (packet @ tail) n s)"
    for islocalhost
    unfolding dispatch_def Let_def op data by (intro refining)
  then show ?thesis by (simp add: refined_def process_packet_def)
qed

section \<open>The loop on a growing input\<close>

lemma packet_length_append: "MSG_LEN_BYTES < length s \<Longrightarrow> packet_length (s @ t) = packet_length s"
  by (simp add: packet_length_def)

lemma whole_packet_append: "whole_packet s \<Longrightarrow> whole_packet (s @ t)"
  by (simp add: whole_packet_def packet_length_append)

lemma process_packet_update:
  assumes "fresh_sockets hx fd"
  shows "process_packet hx packet n s (update_input fd g h)
    = map_host (update_input fd g) (process_packet hx packet n s h)"
  using commutes_process_packet [OF assms] by (simp add: commutes_def)

lemma process_packet_keeps_input:
  assumes "fresh_sockets hx fd" and "process_packet hx packet n s h = Ran u h'"
  shows "input_of h' fd = input_of h fd"
proof -
  define c where "c = input_of h fd"
  have "update_input fd (\<lambda>_. c) h = h" by (simp add: update_input_def c_def)
  then have "map_host (update_input fd (\<lambda>_. c)) (Ran u h') = Ran u h'"
    using process_packet_update [OF assms(1), of packet n s "\<lambda>_. c" h] assms(2) by simp
  then have "update_input fd (\<lambda>_. c) h' = h'" by simp
  then have "input_of (update_input fd (\<lambda>_. c) h') fd = input_of h' fd" by simp
  then show ?thesis by (simp add: c_def)
qed

lemma take_packet_cases:
  assumes "fresh_sockets hx fd" and "whole_packet (input_of h fd)"
  shows "take_packet hx fd h =
    (case process_packet hx (input_of h fd) (int_of_long (packet_length (input_of h fd))) fd h of
       Ran u h' \<Rightarrow> Ran u (update_input fd (drop (packet_length (input_of h fd))) h')
     | Exited h' \<Rightarrow> Exited h' | Broken \<Rightarrow> Broken)"
  using assms(2) process_packet_keeps_input [OF assms(1)]
  by (auto simp: take_packet_def bindh_def whole_packet_def Let_def split: run.split)

lemma take_packet_append:
  assumes fresh: "fresh_sockets hx fd" and whole: "whole_packet (input_of h fd)"
    and defined: "take_packet hx fd h \<noteq> Broken"
  shows "take_packet hx fd (update_input fd (\<lambda>s. s @ t) h)
    = map_host (update_input fd (\<lambda>s. s @ t)) (take_packet hx fd h)"
proof -
  define s n where "s = input_of h fd" and "n = packet_length s"
  have n: "n \<le> length s" "MSG_LEN_BYTES < length s" "packet_length (s @ t) = n"
    using whole by (simp_all add: whole_packet_def s_def n_def packet_length_append)
  define r where "r = process_packet hx s (int_of_long n) fd h"
  have old: "take_packet hx fd h = (case r of Ran u h' \<Rightarrow> Ran u (update_input fd (drop n) h')
      | Exited h' \<Rightarrow> Exited h' | Broken \<Rightarrow> Broken)"
    using take_packet_cases [OF fresh whole, folded s_def, folded n_def] by (simp only: r_def)
  then have "r \<noteq> Broken" using defined by auto
  then have "process_packet hx (s @ t) (int_of_long n) fd h = r"
    using refined_process_packet [OF n(2)] unfolding refined_def r_def by metis
  then have "process_packet hx (s @ t) (int_of_long n) fd (update_input fd (\<lambda>s. s @ t) h)
      = map_host (update_input fd (\<lambda>s. s @ t)) r"
    using process_packet_update [OF fresh] by simp
  moreover have input: "input_of (update_input fd (\<lambda>s. s @ t) h) fd = s @ t"
    by (simp add: s_def)
  moreover have "whole_packet (input_of (update_input fd (\<lambda>s. s @ t) h) fd)"
    unfolding input using whole by (simp add: whole_packet_append s_def)
  ultimately have new: "take_packet hx fd (update_input fd (\<lambda>s. s @ t) h)
      = (case map_host (update_input fd (\<lambda>s. s @ t)) r of
           Ran u h' \<Rightarrow> Ran u (update_input fd (drop n) h') | Exited h' \<Rightarrow> Exited h' | Broken \<Rightarrow> Broken)"
    by (simp only: take_packet_cases [OF fresh] n(3))
  have "input_of h1 fd = s" if "r = Ran u h1" for u h1
    using process_packet_keeps_input [OF fresh that [unfolded r_def]] by (simp add: s_def)
  then have "update_input fd (drop n) (update_input fd (\<lambda>s. s @ t) h1)
      = update_input fd (\<lambda>s. s @ t) (update_input fd (drop n) h1)" if "r = Ran u h1" for u h1
    using that n(1) by (simp add: update_input_def)
  then show ?thesis unfolding old new by (cases r) auto
qed

lemma drain_append:
  assumes "fresh_sockets hx fd" and "drain hx fd h = Some r" and "r \<noteq> Broken"
  shows "drain hx fd (update_input fd (\<lambda>s. s @ t) h) =
    (case r of Ran _ h' \<Rightarrow> drain hx fd (update_input fd (\<lambda>s. s @ t) h')
     | _ \<Rightarrow> Some (map_host (update_input fd (\<lambda>s. s @ t)) r))"
proof -
  have "fresh_sockets hx fd \<longrightarrow> r \<noteq> Broken \<longrightarrow>
    drain hx fd (update_input fd (\<lambda>s. s @ t) h) =
    (case r of Ran _ h' \<Rightarrow> drain hx fd (update_input fd (\<lambda>s. s @ t) h')
     | _ \<Rightarrow> Some (map_host (update_input fd (\<lambda>s. s @ t)) r))"
  proof (rule drain.raw_induct [where P = "\<lambda>hx fd h r. fresh_sockets hx fd \<longrightarrow> r \<noteq> Broken \<longrightarrow>
      drain hx fd (update_input fd (\<lambda>s. s @ t) h) =
      (case r of Ran _ h' \<Rightarrow> drain hx fd (update_input fd (\<lambda>s. s @ t) h')
       | _ \<Rightarrow> Some (map_host (update_input fd (\<lambda>s. s @ t)) r))", OF _ assms(2)], intro impI)
    fix loop hx fd h r
    assume IH: "\<And>hx fd h r. loop hx fd h = Some r \<Longrightarrow> fresh_sockets hx fd \<longrightarrow> r \<noteq> Broken \<longrightarrow>
        drain hx fd (update_input fd (\<lambda>s. s @ t) h) =
        (case r of Ran _ h' \<Rightarrow> drain hx fd (update_input fd (\<lambda>s. s @ t) h')
         | _ \<Rightarrow> Some (map_host (update_input fd (\<lambda>s. s @ t)) r))"
      and eq: "(if \<not> whole_packet (input_of h fd) then Some (Ran () h)
        else case take_packet hx fd h of Ran _ h' \<Rightarrow> loop hx fd h'
          | Exited h' \<Rightarrow> Some (Exited h') | Broken \<Rightarrow> Some Broken) = Some r"
      and fresh: "fresh_sockets hx fd" and r: "r \<noteq> Broken"
    show "drain hx fd (update_input fd (\<lambda>s. s @ t) h) =
        (case r of Ran _ h' \<Rightarrow> drain hx fd (update_input fd (\<lambda>s. s @ t) h')
         | _ \<Rightarrow> Some (map_host (update_input fd (\<lambda>s. s @ t)) r))"
    proof (cases "whole_packet (input_of h fd)")
      case False
      with eq show ?thesis by auto
    next
      case True
      with eq r have defined: "take_packet hx fd h \<noteq> Broken" by auto
      have "whole_packet (input_of (update_input fd (\<lambda>s. s @ t) h) fd)"
        using True by (simp add: whole_packet_append)
      then show ?thesis
        using eq True IH fresh r take_packet_append [OF fresh True defined]
        by (subst drain.simps) (auto split: run.splits)
    qed
  qed
  with assms(1,3) show ?thesis by blast
qed

section \<open>Streams of framed messages\<close>

text \<open>A message another node can have sent: not empty, and its length fits the prefix.\<close>

definition sendable :: "string \<Rightarrow> bool" where
  "sendable m \<longleftrightarrow> m \<noteq> [] \<and> length m + MSG_LEN_BYTES < 2 ^ 64"

lemma length_frame_message [simp]: "length (frame_message m) = length m + MSG_LEN_BYTES"
  by (simp add: frame_message_def)

lemma packet_length_frame:
  assumes "sendable m"
  shows "packet_length (frame_message m @ t) = length m + MSG_LEN_BYTES"
proof -
  have "(256::nat) ^ MSG_LEN_BYTES = 2 ^ 64" by (simp add: MSG_LEN_BYTES_def)
  then show ?thesis
    using assms by (simp add: packet_length_def frame_message_def le_value_bytes_le sendable_def)
qed

lemma whole_packet_frame: "sendable m \<Longrightarrow> whole_packet (frame_message m @ t)"
  by (simp add: whole_packet_def packet_length_frame) (simp add: sendable_def)

lemma not_whole_packet_prefix:
  assumes "sendable m" and "k < length m + MSG_LEN_BYTES"
  shows "\<not> whole_packet (take k (frame_message m))"
proof
  assume whole: "whole_packet (take k (frame_message m))"
  then have k: "MSG_LEN_BYTES < k" using assms(2) by (simp add: whole_packet_def)
  have "packet_length (take k (frame_message m)) = packet_length (frame_message m)"
    using k assms(2) by (simp add: packet_length_def)
  then have "packet_length (take k (frame_message m)) = length m + MSG_LEN_BYTES"
    using packet_length_frame [OF assms(1), of "[]"] by simp
  with whole assms(2) show False by (simp add: whole_packet_def)
qed

text \<open>The messages one by one, each packet alone in memory.\<close>

primrec handle_messages :: "host_ext \<Rightarrow> int \<Rightarrow> string list \<Rightarrow> unit hostm" where
  "handle_messages hx fd [] = returnh ()"
| "handle_messages hx fd (m # ms) =
     bindh (process_packet hx (frame_message m) (int_of_long (length m + MSG_LEN_BYTES)) fd)
       (\<lambda>_. handle_messages hx fd ms)"

definition frames :: "string list \<Rightarrow> string" where
  "frames ms = concat (map frame_message ms)"

lemma frames_simps [simp]: "frames [] = []" "frames (m # ms) = frame_message m @ frames ms"
  by (simp_all add: frames_def)

lemma set_input_twice [simp]:
  "update_input fd f (update_input fd (\<lambda>_. s) h) = update_input fd (\<lambda>_. f s) h"
  by (simp add: update_input_def)

lemma set_input_same: "input_of h fd = s \<Longrightarrow> update_input fd (\<lambda>_. s) h = h"
  by (auto simp: update_input_def)

lemma take_frame:
  assumes "fresh_sockets hx fd" and "sendable m"
  shows "take_packet hx fd (update_input fd (\<lambda>_. frame_message m @ t) h) =
    (case process_packet hx (frame_message m @ t) (int_of_long (length m + MSG_LEN_BYTES)) fd h of
       Ran u h' \<Rightarrow> Ran u (update_input fd (\<lambda>_. t) h')
     | Exited h' \<Rightarrow> Exited (update_input fd (\<lambda>_. frame_message m @ t) h') | Broken \<Rightarrow> Broken)"
proof -
  let ?h = "update_input fd (\<lambda>_. frame_message m @ t) h"
  have input: "input_of ?h fd = frame_message m @ t" by simp
  have whole: "whole_packet (input_of ?h fd)"
    using whole_packet_frame [OF assms(2)] by simp
  have "take_packet hx fd ?h =
    (case map_host (update_input fd (\<lambda>_. frame_message m @ t))
        (process_packet hx (frame_message m @ t) (int_of_long (length m + MSG_LEN_BYTES)) fd h) of
       Ran u h' \<Rightarrow> Ran u (update_input fd (drop (length m + MSG_LEN_BYTES)) h')
     | Exited h' \<Rightarrow> Exited h' | Broken \<Rightarrow> Broken)"
    unfolding take_packet_cases [OF assms(1) whole] input packet_length_frame [OF assms(2)]
      process_packet_update [OF assms(1)] ..
  then show ?thesis by (simp split: run.split)
qed

text \<open>The loop takes off what was framed.\<close>

lemma drain_frames:
  assumes fresh: "fresh_sockets hx fd"
  shows "list_all sendable ms \<Longrightarrow> handle_messages hx fd ms h = r \<Longrightarrow> r \<noteq> Broken \<Longrightarrow>
    \<exists>s. drain hx fd (update_input fd (\<lambda>_. frames ms) h) = Some (map_host (update_input fd (\<lambda>_. s)) r)
      \<and> (\<forall>u h'. r = Ran u h' \<longrightarrow> s = [])"
proof (induction ms arbitrary: h)
  case Nil
  then show ?case
    by (subst drain.simps) (auto simp: whole_packet_def returnh_def)
next
  case (Cons m ms)
  have m: "sendable m" and ms: "list_all sendable ms" using Cons.prems(1) by simp_all
  let ?n = "int_of_long (length m + MSG_LEN_BYTES)"
  let ?p = "process_packet hx (frame_message m) ?n fd h"
  have whole: "whole_packet (frame_message m @ frames ms)" by (rule whole_packet_frame [OF m])
  have "?p \<noteq> Broken" using Cons.prems(2,3) by (auto simp: bindh_def)
  then have alone: "process_packet hx (frame_message m @ frames ms) ?n fd h = ?p"
    using refined_process_packet [of "frame_message m"] m unfolding refined_def sendable_def
    by (metis add.commute length_frame_message length_greater_0_conv less_add_same_cancel1)
  show ?case
  proof (cases ?p)
    case (Ran u h1)
    then have "handle_messages hx fd ms h1 = r" using Cons.prems(2) by (simp add: bindh_def)
    from Cons.IH [OF ms this Cons.prems(3)] Ran show ?thesis
      by (subst drain.simps) (simp add: whole take_frame [OF fresh m] alone)
  next
    case (Exited h1)
    then have "r = Exited h1" using Cons.prems(2) by (simp add: bindh_def)
    with Exited show ?thesis
      by (subst drain.simps) (auto simp: whole take_frame [OF fresh m] alone)
  next
    case Broken
    with \<open>?p \<noteq> Broken\<close> show ?thesis by simp
  qed
qed

text \<open>It ends on every beginning of such a stream.\<close>

lemma drain_ends:
  assumes fresh: "fresh_sockets hx fd"
  shows "list_all sendable ms \<Longrightarrow>
    \<exists>r. drain hx fd (update_input fd (\<lambda>_. take k (frames ms)) h) = Some r"
proof (induction ms arbitrary: h k)
  case Nil
  then show ?case by (subst drain.simps) (simp add: whole_packet_def)
next
  case (Cons m ms)
  have m: "sendable m" and ms: "list_all sendable ms" using Cons.prems by simp_all
  show ?case
  proof (cases "k < length m + MSG_LEN_BYTES")
    case True
    then show ?thesis using not_whole_packet_prefix [OF m True] by (subst drain.simps) simp
  next
    case False
    then obtain j where k: "take k (frames (m # ms)) = frame_message m @ take j (frames ms)"
      by simp
    show ?thesis
      unfolding k using Cons.IH [OF ms] whole_packet_frame [OF m]
      by (subst drain.simps) (simp add: take_frame [OF fresh m] split: run.split)
  qed
qed

section \<open>Packets of length zero\<close>

lemma drain_zero_length:
  assumes "fresh_sockets hx fd" and "drain hx fd h = Some r"
    and "MSG_LEN_BYTES < length (input_of h fd)" and "packet_length (input_of h fd) = 0"
  shows "r \<noteq> Ran () h'"
proof -
  let ?P = "\<lambda>hx fd h r. fresh_sockets hx fd \<and> MSG_LEN_BYTES < length (input_of h fd)
    \<and> packet_length (input_of h fd) = 0 \<longrightarrow> (\<forall>h'. r \<noteq> Ran () h')"
  have "?P hx fd h r"
  proof (rule drain.raw_induct [where P = ?P, OF _ assms(2)], intro impI)
    fix loop hx fd h r
    assume IH: "\<And>hx fd h r. loop hx fd h = Some r \<Longrightarrow> ?P hx fd h r"
      and eq: "(if \<not> whole_packet (input_of h fd) then Some (Ran () h)
        else case take_packet hx fd h of Ran _ h' \<Rightarrow> loop hx fd h'
          | Exited h' \<Rightarrow> Some (Exited h') | Broken \<Rightarrow> Some Broken) = Some r"
      and zero: "fresh_sockets hx fd \<and> MSG_LEN_BYTES < length (input_of h fd)
        \<and> packet_length (input_of h fd) = 0"
    have whole: "whole_packet (input_of h fd)" using zero by (simp add: whole_packet_def)
    show "\<forall>h'. r \<noteq> Ran () h'"
    proof (cases "take_packet hx fd h")
      case (Ran u h1)
      then have "input_of h1 fd = input_of h fd"
        using take_packet_cases [of hx fd h] whole zero process_packet_keeps_input [of hx fd]
        by (auto split: run.splits)
      with Ran eq whole zero show ?thesis using IH [of hx fd h1 r] by simp
    qed (use eq whole in auto)
  qed
  with assms show ?thesis by blast
qed

lemma drain_hangs:
  assumes "take_packet hx fd h = Ran u h" and "whole_packet (input_of h fd)"
  shows "drain hx fd h = None"
proof (rule ccontr)
  assume "drain hx fd h \<noteq> None"
  then obtain r where r: "drain hx fd h = Some r" by blast
  let ?P = "\<lambda>hx' fd' h' (r :: unit run). \<not> (hx' = hx \<and> fd' = fd \<and> h' = h)"
  have "?P hx fd h r"
  proof (rule drain.raw_induct [where P = ?P, OF _ r])
    fix loop hx' fd' h' and r :: "unit run"
    assume IH: "\<And>hx' fd' h' r. loop hx' fd' h' = Some r \<Longrightarrow> ?P hx' fd' h' r"
      and eq: "(if \<not> whole_packet (input_of h' fd') then Some (Ran () h')
        else case take_packet hx' fd' h' of Ran _ h'' \<Rightarrow> loop hx' fd' h''
          | Exited h'' \<Rightarrow> Some (Exited h'') | Broken \<Rightarrow> Some Broken) = Some r"
    show "?P hx' fd' h' r"
    proof
      assume same: "hx' = hx \<and> fd' = fd \<and> h' = h"
      with eq assms have "loop hx fd h = Some r" by simp
      with IH show False by blast
    qed
  qed
  then show False by simp
qed

end
