(* ===== verification/Teechain_Node_Invariants.thy ===== *)
theory Teechain_Node_Invariants
  imports Teechain_Stream
begin

text \<open>
  What holds of a running node. The contract \<open>host_frame\<close> of the handlers is interpreted four
  times: the calls a remote peer can cause, the calls of any packet, the table of channels, and the
  messages on the wire. Together they lift the invariants of the enclave to the node.
\<close>

section \<open>The loop respects what the handlers respect\<close>

lemma drain_respects:
  assumes "drain hx fd h = Some r" and "P h"
    and refl: "\<And>h. R h h" and trans: "\<And>h h1 h2. R h h1 \<Longrightarrow> R h1 h2 \<Longrightarrow> R h h2"
    and exits: "\<And>h h1 h2. R h h1 \<Longrightarrow> S h1 h2 \<Longrightarrow> S h h2"
    and step: "\<And>h u h'. P h \<Longrightarrow> take_packet hx fd h = Ran u h' \<Longrightarrow> R h h' \<and> P h'"
    and stop: "\<And>h h'. P h \<Longrightarrow> take_packet hx fd h = Exited h' \<Longrightarrow> S h h'"
  shows "case r of Ran _ h' \<Rightarrow> R h h' \<and> P h' | Exited h' \<Rightarrow> S h h' | Broken \<Rightarrow> True"
proof -
  let ?Q = "\<lambda>hx' fd' h r. hx' = hx \<and> fd' = fd \<and> P h \<longrightarrow>
    (case r of Ran (_ :: unit) h' \<Rightarrow> R h h' \<and> P h' | Exited h' \<Rightarrow> S h h' | Broken \<Rightarrow> True)"
  have "?Q hx fd h r"
  proof (rule drain.raw_induct [where P = ?Q, OF _ assms(1)], intro impI)
    fix loop hx' fd' h r
    assume IH: "\<And>hx' fd' h r. loop hx' fd' h = Some r \<Longrightarrow> ?Q hx' fd' h r"
      and eq: "(if \<not> whole_packet (input_of h fd') then Some (Ran () h)
        else case take_packet hx' fd' h of Ran _ h' \<Rightarrow> loop hx' fd' h'
          | Exited h' \<Rightarrow> Some (Exited h') | Broken \<Rightarrow> Some Broken) = Some r"
      and at: "hx' = hx \<and> fd' = fd \<and> P h"
    show "case r of Ran (_ :: unit) h' \<Rightarrow> R h h' \<and> P h' | Exited h' \<Rightarrow> S h h' | Broken \<Rightarrow> True"
    proof (cases "whole_packet (input_of h fd)")
      case False
      with eq at refl show ?thesis by auto
    next
      case True
      show ?thesis
      proof (cases "take_packet hx fd h")
        case (Ran u h1)
        then have h1: "R h h1" "P h1" using step at by blast+
        from Ran True eq at have "loop hx fd h1 = Some r" by simp
        from IH [OF this] h1(2)
        have "case r of Ran (_ :: unit) h' \<Rightarrow> R h1 h' \<and> P h' | Exited h' \<Rightarrow> S h1 h' | Broken \<Rightarrow> True"
          by simp
        then show ?thesis using trans [OF h1(1)] exits [OF h1(1)] by (auto split: run.splits)
      next
        case (Exited h1)
        then have "r = Exited h1" using True eq at by simp
        then show ?thesis using stop [OF _ Exited] at by simp
      next
        case Broken
        then show ?thesis using True eq at by auto
      qed
    qed
  qed
  with assms(2) show ?thesis by blast
qed

text \<open>\<open>take_packet\<close> is \<open>process_packet\<close> and an update of the input.\<close>

lemma take_packet_Ran:
  "take_packet hx fd h = Ran u h' \<Longrightarrow>
     \<exists>n pkt h1 f. process_packet hx pkt n fd h = Ran u h1 \<and> h' = update_input fd f h1"
  by (auto simp: take_packet_def Let_def split: if_splits)

lemma take_packet_Exited:
  "take_packet hx fd h = Exited h' \<Longrightarrow> \<exists>n pkt. process_packet hx pkt n fd h = Exited h'"
  by (auto simp: take_packet_def Let_def split: if_splits)

section \<open>Calls of the enclave\<close>

definition call_step :: "(ecall \<Rightarrow> bool) \<Rightarrow> enclave \<Rightarrow> enclave \<Rightarrow> bool" where
  "call_step A e e' \<longleftrightarrow> (\<exists>x c r. A c \<and> run_ecall x c e = Returns (r, e'))"

lemma call_step_enclave: "call_step A e e' \<Longrightarrow> enclave_step e e'"
  by (auto simp: call_step_def intro: enclave_step.call)

lemma call_steps_enclave: "(call_step A)\<^sup>*\<^sup>* e e' \<Longrightarrow> enclave_step\<^sup>*\<^sup>* e e'"
  using mono_rtranclp [of "call_step A" enclave_step] call_step_enclave by blast

text \<open>What a message from another machine may do: its own calls, and the shutdown when it fails.\<close>

definition remote_run :: "host \<Rightarrow> host \<Rightarrow> bool" where
  "remote_run h h' \<longleftrightarrow> (call_step remote_ecall)\<^sup>*\<^sup>* (encl h) (encl h') \<and>
     (\<forall>fd. cn_islocalhost (connections h' fd) = cn_islocalhost (connections h fd))"

definition remote_exit :: "host \<Rightarrow> host \<Rightarrow> bool" where
  "remote_exit h h' \<longleftrightarrow> (\<exists>e. (call_step remote_ecall)\<^sup>*\<^sup>* (encl h) e \<and>
     (encl h' = e \<or> call_step (\<lambda>c. c = Shutdown) e (encl h')))"

lemma remote_run_update [simp]: "remote_run h (update_input fd f h') = remote_run h h'"
  by (simp add: remote_run_def)

lemma remote_run_frame:
  "encl h' = encl h \<Longrightarrow> connections h' = connections h \<Longrightarrow> remote_run h h'"
  by (simp add: remote_run_def)

lemma set_local_sockfd_Ran:
  "set_local_sockfd cid fd h = Ran u h' \<Longrightarrow> \<exists>st. om_get (hchannels h) cid = Some st \<and>
     h' = h\<lparr>hchannels := om_put cid (st\<lparr>hc_local_sockfd := Some fd\<rparr>) (hchannels h)\<rparr>"
  by (auto simp: set_local_sockfd_def split: option.splits)

interpretation remote: host_calls hx remote_ecall remote_run remote_exit for hx
proof
  show "remote_run h h" for h by (simp add: remote_run_def)
  show "remote_run h h2" if "remote_run h h1" "remote_run h1 h2" for h h1 h2
    using that unfolding remote_run_def by (meson rtranclp_trans)
  show "remote_exit h h2" if "remote_run h h1" "remote_exit h1 h2" for h h1 h2
  proof -
    from that(2) obtain e where e: "(call_step remote_ecall)\<^sup>*\<^sup>* (encl h1) e"
      "encl h2 = e \<or> call_step (\<lambda>c. c = Shutdown) e (encl h2)"
      by (auto simp: remote_exit_def)
    then have "(call_step remote_ecall)\<^sup>*\<^sup>* (encl h) e"
      using that(1) unfolding remote_run_def by (meson rtranclp_trans)
    with e(2) show ?thesis unfolding remote_exit_def by blast
  qed
  show "remote_exit h (h\<lparr>error_count := n\<rparr>)" for h n
    by (auto simp: remote_exit_def)
  show "remote_exit h (h\<lparr>encl := e, error_count := n\<rparr>)"
    if "run_ecall (hx_ext hx) Shutdown (encl h) = Returns (r, e)" for h n r e
    using that unfolding remote_exit_def call_step_def
    by (intro exI [of _ "encl h"]) auto
  show "remote_run h (h\<lparr>encl := e\<rparr>)"
    if "remote_ecall c" "run_ecall (hx_ext hx) c (encl h) = Returns (r, e)" for h c r e
  proof -
    have "call_step remote_ecall (encl h) e" using that unfolding call_step_def by blast
    then show ?thesis by (simp add: remote_run_def)
  qed
qed (simp_all add: remote_run_def)

text \<open>Any packet: some calls of the enclave, whoever sent it.\<close>

definition enclave_exit :: "host \<Rightarrow> host \<Rightarrow> bool" where
  "enclave_exit h h' \<longleftrightarrow> enclave_step\<^sup>*\<^sup>* (encl h) (encl h')"

definition enclave_run :: "host \<Rightarrow> host \<Rightarrow> bool" where
  "enclave_run h h' \<longleftrightarrow> enclave_exit h h' \<and> error_count h' = error_count h"

lemma enclave_exit_trans: "enclave_exit h h1 \<Longrightarrow> enclave_exit h1 h2 \<Longrightarrow> enclave_exit h h2"
  unfolding enclave_exit_def by (rule rtranclp_trans)

interpretation node: host_calls_all hx "\<lambda>_. True" enclave_run enclave_exit for hx
proof
  show "enclave_exit h (h\<lparr>encl := e, error_count := n\<rparr>)"
    if "run_ecall (hx_ext hx) Shutdown (encl h) = Returns (r, e)" for h n r e
    using enclave_step.call [OF that] by (simp add: enclave_exit_def)
  show "enclave_run h (h\<lparr>encl := e\<rparr>)"
    if "run_ecall (hx_ext hx) c (encl h) = Returns (r, e)" for h c r e
    using enclave_step.call [OF that] by (simp add: enclave_run_def enclave_exit_def)
qed (auto simp: enclave_run_def enclave_exit_def intro: enclave_exit_trans
    dest: rtranclp_trans [of enclave_step])

lemma take_packet_remote:
  assumes "\<not> cn_islocalhost (connections h fd)"
  shows "take_packet hx fd h = Ran u h' \<Longrightarrow> remote_run h h'"
    and "take_packet hx fd h = Exited h' \<Longrightarrow> remote_exit h h'"
  using remote.frame.rsp_dispatch_remote [of hx] assms
  by (auto dest!: take_packet_Ran take_packet_Exited simp: process_packet_def abides_def)

lemma receive_bytes_remote:
  assumes "receive_bytes hx fd bytes h = Some r" and "\<not> cn_islocalhost (connections h fd)"
  shows "case r of Ran _ h' \<Rightarrow> remote_run h h' | Exited h' \<Rightarrow> remote_exit h h' | Broken \<Rightarrow> True"
proof -
  let ?h = "update_input fd (\<lambda>s. s @ bytes) h"
  have "case r of
      Ran _ h' \<Rightarrow> remote_run ?h h' \<and> \<not> cn_islocalhost (connections h' fd)
    | Exited h' \<Rightarrow> remote_exit ?h h' | Broken \<Rightarrow> True"
  proof (rule drain_respects [OF assms(1) [unfolded receive_bytes_def]])
    show "remote_run h h' \<and> \<not> cn_islocalhost (connections h' fd)"
      if "\<not> cn_islocalhost (connections h fd)" and "take_packet hx fd h = Ran u h'" for h u h'
      using take_packet_remote(1) [OF that] that(1) by (simp add: remote_run_def)
  qed (use assms(2) in \<open>auto intro: remote.R_refl take_packet_remote(2)
    remote.R_trans remote.R_S\<close>)
  then show ?thesis by (auto simp: remote_run_def remote_exit_def split: run.splits)
qed

section \<open>The table of channels\<close>

text \<open>
  Keys are the identifiers in the entries, every entry has a client that waits for it, and the
  socket to the other node is only set by the side that connects.
\<close>

definition host_channel_ok :: "string \<Rightarrow> HostChannel \<Rightarrow> bool" where
  "host_channel_ok cid st \<longleftrightarrow> length cid = CHANNEL_ID_LEN \<and> hc_id st = cid
     \<and> hc_local_sockfd st \<noteq> None \<and> (hc_is_initiator st \<or> hc_remote_sockfd st = -1)"

definition table_ok :: "host \<Rightarrow> bool" where
  "table_ok h \<longleftrightarrow> om_ok (hchannels h) \<and>
     (\<forall>cid st. om_get (hchannels h) cid = Some st \<longrightarrow> host_channel_ok cid st)"

definition keeps_table :: "host \<Rightarrow> host \<Rightarrow> bool" where
  "keeps_table h h' \<longleftrightarrow> (table_ok h \<longrightarrow> table_ok h')"

lemma table_ok_frame: "hchannels h' = hchannels h \<Longrightarrow> table_ok h' = table_ok h"
  by (simp add: table_ok_def)

lemma table_ok_put:
  "table_ok h \<Longrightarrow> host_channel_ok cid st \<Longrightarrow> table_ok (h\<lparr>hchannels := om_put cid st (hchannels h)\<rparr>)"
  by (auto simp: table_ok_def split: if_splits)

lemma table_ok_delete: "table_ok h \<Longrightarrow> table_ok (h\<lparr>hchannels := om_del cid (hchannels h)\<rparr>)"
  by (auto simp: table_ok_def split: if_splits)

lemma table_ok_insert:
  "table_ok h \<Longrightarrow> host_channel_ok cid st \<Longrightarrow>
     table_ok (h\<lparr>hchannels := table_insert cid st (hchannels h)\<rparr>)"
  by (cases "om_get (hchannels h) cid") (auto simp: table_insert_def table_ok_put)

lemma table_ok_get: "table_ok h \<Longrightarrow> om_get (hchannels h) cid = Some st \<Longrightarrow> host_channel_ok cid st"
  by (simp add: table_ok_def)

lemma message_channel_Ran:
  "message_channel data h = Ran cid h' \<Longrightarrow> length cid = CHANNEL_ID_LEN \<and> h' = h"
  by (auto simp: message_channel_def SIZEOF_LocalGenericMsg_def struct_defs CHANNEL_ID_LEN_def
      split: if_splits)

lemma host_get_channel_Ran:
  "host_get_channel_state hx cid h = Ran st h' \<longleftrightarrow> om_get (hchannels h) cid = Some st \<and> h' = h"
  by (auto simp: host_get_channel_state_def split: option.splits)

lemma host_call_table: "host_call hx n k c h = Ran r h' \<Longrightarrow> table_ok h' = table_ok h"
  by (auto dest!: host_call_Ran simp: table_ok_def)

lemma send_on_socket_Ran:
  "send_on_socket hx msg fd h = Ran u h' \<Longrightarrow> h' = h\<lparr>wire := wire h @ [(fd, frame_message msg)]\<rparr> \<and> 0 \<le> fd"
  by (auto simp: send_on_socket_def split: if_splits)

lemma table_rename:
  assumes "process_channel_id_generated hx data n h = Ran u h'" and "table_ok h"
  shows "table_ok h'"
proof -
  let ?temp = "take CHANNEL_ID_LEN TEMPORARY_CHANNEL_ID"
  from assms(1) obtain cid st h1 where cid: "length cid = CHANNEL_ID_LEN"
    and st: "om_get (hchannels h) ?temp = Some st"
    and h1: "h1 = h\<lparr>hchannels := table_insert cid (st\<lparr>hc_id := cid\<rparr>) (om_del ?temp (hchannels h))\<rparr>"
    and h': "table_ok h' = table_ok h1"
    by (auto simp: process_channel_id_generated_def host_remove_association_def
        host_associate_channel_state_def host_get_channel_Ran read_struct_def
        dest!: message_channel_Ran host_call_table split: if_splits)
  have "host_channel_ok cid (st\<lparr>hc_id := cid\<rparr>)"
    using table_ok_get [OF assms(2) st] cid by (simp add: host_channel_ok_def)
  from table_ok_insert [OF table_ok_delete [OF assms(2)] this, of ?temp] h' h1 show ?thesis
    by simp
qed

lemma register_table: "register_new_connection hx s h = Ran u h' \<Longrightarrow> hchannels h' = hchannels h"
  by (auto simp: register_new_connection_def split: if_splits)

lemma length_generate_channel_id: "length (generate_channel_id hx) = CHANNEL_ID_LEN"
  by (simp add: generate_channel_id_def)

lemma host_sends_table:
  "send_message hx op cid blob fd h = Ran u h' \<Longrightarrow> table_ok h' = table_ok h"
  "send_ack hx fd k info h = Ran u h' \<Longrightarrow> table_ok h' = table_ok h"
  by (auto simp: send_message_def send_ack_def table_ok_def dest!: send_on_socket_Ran)

text \<open>
  \<open>create\<close> first inserts the state and then fills it in through the pointer; if the identifier was
  taken, the table stays as it was. Between the two steps one entry is not complete.
\<close>

definition pending_table :: "bool \<Rightarrow> string \<Rightarrow> host \<Rightarrow> bool" where
  "pending_table stored cid h \<longleftrightarrow> om_ok (hchannels h) \<and>
     (\<forall>k st. om_get (hchannels h) k = Some st \<longrightarrow> (stored \<and> k = cid) \<or> host_channel_ok k st)"

lemma pending_store:
  assumes "pending_table stored cid h" and "host_channel_ok cid st"
    and "store_if stored cid st h = Ran u h'"
  shows "table_ok h'"
proof (cases stored)
  case True
  then have "h' = h\<lparr>hchannels := om_put cid st (hchannels h)\<rparr>" using assms(3) by (simp add: store_if_def)
  then show ?thesis using assms(1,2) by (auto simp: pending_table_def table_ok_def)
next
  case False
  then have "h' = h" using assms(3) by (simp add: store_if_def)
  then show ?thesis using assms(1) False by (simp add: pending_table_def table_ok_def)
qed

lemma pending_associate:
  assumes "table_ok h" and "host_associate_channel_state cid st h = Ran u h'"
  shows "pending_table (\<not> exists_state cid h) cid h'"
  using assms
  by (auto simp: pending_table_def table_ok_def host_associate_channel_state_def table_insert_def
      exists_state_def split: option.splits if_splits)

lemma table_initiate:
  assumes run: "initiate_channel hx b stored msg cid st fd h = Ran u h'"
    and pending: "pending_table stored cid h"
    and st: "length cid = CHANNEL_ID_LEN" "hc_id st = cid" "hc_is_initiator st"
  shows "table_ok h'"
proof -
  define st2 where "st2 s = st\<lparr>hc_remote_port := sint (ucast (u64_field 160 msg) :: u32),
    hc_remote_host_len := unat (u64_field 24 msg),
    hc_remote_host := take (unat (u64_field 24 msg)) (drop 32 msg),
    hc_local_sockfd := Some fd, hc_remote_sockfd := s\<rparr>" for s
  obtain s h1 h2 where store: "store_if stored cid (st2 s) h = Ran () h1"
    and rest: "send_message hx OP_REMOTE_CHANNEL_ID_GENERATED cid
        [if b then CHR 0x01 else CHR 0x00] s h1 = Ran () h2"
      "register_new_connection hx s h2 = Ran u h'"
    using run unfolding initiate_channel_def Let_def connect_to_socket_def st2_def
    by (auto simp del: store_if_def split: if_split_asm option.split_asm)
  have "host_channel_ok cid (st2 s)" using st by (simp add: host_channel_ok_def st2_def)
  from pending_store [OF pending this store] have "table_ok h1" .
  then show ?thesis
    using host_sends_table(1) [OF rest(1)] register_table [OF rest(2)] by (simp add: table_ok_def)
qed

lemma table_open:
  assumes "open_channel hx b initiator msg cid fd h = Ran u h'"
    and "table_ok h" and "length cid = CHANNEL_ID_LEN"
  shows "table_ok h'"
proof -
  define st where "st = (host_initialise_channel_state host_create_channel_state initiator)
    \<lparr>hc_is_backup_channel := b\<rparr>"
  have id: "hc_id (st\<lparr>hc_id := take CHANNEL_ID_LEN cid\<rparr>) = cid" using assms(3) by simp
  obtain h1 where h1: "host_associate_channel_state cid st h = Ran () h1"
    and rest: "(if initiator
        then initiate_channel hx b (\<not> exists_state cid h) msg cid (st\<lparr>hc_id := take CHANNEL_ID_LEN cid\<rparr>) fd
        else store_if (\<not> exists_state cid h) cid
          (st\<lparr>hc_id := take CHANNEL_ID_LEN cid, hc_local_sockfd := Some fd\<rparr>)) h1 = Ran u h'"
    using assms(1) unfolding open_channel_def Let_def st_def by (auto simp: geth_def)
  note pending = pending_associate [OF assms(2) h1]
  show ?thesis
  proof (cases initiator)
    case True
    then have "hc_is_initiator (st\<lparr>hc_id := take CHANNEL_ID_LEN cid\<rparr>)"
      by (simp add: st_def host_initialise_channel_state_def)
    with rest True show ?thesis using table_initiate [OF _ pending assms(3) id] by simp
  next
    case False
    have "host_channel_ok cid (st\<lparr>hc_id := take CHANNEL_ID_LEN cid, hc_local_sockfd := Some fd\<rparr>)"
      using assms(3) by (simp add: host_channel_ok_def st_def host_initialise_channel_state_def
          host_create_channel_state_def)
    from pending_store [OF pending this] rest False show ?thesis by simp
  qed
qed

lemma table_create:
  assumes "host_create hx b data fd h = Ran u h'" and "table_ok h"
  shows "table_ok h'"
proof -
  have len: "min (SIZEOF_LocalCreateMsg - Suc 0) CHANNEL_ID_LEN = CHANNEL_ID_LEN"
    by (simp add: SIZEOF_LocalCreateMsg_def struct_defs CHANNEL_ID_LEN_def REMOTE_HOST_LEN_def)
  show ?thesis
    using assms unfolding host_create_def Let_def
    by (auto simp: read_struct_def len length_generate_channel_id
        dest!: host_call_table table_open dest: host_sends_table(2) split: if_split_asm)
qed

lemma keeps_table_frame: "hchannels h' = hchannels h \<Longrightarrow> keeps_table h h'"
  by (simp add: keeps_table_def table_ok_def)

interpretation table: host_frame_all hx "\<lambda>_. True" keeps_table "\<lambda>_ _. True" for hx
proof
  show "keeps_table h h'" if waiting: "set_local_sockfd cid fd h = Ran () h'" for cid fd h h'
  proof -
    obtain st where st: "om_get (hchannels h) cid = Some st"
      and h': "h' = h\<lparr>hchannels := om_put cid (st\<lparr>hc_local_sockfd := Some fd\<rparr>) (hchannels h)\<rparr>"
      using set_local_sockfd_Ran [OF waiting] by blast
    show ?thesis
      unfolding keeps_table_def h'
      using table_ok_put [of h cid "st\<lparr>hc_local_sockfd := Some fd\<rparr>"] table_ok_get [OF _ st]
      by (simp add: host_channel_ok_def)
  qed
qed (auto simp: keeps_table_def abides_def intro: table_rename table_create
    table_ok_frame [THEN iffD2])

section \<open>What is on the wire\<close>

definition wire_framed :: "host \<Rightarrow> bool" where
  "wire_framed h \<longleftrightarrow> (\<forall>(fd, b) \<in> set (wire h). \<exists>m. m \<noteq> [] \<and> b = frame_message m)"

definition keeps_wire :: "host \<Rightarrow> host \<Rightarrow> bool" where
  "keeps_wire h h' \<longleftrightarrow> (wire_framed h \<longrightarrow> wire_framed h')"

lemma keeps_wire_frame: "wire h' = wire h \<Longrightarrow> keeps_wire h h'"
  by (simp add: keeps_wire_def wire_framed_def)

interpretation wire: host_calls_all hx "\<lambda>_. True" keeps_wire "\<lambda>_ _. True" for hx
proof
  show "keeps_wire h (h\<lparr>wire := wire h @ [(fd, frame_message msg)]\<rparr>)" if "msg \<noteq> []" for h fd msg
    using that by (auto simp: keeps_wire_def wire_framed_def)
  show "keeps_wire h h2" if "keeps_wire h h1" "keeps_wire h1 h2" for h h1 h2
    using that by (simp add: keeps_wire_def)
qed (simp_all add: keeps_wire_frame)

section \<open>A running node\<close>

text \<open>
  Four facts of every state a node can be in: its enclave is in a state of the enclave's own
  system, its table is in order, what it has written is framed, and nothing has gone wrong.
\<close>

definition node_ok :: "host \<Rightarrow> bool" where
  "node_ok h \<longleftrightarrow> reachable (encl h) \<and> error_count h = 0 \<and> table_ok h \<and> wire_framed h"

definition keeps_node :: "host \<Rightarrow> host \<Rightarrow> bool" where
  "keeps_node h h' \<longleftrightarrow> (node_ok h \<longrightarrow> node_ok h')"

lemma enclave_run_reachable: "enclave_run h h' \<Longrightarrow> reachable (encl h) \<Longrightarrow> reachable (encl h')"
  unfolding enclave_run_def enclave_exit_def reachable_def by (meson rtranclp_trans)

lemma keeps_nodeI: "enclave_run h h' \<Longrightarrow> keeps_table h h' \<Longrightarrow> keeps_wire h h' \<Longrightarrow> keeps_node h h'"
  unfolding keeps_node_def node_ok_def keeps_table_def keeps_wire_def
  using enclave_run_reachable [of h h'] by (auto simp: enclave_run_def)

lemma abides_Ran: "abides R S m \<Longrightarrow> m h = Ran a h' \<Longrightarrow> R h h'"
  by (simp add: abides_def)

lemma keeps_node_abides:
  assumes "abides enclave_run enclave_exit m" and "abides keeps_table (\<lambda>_ _. True) m"
    and "abides keeps_wire (\<lambda>_ _. True) m" and "m h = Ran a h'"
  shows "keeps_node h h'"
proof (rule keeps_nodeI)
  show "enclave_run h h'" using assms(1,4) by (rule abides_Ran)
  show "keeps_table h h'" using assms(2,4) by (rule abides_Ran)
  show "keeps_wire h h'" using assms(3,4) by (rule abides_Ran)
qed

lemma keeps_node_input: "keeps_node h (update_input fd f h)"
  by (auto simp: keeps_node_def node_ok_def table_ok_def wire_framed_def)

lemma keeps_node_trans: "keeps_node h h1 \<Longrightarrow> keeps_node h1 h2 \<Longrightarrow> keeps_node h h2"
  by (simp add: keeps_node_def)

lemma process_packet_keeps_node:
  "process_packet hx packet n fd h = Ran u h' \<Longrightarrow> keeps_node h h'"
  by (rule keeps_node_abides [OF node.frame_all.rsp_process_packet table.rsp_process_packet
        wire.frame_all.rsp_process_packet])

lemma drain_keeps_node: "drain hx fd h = Some (Ran u h') \<Longrightarrow> keeps_node h h'"
  using drain_respects [where P = "\<lambda>_. True" and R = keeps_node and S = "\<lambda>_ _. True",
      of hx fd h "Ran u h'"] keeps_node_trans keeps_node_input process_packet_keeps_node
  by (fastforce simp: keeps_node_def dest!: take_packet_Ran)

lemma keeps_node_connections: "keeps_node h (h\<lparr>connections := c'\<rparr>)"
  by (auto simp: keeps_node_def node_ok_def table_ok_def wire_framed_def)

lemma connection_keeps_node:
  "accept_new_connection hx s h = Ran u h' \<Longrightarrow> keeps_node h h'"
  "close_socket hx s h = Ran u h' \<Longrightarrow> keeps_node h h'"
  by (auto simp: accept_new_connection_def register_new_connection_def close_socket_def
      keeps_node_connections split: if_splits)

lemma process_event_keeps_node:
  assumes "process_event hx ev h = Some (Ran u h')"
  shows "keeps_node h h'"
  using assms keeps_node_trans [OF keeps_node_input drain_keeps_node]
  by (cases ev) (auto simp: process_event_def receive_bytes_def dest: connection_keeps_node
      split: if_splits)

lemma initial_node_ok: "node_ok initial_host"
  by (auto simp: node_ok_def initial_host_def table_ok_def wire_framed_def)

lemma ghost_enclave_keeps_node:
  assumes "ghost_enclave hx d b h = Ran u h'"
  shows "keeps_node h h'"
  using assms by (rule keeps_node_abides [where m = "ghost_enclave hx d b", rotated -1];
      unfold ghost_enclave_def) (intro respectful node.any_call table.every_call wire.any_call)+

interpretation running: invariant_system host_start host_step node_ok
proof
  show "node_ok h" if "host_start h" for h
    using that ghost_enclave_keeps_node initial_node_ok
    by (auto elim!: host_start.cases simp: keeps_node_def)
  show "node_ok h'" if "node_ok h" "host_step h h'" for h h'
    using that process_event_keeps_node by (auto elim!: host_step.cases simp: keeps_node_def)
qed

lemma node_invariant: "host_reachable h \<Longrightarrow> node_ok h"
  unfolding host_reachable_def using running.inv_reachable by blast

end
