(* ===== verification/Teechain_Node_Properties.thy ===== *)
theory Teechain_Node_Properties
  imports Teechain_Node_Invariants Teechain_Demo
begin

text \<open>
  The properties of the untrusted host and of the node it makes with its enclave: what a peer can
  reach, how the stream of a connection is cut into packets, and how a node ends.
\<close>

section \<open>A node for the examples\<close>

text \<open>The socket of the client is 4, that of the other node is 5.\<close>

definition demo_hx :: host_ext where
  "demo_hx = \<lparr>hx_ext = (demo_ext (P_Send \<lparr>sm_monotoniccount = 1, sm_amount = 5\<rparr>))\<lparr>
       x_rpc := (\<lambda>s. quoted ''00''), x_rpc_hex := (\<lambda>s. quoted ''00'')\<rparr>,
     hx_call_fails = (\<lambda>_. False), hx_writable = (\<lambda>_. True), hx_connect = (\<lambda>_ _. None), hx_epoll_ok = (\<lambda>_. True), hx_peer_is_inet = (\<lambda>_. True),
     hx_peer_ip = (\<lambda>s. if s = 4 then ''127.0.0.1'' else ''10.0.0.2''), hx_time = 0,
     hx_rand = (\<lambda>_ n. n)\<rparr>"

text \<open>The channel as the side that waited for the other one to connect has it.\<close>

definition demo_responder :: HostChannel where
  "demo_responder = host_create_channel_state\<lparr>hc_id := demo_cid, hc_local_sockfd := Some 4\<rparr>"

definition demo_host :: host where
  "demo_host = initial_host\<lparr>encl := demo_enclave, hchannels := [(demo_cid, demo_responder)]\<rparr>"

lemma demo_fresh: "fresh_sockets demo_hx fd"
  by (simp add: fresh_sockets_def demo_hx_def)

lemma demo_host_simps [simp]:
  "encl demo_host = demo_enclave" "hchannels demo_host = [(demo_cid, demo_responder)]"
  "connections demo_host = (\<lambda>_. zero_Connection)" "wire demo_host = []" "error_count demo_host = 0"
  "cn_islocalhost zero_Connection = False" "cn_input zero_Connection = []"
  by (simp_all add: demo_host_def initial_host_def zero_Connection_def)

lemma demo_hx_simps [simp]:
  "hx_call_fails demo_hx c = False" "hx_connect demo_hx hostname port = None"
  by (simp_all add: demo_hx_def)

lemma demo_node_ok: "node_ok demo_host"
  by (simp add: node_ok_def demo_reachable table_ok_def host_channel_ok_def wire_framed_def
      demo_responder_def host_create_channel_state_def demo_cid_def CHANNEL_ID_LEN_def om_ok_def
      om_keys_def)

section \<open>Properties\<close>

text \<open>
  C15: Bytes from a connection that is not local, whatever they are, make the host call only the
  entry points for messages of other nodes; none of the commands of a client (sending, settling,
  moving deposits, creating channels) is called. If the packet ends the process, one call of
  \<open>ecall_shutdown\<close> may follow.\<close>

theorem remote_peers_reach_remote_calls_only:
  assumes "receive_bytes hx fd bytes h = Some r" and "\<not> cn_islocalhost (connections h fd)"
  shows "case r of
      Ran _ h' \<Rightarrow> (call_step remote_ecall)\<^sup>*\<^sup>* (encl h) (encl h')
    | Exited h' \<Rightarrow> (\<exists>e. (call_step remote_ecall)\<^sup>*\<^sup>* (encl h) e
        \<and> (encl h' = e \<or> call_step (\<lambda>c. c = Shutdown) e (encl h')))
    | Broken \<Rightarrow> True"
  using receive_bytes_remote [OF assms]
  by (simp add: remote_run_def remote_exit_def split: run.splits)

text \<open>The other node (socket 5) asks for a shutdown: the packet is dropped.\<close>

definition demo_intruder :: string where
  "demo_intruder = [char_of OP_LOCAL_SHUTDOWN]"

lemma demo_intruder_sendable: "sendable demo_intruder"
  by (simp add: sendable_def demo_intruder_def MSG_LEN_BYTES_def)

lemma demo_intruder_ignored:
  "\<not> cn_islocalhost (connections h fd) \<Longrightarrow>
     handle_messages hx fd (replicate n demo_intruder) h = Ran () h"
proof (induction n)
  case (Suc n)
  then show ?case
    by (simp add: process_packet_def dispatch_def frame_message_def nth_append demo_intruder_def
        op_defs returnh_def bindh_def Let_def)
qed (simp add: returnh_def)

lemma demo_intruder_received:
  "receive_bytes demo_hx 5 (frame_message demo_intruder) demo_host = Some (Ran () demo_host)"
proof -
  have "\<exists>s. drain demo_hx 5 (update_input 5 (\<lambda>_. frames [demo_intruder]) demo_host)
      = Some (map_host (update_input 5 (\<lambda>_. s)) (Ran () demo_host)) \<and> (\<forall>u h'. Ran () demo_host = Ran u h' \<longrightarrow> s = [])"
    by (rule drain_frames [OF demo_fresh])
      (use demo_intruder_sendable demo_intruder_ignored [of demo_host 5 demo_hx 1] in simp_all)
  moreover have "update_input 5 (\<lambda>_. []) demo_host = demo_host" by (rule set_input_same) simp
  moreover have "update_input 5 (\<lambda>s. s @ t) demo_host = update_input 5 (\<lambda>_. t) demo_host" for t
    by (simp add: update_input_def)
  ultimately show ?thesis by (auto simp: receive_bytes_def)
qed

theorem remote_peers_reach_remote_calls_only_witness:
  "(call_step remote_ecall)\<^sup>*\<^sup>* demo_enclave (encl demo_host)
     \<and> \<not> remote_ecall Shutdown"
  using remote_peers_reach_remote_calls_only [OF demo_intruder_received] by simp

text \<open>
  C16: How the network cuts a stream into calls of \<open>recv\<close> does not matter: receiving \<open>a\<close> and then
  \<open>b\<close> is receiving \<open>a @ b\<close>, unless the first part already ends the process or reads past the
  packet.\<close>

theorem chunking_is_invisible:
  assumes "\<And>hostname port. hx_connect hx hostname port \<noteq> Some fd"
    and "receive_bytes hx fd a h = Some (Ran () h')"
  shows "receive_bytes hx fd (a @ b) h = receive_bytes hx fd b h'"
proof -
  have "fresh_sockets hx fd" using assms(1) by (simp add: fresh_sockets_def)
  from drain_append [OF this assms(2) [unfolded receive_bytes_def], of b]
  show ?thesis by (simp add: receive_bytes_def update_input_compose)
qed

theorem chunking_is_invisible_witness:
  "receive_bytes demo_hx 5 (frame_message demo_intruder @ ''xyz'') demo_host
     = receive_bytes demo_hx 5 ''xyz'' demo_host"
  using chunking_is_invisible [OF _ demo_intruder_received, of "''xyz''"]
  by (simp add: demo_hx_def)

text \<open>
  C17: The loop ends on every beginning of a stream of framed messages, wherever it is cut; and
  when the stream is complete and no handler reads past its own message, each message has been
  handled once and in order, with nothing left in the buffer.\<close>

theorem framed_streams_are_taken_apart:
  assumes "\<And>hostname port. hx_connect hx hostname port \<noteq> Some fd"
    and "list_all sendable ms" and "input_of h fd = []"
  shows "(\<exists>r. receive_bytes hx fd (take k (frames ms)) h = Some r) \<and>
    (\<forall>h'. handle_messages hx fd ms h = Ran () h' \<longrightarrow>
       receive_bytes hx fd (frames ms) h = Some (Ran () h'))"
proof -
  have fresh: "fresh_sockets hx fd" using assms(1) by (simp add: fresh_sockets_def)
  have start: "receive_bytes hx fd bytes h = drain hx fd (update_input fd (\<lambda>_. bytes) h)" for bytes
    using assms(3) by (simp add: receive_bytes_def update_input_def)
  have "receive_bytes hx fd (frames ms) h = Some (Ran () h')"
    if run: "handle_messages hx fd ms h = Ran () h'" for h'
  proof -
    have "input_of h' fd = []"
      using run assms(3)
    proof (induction ms arbitrary: h)
      case (Cons m ms)
      then show ?case using process_packet_keeps_input [OF fresh] by fastforce
    qed simp
    then have "update_input fd (\<lambda>_. []) h' = h'" by (rule set_input_same)
    with drain_frames [OF fresh assms(2) run] start show ?thesis by auto
  qed
  with drain_ends [OF fresh assms(2)] start show ?thesis by auto
qed

theorem framed_streams_are_taken_apart_witness:
  "receive_bytes demo_hx 5 (frames (replicate 7 demo_intruder)) demo_host
     = Some (Ran () demo_host)"
proof -
  have "list_all sendable (replicate 7 demo_intruder)"
    by (simp add: list_all_iff demo_intruder_sendable)
  from framed_streams_are_taken_apart [OF _ this, of demo_hx 5 demo_host]
    demo_intruder_ignored [of demo_host 5 demo_hx 7]
  show ?thesis by (simp add: demo_hx_def)
qed

text \<open>
  C18: A packet whose length prefix is zero is never survived: the loop does not come back from
  it, and nine zero bytes, from anyone, keep the node in the loop forever.\<close>

theorem zero_length_packet_hangs_the_node:
  assumes "\<And>hostname port. hx_connect hx hostname port \<noteq> Some fd" and "input_of h fd = []"
  shows "receive_bytes hx fd (replicate 8 (CHR 0x00) @ c # rest) h \<noteq> Some (Ran () h') \<and>
    receive_bytes hx fd (replicate 9 (CHR 0x00)) h = None"
proof
  have fresh: "fresh_sockets hx fd" using assms(1) by (simp add: fresh_sockets_def)
  have zero: "packet_length (replicate 8 (CHR 0x00) @ c # rest) = 0" for c rest
    by (simp add: packet_length_def MSG_LEN_BYTES_def numeral_eq_Suc)
  show "receive_bytes hx fd (replicate 8 (CHR 0x00) @ c # rest) h \<noteq> Some (Ran () h')"
  proof
    let ?h0 = "update_input fd (\<lambda>s. s @ replicate 8 (CHR 0x00) @ c # rest) h"
    assume "receive_bytes hx fd (replicate 8 (CHR 0x00) @ c # rest) h = Some (Ran () h')"
    then have "drain hx fd ?h0 = Some (Ran () h')" by (simp add: receive_bytes_def)
    moreover have "MSG_LEN_BYTES < length (input_of ?h0 fd)" by (simp add: MSG_LEN_BYTES_def)
    moreover have "packet_length (input_of ?h0 fd) = 0" using zero assms(2) by simp
    ultimately show False using drain_zero_length [OF fresh] by blast
  qed
  let ?z = "replicate 9 (CHR 0x00)"
  let ?h = "update_input fd (\<lambda>s. s @ ?z) h"
  have z: "?z = replicate 8 (CHR 0x00) @ CHR 0x00 # []" by (simp add: numeral_eq_Suc)
  have input: "input_of ?h fd = ?z" using assms(2) by simp
  have whole: "whole_packet (input_of ?h fd)"
    unfolding input whole_packet_def using zero [of "CHR 0x00" "[]"] z by (simp add: MSG_LEN_BYTES_def)
  have "process_packet hx ?z n fd ?h = Ran () ?h" for n
    by (simp add: process_packet_def dispatch_def op_defs MSG_LEN_BYTES_def returnh_def)
  then have "take_packet hx fd ?h = Ran () ?h"
    using take_packet_cases [OF fresh whole] zero [of "CHR 0x00" "[]"] z input
    by (simp add: update_input_def)
  from drain_hangs [OF this whole] show "receive_bytes hx fd ?z h = None"
    by (simp add: receive_bytes_def)
qed

theorem zero_length_packet_hangs_the_node_witness:
  "receive_bytes demo_hx 5 (replicate 9 (CHR 0x00)) demo_host = None"
  using zero_length_packet_hangs_the_node [of demo_hx 5 demo_host]
  by (simp add: demo_hx_def)

text \<open>The messages that name a channel in full.\<close>

definition channel_messages :: "nat list" where
  "channel_messages = [OP_REMOTE_SEND, OP_REMOTE_SEND_ACK, OP_REMOTE_UPDATE_CHANNEL_BALANCE_DATA,
     OP_REMOTE_BACKUP_DATA, OP_REMOTE_BACKUP_DATA_ACK, OP_REMOTE_REMOVE_BACKUP,
     OP_REMOTE_REMOVE_BACKUP_ACK, OP_REMOTE_CHANNEL_CREATE_DATA, OP_REMOTE_VERIFY_DEPOSITS_ACK,
     OP_REMOTE_TEECHAIN_DEPOSIT_ADD, OP_REMOTE_TEECHAIN_DEPOSIT_REMOVE]"

lemma struct_sizes:
  "SIZEOF_LocalGenericMsg = 17" "MSG_LEN_BYTES = 8"
  by (simp_all add: SIZEOF_LocalGenericMsg_def struct_defs CHANNEL_ID_LEN_def MSG_LEN_BYTES_def)

lemma message_channel_of:
  "length cid = CHANNEL_ID_LEN \<Longrightarrow> message_channel (c # cid @ blob) = returnh cid"
  by (simp add: message_channel_def struct_sizes CHANNEL_ID_LEN_def)

lemma int_of_long_small: "n < 2 ^ 31 \<Longrightarrow> int_of_long n = int n"
  by (simp add: int_of_long_def sint_uint signed_take_bit_int_eq_self unsigned_of_nat
      take_bit_nat_eq_self)

lemma message_blob_of:
  "length cid = CHANNEL_ID_LEN \<Longrightarrow> n = int (17 + length blob) \<Longrightarrow>
     message_blob (c # cid @ blob) n = returnh (Some blob)"
  by (simp add: message_blob_def struct_sizes CHANNEL_ID_LEN_def nat_add_distrib)

lemma get_missing:
  "om_get (hchannels h) cid = None \<Longrightarrow> bindh (host_get_channel_state hx cid) f h = host_error hx h"
  using fun_cong [OF host_error_bind [of hx f], of h, unfolded bindh_def]
  by (simp add: bindh_def host_get_channel_state_def)

lemma drain_exits:
  "whole_packet (input_of h fd) \<Longrightarrow> take_packet hx fd h = Exited h' \<Longrightarrow> drain hx fd h = Some (Exited h')"
  "whole_packet (input_of h fd) \<Longrightarrow> take_packet hx fd h = Broken \<Longrightarrow> drain hx fd h = Some Broken"
  by (subst drain.simps; simp)+

lemma channel_message_looks_up:
  assumes "op \<in> set channel_messages" and "length cid = CHANNEL_ID_LEN"
    and "om_get (hchannels h) cid = None"
  shows "process_packet hx (frame_message (char_of op # cid @ blob)) n fd h = host_error hx h"
proof -
  have op: "frame_message (char_of op # cid @ blob) ! MSG_LEN_BYTES = char_of op"
    and data: "drop MSG_LEN_BYTES (frame_message (char_of op # cid @ blob)) = char_of op # cid @ blob"
    by (simp_all add: frame_message_def nth_append)
  have "op = OP_REMOTE_SEND \<or> op = OP_REMOTE_SEND_ACK \<or> op = OP_REMOTE_UPDATE_CHANNEL_BALANCE_DATA
    \<or> op = OP_REMOTE_BACKUP_DATA \<or> op = OP_REMOTE_BACKUP_DATA_ACK \<or> op = OP_REMOTE_REMOVE_BACKUP
    \<or> op = OP_REMOTE_REMOVE_BACKUP_ACK \<or> op = OP_REMOTE_CHANNEL_CREATE_DATA
    \<or> op = OP_REMOTE_VERIFY_DEPOSITS_ACK \<or> op = OP_REMOTE_TEECHAIN_DEPOSIT_ADD
    \<or> op = OP_REMOTE_TEECHAIN_DEPOSIT_REMOVE"
    using assms(1) by (simp add: channel_messages_def)
  then show ?thesis
    unfolding process_packet_def dispatch_def op data Let_def
    by (elim disjE; simp add: op_defs remote_handler_defs message_channel_of assms get_missing)
qed

text \<open>
  C19: A message for a channel the host does not know is not survived. Any peer that can connect
  sends one, with any content, and the host calls \<open>error\<close>. When the enclave is funded or a backup,
  it is shut down (its channels are settled and its deposits returned) and the process exits; in
  any other state nothing is shut down, and printing the array the enclave has not written is
  undefined behaviour.\<close>

theorem unknown_channel_ends_the_node:
  assumes "op \<in> set channel_messages" and "length cid = CHANNEL_ID_LEN"
    and "om_get (hchannels h) cid = None" and "length blob < 100000"
    and "input_of h fd = []" and "error_count h = 0"
    and "run_ecall (hx_ext hx) Shutdown (encl h) = Returns (r, e)" and "\<not> hx_call_fails hx Shutdown"
    and "outputs_fit MAX_ECALL_RETURN_LENGTH 0 r" and "ret_code r \<noteq> REQUEST_CRASHED"
  shows "if teechain_state (encl h) \<in> {Funded, Backup}
    then \<exists>h'. receive_bytes hx fd (frame_message (char_of op # cid @ blob)) h = Some (Exited h')
      \<and> encl h' = e
    else receive_bytes hx fd (frame_message (char_of op # cid @ blob)) h = Some Broken"
proof -
  let ?m = "char_of op # cid @ blob"
  let ?h = "update_input fd (\<lambda>s. s @ frame_message ?m) h"
  have "sendable ?m"
    using assms(2,4) by (simp add: sendable_def CHANNEL_ID_LEN_def struct_sizes)
  then have whole: "whole_packet (frame_message ?m)" using whole_packet_frame [of ?m "[]"] by simp
  have input: "input_of ?h fd = frame_message ?m" using assms(5) by simp
  have "process_packet hx (frame_message ?m) n fd ?h = host_error hx ?h" for n
    by (rule channel_message_looks_up) (use assms in simp_all)
  moreover have "(host_error hx :: unit hostm) ?h =
      (if user_output r = None then Broken else Exited (?h\<lparr>error_count := 1, encl := e\<rparr>))"
    by (rule host_error_first) (use assms in simp_all)
  ultimately have "take_packet hx fd ?h =
      (if user_output r = None then Broken else Exited (?h\<lparr>error_count := 1, encl := e\<rparr>))"
    unfolding take_packet_def input Let_def by (simp add: bindh_def)
  with drain_exits [of ?h fd hx] whole input shutdown_writes [OF assms(7)] show ?thesis
    by (auto simp: receive_bytes_def split: if_splits)
qed

text \<open>
  C20: The side of a channel that waited for the other one to connect never learns the socket of
  the other node (the attestation handlers that would set it are commented out), so it cannot send:
  when such a node receives a payment that its enclave credits and asks it to acknowledge, nothing
  goes out, the host calls \<open>error\<close> and the process ends.\<close>

theorem responder_cannot_acknowledge_a_payment:
  assumes "node_ok h" and "om_get (hchannels h) cid = Some st" and "\<not> hc_is_initiator st"
    and "input_of h fd = []" and "length blob < 100000"
    and "run_ecall (hx_ext hx) (Receive_Bitcoins cid blob (hc_context st)) (encl h) = Returns (r, e)"
    and "\<not> hx_call_fails hx (Receive_Bitcoins cid blob (hc_context st))"
    and "outputs_fit MAX_ECALL_USER_OUTPUT MAX_ECALL_SEND_RETURN_LENGTH r"
    and "ret_code r = REQUEST_OK" and "action_out r = Some SEND_INSECURE_ACK"
    and "run_ecall (hx_ext hx) Shutdown e = Returns (r', e')" and "\<not> hx_call_fails hx Shutdown"
    and "outputs_fit MAX_ECALL_RETURN_LENGTH 0 r'" and "ret_code r' \<noteq> REQUEST_CRASHED"
  shows "\<exists>h'. receive_bytes hx fd (frame_message (char_of OP_REMOTE_SEND # cid @ blob)) h = Some (Exited h')
    \<and> wire h' = wire h \<and> encl h' = e'"
proof -
  let ?m = "char_of OP_REMOTE_SEND # cid @ blob"
  let ?h = "update_input fd (\<lambda>s. s @ frame_message ?m) h"
  have reach: "reachable (encl h)" using assms(1) by (simp add: node_ok_def)
  obtain cs where "om_get (channelStates (encl h)) cid = Some cs"
    using assms(6) by (auto simp: ecall_receive_bitcoins_def)
  from channel_needs_role [OF reach this] have "teechain_state (encl h) \<in> {Funded, Backup}" .
  moreover have "enclave_step\<^sup>*\<^sup>* (encl h) e" using enclave_step.call [OF assms(6)] by blast
  ultimately have "teechain_state e \<in> {Funded, Backup}"
    using enclave_steps_lifecycle [OF _ reach] by fastforce
  with shutdown_writes [OF assms(11)] have writes: "user_output r' \<noteq> None" by simp
  have st: "host_channel_ok cid st" using assms(1,2) by (simp add: node_ok_def table_ok_def)
  then have cid: "length cid = CHANNEL_ID_LEN" and closed: "hc_remote_sockfd st = -1"
    using assms(3) by (simp_all add: host_channel_ok_def)
  have len: "length ?m + MSG_LEN_BYTES = 25 + length blob" using cid
    by (simp add: CHANNEL_ID_LEN_def struct_sizes)
  have m: "sendable ?m" using assms(5) len by (simp add: sendable_def)
  have whole: "whole_packet (frame_message ?m)" using whole_packet_frame [OF m, of "[]"] by simp
  have input: "input_of ?h fd = frame_message ?m" using assms(4) by simp
  let ?n = "int_of_long (packet_length (frame_message ?m))"
  have n: "?n - int MSG_LEN_BYTES = 17 + int (length blob)"
    using packet_length_frame [OF m, of "[]"] int_of_long_small [of "25 + length blob"] assms(5) len
    by (simp add: struct_sizes)
  have blob: "message_blob ?m (17 + int (length blob)) = returnh (Some blob)"
    by (rule message_blob_of [OF cid]) simp
  have "process_packet hx (frame_message ?m) ?n fd ?h
      = process_send_request hx ?m (17 + int (length blob)) fd ?h"
    unfolding process_packet_def dispatch_def Let_def n
    by (simp add: frame_message_def nth_append op_defs)
  also have "\<dots> = host_error hx (?h\<lparr>encl := e\<rparr>)"
    using assms(2,6-10) closed
    by (simp add: process_send_request_def message_channel_of [OF cid] blob bindh_def returnh_def
        host_get_channel_state_def host_call_blob_def host_call_def out_action_def not_ok_def
        send_message_def send_on_socket_def)
  also have "\<dots> = Exited (?h\<lparr>encl := e, error_count := 1\<rparr>\<lparr>encl := e'\<rparr>)"
    using assms(1,11-) host_error_first [of "?h\<lparr>encl := e\<rparr>" hx r' e'] writes
    by (simp add: node_ok_def)
  finally have "take_packet hx fd ?h = Exited (?h\<lparr>encl := e, error_count := 1\<rparr>\<lparr>encl := e'\<rparr>)"
    unfolding take_packet_def input Let_def by (simp add: bindh_def)
  from drain_exits(1) [OF _ this] whole input show ?thesis by (simp add: receive_bytes_def)
qed

lemma remove_quotes_00 [simp]: "remove_surrounding_quotes (quoted ''00'') = Returns ''00''"
  by (simp add: remove_surrounding_quotes_def quoted_def substr_def Let_def)

definition demo_credited_to :: enclave where
  "demo_credited_to =
     put_channel demo_cid (credit \<lparr>sm_monotoniccount = 1, sm_amount = 5\<rparr> demo_channel) demo_enclave"

lemma length_demo_cid: "length demo_cid = 16"
  by (simp add: demo_cid_def)

lemma length_long_long: "length (long_long_to_string w) \<le> 20"
  unfolding long_long_to_string_def
  by (rule length_nat_to_string) (use unsigned_less [of w, where 'a = nat] in simp_all)

lemma demo_table: "channelStates demo_enclave = [(demo_cid, demo_channel)]"
  using demo_state(4,5) by (auto simp: om_keys_def map_eq_Cons_conv)

lemma demo_credit:
  "\<exists>r. run_ecall (hx_ext demo_hx) (Receive_Bitcoins demo_cid demo_blob 4294967295) demo_enclave
      = Returns (r, demo_credited_to)
     \<and> ret_code r = REQUEST_OK \<and> action_out r = Some SEND_INSECURE_ACK
     \<and> outputs_fit MAX_ECALL_USER_OUTPUT MAX_ECALL_SEND_RETURN_LENGTH r"
proof -
  have plain: "check_and_decrypt_message (hx_ext demo_hx) demo_blob 4294967295 sizeof_SendMsg
      = Some (P_Send \<lparr>sm_monotoniccount = 1, sm_amount = 5\<rparr>)"
    by (simp add: demo_hx_def demo_ext_def demo_blob_def check_and_decrypt_message_def sgx_decrypt_def
        SAMPLE_SP_TAG_SIZE_def sizeof_values)
  let ?st = "credit \<lparr>sm_monotoniccount = 1, sm_amount = 5\<rparr> demo_channel"
  have "length (received_text demo_cid 5 ?st) < 500"
    using length_long_long [of 5] length_long_long [of "my_balance ?st"]
      length_long_long [of "remote_balance ?st"]
    by (simp add: received_text_def length_demo_cid)
  then show ?thesis
    by (simp add: ecall_receive_bitcoins_def demo_state get_channel_state_def plain as_SendMsg_def
        Let_def have_backup_def send_receive_ack_def send_plain_def with_user_output_def
        demo_credited_to_def [symmetric] outputs_fit_def memcpy_str_def length_demo_cid
        MAX_ECALL_USER_OUTPUT_def CHANNEL_ID_LEN_def code_reply_def)
qed

lemma demo_closing:
  "\<exists>r e'. run_ecall (hx_ext demo_hx) Shutdown demo_credited_to = Returns (r, e')
     \<and> ret_code r = REQUEST_OK \<and> outputs_fit MAX_ECALL_RETURN_LENGTH 0 r"
proof -
  let ?x = "hx_ext demo_hx"
  have rpc: "x_rpc ?x = (\<lambda>s. quoted ''00'')" "x_rpc_hex ?x = (\<lambda>s. quoted ''00'')"
    by (simp_all add: demo_hx_def)
  define with_setup where "with_setup s = demo_credited_to\<lparr>my_setup_transaction := s\<rparr>" for s
  have start: "demo_credited_to = with_setup (my_setup_transaction demo_credited_to)"
    by (simp add: with_setup_def)
  have st: "\<not> check_state (with_setup s) Backup" "check_state (with_setup s) Funded"
      "get_all_non_backup_channel_ids (with_setup s) = [demo_cid]"
      "om_get (channelStates (with_setup s)) demo_cid
         = Some (credit \<lparr>sm_monotoniccount = 1, sm_amount = 5\<rparr> demo_channel)" for s
    by (simp_all add: with_setup_def demo_credited_to_def check_state_def demo_state
        get_all_non_backup_channel_ids_def demo_table put_channel_def credit_def)
  have "\<exists>ok out s. return_deposits ?x '''' demo_credited_to = Returns (ok, out, with_setup s)
      \<and> length out < 100"
  proof -
    let ?s = "my_setup_transaction demo_credited_to"
    have "\<not> check_state demo_credited_to Backup" using st(1) [of ?s] start by simp
    moreover have "demo_credited_to\<lparr>my_setup_transaction := s\<rparr> = with_setup s" for s
      by (simp add: with_setup_def)
    ultimately show ?thesis using start
      by (auto simp: return_deposits_def Let_def create_return_transaction_for_unused_deposits_def
          sign_return_transaction_for_unused_deposits_def rpc mark_unused_deposits_spent_def)
  qed
  then obtain ok out s where ret: "return_deposits ?x '''' demo_credited_to = Returns (ok, out, with_setup s)"
      "length out < 100" by blast
  have "\<exists>out' e'. settle ?x demo_cid out (with_setup s) = Returns (out', e') \<and> length out' < 300"
    using ret(2) by (simp add: settle_def st get_channel_state_def rpc Let_def length_demo_cid
        generate_settle_transaction_for_channel_def create_and_sign_settlement_def
        create_settle_transaction_for_channel_def sign_settle_transaction_for_channel_def)
  then obtain out' e' where fin: "settle ?x demo_cid out (with_setup s) = Returns (out', e')"
      "length out' < 300" by blast
  have "my_balance (credit \<lparr>sm_monotoniccount = 1, sm_amount = 5\<rparr> demo_channel) \<noteq> 0"
    by (simp add: credit_def demo_state)
  then have "ecall_shutdown ?x demo_credited_to = Returns (output_reply REQUEST_OK out', e')"
    using ret fin st [of s] st [of "my_setup_transaction demo_credited_to", folded start]
    by (simp add: ecall_shutdown_def channel_balances_def get_channel_state_def)
  with fin(2) show ?thesis
    by (simp add: outputs_fit_def output_reply_def MAX_ECALL_RETURN_LENGTH_def)
qed

theorem unknown_channel_ends_the_node_witness:
  "(\<exists>h'. receive_bytes demo_hx 5 (frame_message (char_of OP_REMOTE_SEND # demo_cid @ demo_blob))
     (initial_host\<lparr>encl := demo_credited_to\<rparr>) = Some (Exited h'))
   \<and> receive_bytes demo_hx 5 (frame_message (char_of OP_REMOTE_SEND # demo_cid @ demo_blob))
     initial_host = Some Broken"
proof
  let ?h = "initial_host\<lparr>encl := demo_credited_to\<rparr>"
  note h = channel_messages_def demo_cid_def CHANNEL_ID_LEN_def initial_host_def demo_blob_def
    zero_Connection_def
  obtain r e where r: "run_ecall (hx_ext demo_hx) Shutdown (encl ?h) = Returns (r, e)"
      "ret_code r = REQUEST_OK" "outputs_fit MAX_ECALL_RETURN_LENGTH 0 r"
    using demo_closing by auto
  have "if teechain_state (encl ?h) \<in> {Funded, Backup}
    then \<exists>h'. receive_bytes demo_hx 5 (frame_message (char_of OP_REMOTE_SEND # demo_cid @ demo_blob)) ?h
        = Some (Exited h') \<and> encl h' = e
    else receive_bytes demo_hx 5 (frame_message (char_of OP_REMOTE_SEND # demo_cid @ demo_blob)) ?h
        = Some Broken"
    by (rule unknown_channel_ends_the_node [OF _ _ _ _ _ _ r(1)])
      (use r(2,3) in \<open>simp_all add: h REQUEST_OK_def REQUEST_CRASHED_def demo_hx_def\<close>)
  moreover have "teechain_state (encl ?h) = Funded" by (simp add: demo_credited_to_def demo_state)
  ultimately show "\<exists>h'. receive_bytes demo_hx 5
      (frame_message (char_of OP_REMOTE_SEND # demo_cid @ demo_blob)) ?h = Some (Exited h')"
    by auto
  have "run_ecall (hx_ext demo_hx) Shutdown (encl initial_host)
      = Returns (code_reply REQUEST_FAILED, initial_enclave)"
    by (simp add: initial_host_def ecall_shutdown_def check_state_def initial_enclave_def)
  from unknown_channel_ends_the_node [OF _ _ _ _ _ _ this, of OP_REMOTE_SEND demo_cid demo_blob 5]
  show "receive_bytes demo_hx 5 (frame_message (char_of OP_REMOTE_SEND # demo_cid @ demo_blob))
      initial_host = Some Broken"
    by (simp add: h outputs_fit_def code_reply_def REQUEST_FAILED_def REQUEST_CRASHED_def
        initial_enclave_def demo_hx_def)
qed

theorem responder_cannot_acknowledge_a_payment_witness:
  "\<exists>h'. receive_bytes demo_hx 5 (frame_message (char_of OP_REMOTE_SEND # demo_cid @ demo_blob)) demo_host
     = Some (Exited h') \<and> wire h' = []"
proof -
  obtain r where r: "run_ecall (hx_ext demo_hx) (Receive_Bitcoins demo_cid demo_blob 4294967295)
      demo_enclave = Returns (r, demo_credited_to)" "ret_code r = REQUEST_OK"
      "action_out r = Some SEND_INSECURE_ACK"
      "outputs_fit MAX_ECALL_USER_OUTPUT MAX_ECALL_SEND_RETURN_LENGTH r"
    using demo_credit by blast
  obtain r' e' where r': "run_ecall (hx_ext demo_hx) Shutdown demo_credited_to = Returns (r', e')"
      "ret_code r' = REQUEST_OK" "outputs_fit MAX_ECALL_RETURN_LENGTH 0 r'"
    using demo_closing by blast
  show ?thesis
    using responder_cannot_acknowledge_a_payment [OF demo_node_ok, of demo_cid demo_responder 5 demo_blob
        demo_hx r demo_credited_to r' e'] r r'
    by (auto simp: demo_responder_def host_create_channel_state_def demo_blob_def
        REQUEST_OK_def REQUEST_CRASHED_def)
qed

text \<open>
  C21: In every state a node can be in, its enclave is in a state of the enclave's own system (so
  all invariants of the enclave hold of the node), no error is being handled, the table of channels
  is ordered, each entry is stored under its own 16-byte identifier with a client waiting for it and
  a remote socket only at the side that connected, and all that was written is framed messages.\<close>

theorem running_nodes_are_in_order:
  assumes "host_reachable h"
  shows "reachable (encl h) \<and> error_count h = 0 \<and> om_ok (hchannels h) \<and>
    (\<forall>cid st. om_get (hchannels h) cid = Some st \<longrightarrow>
       length cid = CHANNEL_ID_LEN \<and> hc_id st = cid \<and> hc_local_sockfd st \<noteq> None
       \<and> (hc_is_initiator st \<or> hc_remote_sockfd st = -1)) \<and>
    (\<forall>(fd, b) \<in> set (wire h). \<exists>m. m \<noteq> [] \<and> b = frame_message m)"
  using node_invariant [OF assms]
  by (simp add: node_ok_def table_ok_def host_channel_ok_def wire_framed_def)

theorem running_nodes_are_in_order_witness:
  "reachable (encl initial_host) \<and> om_ok (hchannels initial_host)"
proof -
  have "host_start initial_host"
    by (rule host_start.start [of demo_hx False False])
      (simp add: ghost_enclave_def returnh_def)
  then have "host_reachable initial_host" unfolding host_reachable_def by blast
  from running_nodes_are_in_order [OF this] show ?thesis by simp
qed

end
