(* ===== verification/Teechain_Client.thy ===== *)
theory Teechain_Client
  imports Teechain_Stream
begin

text \<open>
  The command line client of a Teechain node (\<open>Teechain/src/untrusted/command_line_interface.cpp\<close>)
  and how it reads the answers (\<open>read_from_socket\<close> of \<open>network.cpp\<close>). A process of the client
  parses its options, builds the messages of one command, sends them to the node and waits for as
  many answers. What a command sends and what it then waits for is the value \<open>talk\<close>; it ends as an
  \<open>outcome\<close>: \<open>Terminated\<close> is \<open>usage\<close> or \<open>error\<close>, which exit.

  \<open>stack\<close> stands for the bytes that uninitialised memory holds: the gaps of a struct on the stack,
  and the rest of a buffer behind what was read. \<open>getopt\<close> is a parameter: the options in the order it
  reports them, and the arguments from \<open>argv[optind]\<close> on, the command first.
\<close>

section \<open>Options\<close>

record client_options =
  co_hostname :: string
  co_port :: int
  co_remote_host :: string
  co_remote_port :: int
  co_initiator :: bool
  co_use_monotonic_counters :: bool
  co_debug :: bool
  co_benchmark :: bool

definition DEFAULT_HOSTNAME :: string where "DEFAULT_HOSTNAME = ''127.0.0.1''"
definition DEFAULT_PORT :: int where "DEFAULT_PORT = 20202"

definition default_options :: client_options where
  "default_options = \<lparr>co_hostname = DEFAULT_HOSTNAME, co_port = DEFAULT_PORT,
     co_remote_host = DEFAULT_HOSTNAME, co_remote_port = 0, co_initiator = False,
     co_use_monotonic_counters = False, co_debug = False, co_benchmark = False\<rparr>"

text \<open>\<open>atoi\<close>: like \<open>strtoull\<close>, for an \<open>int\<close>; undefined when the number is not one.\<close>

definition atoi :: "string \<Rightarrow> int outcome" where
  "atoi s =
     (let t = dropWhile is_space s;
          n = (case t of
                 [] \<Rightarrow> 0
               | c # r \<Rightarrow>
                   if c = CHR ''-'' then - int (digits_value (takeWhile is_digit r))
                   else if c = CHR ''+'' then int (digits_value (takeWhile is_digit r))
                   else int (digits_value (takeWhile is_digit t)))
      in if - (2 ^ 31) \<le> n \<and> n < 2 ^ 31 then Returns n else Undefined)"

text \<open>One call of \<open>strtok\<close> with a colon: the next token and what is left, or a null pointer.\<close>

definition next_token :: "string \<Rightarrow> (string \<times> string) option" where
  "next_token s =
     (let t = dropWhile (\<lambda>c. c = CHR '':'') s in
      if t = [] then None
      else Some (takeWhile (\<lambda>c. c \<noteq> CHR '':'') t, drop 1 (dropWhile (\<lambda>c. c \<noteq> CHR '':'') t)))"

definition host_and_port :: "string \<Rightarrow> (string \<times> int) outcome" where
  "host_and_port s =
     bindo (of_option_ub (next_token s)) (\<lambda>(host, rest).
     bindo (of_option_ub (next_token rest)) (\<lambda>(port, _).
     bindo (atoi port) (\<lambda>n. Returns (host, n))))"

datatype option_flag =
    Opt_h string | Opt_p string | Opt_m | Opt_d | Opt_b | Opt_i | Opt_r string | Opt_unknown

fun apply_option :: "option_flag \<Rightarrow> client_options \<Rightarrow> client_options outcome" where
  "apply_option (Opt_h s) co = Returns (co\<lparr>co_hostname := s\<rparr>)"
| "apply_option (Opt_p s) co = bindo (atoi s) (\<lambda>n. Returns (co\<lparr>co_port := n\<rparr>))"
| "apply_option Opt_m co = Returns (co\<lparr>co_use_monotonic_counters := True\<rparr>)"
| "apply_option Opt_d co = Returns (co\<lparr>co_debug := True\<rparr>)"
| "apply_option Opt_b co = Returns (co\<lparr>co_benchmark := True\<rparr>)"
| "apply_option Opt_i co = Returns (co\<lparr>co_initiator := True\<rparr>)"
| "apply_option (Opt_r s) co =
     bindo (host_and_port s) (\<lambda>(host, n). Returns (co\<lparr>co_remote_host := host, co_remote_port := n\<rparr>))"
| "apply_option Opt_unknown co = Terminated"

definition is_valid_hostname :: "string \<Rightarrow> bool" where
  "is_valid_hostname s \<longleftrightarrow> length s \<le> REMOTE_HOST_LEN"

definition is_valid_port :: "int \<Rightarrow> bool" where
  "is_valid_port p \<longleftrightarrow> 0 \<le> p \<and> p \<le> 65535"

definition validate_command_options :: "client_options \<Rightarrow> bool" where
  "validate_command_options co \<longleftrightarrow> is_valid_hostname (co_hostname co) \<and> is_valid_port (co_port co)
     \<and> is_valid_hostname (co_remote_host co) \<and> is_valid_port (co_remote_port co)"

section \<open>Arguments\<close>

definition enough_arguments_for_command :: "nat \<Rightarrow> string list \<Rightarrow> bool" where
  "enough_arguments_for_command n args \<longleftrightarrow> n < length args"

definition usage_unless :: "nat \<Rightarrow> string list \<Rightarrow> 'a outcome \<Rightarrow> 'a outcome" where
  "usage_unless n args m = (if enough_arguments_for_command n args then m else Terminated)"

text \<open>\<open>argv\<close> ends with a null pointer, and what lies behind it is not the program's.\<close>

definition argument :: "string list \<Rightarrow> nat \<Rightarrow> string outcome" where
  "argument args i = (if i < length args then Returns (args ! i) else Undefined)"

definition number_argument :: "string list \<Rightarrow> nat \<Rightarrow> u64 outcome" where
  "number_argument args i = bindo (argument args i) (\<lambda>s. Returns (string_to_long_long s))"

definition validate_channel_id :: "string \<Rightarrow> string outcome" where
  "validate_channel_id cid = (if length cid = CHANNEL_ID_LEN then Returns cid else Terminated)"

definition channel_argument :: "string list \<Rightarrow> string outcome" where
  "channel_argument args = bindo (argument args 1) validate_channel_id"

definition MAX_BITCOIN_TX_LEN :: nat where "MAX_BITCOIN_TX_LEN = 3000"

definition validate_transaction :: "string \<Rightarrow> string outcome" where
  "validate_transaction s = (if length s \<le> MAX_BITCOIN_TX_LEN then Returns s else Terminated)"

definition validate_amount_to_send :: "u64 \<Rightarrow> u64 outcome" where
  "validate_amount_to_send amount = (if amount = 0 then Terminated else Returns amount)"

primrec mapo :: "('a \<Rightarrow> 'b outcome) \<Rightarrow> 'a list \<Rightarrow> 'b list outcome" where
  "mapo f [] = Returns []"
| "mapo f (x # xs) = bindo (f x) (\<lambda>y. bindo (mapo f xs) (\<lambda>ys. Returns (y # ys)))"

section \<open>Messages\<close>

definition OP_LOCAL_TEECHAIN_SETUP :: nat where "OP_LOCAL_TEECHAIN_SETUP = 21"
definition OP_LOCAL_TEECHAIN_SETUP_TXID :: nat where "OP_LOCAL_TEECHAIN_SETUP_TXID = 22"
definition OP_LOCAL_PRESENT_SETTLEMENT :: nat where "OP_LOCAL_PRESENT_SETTLEMENT = 82"

text \<open>The bytes from offset \<open>a\<close> to offset \<open>b\<close> of a struct that nothing has written to.\<close>

definition gap :: "(nat \<Rightarrow> char) \<Rightarrow> nat \<Rightarrow> nat \<Rightarrow> string" where
  "gap stack a b = map stack [a..<b]"

definition u64_bytes :: "u64 \<Rightarrow> string" where
  "u64_bytes w = bytes_le 8 (unat w)"

definition zeroed :: "nat \<Rightarrow> char" where
  "zeroed _ = CHR 0x00"

definition bool_byte :: "bool \<Rightarrow> char" where
  "bool_byte b = (if b then CHR 0x01 else CHR 0x00)"

datatype awaiting = Payment_Answers bool nat | Printed_Answer

datatype talk = Becomes_Ghost int | Talks "string list" awaiting | Says_Nothing

text \<open>\<open>LocalSendMsg\<close>, \<open>LocalDepositMsg\<close>: the identifier and a number at offset 24.\<close>

definition channel_number_msg :: "(nat \<Rightarrow> char) \<Rightarrow> nat \<Rightarrow> string \<Rightarrow> u64 \<Rightarrow> string" where
  "channel_number_msg stack operation cid n = char_of operation # cid @ gap stack 17 24 @ u64_bytes n"

definition local_send_async :: "(nat \<Rightarrow> char) \<Rightarrow> u64 \<Rightarrow> string \<Rightarrow> string" where
  "local_send_async stack amount cid = channel_number_msg stack OP_LOCAL_SEND cid amount"

definition local_send :: "client_options \<Rightarrow> (nat \<Rightarrow> char) \<Rightarrow> string list \<Rightarrow> talk outcome" where
  "local_send co stack args =
     usage_unless 2 args (
     bindo (channel_argument args) (\<lambda>cid.
     bindo (bindo (number_argument args 2) validate_amount_to_send) (\<lambda>amount.
     Returns (Talks [local_send_async stack amount cid] (Payment_Answers (co_benchmark co) 1)))))"

text \<open>The counter of the benchmark is an \<open>int\<close>, which overflows before more sends than it counts.\<close>

definition local_benchmark :: "(nat \<Rightarrow> char) \<Rightarrow> string list \<Rightarrow> talk outcome" where
  "local_benchmark stack args =
     usage_unless 2 args (
     bindo (number_argument args 2) (\<lambda>number_of_sends.
     bindo (channel_argument args) (\<lambda>cid.
     let n = unat number_of_sends in
     if 2 ^ 31 \<le> n then Undefined
     else Returns (Talks (replicate n (local_send_async stack 1 cid)) (Payment_Answers True n)))))"

definition local_issue_command_for_channel :: "nat \<Rightarrow> string \<Rightarrow> string" where
  "local_issue_command_for_channel command cid = char_of command # cid"

definition local_issue_command :: "(nat \<Rightarrow> char) \<Rightarrow> nat \<Rightarrow> string" where
  "local_issue_command stack command = char_of command # gap stack 1 17"

definition asks :: "string \<Rightarrow> talk outcome" where
  "asks msg = Returns (Talks [msg] Printed_Answer)"

definition local_settle_channel :: "string list \<Rightarrow> talk outcome" where
  "local_settle_channel args =
     usage_unless 1 args (
     bindo (channel_argument args) (\<lambda>cid. asks (local_issue_command_for_channel OP_LOCAL_SETTLE cid)))"

definition local_balance :: "string list \<Rightarrow> talk outcome" where
  "local_balance args =
     usage_unless 1 args (
     bindo (channel_argument args) (\<lambda>cid. asks (local_issue_command_for_channel OP_LOCAL_BALANCE cid)))"

definition local_verify_deposits :: "string list \<Rightarrow> talk outcome" where
  "local_verify_deposits args =
     usage_unless 1 args (
     bindo (channel_argument args) (\<lambda>cid.
     asks (local_issue_command_for_channel OP_LOCAL_VERIFY_DEPOSITS cid)))"

definition local_present_settlement :: "(nat \<Rightarrow> char) \<Rightarrow> string list \<Rightarrow> talk outcome" where
  "local_present_settlement stack args =
     usage_unless 2 args (
     bindo (channel_argument args) (\<lambda>cid.
     bindo (bindo (argument args 2) validate_transaction) (\<lambda>tx.
     asks (char_of OP_LOCAL_PRESENT_SETTLEMENT # cid @ tx @ gap stack (17 + length tx) 3024
           @ bytes_le 8 (length tx)))))"

definition local_return_unused_deposits :: "(nat \<Rightarrow> char) \<Rightarrow> string list \<Rightarrow> talk outcome" where
  "local_return_unused_deposits stack args =
     usage_unless 0 args (asks (local_issue_command stack OP_LOCAL_RETURN_UNUSED))"

definition local_shutdown :: "(nat \<Rightarrow> char) \<Rightarrow> string list \<Rightarrow> talk outcome" where
  "local_shutdown stack args = usage_unless 0 args (asks (local_issue_command stack OP_LOCAL_SHUTDOWN))"

definition local_primary :: "client_options \<Rightarrow> talk outcome" where
  "local_primary co = asks [char_of OP_LOCAL_PRIMARY, bool_byte (co_use_monotonic_counters co)]"

definition local_backup :: "(nat \<Rightarrow> char) \<Rightarrow> talk outcome" where
  "local_backup stack = asks (char_of OP_LOCAL_BACKUP # gap stack 1 2)"

definition local_remove_backup :: "string list \<Rightarrow> talk outcome" where
  "local_remove_backup args =
     usage_unless 1 args (
     bindo (channel_argument args) (\<lambda>cid. asks (char_of OP_LOCAL_REMOVE_BACKUP # cid)))"

text \<open>
  \<open>LocalCreateMsg\<close> and \<open>LocalCreateBackupMsg\<close> have the same fields. Only an initiator fills in
  where the other node is.
\<close>

definition create_msg :: "nat \<Rightarrow> client_options \<Rightarrow> (nat \<Rightarrow> char) \<Rightarrow> string outcome" where
  "create_msg operation co stack =
     (let start = char_of operation # take CHANNEL_ID_LEN TEMPORARY_CHANNEL_ID
                    @ [bool_byte (co_initiator co)] @ gap stack 18 24;
          host = co_remote_host co
      in
      if \<not> co_initiator co then Returns (start @ gap stack 24 168)
      else if REMOTE_HOST_LEN < length host then Undefined
      else Returns (start @ bytes_le 8 (length host) @ host @ gap stack (32 + length host) 160
                    @ u64_bytes (word_of_int (co_remote_port co))))"

definition local_create_channel :: "client_options \<Rightarrow> (nat \<Rightarrow> char) \<Rightarrow> string list \<Rightarrow> talk outcome" where
  "local_create_channel co stack args =
     usage_unless 0 args (bindo (create_msg OP_LOCAL_CREATE co stack) asks)"

definition local_add_backup :: "client_options \<Rightarrow> (nat \<Rightarrow> char) \<Rightarrow> string list \<Rightarrow> talk outcome" where
  "local_add_backup co stack args =
     usage_unless 0 args (bindo (create_msg OP_LOCAL_ADD_BACKUP co stack) asks)"

definition local_add_deposit :: "(nat \<Rightarrow> char) \<Rightarrow> string list \<Rightarrow> talk outcome" where
  "local_add_deposit stack args =
     usage_unless 2 args (
     bindo (number_argument args 2) (\<lambda>deposit_id.
     bindo (channel_argument args) (\<lambda>cid.
     asks (channel_number_msg stack OP_LOCAL_TEECHAIN_DEPOSIT_ADD cid deposit_id))))"

definition local_remove_deposit :: "(nat \<Rightarrow> char) \<Rightarrow> string list \<Rightarrow> talk outcome" where
  "local_remove_deposit stack args =
     usage_unless 2 args (
     bindo (number_argument args 2) (\<lambda>deposit_id.
     bindo (channel_argument args) (\<lambda>cid.
     asks (channel_number_msg stack OP_LOCAL_TEECHAIN_DEPOSIT_REMOVE cid deposit_id))))"

definition local_setup_deposits :: "string list \<Rightarrow> talk outcome" where
  "local_setup_deposits args =
     usage_unless 1 args (
     bindo (number_argument args 1) (\<lambda>num_deposits.
     asks (char_of OP_LOCAL_TEECHAIN_SETUP_DEPOSITS # gap zeroed 1 8 @ u64_bytes num_deposits)))"

text \<open>
  \<open>deposits_made\<close> reads the deposits into maps and then fills the ten entries of the message. More
  than ten are undefined behaviour: reading \<open>argv\<close> past its end in the first loop or the
  eleventh entry in the second, whatever the bound of the first loop wraps around to.
\<close>

definition deposit_made_msg :: "string list \<Rightarrow> nat \<Rightarrow> string outcome" where
  "deposit_made_msg args i =
     bindo (argument args (4 + 3 * i)) (\<lambda>txid.
     bindo (number_argument args (5 + 3 * i)) (\<lambda>tx_index.
     bindo (number_argument args (6 + 3 * i)) (\<lambda>deposit_amount.
     bindo (memcpy_str txid BITCOIN_TX_HASH_LEN) (\<lambda>hash.
     Returns (hash @ u64_bytes tx_index @ u64_bytes deposit_amount)))))"

definition local_deposits_made :: "string list \<Rightarrow> talk outcome" where
  "local_deposits_made args =
     usage_unless 6 args (
     bindo (number_argument args 2) (\<lambda>miner_fee.
     bindo (number_argument args 3) (\<lambda>num_deposits.
     let n = unat num_deposits in
     if MAX_NUM_SETUP_DEPOSITS < n then Undefined
     else
       bindo (mapo (deposit_made_msg args) [0..<n]) (\<lambda>entries.
       bindo (bindo (argument args 1) (\<lambda>a. memcpy_str a BITCOIN_ADDRESS_LEN)) (\<lambda>my_address.
       asks (char_of OP_LOCAL_TEECHAIN_DEPOSITS_MADE # my_address @ gap zeroed 35 40
             @ u64_bytes miner_fee @ u64_bytes num_deposits @ concat entries
             @ gap zeroed (56 + n * 80) 856))))))"

text \<open>Two commands that \<open>validate_and_execute_command\<close> does not know.\<close>

definition local_setup_command :: "string list \<Rightarrow> talk outcome" where
  "local_setup_command args =
     usage_unless 9 args (
     bindo (number_argument args 5) (\<lambda>setup_utxo_index.
     bindo (number_argument args 7) (\<lambda>num_deposits.
     let n = unat num_deposits in
     if MAX_NUM_SETUP_DEPOSITS < n then Undefined
     else
       bindo (mapo (\<lambda>i. number_argument args (8 + i)) [0..<n]) (\<lambda>amounts.
       bindo (bindo (argument args 1) (\<lambda>a. memcpy_str a BITCOIN_ADDRESS_LEN)) (\<lambda>my_address.
       bindo (bindo (argument args 2) (\<lambda>a. memcpy_str a BITCOIN_PUBLIC_KEY_LEN)) (\<lambda>public_key.
       bindo (bindo (argument args 3) (\<lambda>a. memcpy_str a BITCOIN_PRIVATE_KEY_LEN)) (\<lambda>private_key.
       bindo (bindo (argument args 4) (\<lambda>a. memcpy_str a BITCOIN_TX_HASH_LEN)) (\<lambda>utxo_hash.
       bindo (argument args 6) (\<lambda>script.
       if MAX_BITCOIN_TX_SCRIPT_LEN < length script then Undefined
       else asks (char_of OP_LOCAL_TEECHAIN_SETUP # my_address @ public_key @ private_key @ utxo_hash
                  @ gap zeroed 217 224 @ u64_bytes setup_utxo_index
                  @ script @ gap zeroed (232 + length script) 488 @ u64_bytes num_deposits
                  @ concat (map u64_bytes amounts) @ gap zeroed (496 + 8 * n) 576))))))))))"

definition local_txid_setup :: "string list \<Rightarrow> talk outcome" where
  "local_txid_setup args =
     usage_unless 1 args (
     bindo (bindo (argument args 1) (\<lambda>a. memcpy_str a BITCOIN_TX_HASH_LEN)) (\<lambda>hash.
     asks (char_of OP_LOCAL_TEECHAIN_SETUP_TXID # hash)))"

section \<open>Commands\<close>

definition command_of :: "client_options \<Rightarrow> (nat \<Rightarrow> char) \<Rightarrow> string \<Rightarrow> string list \<Rightarrow> talk outcome" where
  "command_of co stack command args =
     (if command = ''primary'' then local_primary co
      else if command = ''backup'' then local_backup stack
      else if command = ''add_backup'' then local_add_backup co stack args
      else if command = ''remove_backup'' then local_remove_backup args
      else if command = ''setup_deposits'' then local_setup_deposits args
      else if command = ''deposits_made'' then local_deposits_made args
      else if command = ''add_deposit'' then local_add_deposit stack args
      else if command = ''remove_deposit'' then local_remove_deposit stack args
      else if command = ''create_channel'' then local_create_channel co stack args
      else if command = ''send'' then local_send co stack args
      else if command = ''verify_deposits'' then local_verify_deposits args
      else if command = ''shutdown'' then local_shutdown stack args
      else if command = ''return_unused'' then local_return_unused_deposits stack args
      else if command = ''settle_channel'' then local_settle_channel args
      else if command = ''present_settlement'' then local_present_settlement stack args
      else if command = ''benchmark'' then local_benchmark stack args
      else if command = ''balance'' then local_balance args
      else Returns Says_Nothing)"

text \<open>
  \<open>connects\<close> tells whether there is a node to connect to. An unknown command connects, says nothing
  and counts as done.
\<close>

definition validate_and_execute_command ::
  "client_options \<Rightarrow> (nat \<Rightarrow> char) \<Rightarrow> bool \<Rightarrow> string list \<Rightarrow> talk outcome" where
  "validate_and_execute_command co stack connects args =
     (case args of
        [] \<Rightarrow> Terminated
      | command # _ \<Rightarrow>
          if command = ''ghost'' then Returns (Becomes_Ghost (co_port co))
          else if \<not> connects then Terminated
          else command_of co stack command args)"

definition client_main ::
  "option_flag list \<Rightarrow> (nat \<Rightarrow> char) \<Rightarrow> bool \<Rightarrow> string list \<Rightarrow> talk outcome" where
  "client_main flags stack connects args =
     bindo (foldo apply_option flags default_options) (\<lambda>co.
     if validate_command_options co then validate_and_execute_command co stack connects args
     else Terminated)"

section \<open>Answers\<close>

text \<open>
  What the calls of \<open>recv\<close> find, one piece each; none left is a closed connection. A call takes at
  most \<open>n\<close> bytes and leaves the rest of the piece.
\<close>

fun recv :: "nat \<Rightarrow> string list \<Rightarrow> (string \<times> string list) option" where
  "recv n [] = None"
| "recv n (p # ps) =
     (if n = 0 \<or> p = [] then None
      else Some (take n p, if length p \<le> n then ps else drop n p # ps))"

lemma recv_nonempty: "recv n ps = Some (b, ps') \<Longrightarrow> 0 < length b"
  by (cases ps) (auto split: if_splits)

text \<open>Both loops ask for a fixed number of bytes, whatever they have got already.\<close>

function read_header :: "string \<Rightarrow> string list \<Rightarrow> (string \<times> string list) outcome" where
  "read_header buf ps =
     (if MSG_LEN_BYTES \<le> length buf then Returns (buf, ps)
      else case recv MSG_LEN_BYTES ps of
        None \<Rightarrow> Terminated
      | Some (b, ps') \<Rightarrow> read_header (buf @ b) ps')"
  by pat_completeness auto
termination
  by (relation "measure (\<lambda>(buf, ps). MSG_LEN_BYTES - length buf)")
    (auto intro!: diff_less_mono2 dest!: recv_nonempty)

function read_body :: "int \<Rightarrow> int \<Rightarrow> string \<Rightarrow> string list \<Rightarrow> (string \<times> string list) outcome" where
  "read_body room pktlen buf ps =
     (if pktlen \<le> int (length buf) then Returns (buf, ps)
      else case recv (nat (pktlen - int MSG_LEN_BYTES)) ps of
        None \<Rightarrow> Terminated
      | Some (b, ps') \<Rightarrow>
          if int (length buf + length b) \<le> room then read_body room pktlen (buf @ b) ps'
          else Undefined)"
  by pat_completeness auto
termination
  by (relation "measure (\<lambda>(room, pktlen, buf, ps). nat (pktlen - int (length buf)))")
    (auto dest: recv_nonempty)

declare read_header.simps [simp del] read_body.simps [simp del]

definition read_from_socket :: "int \<Rightarrow> string list \<Rightarrow> (string \<times> string list) outcome" where
  "read_from_socket room ps =
     bindo (read_header [] ps) (\<lambda>(buf, ps').
     let pktlen = sint (of_nat (le_value (take MSG_LEN_BYTES buf)) :: u64) in
     if room < pktlen then Terminated else read_body room pktlen buf ps')"

text \<open>
  \<open>"Send error: " + response[8]\<close> adds to the pointer: past the twelve characters and the NUL it
  is undefined. \<open>response[8]\<close> of an answer without content is not initialised.
\<close>

definition wait_for_send_ack :: "bool \<Rightarrow> string list \<Rightarrow> (string list \<times> string list) outcome" where
  "wait_for_send_ack quiet ps =
     bindo (read_from_socket (int MAX_ECALL_SEND_RETURN_LENGTH) ps) (\<lambda>(buf, ps').
     if length buf \<le> MSG_LEN_BYTES then Undefined
     else if of_char (buf ! MSG_LEN_BYTES) = OP_LOCAL_ACK
     then Returns (if quiet then [] else [''Your payment has been sent!''], ps')
     else if of_char (buf ! MSG_LEN_BYTES) \<le> (12 :: nat) then Terminated else Undefined)"

definition MAX_MESSAGE_RESPONSE_LENGTH :: nat where
  "MAX_MESSAGE_RESPONSE_LENGTH = MAX_ECALL_RETURN_LENGTH"

text \<open>
  \<open>printf("%s\n", &response[8])\<close> prints from the operation byte to the first NUL, which the answer
  does not contain: it goes on into the rest of the buffer.
\<close>

definition local_wait_for_response_and_close ::
  "(nat \<Rightarrow> char) \<Rightarrow> string list \<Rightarrow> (string list \<times> string list) outcome" where
  "local_wait_for_response_and_close stack ps =
     bindo (read_from_socket (int MAX_MESSAGE_RESPONSE_LENGTH) ps) (\<lambda>(buf, ps').
     let response = drop MSG_LEN_BYTES (buf @ gap stack (length buf) MAX_MESSAGE_RESPONSE_LENGTH) in
     if CHR 0x00 \<in> set response then Returns ([c_str response], ps') else Undefined)"

primrec await_payments :: "bool \<Rightarrow> nat \<Rightarrow> string list \<Rightarrow> (string list \<times> string list) outcome" where
  "await_payments quiet 0 ps = Returns ([], ps)"
| "await_payments quiet (Suc n) ps =
     bindo (wait_for_send_ack quiet ps) (\<lambda>(out, ps').
     bindo (await_payments quiet n ps') (\<lambda>(outs, ps'').
     Returns (out @ outs, ps'')))"

text \<open>What the client prints of the answers; the benchmark has set \<open>benchmark\<close>.\<close>

fun await :: "(nat \<Rightarrow> char) \<Rightarrow> awaiting \<Rightarrow> string list \<Rightarrow> (string list \<times> string list) outcome" where
  "await stack (Payment_Answers quiet n) ps = await_payments quiet n ps"
| "await stack Printed_Answer ps = local_wait_for_response_and_close stack ps"

section \<open>One answer at the client\<close>

lemma recv_takes:
  assumes "[] \<notin> set ps" and "concat ps \<noteq> []" and "0 < n"
  obtains b ps' where "recv n ps = Some (b, ps')" "b @ concat ps' = concat ps" "[] \<notin> set ps'"
    "b \<noteq> []" "length b \<le> n"
proof -
  obtain p rest where ps: "ps = p # rest" using assms(2) by (cases ps) auto
  then have p: "p \<noteq> []" using assms(1) by auto
  show ?thesis
  proof (rule that)
    show "recv n ps = Some (take n p, if length p \<le> n then rest else drop n p # rest)"
      using ps p assms(3) by simp
  qed (use ps p assms in auto)
qed

lemma read_header_takes:
  assumes "[] \<notin> set ps" and "MSG_LEN_BYTES \<le> length (buf @ concat ps)"
  shows "\<exists>buf' ps'. read_header buf ps = Returns (buf', ps') \<and> buf' @ concat ps' = buf @ concat ps
    \<and> [] \<notin> set ps' \<and> MSG_LEN_BYTES \<le> length buf'"
  using assms
proof (induction buf ps rule: read_header.induct)
  case (1 buf ps)
  show ?case
  proof (cases "MSG_LEN_BYTES \<le> length buf")
    case True
    with "1.prems"(1) show ?thesis by (subst read_header.simps) simp
  next
    case False
    with "1.prems"(2) have "concat ps \<noteq> []" by (metis append.right_neutral)
    then obtain b ps' where b: "recv MSG_LEN_BYTES ps = Some (b, ps')" "b @ concat ps' = concat ps" "[] \<notin> set ps'"
      using recv_takes [OF "1.prems"(1), of MSG_LEN_BYTES] by (metis MSG_LEN_BYTES_def zero_less_numeral)
    have "MSG_LEN_BYTES \<le> length ((buf @ b) @ concat ps')"
      using "1.prems"(2) by (simp add: b(2))
    from "1.IH" [OF False b(1) refl b(3) this] show ?thesis
      using False b(1,2) by (subst read_header.simps) simp
  qed
qed

lemma read_body_takes:
  assumes "[] \<notin> set ps" and "MSG_LEN_BYTES \<le> length buf"
    and "int (length (buf @ concat ps)) = pktlen" and "pktlen \<le> room"
  shows "read_body room pktlen buf ps = Returns (buf @ concat ps, [])"
  using assms
proof (induction room pktlen buf ps rule: read_body.induct)
  case (1 room pktlen buf ps)
  show ?case
  proof (cases "pktlen \<le> int (length buf)")
    case True
    with "1.prems"(3) have "length (concat ps) \<le> 0" unfolding length_append by linarith
    then have "concat ps = []" by (simp only: le_zero_eq length_0_conv)
    with "1.prems"(1) have "ps = []" by (cases ps) auto
    with True show ?thesis by (subst read_body.simps) simp
  next
    case False
    with "1.prems"(3) have "concat ps \<noteq> []" by (metis append.right_neutral order_refl)
    moreover have "0 < nat (pktlen - int MSG_LEN_BYTES)" using False "1.prems"(2) by simp
    ultimately obtain b ps' where b: "recv (nat (pktlen - int MSG_LEN_BYTES)) ps = Some (b, ps')"
      "b @ concat ps' = concat ps" "[] \<notin> set ps'"
      using recv_takes [OF "1.prems"(1)] by metis
    have len: "int (length ((buf @ b) @ concat ps')) = pktlen" using "1.prems"(3) by (simp add: b(2))
    then have fits: "int (length buf + length b) \<le> room" using "1.prems"(4) by simp
    have "MSG_LEN_BYTES \<le> length (buf @ b)" using "1.prems"(2) by simp
    from "1.IH" [OF False b(1) refl fits b(3) this len "1.prems"(4)] show ?thesis
      using False b(1,2) fits by (subst read_body.simps) simp
  qed
qed

lemma sint_of_nat_small: "n < 2 ^ 63 \<Longrightarrow> sint (of_nat n :: u64) = int n"
  by (simp add: sint_uint unsigned_of_nat signed_take_bit_int_eq_self take_bit_nat_eq_self)

lemma read_one_answer:
  assumes "concat ps = frame_message m" and "[] \<notin> set ps"
    and "int (length m + MSG_LEN_BYTES) \<le> room" and "room < 2 ^ 63"
  shows "read_from_socket room ps = Returns (frame_message m, [])"
proof -
  obtain buf ps' where header: "read_header [] ps = Returns (buf, ps')"
    and split: "buf @ concat ps' = frame_message m" "[] \<notin> set ps'" "MSG_LEN_BYTES \<le> length buf"
    using read_header_takes [OF assms(2), of "[]"] assms(1) by auto
  let ?n = "length m + MSG_LEN_BYTES"
  have small: "?n < 2 ^ 63" using assms(3,4) by simp
  have "take MSG_LEN_BYTES buf = take MSG_LEN_BYTES (buf @ concat ps')" using split(3) by simp
  then have "take MSG_LEN_BYTES buf = bytes_le MSG_LEN_BYTES ?n" unfolding split(1) by (simp add: frame_message_def)
  then have "le_value (take MSG_LEN_BYTES buf) = ?n"
    using small by (simp add: le_value_bytes_le MSG_LEN_BYTES_def)
  then have pktlen: "sint (of_nat (le_value (take MSG_LEN_BYTES buf)) :: u64) = int ?n"
    using sint_of_nat_small [OF small] by (simp only:)
  have "int (length (buf @ concat ps')) = int ?n" unfolding split(1) by simp
  from read_body_takes [OF split(2,3) this assms(3)] split(1) header pktlen assms(3) show ?thesis
    by (simp add: read_from_socket_def Let_def)
qed

end
