(* ===== verification/Teechain_Client_Properties.thy ===== *)
theory Teechain_Client_Properties
  imports Teechain_Client Teechain_Node_Properties
begin

text \<open>
  What a client's command does at the node, and what the client makes of the answer. A handler of a
  local command makes one call of the enclave (\<open>one_call\<close>), the one the command asks for
  (\<open>asked_call\<close>): the offsets the client writes at are the ones the node reads at. A client that
  reads one answer reads all of it, however it is cut into pieces.
\<close>

section \<open>Handlers that call the enclave once\<close>

definition same_enclave :: "host \<Rightarrow> host \<Rightarrow> bool" where
  "same_enclave h h' \<longleftrightarrow> encl h' = encl h"

interpretation silent: host_calls hx "\<lambda>_. False" same_enclave "\<lambda>_ _. True" for hx
  by unfold_locales (auto simp: same_enclave_def)

lemma silent_register: "abides same_enclave (\<lambda>_ _. True) (register_new_connection hx s)"
  by (auto simp: abides_def register_new_connection_def same_enclave_def split: if_splits)

definition called :: "host_ext \<Rightarrow> ecall \<Rightarrow> host \<Rightarrow> host \<Rightarrow> bool" where
  "called hx c h h' \<longleftrightarrow>
     (if hx_call_fails hx c then encl h' = encl h
      else \<exists>r. run_ecall (hx_ext hx) c (encl h) = Returns (r, encl h'))"

definition one_call :: "host_ext \<Rightarrow> ecall \<Rightarrow> 'a hostm \<Rightarrow> bool" where
  "one_call hx c m \<longleftrightarrow> (\<forall>h a h'. m h = Ran a h' \<longrightarrow> called hx c h h')"

lemma one_call_makes:
  assumes "\<And>r. abides same_enclave (\<lambda>_ _. True) (f r)"
  shows "one_call hx c (bindh (host_call hx n k c) f)"
  using assms unfolding one_call_def abides_def
  by (fastforce simp: called_def same_enclave_def host_call_def split: if_splits outcome.splits)

lemma one_call_after:
  assumes "abides same_enclave (\<lambda>_ _. True) m" and "\<And>a. one_call hx c (f a)"
  shows "one_call hx c (bindh m f)"
  using assms unfolding one_call_def abides_def called_def same_enclave_def by (fastforce split: if_splits)

lemmas makes_one_call = one_call_makes one_call_after respectful silent_register

text \<open>What a handler reads of a message that is long enough.\<close>

lemma whole_struct [simp]: "length msg = n \<Longrightarrow> read_struct n msg = returnh msg"
  by (simp add: read_struct_def)

lemma local_struct_sizes [simp]:
  "SIZEOF_LocalSendMsg = 32" "SIZEOF_LocalDepositMsg = 32" "SIZEOF_LocalSetupDepositsMsg = 16"
  "SIZEOF_LocalDepositMadeMsg = 80" "SIZEOF_LocalDepositsMadeMsg = 856" "SIZEOF_LocalCreateMsg = 168"
  "SIZEOF_LocalRemoveBackupMsg = 17"
  by (simp_all add: SIZEOF_LocalSendMsg_def SIZEOF_LocalDepositMsg_def
      SIZEOF_LocalSetupDepositsMsg_def SIZEOF_LocalDepositMadeMsg_def SIZEOF_LocalDepositsMadeMsg_def
      SIZEOF_LocalCreateMsg_def SIZEOF_LocalRemoveBackupMsg_def struct_defs CHANNEL_ID_LEN_def
      REMOTE_HOST_LEN_def BITCOIN_TX_HASH_LEN_def BITCOIN_ADDRESS_LEN_def MAX_NUM_SETUP_DEPOSITS_def)

section \<open>The layout of the messages\<close>

lemma length_gap [simp]: "length (gap stack a b) = b - a"
  by (simp add: gap_def)

lemma length_u64_bytes [simp]: "length (u64_bytes w) = 8"
  by (simp add: u64_bytes_def)

lemma u64_field_start [simp]: "u64_field 0 (u64_bytes w @ t) = w" "u64_field 0 (u64_bytes w) = w"
proof -
  have "unat w < 2 ^ 64" using unsigned_less [of w] by simp
  then have "unat w mod 2 ^ 64 = unat w" by (rule mod_less)
  then show "u64_field 0 (u64_bytes w @ t) = w" for t
    by (simp add: u64_field_def u64_bytes_def le_value_bytes_le)
  from this [of "[]"] show "u64_field 0 (u64_bytes w) = w" by simp
qed

lemma u64_field_skip:
  "length s \<le> n \<Longrightarrow> u64_field n (s @ t) = u64_field (n - length s) t"
  "0 < n \<Longrightarrow> u64_field n (c # t) = u64_field (n - 1) t"
  by (simp_all add: u64_field_def drop_Cons')

lemma bool_field_byte [simp]: "bool_field 0 (bool_byte b # t) = b"
  by (simp add: bool_field_def bool_byte_def)

lemma bool_field_skip:
  "length s \<le> n \<Longrightarrow> bool_field n (s @ t) = bool_field (n - length s) t"
  "0 < n \<Longrightarrow> bool_field n (c # t) = bool_field (n - 1) t"
  by (simp_all add: bool_field_def nth_append nth_Cons')

lemmas fields = u64_field_skip bool_field_skip CHANNEL_ID_LEN_def

lemma length_channel_number_msg [simp]:
  "length cid = CHANNEL_ID_LEN \<Longrightarrow> length (channel_number_msg stack op cid n) = 32"
  by (simp add: channel_number_msg_def CHANNEL_ID_LEN_def)

lemma channel_number_fields [simp]:
  assumes "length cid = CHANNEL_ID_LEN"
  shows "u64_field 24 (channel_number_msg stack op cid n) = n"
    "take CHANNEL_ID_LEN (drop (Suc 0) (channel_number_msg stack op cid n)) = cid"
  using assms by (simp_all add: channel_number_msg_def fields)

lemma frame_operation [simp]:
  "frame_message (c # body) ! MSG_LEN_BYTES = c" "drop MSG_LEN_BYTES (frame_message msg) = msg"
  by (simp_all add: frame_message_def nth_append)

lemma dispatch_channel_command:
  "dispatch hx True (frame_message (char_of OP_LOCAL_SETTLE # m)) n fd = host_settle hx (char_of OP_LOCAL_SETTLE # m) fd"
  "dispatch hx True (frame_message (char_of OP_LOCAL_BALANCE # m)) n fd = host_balance hx (char_of OP_LOCAL_BALANCE # m) fd"
  "dispatch hx True (frame_message (char_of OP_LOCAL_VERIFY_DEPOSITS # m)) n fd
     = host_verify_deposits hx (char_of OP_LOCAL_VERIFY_DEPOSITS # m) fd"
  "dispatch hx True (frame_message (char_of OP_LOCAL_REMOVE_BACKUP # m)) n fd
     = host_remove_backup hx (char_of OP_LOCAL_REMOVE_BACKUP # m) fd"
  "dispatch hx True (frame_message (char_of OP_LOCAL_SEND # m)) n fd = host_send hx (char_of OP_LOCAL_SEND # m) fd"
  "dispatch hx True (frame_message (char_of OP_LOCAL_TEECHAIN_DEPOSIT_ADD # m)) n fd
     = host_add_deposit hx (char_of OP_LOCAL_TEECHAIN_DEPOSIT_ADD # m) fd"
  "dispatch hx True (frame_message (char_of OP_LOCAL_TEECHAIN_DEPOSIT_REMOVE # m)) n fd
     = host_remove_deposit hx (char_of OP_LOCAL_TEECHAIN_DEPOSIT_REMOVE # m) fd"
  "dispatch hx True (frame_message (char_of OP_LOCAL_RETURN_UNUSED # m)) n fd
     = return_unused_deposits hx (char_of OP_LOCAL_RETURN_UNUSED # m) fd"
  by (simp_all add: dispatch_def Let_def op_defs)

lemma dispatch_node_command:
  "dispatch hx True (frame_message (char_of OP_LOCAL_BACKUP # m)) n fd = host_backup hx (char_of OP_LOCAL_BACKUP # m) fd"
  "dispatch hx True (frame_message (char_of OP_LOCAL_PRIMARY # m)) n fd = host_primary hx (char_of OP_LOCAL_PRIMARY # m) fd"
  "dispatch hx True (frame_message (char_of OP_LOCAL_SHUTDOWN # m)) n fd = host_shutdown hx (char_of OP_LOCAL_SHUTDOWN # m) fd"
  "dispatch hx True (frame_message (char_of OP_LOCAL_TEECHAIN_SETUP_DEPOSITS # m)) n fd
     = host_setup_deposits hx (char_of OP_LOCAL_TEECHAIN_SETUP_DEPOSITS # m) fd"
  "dispatch hx True (frame_message (char_of OP_LOCAL_TEECHAIN_DEPOSITS_MADE # m)) n fd
     = host_deposits_made hx (char_of OP_LOCAL_TEECHAIN_DEPOSITS_MADE # m) fd"
  "dispatch hx True (frame_message (char_of OP_LOCAL_CREATE # m)) n fd = host_create hx False (char_of OP_LOCAL_CREATE # m) fd"
  "dispatch hx True (frame_message (char_of OP_LOCAL_ADD_BACKUP # m)) n fd
     = host_create hx True (char_of OP_LOCAL_ADD_BACKUP # m) fd"
  "dispatch hx True (frame_message (char_of OP_LOCAL_PRESENT_SETTLEMENT # m)) n fd = returnh ()"
  by (simp_all add: dispatch_def Let_def op_defs OP_LOCAL_PRESENT_SETTLEMENT_def)

section \<open>Handlers of the client's messages\<close>

lemma channel_handlers_call_once:
  assumes "length cid = CHANNEL_ID_LEN"
  shows "one_call hx (Settle cid) (host_settle hx (c # cid) fd)"
    "one_call hx (Balance cid) (host_balance hx (c # cid) fd)"
    "one_call hx (Verify_Deposits cid) (host_verify_deposits hx (c # cid) fd)"
    "one_call hx (Remove_Backup cid) (host_remove_backup hx (c # cid) fd)"
proof -
  have "message_channel (c # cid) = returnh cid" "read_struct 17 (c # cid) = returnh (c # cid)"
    using assms message_channel_of [of cid c "[]"] by (simp_all add: CHANNEL_ID_LEN_def)
  then show "one_call hx (Settle cid) (host_settle hx (c # cid) fd)"
    "one_call hx (Balance cid) (host_balance hx (c # cid) fd)"
    "one_call hx (Verify_Deposits cid) (host_verify_deposits hx (c # cid) fd)"
    "one_call hx (Remove_Backup cid) (host_remove_backup hx (c # cid) fd)"
    using assms
    by (simp_all add: host_settle_def host_balance_def host_verify_deposits_def host_remove_backup_def Let_def)
      (intro makes_one_call)+
qed

lemma number_handlers_call_once:
  assumes "length cid = CHANNEL_ID_LEN"
  shows "one_call hx (Send_Bitcoins cid n) (host_send hx (channel_number_msg stack op cid n) fd)"
    "one_call hx (Add_Deposit_To_Channel cid n) (host_add_deposit hx (channel_number_msg stack op cid n) fd)"
    "one_call hx (Remove_Deposit_From_Channel cid n)
       (host_remove_deposit hx (channel_number_msg stack op cid n) fd)"
  using assms
  by (simp_all add: host_send_def host_add_deposit_def host_remove_deposit_def Let_def)
    (intro makes_one_call)+

lemma other_handlers_call_once:
  "one_call hx Return_Deposits (return_unused_deposits hx msg fd)"
  "one_call hx Make_Backup (host_backup hx msg fd)"
  "length msg = 2 \<Longrightarrow> one_call hx (Make_Primary (bool_field 1 msg)) (host_primary hx msg fd)"
  "length msg = 16 \<Longrightarrow> one_call hx (Setup_Deposits (u64_field 8 msg)) (host_setup_deposits hx msg fd)"
  by (simp_all add: return_unused_deposits_def host_backup_def host_primary_def host_setup_deposits_def)
    (intro makes_one_call)+

lemma create_calls_once:
  assumes "length msg = 168"
    and "cid = (if bool_field 17 msg then generate_channel_id hx else take CHANNEL_ID_LEN (drop 1 msg))"
  shows "one_call hx (if is_backup then Create_New_Backup_Channel cid (bool_field 17 msg)
    else Create_New_Channel cid (bool_field 17 msg)) (host_create hx is_backup msg fd)"
  unfolding assms(2) using assms(1)
  by (simp only: host_create_def whole_struct local_struct_sizes returnh_bind Let_def)
    (intro makes_one_call | simp only: open_channel_def initiate_channel_def connect_to_socket_def Let_def)+

lemma shutdown_does_not_come_back: "host_shutdown hx msg fd h \<noteq> Ran a h'"
  by (simp add: host_shutdown_def)

section \<open>What a command asks for\<close>

definition asked_deposits :: "host_ext \<Rightarrow> string list \<Rightarrow> ecall" where
  "asked_deposits hx args =
     (let n = unat (string_to_long_long (args ! 3)); rest = MAX_NUM_SETUP_DEPOSITS - n;
          junk = replicate rest (x_junk_u64 (hx_ext hx))
      in Deposits_Made (take BITCOIN_ADDRESS_LEN (args ! 1 @ [CHR 0x00])) (string_to_long_long (args ! 2))
           (string_to_long_long (args ! 3))
           (concat (map (\<lambda>i. take BITCOIN_TX_HASH_LEN (args ! (4 + 3 * i) @ [CHR 0x00])) [0..<n])
              @ replicate (rest * BITCOIN_TX_HASH_LEN) (CHR 0x00))
           (map (\<lambda>i. string_to_long_long (args ! (5 + 3 * i))) [0..<n] @ junk)
           (map (\<lambda>i. string_to_long_long (args ! (6 + 3 * i))) [0..<n] @ junk))"

definition asked_call :: "host_ext \<Rightarrow> client_options \<Rightarrow> string list \<Rightarrow> ecall option" where
  "asked_call hx co args =
     (let command = args ! 0; cid = args ! 1; number = string_to_long_long (args ! 2);
          new = (if co_initiator co then generate_channel_id hx
                 else take CHANNEL_ID_LEN TEMPORARY_CHANNEL_ID)
      in
      if command = ''primary'' then Some (Make_Primary (co_use_monotonic_counters co))
      else if command = ''backup'' then Some Make_Backup
      else if command = ''add_backup'' then Some (Create_New_Backup_Channel new (co_initiator co))
      else if command = ''remove_backup'' then Some (Remove_Backup cid)
      else if command = ''setup_deposits'' then Some (Setup_Deposits (string_to_long_long cid))
      else if command = ''deposits_made'' then Some (asked_deposits hx args)
      else if command = ''add_deposit'' then Some (Add_Deposit_To_Channel cid number)
      else if command = ''remove_deposit'' then Some (Remove_Deposit_From_Channel cid number)
      else if command = ''create_channel'' then Some (Create_New_Channel new (co_initiator co))
      else if command = ''send'' then Some (Send_Bitcoins cid number)
      else if command = ''verify_deposits'' then Some (Verify_Deposits cid)
      else if command = ''shutdown'' then Some Shutdown
      else if command = ''return_unused'' then Some Return_Deposits
      else if command = ''settle_channel'' then Some (Settle cid)
      else if command = ''benchmark'' then Some (Send_Bitcoins cid 1)
      else if command = ''balance'' then Some (Balance cid)
      else None)"

text \<open>The node does with a message what the command asks for.\<close>

definition obeyed :: "client_options \<Rightarrow> string list \<Rightarrow> string \<Rightarrow> bool" where
  "obeyed co args msg \<longleftrightarrow> sendable msg \<and>
     (\<forall>hx n fd h h'. dispatch hx True (frame_message msg) n fd h = Ran () h' \<longrightarrow>
        (case asked_call hx co args of None \<Rightarrow> encl h' = encl h | Some c \<Rightarrow> called hx c h h'))"

lemma obeyedI:
  assumes "length msg < 10000" and "msg \<noteq> []"
    and "\<And>hx. asked_call hx co args = Some (c hx)"
    and "\<And>hx n fd. one_call hx (c hx) (dispatch hx True (frame_message msg) n fd)"
  shows "obeyed co args msg"
  using assms by (simp add: obeyed_def sendable_def struct_sizes one_call_def)

lemma argument_iff [simp]: "argument args i = Returns s \<longleftrightarrow> i < length args \<and> s = args ! i"
  by (auto simp: argument_def)

lemma usage_unless_iff [simp]: "usage_unless n args m = Returns t \<longleftrightarrow> n < length args \<and> m = Returns t"
  by (simp add: usage_unless_def enough_arguments_for_command_def)

lemmas argument_defs = channel_argument_def number_argument_def validate_channel_id_def asks_def
  validate_amount_to_send_def validate_transaction_def

lemma channel_commands_obeyed:
  assumes "msg \<in> set msgs"
  shows
    "local_settle_channel args = Returns (Talks msgs w) \<Longrightarrow> args ! 0 = ''settle_channel'' \<Longrightarrow> obeyed co args msg"
    "local_balance args = Returns (Talks msgs w) \<Longrightarrow> args ! 0 = ''balance'' \<Longrightarrow> obeyed co args msg"
    "local_verify_deposits args = Returns (Talks msgs w) \<Longrightarrow> args ! 0 = ''verify_deposits'' \<Longrightarrow> obeyed co args msg"
    "local_remove_backup args = Returns (Talks msgs w) \<Longrightarrow> args ! 0 = ''remove_backup'' \<Longrightarrow> obeyed co args msg"
  using assms
  by (auto intro!: obeyedI channel_handlers_call_once simp: local_settle_channel_def local_balance_def local_verify_deposits_def
      local_remove_backup_def argument_defs local_issue_command_for_channel_def asked_call_def
      dispatch_channel_command CHANNEL_ID_LEN_def split: if_splits)

lemma dispatch_number_command:
  "dispatch hx True (frame_message (channel_number_msg stack OP_LOCAL_SEND cid k)) n fd
     = host_send hx (channel_number_msg stack OP_LOCAL_SEND cid k) fd"
  "dispatch hx True (frame_message (channel_number_msg stack OP_LOCAL_TEECHAIN_DEPOSIT_ADD cid k)) n fd
     = host_add_deposit hx (channel_number_msg stack OP_LOCAL_TEECHAIN_DEPOSIT_ADD cid k) fd"
  "dispatch hx True (frame_message (channel_number_msg stack OP_LOCAL_TEECHAIN_DEPOSIT_REMOVE cid k)) n fd
     = host_remove_deposit hx (channel_number_msg stack OP_LOCAL_TEECHAIN_DEPOSIT_REMOVE cid k) fd"
  by (simp_all add: channel_number_msg_def dispatch_channel_command)

lemma channel_number_msg_nonempty [simp]:
  "channel_number_msg stack op cid n \<noteq> []" "[] \<noteq> channel_number_msg stack op cid n"
  by (simp_all add: channel_number_msg_def)

lemma number_commands_obeyed:
  assumes "msg \<in> set msgs"
  shows
    "local_send co stack args = Returns (Talks msgs w) \<Longrightarrow> args ! 0 = ''send'' \<Longrightarrow> obeyed co args msg"
    "local_benchmark stack args = Returns (Talks msgs w) \<Longrightarrow> args ! 0 = ''benchmark'' \<Longrightarrow> obeyed co args msg"
    "local_add_deposit stack args = Returns (Talks msgs w) \<Longrightarrow> args ! 0 = ''add_deposit'' \<Longrightarrow> obeyed co args msg"
    "local_remove_deposit stack args = Returns (Talks msgs w) \<Longrightarrow> args ! 0 = ''remove_deposit'' \<Longrightarrow> obeyed co args msg"
  using assms
  by (auto intro!: obeyedI number_handlers_call_once simp: local_send_def local_benchmark_def
      local_add_deposit_def local_remove_deposit_def local_send_async_def argument_defs asked_call_def
      dispatch_number_command Let_def split: if_splits)

lemma node_commands_obeyed:
  assumes "msg \<in> set msgs"
  shows
    "local_primary co = Returns (Talks msgs w) \<Longrightarrow> args ! 0 = ''primary'' \<Longrightarrow> obeyed co args msg"
    "local_backup stack = Returns (Talks msgs w) \<Longrightarrow> args ! 0 = ''backup'' \<Longrightarrow> obeyed co args msg"
    "local_return_unused_deposits stack args = Returns (Talks msgs w) \<Longrightarrow> args ! 0 = ''return_unused'' \<Longrightarrow>
       obeyed co args msg"
    "local_setup_deposits args = Returns (Talks msgs w) \<Longrightarrow> args ! 0 = ''setup_deposits'' \<Longrightarrow>
       obeyed co args msg"
    "local_shutdown stack args = Returns (Talks msgs w) \<Longrightarrow> args ! 0 = ''shutdown'' \<Longrightarrow> obeyed co args msg"
proof -
  have primary: "one_call hx (Make_Primary b) (host_primary hx [c, bool_byte b] fd)" for hx b c fd
    using other_handlers_call_once(3) [of "[c, bool_byte b]" hx fd] by (simp add: fields)
  have deposits: "one_call hx (Setup_Deposits k) (host_setup_deposits hx (c # gap zeroed (Suc 0) 8 @ u64_bytes k) fd)"
    for hx c k fd
    using other_handlers_call_once(4) [of "c # gap zeroed (Suc 0) 8 @ u64_bytes k" hx fd] by (simp add: fields)
  have shutdown: "one_call hx k (host_shutdown hx m fd)" for hx k m fd
    by (simp add: one_call_def shutdown_does_not_come_back)
  show "obeyed co args msg" if "local_primary co = Returns (Talks msgs w)" "args ! 0 = ''primary''"
    using that assms
    by (auto intro!: obeyedI primary simp: local_primary_def argument_defs asked_call_def dispatch_node_command)
  show "obeyed co args msg" if "local_backup stack = Returns (Talks msgs w)" "args ! 0 = ''backup''"
    using that assms
    by (auto intro!: obeyedI other_handlers_call_once simp: local_backup_def argument_defs asked_call_def
        dispatch_node_command)
  show "obeyed co args msg"
    if "local_return_unused_deposits stack args = Returns (Talks msgs w)" "args ! 0 = ''return_unused''"
    using that assms
    by (auto intro!: obeyedI other_handlers_call_once simp: local_return_unused_deposits_def argument_defs
        local_issue_command_def asked_call_def dispatch_channel_command)
  show "obeyed co args msg"
    if "local_setup_deposits args = Returns (Talks msgs w)" "args ! 0 = ''setup_deposits''"
    using that assms
    by (auto intro!: obeyedI deposits simp: local_setup_deposits_def argument_defs asked_call_def
        dispatch_node_command)
  show "obeyed co args msg" if "local_shutdown stack args = Returns (Talks msgs w)" "args ! 0 = ''shutdown''"
    using that assms
    by (auto intro!: obeyedI shutdown simp: local_shutdown_def argument_defs local_issue_command_def
        asked_call_def dispatch_node_command)
qed

lemma create_msg_fields:
  assumes "create_msg op co stack = Returns msg"
  shows "length msg = 168" "bool_field 17 msg = co_initiator co"
    "take CHANNEL_ID_LEN (drop (Suc 0) msg) = take CHANNEL_ID_LEN TEMPORARY_CHANNEL_ID"
    "\<exists>m. msg = char_of op # m"
  using assms
  by (auto simp: create_msg_def Let_def fields TEMPORARY_CHANNEL_ID_def REMOTE_HOST_LEN_def split: if_splits)

text \<open>Validated options fit the message.\<close>

lemma validated_host_fits: "validate_command_options co \<Longrightarrow> create_msg op co stack \<noteq> Undefined"
  by (simp add: create_msg_def validate_command_options_def is_valid_hostname_def Let_def)

lemma create_msg_calls_once:
  assumes "create_msg op co stack = Returns msg"
    and "new = (if co_initiator co then generate_channel_id hx else take CHANNEL_ID_LEN TEMPORARY_CHANNEL_ID)"
  shows "one_call hx (Create_New_Channel new (co_initiator co)) (host_create hx False msg fd)"
    "one_call hx (Create_New_Backup_Channel new (co_initiator co)) (host_create hx True msg fd)"
proof -
  have "new = (if bool_field 17 msg then generate_channel_id hx else take CHANNEL_ID_LEN (drop 1 msg))"
    using create_msg_fields [OF assms(1)] assms(2) by simp
  note calls = create_calls_once [OF create_msg_fields(1) [OF assms(1)] this,
      unfolded create_msg_fields(2) [OF assms(1)]]
  show "one_call hx (Create_New_Channel new (co_initiator co)) (host_create hx False msg fd)"
    using calls [of False fd] by simp
  show "one_call hx (Create_New_Backup_Channel new (co_initiator co)) (host_create hx True msg fd)"
    using calls [of True fd] by simp
qed

lemma create_commands_obeyed:
  assumes "msg \<in> set msgs"
  shows "local_create_channel co stack args = Returns (Talks msgs w) \<Longrightarrow> args ! 0 = ''create_channel'' \<Longrightarrow>
      obeyed co args msg"
    "local_add_backup co stack args = Returns (Talks msgs w) \<Longrightarrow> args ! 0 = ''add_backup'' \<Longrightarrow>
      obeyed co args msg"
proof -
  let ?new = "\<lambda>hx. if co_initiator co then generate_channel_id hx else take CHANNEL_ID_LEN TEMPORARY_CHANNEL_ID"
  have sent: "create_msg op co stack = Returns msg \<Longrightarrow> length msg < 10000 \<and> msg \<noteq> []
      \<and> (\<exists>m. msg = char_of op # m)" for op
    using create_msg_fields [of op co stack msg] by auto
  show "obeyed co args msg"
    if run: "local_create_channel co stack args = Returns (Talks msgs w)" "args ! 0 = ''create_channel''"
  proof -
    have msg: "create_msg OP_LOCAL_CREATE co stack = Returns msg"
      using run assms by (auto simp: local_create_channel_def asks_def)
    show ?thesis
    proof (rule obeyedI [where c = "\<lambda>hx. Create_New_Channel (?new hx) (co_initiator co)"])
      show "one_call hx (Create_New_Channel (?new hx) (co_initiator co))
          (dispatch hx True (frame_message msg) n fd)" for hx n fd
        using create_msg_calls_once(1) [OF msg refl] sent [OF msg] by (auto simp: dispatch_node_command)
    qed (use sent [OF msg] run(2) in \<open>auto simp: asked_call_def\<close>)
  qed
  show "obeyed co args msg"
    if run: "local_add_backup co stack args = Returns (Talks msgs w)" "args ! 0 = ''add_backup''"
  proof -
    have msg: "create_msg OP_LOCAL_ADD_BACKUP co stack = Returns msg"
      using run assms by (auto simp: local_add_backup_def asks_def)
    show ?thesis
    proof (rule obeyedI [where c = "\<lambda>hx. Create_New_Backup_Channel (?new hx) (co_initiator co)"])
      show "one_call hx (Create_New_Backup_Channel (?new hx) (co_initiator co))
          (dispatch hx True (frame_message msg) n fd)" for hx n fd
        using create_msg_calls_once(2) [OF msg refl] sent [OF msg] by (auto simp: dispatch_node_command)
    qed (use sent [OF msg] run(2) in \<open>auto simp: asked_call_def\<close>)
  qed
qed

text \<open>The node has no handler for a presented settlement.\<close>

lemma present_settlement_obeyed:
  assumes "local_present_settlement stack args = Returns (Talks msgs w)" and "args ! 0 = ''present_settlement''"
    and "msg \<in> set msgs"
  shows "obeyed co args msg"
  using assms
  by (auto simp: obeyed_def local_present_settlement_def argument_defs asked_call_def sendable_def struct_sizes
      dispatch_node_command MAX_BITCOIN_TX_LEN_def CHANNEL_ID_LEN_def split: if_splits)

section \<open>The deposits that have been made\<close>

lemma mapo_iff: "mapo f xs = Returns ys \<longleftrightarrow> list_all2 (\<lambda>x y. f x = Returns y) xs ys"
  by (induction xs arbitrary: ys) (auto simp: list_all2_Cons1)

lemma deposit_made_msg_fields:
  assumes "deposit_made_msg args i = Returns s"
  shows "length s = 80" "take BITCOIN_TX_HASH_LEN s = take BITCOIN_TX_HASH_LEN (args ! (4 + 3 * i) @ [CHR 0x00])"
    "u64_field 64 s = string_to_long_long (args ! (5 + 3 * i))"
    "u64_field 72 s = string_to_long_long (args ! (6 + 3 * i))"
proof -
  obtain hash where hash: "memcpy_str (args ! (4 + 3 * i)) BITCOIN_TX_HASH_LEN = Returns hash"
    and s: "s = hash @ u64_bytes (string_to_long_long (args ! (5 + 3 * i)))
        @ u64_bytes (string_to_long_long (args ! (6 + 3 * i)))"
    using assms by (auto simp: deposit_made_msg_def number_argument_def)
  have len: "length hash = 64" using memcpy_str_length [OF hash] by (simp add: BITCOIN_TX_HASH_LEN_def)
  then show "length s = 80" "u64_field 64 s = string_to_long_long (args ! (5 + 3 * i))"
    "u64_field 72 s = string_to_long_long (args ! (6 + 3 * i))"
    by (simp_all add: s fields)
  have "hash = take BITCOIN_TX_HASH_LEN (args ! (4 + 3 * i) @ [CHR 0x00])"
    using hash by (simp add: memcpy_str_def split: if_splits)
  moreover have "take BITCOIN_TX_HASH_LEN s = hash" using len by (simp add: s BITCOIN_TX_HASH_LEN_def)
  ultimately show "take BITCOIN_TX_HASH_LEN s = take BITCOIN_TX_HASH_LEN (args ! (4 + 3 * i) @ [CHR 0x00])"
    by (simp only:)
qed

lemma entry_of_concat:
  assumes "\<forall>e \<in> set es. length e = k" and "i < length es"
  shows "take k (drop (i * k) (concat es @ t)) = es ! i"
  using assms
proof (induction es arbitrary: i)
  case (Cons e es)
  then show ?case by (cases i) (simp_all add: add.commute)
qed simp

lemma map_over_entries:
  assumes "length es = n" and "\<And>i. i < n \<Longrightarrow> g (es ! i) = f i"
  shows "map g es = map f [0..<n]"
  using assms by (auto intro: nth_equalityI)

lemma deposits_made_obeyed:
  assumes run: "local_deposits_made args = Returns (Talks msgs w)" and "args ! 0 = ''deposits_made''"
    and "msg \<in> set msgs"
  shows "obeyed co args msg"
proof -
  let ?fee = "string_to_long_long (args ! 2)" and ?num = "string_to_long_long (args ! 3)"
  define n where "n = unat ?num"
  from run assms(3) obtain entries addr where n: "n \<le> MAX_NUM_SETUP_DEPOSITS"
    and entries: "list_all2 (\<lambda>i s. deposit_made_msg args i = Returns s) [0..<n] entries"
    and addr: "memcpy_str (args ! 1) BITCOIN_ADDRESS_LEN = Returns addr"
    and msg: "msg = char_of OP_LOCAL_TEECHAIN_DEPOSITS_MADE # addr @ gap zeroed 35 40
        @ u64_bytes ?fee @ u64_bytes ?num @ concat entries @ gap zeroed (56 + n * 80) 856"
    by (auto simp: local_deposits_made_def number_argument_def Let_def mapo_iff asks_def n_def not_less
        split: if_splits)
  have len: "length entries = n" using list_all2_lengthD [OF entries] by simp
  have entry: "deposit_made_msg args i = Returns (entries ! i)" if "i < n" for i
    using list_all2_nthD [OF entries, of i] that by simp
  have each: "length (entries ! i) = 80" if "i < n" for i
    using deposit_made_msg_fields(1) [OF entry [OF that]] .
  then have all: "\<forall>e \<in> set entries. length e = 80" using len by (auto simp: in_set_conv_nth)
  have "length (concat es) = length es * 80" if "\<forall>e \<in> set es. length e = 80" for es :: "string list"
    using that by (induction es) simp_all
  from this [OF all] have total: "length (concat entries) = n * 80" using len by simp
  have addr_len: "length addr = 34" using memcpy_str_length [OF addr] by (simp add: BITCOIN_ADDRESS_LEN_def)
  have addr_is: "addr = take BITCOIN_ADDRESS_LEN (args ! 1 @ [CHR 0x00])"
    using addr by (auto simp: memcpy_str_def split: if_splits)
  have msg_len: "length msg = 856"
    using n by (simp add: msg addr_len total MAX_NUM_SETUP_DEPOSITS_def)
  have fields_of: "u64_field 40 msg = ?fee" "u64_field 48 msg = ?num" "take BITCOIN_ADDRESS_LEN (drop 1 msg) = addr"
    by (simp_all add: msg fields addr_len BITCOIN_ADDRESS_LEN_def)
  have "deposit_entry msg i = entries ! i" if "i < n" for i
  proof -
    have "drop (56 + i * 80) msg = drop (i * 80) (concat entries @ gap zeroed (56 + n * 80) 856)"
      by (simp add: msg addr_len drop_Cons')
    then show ?thesis
      using entry_of_concat [OF all, of i] that len by (simp add: deposit_entry_def)
  qed
  then have "map (deposit_entry msg) [0..<n] = entries"
    using len by (auto intro: nth_equalityI)
  moreover have "map (take BITCOIN_TX_HASH_LEN) entries
      = map (\<lambda>i. take BITCOIN_TX_HASH_LEN (args ! (4 + 3 * i) @ [CHR 0x00])) [0..<n]"
    and "map (u64_field 64) entries = map (\<lambda>i. string_to_long_long (args ! (5 + 3 * i))) [0..<n]"
    and "map (u64_field 72) entries = map (\<lambda>i. string_to_long_long (args ! (6 + 3 * i))) [0..<n]"
    by (rule map_over_entries [OF len]; rule deposit_made_msg_fields [OF entry]; assumption)+
  ultimately have "host_deposits_made hx msg fd =
      bindh (host_call hx MAX_ECALL_RETURN_LENGTH 0 (asked_deposits hx args))
        (\<lambda>r. if not_ok r then host_error hx else ack_output hx fd r)" for hx fd
    using n msg_len
    by (simp add: host_deposits_made_def asked_deposits_def Let_def fields_of [unfolded One_nat_def] n_def [symmetric]
        addr_is)
  then have "one_call hx (asked_deposits hx args) (host_deposits_made hx msg fd)" for hx fd
    by (simp only:) (intro makes_one_call)
  then show ?thesis
    using msg_len assms(2)
    by (intro obeyedI [where c = "\<lambda>hx. asked_deposits hx args"])
      (auto simp: asked_call_def msg dispatch_node_command)
qed

lemma if_case: "(if b then x else y) = z \<Longrightarrow> (x = z \<Longrightarrow> b \<Longrightarrow> P) \<Longrightarrow> (y = z \<Longrightarrow> P) \<Longrightarrow> P"
  by (simp split: if_splits)

lemma commands_obeyed:
  assumes "command_of co stack (args ! 0) args = Returns (Talks msgs w)" and "msg \<in> set msgs"
  shows "obeyed co args msg"
proof -
  note rules = channel_commands_obeyed number_commands_obeyed node_commands_obeyed create_commands_obeyed
  show ?thesis
    using assms(1) unfolding command_of_def
    by (elim if_case)
      (erule (1) rules [OF assms(2)] deposits_made_obeyed [OF _ _ assms(2)]
        present_settlement_obeyed [OF _ _ assms(2)] | simp)+
qed

section \<open>One message at the node\<close>

lemma receive_one_message:
  assumes fresh: "fresh_sockets hx fd" and m: "sendable m" and "input_of h fd = []"
  shows "receive_bytes hx fd (frame_message m) h = Some
    (case process_packet hx (frame_message m) (int_of_long (length m + MSG_LEN_BYTES)) fd h of
       Ran u h' \<Rightarrow> Ran () (update_input fd (\<lambda>_. []) h')
     | Exited h' \<Rightarrow> Exited (update_input fd (\<lambda>_. frame_message m) h') | Broken \<Rightarrow> Broken)"
proof -
  have "update_input fd (\<lambda>s. s @ frame_message m) h = update_input fd (\<lambda>_. frame_message m @ []) h"
    using assms(3) by (simp add: update_input_def)
  moreover have "drain hx fd (update_input fd (\<lambda>_. []) h') = Some (Ran () (update_input fd (\<lambda>_. []) h'))" for h'
    by (subst drain.simps) (simp add: whole_packet_def)
  ultimately show ?thesis
    unfolding receive_bytes_def
    using whole_packet_frame [OF m, of "[]"] take_frame [OF fresh m, of "[]" h]
    by (subst drain.simps) (simp split: run.split)
qed

section \<open>Properties\<close>

text \<open>
  C22: A node does what a client asks it. When the messages of a command reach an idle connection of
  the node from the same machine, and the node comes back from one of them, its enclave has executed the one call
  that the command and its arguments ask for, with these arguments, or the runtime has refused that
  call; a command without a call (\<open>present_settlement\<close>) leaves the enclave as it was. The client and
  the node lay out the messages independently of each other.\<close>

theorem node_does_what_the_client_asks:
  assumes "validate_and_execute_command co stack True args = Returns (Talks msgs w)" and "msg \<in> set msgs"
    and "\<And>hostname port. hx_connect hx hostname port \<noteq> Some fd"
    and "cn_islocalhost (connections h fd)" and "input_of h fd = []"
    and "receive_bytes hx fd (frame_message msg) h = Some (Ran () h')"
  shows "case asked_call hx co args of
      None \<Rightarrow> encl h' = encl h
    | Some c \<Rightarrow> if hx_call_fails hx c then encl h' = encl h
        else \<exists>r. run_ecall (hx_ext hx) c (encl h) = Returns (r, encl h')"
proof -
  have fresh: "fresh_sockets hx fd" using assms(3) by (simp add: fresh_sockets_def)
  have "command_of co stack (args ! 0) args = Returns (Talks msgs w)"
    using assms(1) by (auto simp: validate_and_execute_command_def split: list.splits if_splits)
  then have obeyed: "obeyed co args msg" using assms(2) by (rule commands_obeyed)
  then have "sendable msg" by (simp add: obeyed_def)
  from receive_one_message [OF fresh this assms(5)] assms(4,6) obtain n h1
    where run: "dispatch hx True (frame_message msg) n fd h = Ran () h1" and h': "encl h' = encl h1"
    by (auto simp: process_packet_def update_input_def split: run.splits)
  show ?thesis
    using obeyed run unfolding obeyed_def h' called_def by (auto split: option.splits)
qed

text \<open>A payment the channel does not allow, at the node: the enclave stays as it is.\<close>

definition refusal :: string where
  "refusal = frame_message (char_of OP_LOCAL_ACK # ''send request failed'')"

lemma refused_send_at_the_node:
  assumes "local_send co stack args = Returns (Talks [msg] w)"
    and "\<And>hostname port. hx_connect hx hostname port \<noteq> Some fd"
    and "cn_islocalhost (connections h fd)" and "input_of h fd = []" and "0 \<le> fd" and "hx_writable hx fd"
    and "om_get (hchannels h) (args ! 1) \<noteq> None"
    and "om_get (channelStates (encl h)) (args ! 1) = Some st"
    and "\<not> payment_allowed (string_to_long_long (args ! 2)) st"
    and "\<not> hx_call_fails hx (Send_Bitcoins (args ! 1) (string_to_long_long (args ! 2)))"
  shows "receive_bytes hx fd (frame_message msg) h = Some (Ran () (h\<lparr>wire := wire h @ [(fd, refusal)]\<rparr>))"
proof -
  let ?cid = "args ! 1" and ?amount = "string_to_long_long (args ! 2)"
  have fresh: "fresh_sockets hx fd" using assms(2) by (simp add: fresh_sockets_def)
  have cid: "length ?cid = CHANNEL_ID_LEN" and msg: "msg = channel_number_msg stack OP_LOCAL_SEND ?cid ?amount"
    using assms(1) by (auto simp: local_send_def argument_defs local_send_async_def split: if_splits)
  have known: "host_get_channel_state hx ?cid h = Ran (the (om_get (hchannels h) ?cid)) h"
    using assms(7) by (auto simp: host_get_channel_state_def)
  have "run_ecall (hx_ext hx) (Send_Bitcoins ?cid ?amount) (encl h) = Returns (code_reply REQUEST_FAILED, encl h)"
    using assms(8,9) by (auto simp: ecall_send_bitcoins_def get_channel_state_def payment_allowed_def
        check_status_def not_less)
  then have call: "host_call hx 0 MAX_ECALL_SEND_RETURN_LENGTH (Send_Bitcoins ?cid ?amount) h
      = Ran (Some (code_reply REQUEST_FAILED)) h"
    using assms(10) by (simp add: host_call_def outputs_fit_def code_reply_def)
  have "\<not> crashed (Some (code_reply REQUEST_FAILED))" "failed (Some (code_reply REQUEST_FAILED))"
    by (simp_all add: crashed_def failed_def code_reply_def REQUEST_FAILED_def REQUEST_CRASHED_def)
  then have "host_send hx msg fd h = Ran () (h\<lparr>wire := wire h @ [(fd, refusal)]\<rparr>)"
    using cid known [unfolded One_nat_def] call [unfolded One_nat_def] assms(5,6)
    by (simp add: host_send_def msg Let_def bindh_def send_ack_def send_on_socket_def refusal_def c_str_def)
  then have "process_packet hx (frame_message msg) n fd h = Ran () (h\<lparr>wire := wire h @ [(fd, refusal)]\<rparr>)" for n
    using assms(3) by (simp add: process_packet_def msg dispatch_number_command)
  moreover have "sendable msg"
    using length_channel_number_msg [OF cid] by (simp add: msg sendable_def MSG_LEN_BYTES_def)
  ultimately show ?thesis
    using receive_one_message [OF fresh _ assms(4)] assms(4) by (simp add: set_input_same)
qed

text \<open>
  C23: A refused payment reads as a sent one. When a channel does not allow the payment of a
  client's \<open>send\<close>, for want of balance, say, the node acknowledges the request with \<open>OP_LOCAL_ACK\<close>,
  and the client, however the answer is cut into pieces, tells its user that the payment has been
  sent. Nothing has been sent: the enclave and the rest of the node are as they were.\<close>

theorem refused_payment_reads_as_sent:
  assumes "validate_and_execute_command co stack True args = Returns (Talks [msg] w)"
    and "args ! 0 = ''send''" and "\<not> co_benchmark co"
    and "\<And>hostname port. hx_connect hx hostname port \<noteq> Some fd"
    and "cn_islocalhost (connections h fd)" and "input_of h fd = []" and "0 \<le> fd" and "hx_writable hx fd"
    and "om_get (hchannels h) (args ! 1) \<noteq> None"
    and "om_get (channelStates (encl h)) (args ! 1) = Some st"
    and "\<not> payment_allowed (string_to_long_long (args ! 2)) st"
    and "\<not> hx_call_fails hx (Send_Bitcoins (args ! 1) (string_to_long_long (args ! 2)))"
  shows "\<exists>answer. receive_bytes hx fd (frame_message msg) h
      = Some (Ran () (h\<lparr>wire := wire h @ [(fd, answer)]\<rparr>)) \<and>
    (\<forall>pieces. concat pieces = answer \<and> [] \<notin> set pieces \<longrightarrow>
       await stack w pieces = Returns ([''Your payment has been sent!''], []))"
proof -
  have send: "local_send co stack args = Returns (Talks [msg] w)"
    using assms(1,2) by (auto simp: validate_and_execute_command_def command_of_def split: list.splits if_splits)
  have "w = Payment_Answers False 1"
    using send assms(3) by (auto simp: local_send_def argument_defs split: if_splits)
  then have "await stack w pieces = Returns ([''Your payment has been sent!''], [])"
    if "concat pieces = refusal" "[] \<notin> set pieces" for pieces
    using read_one_answer [OF that(1) [unfolded refusal_def] that(2), of "int MAX_ECALL_SEND_RETURN_LENGTH"]
    by (simp add: wait_for_send_ack_def MAX_ECALL_SEND_RETURN_LENGTH_def OP_LOCAL_ACK_def MSG_LEN_BYTES_def
        frame_operation [unfolded MSG_LEN_BYTES_def])
  with refused_send_at_the_node [OF send assms(4-12)] show ?thesis by blast
qed

section \<open>Witnesses\<close>

text \<open>The demo node with a client on its own machine, who wants to send 500 out of a balance of 100.\<close>

definition demo_served :: host where
  "demo_served = demo_host\<lparr>connections := (\<lambda>_. zero_Connection)(7 := zero_Connection\<lparr>cn_islocalhost := True\<rparr>)\<rparr>"

definition demo_send :: "string list" where
  "demo_send = [''send'', demo_cid, ''500'']"

lemma demo_number: "string_to_long_long ''500'' = 500"
  by (simp add: string_to_long_long_def is_space_def is_digit_def digits_value_def char_digit_def clamp_u64_def)

lemma demo_send_message:
  "validate_and_execute_command default_options zeroed True demo_send
     = Returns (Talks [channel_number_msg zeroed OP_LOCAL_SEND demo_cid 500] (Payment_Answers False 1))"
  by (simp add: validate_and_execute_command_def command_of_def local_send_def usage_unless_def
      enough_arguments_for_command_def demo_send_def argument_defs argument_def demo_number length_demo_cid
      local_send_async_def default_options_def CHANNEL_ID_LEN_def)

lemma demo_served_simps [simp]:
  "encl demo_served = demo_enclave" "hchannels demo_served = [(demo_cid, demo_responder)]"
  "cn_islocalhost (connections demo_served 7)" "input_of demo_served 7 = []" "wire demo_served = []"
  by (simp_all add: demo_served_def zero_Connection_def)

lemma demo_refused:
  "receive_bytes demo_hx 7 (frame_message (channel_number_msg zeroed OP_LOCAL_SEND demo_cid 500)) demo_served
     = Some (Ran () (demo_served\<lparr>wire := [(7, refusal)]\<rparr>))"
  "\<not> payment_allowed 500 demo_channel" "hx_writable demo_hx fd"
proof -
  show refused: "\<not> payment_allowed 500 demo_channel" by (simp add: payment_allowed_def demo_state)
  show writable: "hx_writable demo_hx fd" for fd by (simp add: demo_hx_def)
  have "local_send default_options zeroed demo_send
      = Returns (Talks [channel_number_msg zeroed OP_LOCAL_SEND demo_cid 500] (Payment_Answers False 1))"
    using demo_send_message by (simp add: validate_and_execute_command_def command_of_def demo_send_def)
  from refused_send_at_the_node [OF this, of demo_hx 7 demo_served demo_channel]
  show "receive_bytes demo_hx 7 (frame_message (channel_number_msg zeroed OP_LOCAL_SEND demo_cid 500)) demo_served
     = Some (Ran () (demo_served\<lparr>wire := [(7, refusal)]\<rparr>))"
    using refused writable by (simp add: demo_send_def demo_number demo_state)
qed

theorem node_does_what_the_client_asks_witness:
  "\<exists>r. run_ecall (hx_ext demo_hx) (Send_Bitcoins demo_cid 500) demo_enclave = Returns (r, demo_enclave)"
  using node_does_what_the_client_asks [OF demo_send_message, of _ demo_hx 7 demo_served, OF _ _ _ _ demo_refused(1)]
  by (simp add: asked_call_def demo_send_def demo_number)

theorem refused_payment_reads_as_sent_witness:
  "receive_bytes demo_hx 7 (frame_message (channel_number_msg zeroed OP_LOCAL_SEND demo_cid 500)) demo_served
      = Some (Ran () (demo_served\<lparr>wire := [(7, refusal)]\<rparr>)) \<and>
   await zeroed (Payment_Answers False 1) [take 3 refusal, drop 3 refusal]
      = Returns ([''Your payment has been sent!''], [])"
proof -
  have "3 < length refusal" by (simp add: refusal_def MSG_LEN_BYTES_def)
  then have "[] \<notin> set [take 3 refusal, drop 3 refusal]" by auto
  moreover obtain answer where
    node: "receive_bytes demo_hx 7 (frame_message (channel_number_msg zeroed OP_LOCAL_SEND demo_cid 500)) demo_served
      = Some (Ran () (demo_served\<lparr>wire := [(7, answer)]\<rparr>))"
    and client: "\<And>pieces. concat pieces = answer \<Longrightarrow> [] \<notin> set pieces \<Longrightarrow>
      await zeroed (Payment_Answers False 1) pieces = Returns ([''Your payment has been sent!''], [])"
    using refused_payment_reads_as_sent [OF demo_send_message, of demo_hx 7 demo_served demo_channel]
      demo_refused(2,3) by (auto simp: demo_send_def demo_number demo_state default_options_def)
  moreover have "demo_served\<lparr>wire := [(7, answer)]\<rparr> = demo_served\<lparr>wire := [(7, refusal)]\<rparr>"
    using node demo_refused(1) by simp
  then have "wire (demo_served\<lparr>wire := [(7, answer)]\<rparr>) = wire (demo_served\<lparr>wire := [(7, refusal)]\<rparr>)"
    by (rule arg_cong)
  ultimately show ?thesis using client [of "[take 3 refusal, drop 3 refusal]"] by simp
qed

section \<open>Answers in pieces\<close>

text \<open>
  \<open>read_from_socket\<close> asks for eight bytes of the header whatever it has got: two acknowledgements,
  cut after the third byte, are read as one and a torn one.
\<close>

lemma ack_bytes: "frame_message [CHR 0x01] = [CHR 0x09, CHR 0x00, CHR 0x00, CHR 0x00, CHR 0x00, CHR 0x00,
    CHR 0x00, CHR 0x00, CHR 0x01]"
  by code_simp

theorem answers_in_pieces_run_together:
  defines "ack \<equiv> frame_message [CHR 0x01]"
  shows "await_payments True 2 [ack, ack] = Returns ([], [])"
    and "await_payments True 2 [take 3 ack, drop 3 ack @ ack] = Terminated"
  unfolding ack_def ack_bytes
  by (simp_all add: numeral_2_eq_2 wait_for_send_ack_def read_from_socket_def read_header.simps read_body.simps
      MSG_LEN_BYTES_def MAX_ECALL_SEND_RETURN_LENGTH_def OP_LOCAL_ACK_def)

text \<open>\<open>-r\<close> with a host and no port passes a null pointer to \<open>atoi\<close>.\<close>

lemma remote_host_without_port: "host_and_port ''node'' = Undefined"
  by (simp add: host_and_port_def next_token_def)

end
