(* ===== verification/Wallet.thy ===== *)
theory Wallet
  imports Std_Map Byte_Order
begin

text \<open>
  The wallet of an LN-TEE enclave (\<open>amd_sev/lntee\<close>: \<open>wallet.h\<close>, \<open>wallet.cpp\<close>, and the direct
  payments of \<open>enclave.cpp\<close>), with the hexadecimal text its messages and its account file are
  written in (\<open>eEVM/src/common.cpp\<close>). C++'s \<open>long\<close> is an \<open>int\<close> here (it stays between 0 and
  \<open>(n + 1) * 10^9\<close> where \<open>n\<close> counts the calls of \<open>set_balance\<close>, far from overflow), \<open>int\<close> and \<open>uint32_t\<close> are 32-bit words, read with
  \<open>sint\<close> and \<open>uint\<close>; \<open>Pubkey\<close> and \<open>Instance_id\<close> are the same 512-bit type.
\<close>

type_synonym pubkey = "512 word"

section \<open>Hexadecimal text\<close>

definition hex2int :: "char \<Rightarrow> nat" where
  "hex2int c =
     (let n = of_char c in
      if 48 \<le> n \<and> n \<le> 57 then n - 48
      else if 65 \<le> n \<and> n \<le> 70 then n - 65 + 10
      else if 97 \<le> n \<and> n \<le> 102 then n - 97 + 10
      else 255)"

definition hexmap :: "nat \<Rightarrow> char" where
  "hexmap i = ''0123456789abcdef'' ! i"

text \<open>The second \<open>from_hex\<close>, up to the terminating NUL or an odd digit; a byte is cut to 8 bits.\<close>

fun from_hex :: "string \<Rightarrow> string" where
  "from_hex (a # b # s) =
     (if a = CHR 0x00 \<or> b = CHR 0x00 then []
      else char_of ((hex2int a * 16 + hex2int b) mod 256) # from_hex s)"
| "from_hex s = []"

text \<open>The first \<open>from_hex\<close>: nothing for an odd length, and \<open>0x\<close> at the start is skipped.\<close>

definition from_hex_vector :: "string \<Rightarrow> string" where
  "from_hex_vector t =
     (let s = takeWhile (\<lambda>c. c \<noteq> CHR 0x00) t in
      if length s mod 2 \<noteq> 0 then []
      else from_hex (if take 2 s = ''0x'' then drop 2 s else s))"

fun to_hex :: "string \<Rightarrow> string" where
  "to_hex [] = []"
| "to_hex (c # s) = hexmap (of_char c div 16) # hexmap (of_char c mod 16) # to_hex s"

section \<open>The wallet\<close>

record wallet =
  account_balance :: "256 word"
  account_prikey :: string
  account_pubkey :: string
  valid_balance :: int
  lock_list :: "(pubkey, u32) omap"
  spent :: "(pubkey, u32) omap"
  receive :: "(pubkey, u32) omap"

text \<open>The constructor: a fresh account, all zero, and the valid balance of the class.\<close>

definition initial_wallet :: wallet where
  "initial_wallet = \<lparr>account_balance = 0, account_prikey = replicate 32 (CHR 0x00),
     account_pubkey = replicate 64 (CHR 0x00), valid_balance = 1000000000,
     lock_list = [], spent = [], receive = []\<rparr>"

text \<open>The argument of \<open>set_balance\<close> is not used.\<close>

definition set_balance :: "int \<Rightarrow> wallet \<Rightarrow> wallet" where
  "set_balance bal w = w\<lparr>valid_balance := 1000000000\<rparr>"

text \<open>\<open>find\<close>, then \<open>+=\<close> or \<open>insert\<close>: the update that all operations share.\<close>

definition add_entry :: "pubkey \<Rightarrow> u32 \<Rightarrow> (pubkey, u32) omap \<Rightarrow> (pubkey, u32) omap" where
  "add_entry k a m = (case om_get m k of Some b \<Rightarrow> om_put k (b + a) m | None \<Rightarrow> om_put k a m)"

definition sum_entries :: "(pubkey, u32) omap \<Rightarrow> u32" where
  "sum_entries m = foldl (\<lambda>s p. s + snd p) 0 m"

definition get_balance :: "wallet \<Rightarrow> int" where
  "get_balance w =
     (if account_balance w - ucast (sum_entries (lock_list w)) - ucast (sum_entries (spent w))
         = ucast (word_of_int (valid_balance w) :: u64)
      then valid_balance w else -1)"

definition initialize_state :: "256 word list \<Rightarrow> 256 word \<Rightarrow> u32 \<Rightarrow> wallet \<Rightarrow> wallet" where
  "initialize_state tx_list amt block_height w = w"

definition in_cache :: "string \<Rightarrow> wallet \<Rightarrow> bool" where
  "in_cache addr w = False"

definition direct_receive :: "pubkey \<Rightarrow> u32 \<Rightarrow> wallet \<Rightarrow> bool \<times> wallet" where
  "direct_receive k amt w =
     (if sint amt \<le> 0 then (False, w)
      else (True, w\<lparr>receive := add_entry k amt (receive w)\<rparr>))"

definition lock_credit :: "pubkey \<Rightarrow> u32 \<Rightarrow> wallet \<Rightarrow> bool \<times> wallet" where
  "lock_credit k amt w =
     (if valid_balance w < uint amt \<or> amt = 0 then (False, w)
      else (True, w\<lparr>valid_balance := valid_balance w - uint amt,
                    lock_list := add_entry k amt (lock_list w)\<rparr>))"

definition direct_send :: "pubkey \<Rightarrow> u32 \<Rightarrow> wallet \<Rightarrow> bool \<times> wallet" where
  "direct_send k amt w =
     (if valid_balance w < sint amt \<or> sint amt \<le> 0 then (False, w)
      else (True, w\<lparr>valid_balance := valid_balance w - sint amt,
                    spent := add_entry k amt (spent w)\<rparr>))"

definition end_contract_instance :: "pubkey \<Rightarrow> u32 \<Rightarrow> wallet \<Rightarrow> bool \<times> wallet" where
  "end_contract_instance k amt w =
     (case om_get (lock_list w) k of
        None \<Rightarrow> (False, w)
      | Some locked \<Rightarrow>
          let w' = (if locked \<le> amt
                    then w\<lparr>receive := add_entry k (amt - locked) (receive w),
                           valid_balance := valid_balance w + uint locked\<rparr>
                    else snd (direct_send k (locked - amt)
                           (w\<lparr>valid_balance := valid_balance w + uint amt\<rparr>)))
          in (True, w'\<lparr>lock_list := om_del k (lock_list w')\<rparr>))"

section \<open>The account file\<close>

definition persist_account :: "wallet \<Rightarrow> string" where
  "persist_account w = to_hex (account_prikey w) @ [CHR 0x0A]"

text \<open>\<open>stream >> seed\<close>: blanks are skipped, then everything up to the next blank is read.\<close>

definition is_blank :: "char \<Rightarrow> bool" where
  "is_blank c \<longleftrightarrow> c \<in> set [CHR '' '', CHR 0x09, CHR 0x0A, CHR 0x0B, CHR 0x0C, CHR 0x0D]"

definition read_token :: "string \<Rightarrow> string" where
  "read_token s = takeWhile (\<lambda>c. \<not> is_blank c) (dropWhile is_blank s)"

text \<open>
  \<open>good()\<close> is asked before \<open>open\<close>, so it always holds: a missing file (None) reads as an empty
  seed. The key is overwritten in place; a seed of more than 32 bytes runs past it.
\<close>

definition recover_account :: "string option \<Rightarrow> wallet \<Rightarrow> (string \<times> wallet) outcome" where
  "recover_account file w =
     (let seed = (case file of None \<Rightarrow> [] | Some s \<Rightarrow> read_token s) in
      bindo (blit 0 (from_hex seed) (account_prikey w)) (\<lambda>key.
      Returns (seed, w\<lparr>account_prikey := key\<rparr>)))"

section \<open>Direct payments\<close>

text \<open>
  \<open>junk_key\<close> and \<open>junk\<close> are the uninitialised local buffers, of 64 and 80 bytes. The amount that
  is debited is the constant 100, whatever the argument.
  The transaction that is sent: 80 bytes, the amount in the first four, the sender's key in the
  last 64; the bytes between are those of the uninitialised buffer.
\<close>

definition direct_send_tx :: "string \<Rightarrow> u32 \<Rightarrow> wallet \<Rightarrow> string" where
  "direct_send_tx junk amt w = bytes_le 4 (unat amt) @ take 12 (drop 4 junk) @ take 64 (account_pubkey w)"

definition ecall_lntee_direct_send ::
  "string \<Rightarrow> string \<Rightarrow> string \<Rightarrow> u32 \<Rightarrow> wallet \<Rightarrow> (string option \<times> wallet) outcome" where
  "ecall_lntee_direct_send junk_key junk key_text amt w =
     bindo (blit 0 (from_hex key_text) junk_key) (\<lambda>py.
     case direct_send (of_nat (le_value py)) 100 w of
       (True, w') \<Rightarrow> Returns (Some (to_hex (direct_send_tx junk amt w')), w')
     | (False, w') \<Rightarrow> Returns (None, w'))"

definition ecall_lntee_direct_recv :: "string \<Rightarrow> wallet \<Rightarrow> (int \<times> wallet) outcome" where
  "ecall_lntee_direct_recv tx w =
     bindo (memcpy_str tx 80) (\<lambda>b.
     case direct_receive (of_nat (le_value (drop 16 b))) (of_nat (le_value (take 4 b))) w of
       (True, w') \<Rightarrow> Returns (0, w')
     | (False, w') \<Rightarrow> Returns (-1, w'))"

section \<open>Hexadecimal text and bytes\<close>

lemma hex2int_hexmap: "i < 16 \<Longrightarrow> hex2int (hexmap i) = i \<and> hexmap i \<noteq> CHR 0x00"
proof -
  have "\<forall>i \<in> set [0..<16]. hex2int (hexmap i) = i \<and> hexmap i \<noteq> CHR 0x00"
    by code_simp
  moreover assume "i < 16"
  ultimately show ?thesis by auto
qed

lemma from_hex_to_hex: "from_hex (to_hex s) = s"
proof (induction s)
  case (Cons c s)
  have b: "(of_char c :: nat) div 16 < 16" "(of_char c :: nat) mod 16 < 16"
    using of_char_less [of c] by (simp_all add: less_mult_imp_div_less)
  have "(of_char c :: nat) div 16 * 16 + of_char c mod 16 = of_char c" by simp
  with Cons b show ?case by (simp add: hex2int_hexmap of_char_less)
qed simp

lemma length_to_hex [simp]: "length (to_hex s) = 2 * length s"
  by (induction s) simp_all

section \<open>The books\<close>

text \<open>What a table of credits holds, as a number, and what the wallet holds in all.\<close>

definition credits :: "(pubkey, u32) omap \<Rightarrow> int" where
  "credits m = (\<Sum>p\<leftarrow>m. uint (snd p))"

definition held :: "wallet \<Rightarrow> int" where
  "held w = valid_balance w + credits (lock_list w) + credits (spent w)"

definition credit_at :: "(pubkey, u32) omap \<Rightarrow> pubkey \<Rightarrow> u32" where
  "credit_at m k = (case om_get m k of None \<Rightarrow> 0 | Some v \<Rightarrow> v)"

definition wallet_inv :: "wallet \<Rightarrow> bool" where
  "wallet_inv w \<longleftrightarrow> 0 \<le> valid_balance w \<and> held w \<le> 1000000000
     \<and> om_ok (lock_list w) \<and> om_ok (spent w) \<and> om_ok (receive w)"

lemma credits_simps [simp]: "credits [] = 0" "credits (p # m) = uint (snd p) + credits m"
  by (simp_all add: credits_def)

lemma credits_nonneg: "0 \<le> credits m"
  by (induction m) simp_all

lemma credits_put: "om_ok m \<Longrightarrow> credits (om_put k v m) = credits m - uint (credit_at m k) + uint v"
proof (induction k v m rule: om_put.induct)
  case (1 k v)
  then show ?case by (simp add: credit_at_def)
next
  case (2 k v a b m)
  show ?case
  proof (cases "k < a")
    case True
    then show ?thesis using om_get_below [OF "2.prems"] by (simp add: credit_at_def)
  next
    case False
    note rest = "2.IH" [OF False _ om_ok_ConsD(1) [OF "2.prems"]]
    show ?thesis
    proof (cases "k = a")
      case True
      then show ?thesis by (simp add: credit_at_def)
    next
      case other: False
      with False rest show ?thesis by (simp add: credit_at_def)
    qed
  qed
qed

lemma credits_del: "om_ok m \<Longrightarrow> credits (om_del k m) = credits m - uint (credit_at m k)"
proof (induction m)
  case (Cons p m)
  obtain a b where p: "p = (a, b)" by (cases p)
  note rest = Cons.IH [OF om_ok_ConsD(1) [OF Cons.prems]]
  show ?case
  proof (cases "a = k")
    case True
    then have "om_get m k = None" using om_ok_ConsD(2) [of a b m] Cons.prems p by simp
    with rest True p show ?thesis by (simp add: credit_at_def om_del_def)
  next
    case False
    with rest p show ?thesis by (simp add: credit_at_def om_del_def)
  qed
qed (simp add: om_del_def credit_at_def)

lemma credit_le_credits: "om_ok m \<Longrightarrow> uint (credit_at m k) \<le> credits m"
  using credits_del [of m k] credits_nonneg [of "om_del k m"] by simp

lemma om_ok_add_entry [simp]: "om_ok m \<Longrightarrow> om_ok (add_entry k a m)"
  by (simp add: add_entry_def split: option.split)

lemma credit_add_entry [simp]:
  "credit_at (add_entry k a m) k' = (if k' = k then credit_at m k + a else credit_at m k')"
  by (simp add: add_entry_def credit_at_def split: option.split)

lemma credits_add_entry:
  assumes "om_ok m" and "credits m + uint a < 2 ^ 32"
  shows "credits (add_entry k a m) = credits m + uint a"
proof -
  have "uint (credit_at m k + a) = uint (credit_at m k) + uint a"
    using assms(2) credit_le_credits [OF assms(1), of k] by (simp add: uint_word_ariths)
  moreover have "add_entry k a m = om_put k (credit_at m k + a) m"
    by (simp add: add_entry_def credit_at_def split: option.split)
  ultimately show ?thesis using credits_put [OF assms(1)] by simp
qed

section \<open>What the operations do to the books\<close>

lemma sint_positive: "0 < sint (a :: u32) \<Longrightarrow> sint a = uint a"
proof -
  assume "0 < sint a"
  moreover have "sint a < 2 ^ 32" using sint_lt [of a] by simp
  ultimately show ?thesis by (simp add: uint_sint [of a] take_bit_int_eq_self)
qed

lemma sint_small: "uint (a :: u32) < 2 ^ 31 \<Longrightarrow> sint a = uint a"
proof -
  have "- (2 ^ 31) \<le> uint a" by (rule order_trans [OF _ uint_ge_0]) simp
  moreover assume "uint a < 2 ^ 31"
  ultimately show ?thesis using signed_take_bit_int_eq_self [of 31 "uint a"] by (simp add: sint_uint)
qed

lemma uint_word_of_int_small: "0 \<le> h \<Longrightarrow> h < 2 ^ 256 \<Longrightarrow> uint (word_of_int h :: 256 word) = h"
  by (simp add: uint_word_of_int)

lemma wallet_bounds:
  assumes "wallet_inv w"
  shows "credits (lock_list w) + valid_balance w < 2 ^ 32" "credits (spent w) + valid_balance w < 2 ^ 32"
  using assms credits_nonneg [of "lock_list w"] credits_nonneg [of "spent w"]
  by (simp_all add: wallet_inv_def held_def)

lemma lock_credit_books:
  assumes "lock_credit k amt w = (r, w')" and "wallet_inv w"
  shows "wallet_inv w' \<and> held w' = held w"
proof (cases "valid_balance w < uint amt \<or> amt = 0")
  case True
  with assms show ?thesis by (auto simp: lock_credit_def)
next
  case False
  then have "credits (add_entry k amt (lock_list w)) = credits (lock_list w) + uint amt"
    using wallet_bounds [OF assms(2)] assms(2) by (intro credits_add_entry) (auto simp: wallet_inv_def)
  with False assms show ?thesis by (auto simp: lock_credit_def wallet_inv_def held_def)
qed

lemma direct_send_books:
  assumes "direct_send k amt w = (r, w')" and "wallet_inv w"
  shows "wallet_inv w' \<and> held w' = held w \<and> lock_list w' = lock_list w \<and> receive w' = receive w"
proof (cases "valid_balance w < sint amt \<or> sint amt \<le> 0")
  case True
  with assms show ?thesis by (auto simp: direct_send_def)
next
  case False
  then have u: "sint amt = uint amt" by (intro sint_positive) simp
  with False have "credits (add_entry k amt (spent w)) = credits (spent w) + uint amt"
    using wallet_bounds [OF assms(2)] assms(2) by (intro credits_add_entry) (auto simp: wallet_inv_def)
  with False u assms show ?thesis by (auto simp: direct_send_def wallet_inv_def held_def)
qed

lemma direct_receive_books:
  assumes "direct_receive k amt w = (r, w')" and "wallet_inv w"
  shows "wallet_inv w' \<and> held w' = held w"
  using assms by (auto simp: direct_receive_def wallet_inv_def held_def split: if_splits)

text \<open>The loss of a contract instance that gives back less than was locked.\<close>

definition contract_loss :: "pubkey \<Rightarrow> u32 \<Rightarrow> wallet \<Rightarrow> int" where
  "contract_loss k amt w = max 0 (uint (credit_at (lock_list w) k) - uint amt)"

lemma end_contract_books:
  assumes "end_contract_instance k amt w = (True, w')" and "wallet_inv w"
  shows "wallet_inv w' \<and> held w' = held w - contract_loss k amt w \<and> om_get (lock_list w') k = None"
proof -
  obtain locked where l: "om_get (lock_list w) k = Some locked"
    using assms(1) by (auto simp: end_contract_instance_def split: option.splits)
  then have at: "credit_at (lock_list w) k = locked" by (simp add: credit_at_def)
  have le: "uint locked \<le> credits (lock_list w)" and ok: "om_ok (lock_list w)"
    using credit_le_credits [of "lock_list w" k] assms(2) at by (simp_all add: wallet_inv_def)
  have del: "credits (om_del k (lock_list w)) = credits (lock_list w) - uint locked"
    using credits_del [OF ok, of k] at by simp
  show ?thesis
  proof (cases "locked \<le> amt")
    case True
    then have "w' = w\<lparr>receive := add_entry k (amt - locked) (receive w),
        valid_balance := valid_balance w + uint locked, lock_list := om_del k (lock_list w)\<rparr>"
      using assms(1) l by (simp add: end_contract_instance_def)
    then show ?thesis
      using True assms(2) del at
      by (simp add: wallet_inv_def held_def contract_loss_def word_le_def)
  next
    case False
    then have less: "uint amt < uint locked" by (simp add: word_le_def)
    let ?w1 = "w\<lparr>valid_balance := valid_balance w + uint amt, lock_list := om_del k (lock_list w)\<rparr>"
    have inv1: "wallet_inv ?w1"
      using assms(2) del less by (simp add: wallet_inv_def held_def)
    have swap: "(snd (direct_send k a v))\<lparr>lock_list := om_del k (lock_list (snd (direct_send k a v)))\<rparr>
        = snd (direct_send k a (v\<lparr>lock_list := om_del k (lock_list v)\<rparr>))" for a v
      by (simp add: direct_send_def)
    have "w' = snd (direct_send k (locked - amt) ?w1)"
      using assms(1) l False
        swap [of "locked - amt" "w\<lparr>valid_balance := valid_balance w + uint amt\<rparr>"]
      by (simp add: end_contract_instance_def)
    then obtain r where "direct_send k (locked - amt) ?w1 = (r, w')" by (metis prod.collapse)
    from direct_send_books [OF this inv1] show ?thesis
      using del less at by (auto simp: held_def contract_loss_def)
  qed
qed

section \<open>The wallet as a system\<close>

text \<open>
  The operations that keep the books, in any order and with any arguments: all that change the
  wallet but \<open>set_balance\<close>, which the header calls \<open>for test only\<close>.
\<close>

inductive wallet_step :: "wallet \<Rightarrow> wallet \<Rightarrow> bool" where
  lock: "lock_credit k amt w = (r, w') \<Longrightarrow> wallet_step w w'"
| send: "direct_send k amt w = (r, w') \<Longrightarrow> wallet_step w w'"
| recv: "direct_receive k amt w = (r, w') \<Longrightarrow> wallet_step w w'"
| ending: "end_contract_instance k amt w = (r, w') \<Longrightarrow> wallet_step w w'"

lemma end_contract_refused: "end_contract_instance k amt w = (False, w') \<Longrightarrow> w' = w"
  by (auto simp: end_contract_instance_def Let_def split: option.splits)

lemma wallet_step_inv: "wallet_step w w' \<Longrightarrow> wallet_inv w \<Longrightarrow> wallet_inv w' \<and> held w' \<le> held w"
proof (induction rule: wallet_step.induct)
  case (ending k amt w r w')
  then show ?case
  proof (cases r)
    case True
    with ending end_contract_books [of k amt w w'] show ?thesis by (simp add: contract_loss_def)
  next
    case False
    with ending end_contract_refused [of k amt w w'] show ?thesis by simp
  qed
qed (auto dest: lock_credit_books direct_send_books direct_receive_books)

interpretation wallets: invariant_system "\<lambda>w. w = initial_wallet" wallet_step wallet_inv
proof unfold_locales
  show "wallet_inv s" if "s = initial_wallet" for s
    using that by (simp add: wallet_inv_def held_def initial_wallet_def)
  show "wallet_inv t" if "wallet_inv s" "wallet_step s t" for s t
    using wallet_step_inv [OF that(2,1)] by simp
qed

interpretation books: monotone_system "\<lambda>w w'. wallet_inv w \<and> wallet_step w w'" "\<lambda>w w'. held w' \<le> held w"
  by unfold_locales (auto dest: wallet_step_inv)

text \<open>
  All operations, with the number of calls of \<open>set_balance\<close> on the way. Such a call resets the valid
  balance whatever has been spent, so the tables grow past the initial balance and their 32-bit
  entries may wrap around; they only lose by it.
\<close>

inductive wallet_run :: "nat \<Rightarrow> wallet \<Rightarrow> bool" where
  start: "wallet_run 0 initial_wallet"
| op: "wallet_run n w \<Longrightarrow> wallet_step w w' \<Longrightarrow> wallet_run n w'"
| reset: "wallet_run n w \<Longrightarrow> wallet_run (Suc n) (set_balance bal w)"

definition wallet_sane :: "wallet \<Rightarrow> bool" where
  "wallet_sane w \<longleftrightarrow> 0 \<le> valid_balance w
     \<and> om_ok (lock_list w) \<and> om_ok (spent w) \<and> om_ok (receive w)"

lemma credits_add_entry_le:
  assumes "om_ok m"
  shows "credits (add_entry k a m) \<le> credits m + uint a"
proof -
  have "add_entry k a m = om_put k (credit_at m k + a) m"
    by (simp add: add_entry_def credit_at_def split: option.split)
  then show ?thesis using credits_put [OF assms] uint_add_le [of "credit_at m k" a] by simp
qed

lemma direct_send_sane:
  assumes "direct_send k amt w = (r, w')" and "wallet_sane w"
  shows "wallet_sane w' \<and> held w' \<le> held w \<and> lock_list w' = lock_list w"
proof (cases "valid_balance w < sint amt \<or> sint amt \<le> 0")
  case True
  with assms show ?thesis by (auto simp: direct_send_def)
next
  case False
  then have "sint amt = uint amt" by (intro sint_positive) simp
  with False assms credits_add_entry_le [of "spent w" k amt] show ?thesis
    by (auto simp: direct_send_def wallet_sane_def held_def)
qed

lemma end_contract_sane:
  assumes "end_contract_instance k amt w = (r, w')" and "wallet_sane w"
  shows "wallet_sane w' \<and> held w' \<le> held w"
proof (cases "om_get (lock_list w) k")
  case None
  with assms show ?thesis by (simp add: end_contract_instance_def)
next
  case (Some locked)
  have del: "credits (om_del k (lock_list w)) = credits (lock_list w) - uint locked"
    using credits_del [of "lock_list w" k] assms(2) Some by (simp add: wallet_sane_def credit_at_def)
  show ?thesis
  proof (cases "locked \<le> amt")
    case True
    with assms Some del show ?thesis
      by (auto simp: end_contract_instance_def wallet_sane_def held_def)
  next
    case False
    let ?w1 = "w\<lparr>valid_balance := valid_balance w + uint amt\<rparr>"
    obtain b w2 where send: "direct_send k (locked - amt) ?w1 = (b, w2)" by fastforce
    have "wallet_sane ?w1" using assms(2) by (simp add: wallet_sane_def)
    from direct_send_sane [OF send this] have w2: "wallet_sane w2" "held w2 \<le> held w + uint amt"
        "lock_list w2 = lock_list w"
      by (auto simp: held_def)
    have "w' = w2\<lparr>lock_list := om_del k (lock_list w2)\<rparr>"
      using assms(1) Some False send by (simp add: end_contract_instance_def)
    moreover have "uint amt \<le> uint locked" using False by (simp add: word_le_def)
    ultimately show ?thesis using w2 del by (auto simp: wallet_sane_def held_def)
  qed
qed

lemma wallet_step_sane: "wallet_step w w' \<Longrightarrow> wallet_sane w \<Longrightarrow> wallet_sane w' \<and> held w' \<le> held w"
proof (induction rule: wallet_step.induct)
  case (lock k amt w r w')
  then show ?case
    using credits_add_entry_le [of "lock_list w" k amt]
    by (auto simp: lock_credit_def wallet_sane_def held_def split: if_splits)
next
  case (send k amt w r w')
  then show ?case using direct_send_sane by blast
next
  case (recv k amt w r w')
  then show ?case by (auto simp: direct_receive_def wallet_sane_def held_def split: if_splits)
next
  case (ending k amt w r w')
  then show ?case using end_contract_sane by blast
qed

lemma wallet_run_sane: "wallet_run n w \<Longrightarrow> wallet_sane w \<and> held w \<le> (int n + 1) * 1000000000"
proof (induction rule: wallet_run.induct)
  case start
  then show ?case by (simp add: wallet_sane_def held_def initial_wallet_def)
next
  case (op n w w')
  then show ?case using wallet_step_sane [of w w'] by linarith
next
  case (reset n w bal)
  then show ?case by (auto simp: wallet_sane_def held_def set_balance_def algebra_simps)
qed

lemma wallet_run_books: "wallet_run n w \<Longrightarrow> n = 0 \<Longrightarrow> wallet_step\<^sup>*\<^sup>* initial_wallet w"
  by (induction rule: wallet_run.induct) (auto intro: rtranclp.rtrancl_into_rtrancl)

lemma sum_entries_credits:
  assumes "credits m < 2 ^ 32"
  shows "uint (sum_entries m) = credits m"
proof -
  have "uint s + credits m < 2 ^ 32 \<Longrightarrow> uint (foldl (\<lambda>s p. s + snd p) s m) = uint s + credits m" for s :: u32
  proof (induction m arbitrary: s)
    case (Cons p m)
    have "uint (s + snd p) = uint s + uint (snd p)"
      using Cons.prems credits_nonneg [of m] by (simp add: uint_word_ariths)
    with Cons show ?case by simp
  qed simp
  from this [of 0] assms show ?thesis by (simp add: sum_entries_def)
qed

end
