(* ===== verification/Wallet_Properties.thy ===== *)
theory Wallet_Properties
  imports Wallet
begin

text \<open>
  What makes the wallet of an LN-TEE enclave correct, where it loses money, and that what is
  written as hexadecimal text is read back. Examples: \<open>demo_instance\<close> is the number 7.
\<close>

abbreviation demo_instance :: pubkey where
  "demo_instance \<equiv> 7"

text \<open>The wallet after locking 5 under the key.\<close>

definition demo_locked :: wallet where
  "demo_locked = initial_wallet\<lparr>valid_balance := 999999995, lock_list := [(demo_instance, 5)]\<rparr>"

lemma demo_lock: "lock_credit demo_instance 5 initial_wallet = (True, demo_locked)"
  by (simp add: lock_credit_def initial_wallet_def demo_locked_def add_entry_def)

lemma demo_lock_step: "wallet_step\<^sup>*\<^sup>* initial_wallet demo_locked"
  using wallet_step.lock [OF demo_lock] by blast

section \<open>The books\<close>

text \<open>
  C14: whatever public operations of the wallet are called, in any order and with any arguments,
  the balance never goes below 0, and what is valid, locked and spent together never exceeds what
  the wallet was given: the initial balance, and once more with every call of \<open>set_balance\<close> (the
  operation \<open>for test only\<close>, which resets the balance whatever has been spent). As long as
  \<open>set_balance\<close> is not called, the wallet never spends or locks more than the initial balance, and
  no 32-bit table entry wraps around.\<close>

theorem wallet_never_overdraws:
  assumes "wallet_run n w"
  shows "0 \<le> valid_balance w
    \<and> valid_balance w + credits (lock_list w) + credits (spent w)
        \<le> (int n + 1) * valid_balance initial_wallet
    \<and> (n = 0 \<longrightarrow> valid_balance w \<le> valid_balance initial_wallet
        \<and> (\<forall>k. uint (credit_at (lock_list w) k) + uint (credit_at (spent w) k) \<le> 1000000000))"
proof -
  have sane: "wallet_sane w" "held w \<le> (int n + 1) * 1000000000"
    using wallet_run_sane [OF assms] by simp_all
  have "uint (credit_at (lock_list w) k) \<le> credits (lock_list w)"
      "uint (credit_at (spent w) k) \<le> credits (spent w)" for k
    using sane(1) credit_le_credits by (auto simp: wallet_sane_def)
  then have "uint (credit_at (lock_list w) k) + uint (credit_at (spent w) k)
      \<le> credits (lock_list w) + credits (spent w)" for k
    by (simp add: add_mono)
  moreover have "credits (lock_list w) + credits (spent w) \<le> 1000000000" if "n = 0"
    using sane that by (simp add: wallet_sane_def held_def)
  ultimately have "uint (credit_at (lock_list w) k) + uint (credit_at (spent w) k) \<le> 1000000000"
    if "n = 0" for k
    using that order_trans by blast
  then show ?thesis
    using sane credits_nonneg [of "lock_list w"] credits_nonneg [of "spent w"]
    by (auto simp: wallet_sane_def held_def initial_wallet_def)
qed

theorem wallet_never_overdraws_witness:
  "valid_balance demo_locked + credits (lock_list demo_locked) + credits (spent demo_locked)
     \<le> valid_balance initial_wallet
   \<and> valid_balance (set_balance 0 demo_locked) + credits (lock_list (set_balance 0 demo_locked))
     \<le> 2 * valid_balance initial_wallet"
proof -
  have run: "wallet_run 0 demo_locked"
    using wallet_run.op [OF wallet_run.start wallet_step.lock [OF demo_lock]] .
  from wallet_never_overdraws [OF run] wallet_never_overdraws [OF wallet_run.reset [OF run, of 0]]
  show ?thesis by (auto simp: set_balance_def demo_locked_def initial_wallet_def)
qed

text \<open>
  what a contract instance loses is lost twice: when it ends with less than was locked, the
  balance gets back what was returned, and then the difference is deducted from the balance
  although it was deducted when it was locked; the books shrink by exactly the loss.\<close>

theorem contract_loss_is_deducted_twice:
  assumes "wallet_step\<^sup>*\<^sup>* initial_wallet w" and "om_get (lock_list w) k = Some locked"
    and "amt < locked" and "uint locked - uint amt \<le> valid_balance w + uint amt"
    and "end_contract_instance k amt w = (r, w')"
  shows "valid_balance w' = valid_balance w + uint amt - (uint locked - uint amt)
    \<and> held w' = held w - (uint locked - uint amt)
    \<and> spent w' = add_entry k (locked - amt) (spent w)"
proof -
  have inv: "wallet_inv w" by (rule wallets.inv_reachable [OF refl assms(1)])
  have at: "credit_at (lock_list w) k = locked" using assms(2) by (simp add: credit_at_def)
  have less: "uint amt < uint locked" using assms(3) by (simp add: word_less_def)
  have small: "uint locked \<le> 1000000000"
    using credit_le_credits [of "lock_list w" k] at inv credits_nonneg [of "spent w"]
    by (simp add: wallet_inv_def held_def)
  have d: "uint (locked - amt) = uint locked - uint amt"
    using less uint_sub_lem [of amt locked] by simp
  have "uint (locked - amt) \<le> 1000000000"
    unfolding d by (rule order_trans [OF _ small]) simp
  then have s: "sint (locked - amt) = uint locked - uint amt"
    using sint_small [of "locked - amt"] d by simp
  have r: "r" using assms(2,5) by (auto simp: end_contract_instance_def Let_def)
  have "direct_send k (locked - amt) (w\<lparr>valid_balance := valid_balance w + uint amt\<rparr>)
      = (True, w\<lparr>valid_balance := valid_balance w + uint amt - (uint locked - uint amt),
           spent := add_entry k (locked - amt) (spent w)\<rparr>)"
    using assms(4) less s by (simp add: direct_send_def)
  moreover have "\<not> locked \<le> amt" using assms(3) by simp
  ultimately have "valid_balance w' = valid_balance w + uint amt - (uint locked - uint amt)"
      "spent w' = add_entry k (locked - amt) (spent w)"
    using assms(2,5) by (auto simp: end_contract_instance_def Let_def)
  moreover have "held w' = held w - (uint locked - uint amt)"
    using end_contract_books [OF _ inv, of k amt w'] assms(5) r at less by (simp add: contract_loss_def)
  ultimately show ?thesis by simp
qed

theorem contract_loss_is_deducted_twice_witness:
  "valid_balance (snd (end_contract_instance demo_instance 2 demo_locked)) = 999999994"
proof -
  obtain r w' where run: "end_contract_instance demo_instance 2 demo_locked = (r, w')" by (cases "end_contract_instance demo_instance 2 demo_locked")
  have "om_get (lock_list demo_locked) demo_instance = Some 5" by (simp add: demo_locked_def)
  from contract_loss_is_deducted_twice [OF demo_lock_step this _ _ run] run show ?thesis
    by (simp add: demo_locked_def)
qed

text \<open>a contract instance that gives back at least what was locked costs nothing: the balance and
  the table of locked credits are what they were before the lock, what was spent is unchanged,
  and the gain is credited as received.\<close>

theorem full_return_restores_the_balance:
  assumes "lock_credit k amt w = (True, w1)" and "om_get (lock_list w) k = None" and "amt \<le> amt'"
  shows "\<exists>w2. end_contract_instance k amt' w1 = (True, w2)
    \<and> valid_balance w2 = valid_balance w \<and> spent w2 = spent w
    \<and> (\<forall>k'. om_get (lock_list w2) k' = om_get (lock_list w) k')
    \<and> receive w2 = add_entry k (amt' - amt) (receive w)"
proof -
  have w1: "w1 = w\<lparr>valid_balance := valid_balance w - uint amt, lock_list := om_put k amt (lock_list w)\<rparr>"
    using assms(1,2) by (simp add: lock_credit_def add_entry_def split: if_splits)
  have "om_get (om_del k (om_put k amt (lock_list w))) k' = om_get (lock_list w) k'" for k'
    by (rule om.del_put_fresh [OF assms(2)])
  then show ?thesis using assms(3) by (simp add: w1 end_contract_instance_def Let_def)
qed

theorem full_return_restores_the_balance_witness:
  "\<exists>w2. end_contract_instance demo_instance 8 demo_locked = (True, w2) \<and> valid_balance w2 = 1000000000
     \<and> receive w2 = add_entry demo_instance 3 []"
  using full_return_restores_the_balance [OF demo_lock, of 8] by (auto simp: initial_wallet_def)

text \<open>the reported balance: \<open>get_balance\<close> answers the valid balance exactly when the balance of
  the account is what is valid, locked and spent together, and -1 otherwise.\<close>

theorem balance_is_reported_iff_the_books_agree:
  assumes "wallet_step\<^sup>*\<^sup>* initial_wallet w"
  shows "get_balance w = (if uint (account_balance w) = held w then valid_balance w else -1)"
proof -
  have inv: "wallet_inv w" by (rule wallets.inv_reachable [OF refl assms])
  let ?l = "credits (lock_list w)" and ?s = "credits (spent w)" and ?v = "valid_balance w"
  have b: "0 \<le> ?l" "0 \<le> ?s" "0 \<le> ?v" "?v + ?l + ?s \<le> 1000000000"
    using inv credits_nonneg by (auto simp: wallet_inv_def held_def)
  have ls: "uint (sum_entries (lock_list w)) = ?l" "uint (sum_entries (spent w)) = ?s"
    using b by (auto intro!: sum_entries_credits)
  have "ucast (sum_entries (lock_list w)) = (word_of_int ?l :: 256 word)"
      "ucast (sum_entries (spent w)) = (word_of_int ?s :: 256 word)"
    by (simp_all add: unsigned_word_eqI ls ucast_eq)
  moreover have "ucast (word_of_int ?v :: u64) = (word_of_int ?v :: 256 word)"
    using b by (simp add: ucast_eq take_bit_int_eq_self uint_word_of_int_eq)
  ultimately have "account_balance w - ucast (sum_entries (lock_list w)) - ucast (sum_entries (spent w))
      = ucast (word_of_int ?v :: u64)
    \<longleftrightarrow> account_balance w = word_of_int (?v + ?l + ?s)"
    by (auto simp: algebra_simps)
  moreover have "uint (word_of_int (?v + ?l + ?s) :: 256 word) = ?v + ?l + ?s"
    using b by (intro uint_word_of_int_small) simp_all
  then have "account_balance w = word_of_int (?v + ?l + ?s) \<longleftrightarrow> uint (account_balance w) = ?v + ?l + ?s"
    by (metis word_of_int_uint)
  ultimately show ?thesis by (simp add: get_balance_def held_def)
qed

theorem balance_is_reported_iff_the_books_agree_witness: "get_balance demo_locked = -1"
  using balance_is_reported_iff_the_books_agree [OF demo_lock_step]
  by (simp add: demo_locked_def initial_wallet_def held_def)

section \<open>Direct payments\<close>

text \<open>
  a direct payment debits 100 credits, whatever the amount: the amount asked for is written into
  the transaction, in front of the sender's key, but it is not what leaves the balance.\<close>

theorem direct_payment_debits_one_hundred:
  assumes "ecall_lntee_direct_send junk_key junk key_text amt w = Returns (Some msg, w')"
    and "length (account_pubkey w) = 64" and "length junk = 80"
  shows "valid_balance w' = valid_balance w - 100
    \<and> length (from_hex msg) = 80
    \<and> le_value (take 4 (from_hex msg)) = unat amt
    \<and> drop 16 (from_hex msg) = account_pubkey w"
proof -
  from assms(1) have msg: "msg = to_hex (direct_send_tx junk amt w')"
    and w': "valid_balance w' = valid_balance w - 100" "account_pubkey w' = account_pubkey w"
    by (auto simp: ecall_lntee_direct_send_def direct_send_def split: if_splits)
  have "from_hex msg = bytes_le 4 (unat amt) @ take 12 (drop 4 junk) @ account_pubkey w"
    using assms(2) w' by (simp add: msg from_hex_to_hex direct_send_tx_def)
  moreover have "unat amt < 256 ^ 4" using unsigned_less [of amt, where ?'a = nat] by simp
  ultimately show ?thesis using w' assms(2,3) by (simp add: le_value_bytes_le)
qed

lemma demo_direct_send:
  "\<exists>msg w'. ecall_lntee_direct_send (replicate 64 (CHR 0x00)) (replicate 80 (CHR 0x00)) ''07'' 5
     initial_wallet = Returns (Some msg, w')"
  by (simp add: ecall_lntee_direct_send_def blit_def direct_send_def initial_wallet_def)

theorem direct_payment_debits_one_hundred_witness:
  "\<exists>msg w'. ecall_lntee_direct_send (replicate 64 (CHR 0x00)) (replicate 80 (CHR 0x00)) ''07'' 5
       initial_wallet = Returns (Some msg, w')
     \<and> valid_balance w' = 999999900 \<and> le_value (take 4 (from_hex msg)) = 5"
proof -
  obtain msg w' where run: "ecall_lntee_direct_send (replicate 64 (CHR 0x00)) (replicate 80 (CHR 0x00))
      ''07'' 5 initial_wallet = Returns (Some msg, w')"
    using demo_direct_send by blast
  from direct_payment_debits_one_hundred [OF run] run show ?thesis
    by (simp add: initial_wallet_def)
qed

lemma hexmap_range: "i < 16 \<Longrightarrow> 48 \<le> (of_char (hexmap i) :: nat) \<and> (of_char (hexmap i) :: nat) \<le> 102"
proof -
  have "\<forall>i \<in> set [0..<16]. 48 \<le> (of_char (hexmap i) :: nat) \<and> (of_char (hexmap i) :: nat) \<le> 102"
    by code_simp
  moreover assume "i < 16"
  ultimately show ?thesis by auto
qed

lemma hex_digit_range:
  "48 \<le> (of_char (hexmap (of_char (c :: char) div 16)) :: nat)"
  "(of_char (hexmap (of_char (c :: char) div 16)) :: nat) \<le> 102"
  "48 \<le> (of_char (hexmap (of_char (c :: char) mod 16)) :: nat)"
  "(of_char (hexmap (of_char (c :: char) mod 16)) :: nat) \<le> 102"
  using of_char_less [of c] by (simp_all add: hexmap_range less_mult_imp_div_less)

text \<open>the receiver does not read the amount that was sent: the enclave is handed the hexadecimal text
  and reads its first four digits as the bytes of a number, so it credits at least 808464432,
  whatever the transaction says.\<close>

theorem direct_payment_is_misread:
  assumes "length tx = 80"
  shows "\<exists>k a w'. ecall_lntee_direct_recv (to_hex tx) w = Returns (0, w')
    \<and> w' = w\<lparr>receive := add_entry k a (receive w)\<rparr> \<and> 808464432 \<le> uint a"
proof -
  obtain c t where t: "tx = c # t" using assms by (cases tx) auto
  obtain d rest where "t = d # rest" using assms t by (cases t) auto
  with t have tx: "tx = c # d # rest" by simp
  let ?v = "le_value (take 4 (to_hex tx))"
  have v: "808464432 \<le> ?v" "?v < 2 ^ 31"
    using hex_digit_range [of c] hex_digit_range [of d] by (simp_all add: tx)
  then have u: "uint (of_nat ?v :: u32) = int ?v" by (simp add: uint_nat unat_of_nat)
  then have "sint (of_nat ?v :: u32) = int ?v" using v by (subst sint_small) simp_all
  moreover have "memcpy_str (to_hex tx) 80 = Returns (take 80 (to_hex tx))"
    using assms by (intro memcpy_str_long) simp
  moreover have "take 4 (take 80 (to_hex tx)) = take 4 (to_hex tx)" by simp
  ultimately have "ecall_lntee_direct_recv (to_hex tx) w = Returns (0, w\<lparr>receive := add_entry
      (of_nat (le_value (drop 16 (take 80 (to_hex tx))))) (of_nat ?v) (receive w)\<rparr>)"
    using v(1) by (simp add: ecall_lntee_direct_recv_def direct_receive_def)
  with u v(1) show ?thesis by force
qed

theorem direct_payment_is_misread_witness:
  "\<exists>k a w'. ecall_lntee_direct_recv (to_hex (replicate 80 (CHR 0x01))) initial_wallet = Returns (0, w')
     \<and> om_get (receive w') k = Some a \<and> 808464432 \<le> uint a"
proof -
  obtain k a w' where "ecall_lntee_direct_recv (to_hex (replicate 80 (CHR 0x01))) initial_wallet
      = Returns (0, w')" "w' = initial_wallet\<lparr>receive := add_entry k a (receive initial_wallet)\<rparr>"
      "808464432 \<le> uint a"
    using direct_payment_is_misread [of "replicate 80 (CHR 0x01)" initial_wallet] by auto
  then show ?thesis by (auto simp: initial_wallet_def add_entry_def)
qed

section \<open>Text\<close>

lemma from_hex_blank: "from_hex_vector (to_hex s) = from_hex (to_hex s)"
proof -
  have digits: "\<forall>c \<in> set (to_hex s). c \<noteq> CHR 0x00 \<and> c \<noteq> CHR ''x''"
  proof (induction s)
    case (Cons c s)
    have "hexmap i \<noteq> CHR ''x''" if "i < 16" for i using hexmap_range [OF that] by auto
    with Cons show ?case
      using of_char_less [of c] by (auto simp: hex2int_hexmap less_mult_imp_div_less)
  qed simp
  then have all: "takeWhile (\<lambda>c. c \<noteq> CHR 0x00) (to_hex s) = to_hex s" by simp
  have "take 2 (to_hex s) \<noteq> ''0x''"
  proof
    assume "take 2 (to_hex s) = ''0x''"
    then have "CHR ''x'' \<in> set (take 2 (to_hex s))" by simp
    then show False using digits in_set_takeD by fastforce
  qed
  then show ?thesis unfolding from_hex_vector_def Let_def all by simp
qed

text \<open>Hexadecimal text is read back as the bytes it was written from, by both readers.\<close>

theorem hex_text_round_trip:
  "from_hex (to_hex s) = s \<and> from_hex_vector (to_hex s) = s \<and> length (to_hex s) = 2 * length s"
  by (simp add: from_hex_to_hex from_hex_blank)

text \<open>the account survives a restart: the private key that was written to the account file is the
  key that is read from it, and nothing else of the wallet changes.\<close>

theorem account_file_round_trip:
  assumes "length (account_prikey w) = 32" and "length (account_prikey w') = 32"
  shows "recover_account (Some (persist_account w)) w'
    = Returns (to_hex (account_prikey w), w'\<lparr>account_prikey := account_prikey w\<rparr>)"
proof -
  have digits: "\<forall>c \<in> set (to_hex s). \<not> is_blank c" for s
  proof (induction s)
    case (Cons c s)
    have "\<not> is_blank (hexmap i)" if "i < 16" for i
      using hexmap_range [OF that] by (auto simp: is_blank_def)
    with Cons show ?case using of_char_less [of c] by (auto simp: less_mult_imp_div_less)
  qed simp
  have "dropWhile is_blank (to_hex s @ [CHR 0x0A]) = to_hex s @ [CHR 0x0A]" if "s \<noteq> []" for s
    using digits [of s] that by (cases s) auto
  moreover have "takeWhile (\<lambda>c. \<not> is_blank c) (to_hex s @ [CHR 0x0A]) = to_hex s" for s
    using digits [of s] by (simp add: takeWhile_append2 is_blank_def)
  moreover have "account_prikey w \<noteq> []" using assms(1) by auto
  ultimately have "read_token (persist_account w) = to_hex (account_prikey w)"
    by (simp add: read_token_def persist_account_def)
  then show ?thesis using assms by (simp add: recover_account_def from_hex_to_hex blit_def)
qed

theorem account_file_round_trip_witness:
  "\<exists>w. recover_account (Some (persist_account (initial_wallet\<lparr>account_prikey := replicate 32 (CHR ''k'')\<rparr>)))
     initial_wallet = Returns (to_hex (replicate 32 (CHR ''k'')), w)"
  using account_file_round_trip [of "initial_wallet\<lparr>account_prikey := replicate 32 (CHR ''k'')\<rparr>" initial_wallet]
  by (simp add: initial_wallet_def)

end
