(* ===== verification/Evm_Words.thy ===== *)
theory Evm_Words
  imports Prelude "HOL-Library.Signed_Division"
begin

text \<open>
  The 256-bit words of the EVM in \<open>amd_sev/lib/eEVM\<close>: their big-endian bytes (\<open>util.h\<close>) and the
  arithmetic of the instructions (\<open>processor.cpp\<close>), with the equations that say what each of them
  computes on integers. \<open>uint256_t\<close> and \<open>uint512_t\<close> are the fixed-width integers of the library
  \<open>intx\<close>: arithmetic modulo \<open>2^256\<close> and \<open>2^512\<close>.
\<close>

unbundle bit_operations_syntax

type_synonym u256 = "256 word"
type_synonym u512 = "512 word"
type_synonym bytes = "u8 list"

section \<open>Big-endian bytes\<close>

definition from_big_endian :: "bytes \<Rightarrow> u256" where
  "from_big_endian bs = foldl (\<lambda>v b. push_bit 8 v OR ucast b) 0 bs"

definition to_big_endian :: "u256 \<Rightarrow> bytes" where
  "to_big_endian v = map (\<lambda>i. ucast (drop_bit (8 * (31 - i)) v)) [0..<32]"

section \<open>Arithmetic\<close>

definition get_sign :: "u256 \<Rightarrow> int" where
  "get_sign v = (if drop_bit 255 v \<noteq> 0 then - 1 else 1)"

definition div_word :: "u256 \<Rightarrow> u256 \<Rightarrow> u256" where
  "div_word x y = (if y = 0 then 0 else x div y)"

text \<open>
  The code means to single out \<open>-2\<^sup>2\<^sup>5\<^sup>5 / -1\<close>, but in \<open>y == -1\<close> the \<open>int\<close> becomes a \<open>uint256_t\<close> by
  conversion to \<open>uint64_t\<close>, and so is \<open>2\<^sup>6\<^sup>4 - 1\<close>.
\<close>

definition sdiv_word :: "u256 \<Rightarrow> u256 \<Rightarrow> u256" where
  "sdiv_word x y =
     (if y = 0 then 0
      else if x = (- 1) div 2 + 1 \<and> y = 2 ^ 64 - 1 then x
      else
        let sx = get_sign x; sy = get_sign y;
            z = (if sx = - 1 then 0 - x else x) div (if sy = - 1 then 0 - y else y)
        in if sx \<noteq> sy then 0 - z else z)"

definition mod_word :: "u256 \<Rightarrow> u256 \<Rightarrow> u256" where
  "mod_word x m = (if m = 0 then 0 else x mod m)"

definition smod_word :: "u256 \<Rightarrow> u256 \<Rightarrow> u256" where
  "smod_word x m =
     (if m = 0 then 0
      else
        let sx = get_sign x; sm = get_sign m;
            z = (if sx = - 1 then 0 - x else x) mod (if sm = - 1 then 0 - m else m)
        in if sx = - 1 then 0 - z else z)"

definition addmod_word :: "u256 \<Rightarrow> u256 \<Rightarrow> u256 \<Rightarrow> u256" where
  "addmod_word x y m =
     (if m = 0 then 0 else ucast ((ucast x + ucast y :: u512) mod ucast m))"

definition mulmod_word :: "u256 \<Rightarrow> u256 \<Rightarrow> u256 \<Rightarrow> u256" where
  "mulmod_word x y m =
     (if m = 0 then m else ucast ((ucast x * ucast y :: u512) mod ucast m))"

text \<open>\<open>shrink<uint8_t>\<close> keeps the low byte.\<close>

definition shrink8 :: "u256 \<Rightarrow> u8" where
  "shrink8 v = ucast (v AND 255)"

definition signextend_word :: "u256 \<Rightarrow> u256 \<Rightarrow> u256" where
  "signextend_word x y =
     (if 32 \<le> x then y
      else
        let idx = 8 * unat (shrink8 x) + 7;
            sign = drop_bit idx y AND 1 \<noteq> 0;
            msk = drop_bit (256 - idx) (NOT 0)
        in push_bit idx (if sign then NOT 0 else 0) OR (y AND msk))"

definition slt_word :: "u256 \<Rightarrow> u256 \<Rightarrow> u256" where
  "slt_word x y =
     (if x = y then 0
      else if get_sign x \<noteq> get_sign y then (if get_sign x = - 1 then 1 else 0)
      else if x < y then 1 else 0)"

text \<open>The byte of a word at \<open>idx < 32\<close>, the most significant one first.\<close>

definition byte_word :: "u256 \<Rightarrow> u256 \<Rightarrow> u256" where
  "byte_word idx val =
     (let shift = 256 - 8 - 8 * unat (shrink8 idx);
          msk = push_bit shift 255
      in drop_bit shift (val AND msk))"

text \<open>
  The loop of \<open>CALLDATALOAD\<close> from byte \<open>i\<close> on: \<open>break\<close> at the end of the input, shifting the rest in.
\<close>

function calldata_from :: "bytes \<Rightarrow> nat \<Rightarrow> nat \<Rightarrow> u256 \<Rightarrow> u256" where
  "calldata_from input offset i v =
     (if 32 \<le> i then v
      else if offset + i < length input
      then calldata_from input offset (i + 1) (push_bit 8 v + ucast (input ! (offset + i)))
      else push_bit (8 * (32 - i)) v)"
  by pat_completeness auto
termination by (relation "measure (\<lambda>(_, _, i, _). 32 - i)") auto

declare calldata_from.simps [simp del]

definition calldata_word :: "bytes \<Rightarrow> nat \<Rightarrow> u256" where
  "calldata_word input offset = calldata_from input offset 0 0"

section \<open>Bytes and words\<close>

lemma from_big_endian_snoc:
  "from_big_endian (bs @ [b]) = push_bit 8 (from_big_endian bs) OR ucast b"
  by (simp add: from_big_endian_def)

lemma from_big_endian_Nil [simp]: "from_big_endian [] = 0"
  by (simp add: from_big_endian_def)

lemma bit_from_big_endian:
  "length bs \<le> 32 \<Longrightarrow> n < 256 \<Longrightarrow>
     bit (from_big_endian bs) n \<longleftrightarrow>
       n < 8 * length bs \<and> bit (bs ! (length bs - 1 - n div 8)) (n mod 8)"
proof (induction bs arbitrary: n rule: rev_induct)
  case (snoc b bs)
  show ?case
  proof (cases "n < 8")
    case True
    with snoc.prems show ?thesis
      by (simp add: from_big_endian_snoc bit_simps nth_append)
  next
    case False
    moreover have "bit (ucast b :: u256) n = False"
      using False bit_imp_le_length [of b n] by (auto simp: bit_simps)
    moreover have "length bs - n div 8 = length bs - 1 - (n - 8) div 8" "(n - 8) mod 8 = n mod 8"
      using False by (auto simp: le_div_geq le_mod_geq)
    moreover have "n < 8 + 8 * length bs \<Longrightarrow> length bs - n div 8 < length bs" using False by auto
    moreover have "n - 8 < 8 * length bs \<longleftrightarrow> n < 8 + 8 * length bs" using False by auto
    ultimately show ?thesis using snoc.prems snoc.IH [of "n - 8"]
      by (auto simp: from_big_endian_snoc bit_simps nth_append)
  qed
qed simp

lemma length_to_big_endian [simp]: "length (to_big_endian v) = 32"
  by (simp add: to_big_endian_def)

lemma nth_to_big_endian [simp]:
  "i < 32 \<Longrightarrow> to_big_endian v ! i = ucast (drop_bit (8 * (31 - i)) v)"
  by (simp add: to_big_endian_def)

lemma from_to_big_endian [simp]: "from_big_endian (to_big_endian v) = v"
proof (rule bit_word_eqI)
  fix n assume "n < LENGTH(256)"
  then have n: "n < 256" by simp
  then have "8 * (31 - (31 - n div 8)) + n mod 8 = n" by simp
  then show "bit (from_big_endian (to_big_endian v)) n = bit v n"
    using n by (simp add: bit_from_big_endian bit_simps)
qed

lemma to_from_big_endian [simp]:
  assumes "length bs = 32" shows "to_big_endian (from_big_endian bs) = bs"
proof (rule nth_equalityI)
  fix i assume "i < length (to_big_endian (from_big_endian bs))"
  then have i: "i < 32" by simp
  show "to_big_endian (from_big_endian bs) ! i = bs ! i"
  proof (rule bit_word_eqI)
    fix n assume "n < LENGTH(8)"
    then have n: "n < 8" by simp
    then have "31 - (8 * (31 - i) + n) div 8 = i" "(8 * (31 - i) + n) mod 8 = n"
      "8 * (31 - i) + n < 256" using i by auto
    with i n show "bit (to_big_endian (from_big_endian bs) ! i) n = bit (bs ! i) n"
      using assms by (simp add: bit_simps bit_from_big_endian)
  qed
qed (simp add: assms)

section \<open>What the arithmetic computes\<close>

lemma get_sign_neg: "get_sign x = - 1 \<longleftrightarrow> sint x < 0"
proof -
  have "sint x < 0 \<longleftrightarrow> bit x 255" using bit_last_iff [of x] by simp
  moreover have "bit x 255 \<longleftrightarrow> drop_bit 255 x \<noteq> 0"
  proof
    assume "bit x 255"
    then have "bit (drop_bit 255 x) 0" by (simp add: bit_simps)
    then show "drop_bit 255 x \<noteq> 0" by auto
  next
    assume "drop_bit 255 x \<noteq> 0"
    then obtain n where "bit (drop_bit 255 x) n" by (auto simp: bit_eq_iff)
    then show "bit x 255" using bit_imp_le_length [of x "255 + n"] by (cases n) (auto simp: bit_simps)
  qed
  ultimately show ?thesis by (simp add: get_sign_def)
qed

lemma get_sign_cases: "get_sign x = 1 \<or> get_sign x = - 1"
  by (simp add: get_sign_def)

lemma get_sign_eq: "get_sign x = get_sign y \<longleftrightarrow> (sint x < 0 \<longleftrightarrow> sint y < 0)"
  using get_sign_cases [of x] get_sign_cases [of y] get_sign_neg [of x] get_sign_neg [of y] by auto

lemma sint_by_uint: "sint (x :: u256) = uint x - (if sint x < 0 then 2 ^ 256 else 0)"
  using signed_take_bit_eq_take_bit_minus [of 255 "uint x"] bit_last_iff [of x]
    bintr_uint [of 256 x]
  by (auto simp: sint_uint bit_uint_iff)

text \<open>The two's complement of a negative word is its magnitude, as an unsigned number.\<close>

lemma uint_magnitude: "uint (if get_sign x = - 1 then 0 - x else x) = \<bar>sint x\<bar>"
proof (cases "sint x < 0")
  case True
  then have "x \<noteq> 0" by auto
  have "uint (0 - x) = (- uint x) mod 2 ^ 256" by (simp add: uint_word_ariths)
  also have "\<dots> = 2 ^ 256 - uint x"
    using \<open>x \<noteq> 0\<close> uint_lt2p [of x] zmod_zminus1_eq_if [of "uint x" "2 ^ 256"] by (auto simp: uint_0_iff)
  finally show ?thesis using True sint_by_uint [of x] by (simp add: get_sign_neg)
next
  case False
  then show ?thesis using sint_by_uint [of x] by (simp add: get_sign_neg)
qed

theorem sdiv_word_int:
  "sdiv_word x y =
     (if y = 0 then 0
      else if x = 2 ^ 255 \<and> y = 2 ^ 64 - 1 then x
      else word_of_int (sint x sdiv sint y))"
proof (cases "y = 0")
  case False
  let ?z = "(if get_sign x = - 1 then 0 - x else x) div (if get_sign y = - 1 then 0 - y else y)"
  have z: "?z = word_of_int (\<bar>sint x\<bar> div \<bar>sint y\<bar>)"
    by (simp only: word_div_def uint_magnitude)
  have "sint y \<noteq> 0" using False by (simp add: signed_eq_0_iff)
  then have "(if get_sign x \<noteq> get_sign y then 0 - ?z else ?z) = word_of_int (sint x sdiv sint y)"
    unfolding z get_sign_eq by (auto simp: signed_divide_int_def sgn_if)
  moreover have "(- 1) div 2 + 1 = (2 ^ 255 :: u256)"
    by simp
  ultimately show ?thesis using False by (simp only: sdiv_word_def Let_def if_False)
qed (simp only: sdiv_word_def if_True refl)

theorem smod_word_int: "smod_word x y = (if y = 0 then 0 else word_of_int (sint x smod sint y))"
proof (cases "y = 0")
  case False
  let ?z = "(if get_sign x = - 1 then 0 - x else x) mod (if get_sign y = - 1 then 0 - y else y)"
  have z: "?z = word_of_int (\<bar>sint x\<bar> mod \<bar>sint y\<bar>)"
    by (simp only: word_mod_def uint_magnitude)
  have "(if get_sign x = - 1 then 0 - ?z else ?z) = word_of_int (sint x smod sint y)"
    unfolding z by (auto simp: get_sign_neg signed_modulo_int_def sgn_if)
  then show ?thesis using False by (auto simp: smod_word_def Let_def)
qed (simp add: smod_word_def)

lemma unat_less_u256: "unat (x :: u256) < 2 ^ 256"
  using unsigned_less [of x, where 'a = nat] by simp

lemma unat_ucast_u512 [simp]: "unat (ucast (x :: u256) :: u512) = unat x"
  using unat_less_u256 [of x] by (simp add: unsigned_ucast_eq take_bit_nat_eq_self)

lemma ucast_mod_u256:
  assumes "m \<noteq> (0 :: u256)"
  shows "ucast (w mod ucast m :: u512) = (of_nat (unat w mod unat m) :: u256)"
proof -
  have "unat w mod unat m < unat m" using assms by (simp add: unat_gt_0)
  then have "unat w mod unat m < 2 ^ 256" using unat_less_u256 [of m] by simp
  then have "unat (ucast (w mod ucast m :: u512) :: u256) = unat w mod unat m"
    by (simp add: unsigned_ucast_eq unat_mod take_bit_nat_eq_self)
  then show ?thesis by (metis of_nat_unat ucast_id)
qed

theorem addmod_word_nat: "m \<noteq> 0 \<Longrightarrow> addmod_word x y m = of_nat ((unat x + unat y) mod unat m)"
proof -
  have "unat (ucast x + ucast y :: u512) = unat x + unat y"
    using unat_less_u256 [of x] unat_less_u256 [of y] by (simp add: unat_word_ariths)
  then show "m \<noteq> 0 \<Longrightarrow> ?thesis" by (simp add: addmod_word_def ucast_mod_u256)
qed

theorem mulmod_word_nat: "m \<noteq> 0 \<Longrightarrow> mulmod_word x y m = of_nat ((unat x * unat y) mod unat m)"
proof -
  have "unat x * unat y < 2 ^ 256 * 2 ^ 256"
    by (rule mult_strict_mono) (use unat_less_u256 [of x] unat_less_u256 [of y] in auto)
  then have "unat (ucast x * ucast y :: u512) = unat x * unat y"
    by (simp add: unat_word_ariths)
  then show "m \<noteq> 0 \<Longrightarrow> ?thesis" by (simp add: mulmod_word_def ucast_mod_u256)
qed

lemma unat_shrink8:
  assumes "x < 32" shows "unat (shrink8 x) = unat x"
proof -
  have "unat x < 32" using assms by (simp add: word_less_nat_alt)
  moreover have "x AND 255 = take_bit 8 x" by (simp add: take_bit_eq_mask mask_eq_exp_minus_1)
  ultimately show ?thesis
    by (simp add: shrink8_def unsigned_ucast_eq unsigned_take_bit_eq take_bit_nat_eq_self)
qed

lemma and_one_bit: "drop_bit n y AND 1 \<noteq> 0 \<longleftrightarrow> bit (y :: u256) n"
  by (simp add: and_one_eq bit_iff_odd_drop_bit even_iff_mod_2_eq_zero)

theorem signextend_word_bits:
  assumes "x < 32" shows "signextend_word x y = signed_take_bit (8 * unat x + 7) y"
proof (rule bit_word_eqI)
  fix n assume "n < LENGTH(256)"
  moreover have "unat x < 32" using assms by (simp add: word_less_nat_alt)
  ultimately show "bit (signextend_word x y) n = bit (signed_take_bit (8 * unat x + 7) y) n"
    using assms
    by (auto simp: signextend_word_def Let_def unat_shrink8 bit_simps not_le min_def and_one_bit)
qed

theorem slt_word_int: "slt_word x y = of_bool (sint x < sint y)"
proof (cases "x = y")
  case False
  then have "uint x \<noteq> uint y" by (simp add: word_uint_eq_iff)
  then show ?thesis
    using False sint_by_uint [of x] sint_by_uint [of y] uint_lt2p [of x] uint_lt2p [of y]
    by (cases "sint x < 0"; cases "sint y < 0";
        simp add: slt_word_def get_sign_eq get_sign_neg word_less_def;
        insert uint_ge_0 [of x] uint_ge_0 [of y]; linarith)
qed (simp add: slt_word_def)

lemma bit_255: "bit (255 :: int) n \<longleftrightarrow> n < 8"
proof -
  have "(255 :: int) = mask 8" by (simp add: mask_eq_exp_minus_1)
  then have "bit (255 :: int) n \<longleftrightarrow> bit (mask 8 :: int) n" by (simp only:)
  then show ?thesis by (auto simp: bit_mask_iff)
qed

theorem byte_word_nth:
  assumes "idx < 32" shows "byte_word idx val = ucast (to_big_endian val ! unat idx)"
proof (rule bit_word_eqI)
  fix n assume "n < LENGTH(256)"
  then have n: "n < 256" by simp
  have i: "unat idx < 32" using assms by (simp add: word_less_nat_alt)
  then have "248 - 8 * unat idx = 8 * (31 - unat idx)" by simp
  then have word: "byte_word idx val
      = drop_bit (8 * (31 - unat idx)) (val AND push_bit (8 * (31 - unat idx)) 255)"
    using assms by (simp add: byte_word_def Let_def unat_shrink8)
  have "bit (byte_word idx val) n \<longleftrightarrow> bit val (8 * (31 - unat idx) + n) \<and> n < 8"
    unfolding word using i n by (auto simp: bit_simps bit_255)
  then show "bit (byte_word idx val) n = bit (ucast (to_big_endian val ! unat idx) :: u256) n"
    using i n by (auto simp: bit_simps)
qed

lemma shift_add_byte: "push_bit 8 (v :: u256) + ucast (b :: u8) = push_bit 8 v OR ucast b"
proof (rule disjunctive_add_eq_or, rule bit_word_eqI)
  fix n show "bit (push_bit 8 v AND ucast b) n = bit (0 :: u256) n"
    using bit_imp_le_length [of b n] by (auto simp: bit_simps)
qed

lemma from_big_endian_arith: "from_big_endian bs = foldl (\<lambda>v b. v * 256 + ucast b) 0 bs"
  by (simp add: from_big_endian_def flip: shift_add_byte) (simp add: push_bit_eq_mult)

lemma fold_zeros:
  "foldl (\<lambda>v b. push_bit 8 v OR ucast b) (v :: u256) (replicate n (0 :: u8)) = push_bit (8 * n) v"
  by (induction n arbitrary: v) (auto simp: add.commute)

lemma calldata_from_fold:
  "i \<le> 32 \<Longrightarrow> calldata_from input offset i v = foldl (\<lambda>v b. push_bit 8 v OR ucast b) v
     (map (\<lambda>i. if offset + i < length input then input ! (offset + i) else 0) [i..<32])"
proof (induction input offset i v rule: calldata_from.induct)
  case (1 input offset i v)
  consider "i = 32" | "i < 32" "offset + i < length input" | "i < 32" "\<not> offset + i < length input"
    using "1.prems" by linarith
  then show ?case
  proof cases
    case 1
    then show ?thesis by (simp add: calldata_from.simps)
  next
    case 2
    then show ?thesis
      using "1.IH" by (subst calldata_from.simps) (simp add: upt_conv_Cons shift_add_byte)
  next
    case 3
    have "map (\<lambda>i. if offset + i < length input then input ! (offset + i) else 0) [i..<32]
        = replicate (32 - i) 0"
      using 3 by (intro nth_equalityI) auto
    with 3 show ?thesis by (simp add: calldata_from.simps [of input offset i v] fold_zeros)
  qed
qed

theorem calldata_word_bytes:
  "calldata_word input offset = from_big_endian
     (map (\<lambda>i. if offset + i < length input then input ! (offset + i) else 0) [0..<32])"
  by (simp add: calldata_word_def calldata_from_fold from_big_endian_def)

end
