(* ===== verification/Evm_State.thy ===== *)
theory Evm_State
  imports Std_Map Evm_Words
begin

text \<open>
  The state of the EVM in \<open>amd_sev/lib/eEVM\<close>: accounts with their storage and the global state
  (\<open>simple/\<close>), transactions, and the machine of \<open>processor.cpp\<close> with its stack of contexts; the
  stack (\<open>stack.cpp\<close>), the memory of a context, and payments between accounts (\<open>account.h\<close>).

  A reference to an account is its address. An operation on the machine ends with a value, with an
  \<open>eevm::Exception\<close> (which undoes nothing), with another C++ exception that no handler of the
  processor catches, with a failed assertion (the release build does not disable them), or by
  following a pointer to nothing.
\<close>

section \<open>Accounts\<close>

datatype ET = OutOfBounds | OutOfGas | OutOfFunds | Overflow | IllegalInstruction | NotImplemented

record SimpleAccount =
  a_address :: u256
  a_balance :: u256
  a_pubkey :: u512
  a_prikey :: u256
  a_code :: bytes
  a_nonce :: nat

type_synonym SimpleStorage = "(u256, u256) omap"

definition new_account :: "u256 \<Rightarrow> u256 \<Rightarrow> bytes \<Rightarrow> SimpleAccount" where
  "new_account a b c = \<lparr>a_address = a, a_balance = b, a_pubkey = 0, a_prikey = 0, a_code = c,
     a_nonce = 0\<rparr>"

definition storage_load :: "SimpleStorage \<Rightarrow> u256 \<Rightarrow> u256" where
  "storage_load s k = (case om_get s k of None \<Rightarrow> 0 | Some v \<Rightarrow> v)"

record Block =
  b_number :: u64
  b_difficulty :: u64
  b_gas_limit :: u64
  b_timestamp :: u64
  b_coinbase :: u256

record SimpleGlobalState =
  currentBlock :: Block
  accounts :: "(u256, SimpleAccount \<times> SimpleStorage) omap"

definition get_block_hash :: "SimpleGlobalState \<Rightarrow> nat \<Rightarrow> u256" where
  "get_block_hash g i = 0"

section \<open>The machine\<close>

record LogEntry =
  log_address :: u256
  log_data :: bytes
  log_topics :: "u256 list"

text \<open>\<open>tx_logs\<close> is what the log handler has been given.\<close>

record Transaction =
  tx_origin :: u256
  tx_gas_price :: u64
  tx_gas_limit :: u64
  tx_logs :: "LogEntry list"
  selfdestruct_list :: "u256 list"

text \<open>
  The three handlers of a context (return, halt, exception) are closures made in three places: by
  \<open>run\<close>, by \<open>create\<close>, with the new account, and by \<open>call\<close>, with the place for the output.
\<close>

datatype handlers = Outermost | Created u256 | Called nat nat

record Context =
  cx_pc :: nat
  cx_pc_changed :: bool
  cx_mem :: bytes
  cx_s :: "u256 list"
  cx_as :: u256
  cx_caller :: u256
  cx_input :: bytes
  cx_call_value :: u256
  cx_code :: bytes
  cx_handlers :: handlers

datatype ExitReason = Returned | Halted | Threw

record ExecResult =
  er :: ExitReason
  ex :: ET
  exec_output :: bytes

text \<open>\<open>ctxts\<close> has the current context first; below it is the context that called it.\<close>

record machine =
  gs :: SimpleGlobalState
  tx :: Transaction
  ctxts :: "Context list"
  result :: ExecResult

datatype 'a eval = Value 'a machine | Throws ET machine | Leaves machine | Aborts | Dangling

type_synonym 'a evm = "machine \<Rightarrow> 'a eval"

definition ret :: "'a \<Rightarrow> 'a evm" where
  "ret a m = Value a m"

definition bind :: "'a evm \<Rightarrow> ('a \<Rightarrow> 'b evm) \<Rightarrow> 'b evm" where
  "bind f g m = (case f m of
     Value a m' \<Rightarrow> g a m' | Throws e m' \<Rightarrow> Throws e m' | Leaves m' \<Rightarrow> Leaves m'
   | Aborts \<Rightarrow> Aborts | Dangling \<Rightarrow> Dangling)"

definition throw :: "ET \<Rightarrow> 'a evm" where
  "throw e m = Throws e m"

definition leave :: "'a evm" where
  "leave m = Leaves m"

definition reads :: "(machine \<Rightarrow> 'a) \<Rightarrow> 'a evm" where
  "reads f m = Value (f m) m"

lemma ret_bind [simp]: "bind (ret a) g = g a"
  by (rule ext) (simp add: bind_def ret_def)

lemma bind_ret [simp]: "bind f ret = f"
  by (rule ext) (simp add: bind_def ret_def split: eval.split)

lemma throw_bind [simp]: "bind (throw e) g = throw e"
  by (rule ext) (simp add: bind_def throw_def)

lemma bind_assoc: "bind (bind f g) h = bind f (\<lambda>a. bind (g a) h)"
  by (rule ext) (simp add: bind_def split: eval.split)

lemma bind_cong [fundef_cong]:
  "f = f' \<Longrightarrow> (\<And>a. g a = g' a) \<Longrightarrow> bind f g = bind f' g'"
  by (simp add: bind_def fun_eq_iff split: eval.split)

text \<open>Work on a context, counted from the current one: \<open>1\<close> is the \<open>parentContext\<close> of a closure.\<close>

definition at :: "nat \<Rightarrow> (Context \<Rightarrow> ET + 'a \<times> Context) \<Rightarrow> 'a evm" where
  "at n f m =
     (if n < length (ctxts m) then
        case f (ctxts m ! n) of
          Inl e \<Rightarrow> Throws e m
        | Inr (a, c) \<Rightarrow> Value a (m\<lparr>ctxts := (ctxts m)[n := c]\<rparr>)
      else Dangling)"

definition asks :: "(Context \<Rightarrow> 'a) \<Rightarrow> 'a evm" where
  "asks f = at 0 (\<lambda>c. Inr (f c, c))"

section \<open>The stack\<close>

definition STACK_MAX_SIZE :: nat where
  "STACK_MAX_SIZE = 1024"

definition stack_pop :: "Context \<Rightarrow> ET + u256 \<times> Context" where
  "stack_pop c = (case cx_s c of [] \<Rightarrow> Inl OutOfBounds | v # s \<Rightarrow> Inr (v, c\<lparr>cx_s := s\<rparr>))"

definition stack_push :: "u256 \<Rightarrow> Context \<Rightarrow> ET + unit \<times> Context" where
  "stack_push v c =
     (if length (cx_s c) = STACK_MAX_SIZE then Inl OutOfBounds
      else Inr ((), c\<lparr>cx_s := v # cx_s c\<rparr>))"

definition stack_swap :: "nat \<Rightarrow> Context \<Rightarrow> ET + unit \<times> Context" where
  "stack_swap i c =
     (if length (cx_s c) \<le> i then Inl OutOfBounds
      else Inr ((), c\<lparr>cx_s := (cx_s c)[0 := cx_s c ! i, i := cx_s c ! 0]\<rparr>))"

definition stack_dup :: "nat \<Rightarrow> Context \<Rightarrow> ET + unit \<times> Context" where
  "stack_dup a c =
     (if length (cx_s c) \<le> a then Inl OutOfBounds
      else Inr ((), c\<lparr>cx_s := (cx_s c ! a) # cx_s c\<rparr>))"

definition pop :: "u256 evm" where
  "pop = at 0 stack_pop"

definition pop64 :: "nat evm" where
  "pop64 = bind pop (\<lambda>v. if 2 ^ 64 - 1 < v then throw OutOfBounds else ret (unat v))"

definition push :: "u256 \<Rightarrow> unit evm" where
  "push v = at 0 (stack_push v)"

text \<open>\<open>topics[i] = ctxt->s.pop()\<close> for \<open>n\<close> topics.\<close>

primrec pops :: "nat \<Rightarrow> u256 list evm" where
  "pops 0 = ret []"
| "pops (Suc n) = bind pop (\<lambda>v. bind (pops n) (\<lambda>vs. ret (v # vs)))"

definition pop_addr :: "u256 evm" where
  "pop_addr = bind pop (\<lambda>v. ret (v AND (push_bit 160 1 - 1)))"

section \<open>Memory\<close>

definition WORD_SIZE :: nat where
  "WORD_SIZE = 32"

definition MAX_MEM_SIZE :: nat where
  "MAX_MEM_SIZE = 2 ^ 25"

text \<open>\<open>vector::resize\<close> to a larger size; and writing into a vector.\<close>

definition resize :: "nat \<Rightarrow> bytes \<Rightarrow> bytes" where
  "resize n v = v @ replicate (n - length v) 0"

definition overwrite :: "nat \<Rightarrow> bytes \<Rightarrow> bytes \<Rightarrow> bytes" where
  "overwrite off bs v = take off v @ bs @ drop (off + length bs) v"

text \<open>The arithmetic of \<open>uint64_t\<close> wraps; \<open>lastSrc\<close> is not checked.\<close>

definition copy_mem_raw ::
  "nat \<Rightarrow> nat \<Rightarrow> nat \<Rightarrow> bytes \<Rightarrow> bytes \<Rightarrow> u8 \<Rightarrow> ET + bytes" where
  "copy_mem_raw offDst offSrc sz dst src pad =
     (if sz = 0 then Inr dst
      else
        let lastDst = (offDst + sz) mod 2 ^ 64 in
        if lastDst < offDst then Inl OutOfBounds
        else if MAX_MEM_SIZE < lastDst then Inl OutOfBounds
        else
          let dst1 = resize lastDst dst;
              lastSrc = (offSrc + sz) mod 2 ^ 64;
              endSrc = min lastSrc (length src);
              (dst2, remaining) =
                (if offSrc < endSrc
                 then (overwrite offDst (take (endSrc - offSrc) (drop offSrc src)) dst1,
                       lastSrc - endSrc)
                 else (dst1, sz))
          in Inr (overwrite (lastDst - remaining) (replicate remaining pad) dst2))"

definition prepare_mem_access :: "nat \<Rightarrow> nat \<Rightarrow> unit evm" where
  "prepare_mem_access offset sz =
     (let last = (offset + sz) mod 2 ^ 64 in
      if last < offset then throw OutOfBounds
      else if MAX_MEM_SIZE < last then throw OutOfBounds
      else at 0 (\<lambda>c. Inr ((), c\<lparr>cx_mem := resize last (cx_mem c)\<rparr>)))"

definition copy_from_mem :: "nat \<Rightarrow> nat \<Rightarrow> bytes evm" where
  "copy_from_mem offset sz =
     bind (prepare_mem_access offset sz) (\<lambda>_. asks (\<lambda>c. take sz (drop offset (cx_mem c))))"

definition copy_mem :: "bytes \<Rightarrow> u8 \<Rightarrow> unit evm" where
  "copy_mem src pad =
     bind pop64 (\<lambda>offDst. bind pop64 (\<lambda>offSrc. bind pop64 (\<lambda>sz.
     at 0 (\<lambda>c. case copy_mem_raw offDst offSrc sz (cx_mem c) src pad of
            Inl e \<Rightarrow> Inl e | Inr mem \<Rightarrow> Inr ((), c\<lparr>cx_mem := mem\<rparr>)))))"

section \<open>The global state\<close>

definition set_accounts ::
  "((u256, SimpleAccount \<times> SimpleStorage) omap \<Rightarrow> (u256, SimpleAccount \<times> SimpleStorage) omap)
     \<Rightarrow> machine \<Rightarrow> machine" where
  "set_accounts f m = m\<lparr>gs := (gs m)\<lparr>accounts := f (accounts (gs m))\<rparr>\<rparr>"

definition gs_remove :: "u256 \<Rightarrow> machine \<Rightarrow> machine" where
  "gs_remove addr = set_accounts (om_del addr)"

text \<open>\<open>insert\<close> asserts that the address is free.\<close>

definition gs_create :: "u256 \<Rightarrow> u256 \<Rightarrow> bytes \<Rightarrow> unit evm" where
  "gs_create addr bal code m =
     (case om_get (accounts (gs m)) addr of
        Some _ \<Rightarrow> Aborts
      | None \<Rightarrow> Value () (set_accounts (om_put addr (new_account addr bal code, [])) m))"

definition gs_get :: "u256 \<Rightarrow> unit evm" where
  "gs_get addr m =
     (case om_get (accounts (gs m)) addr of
        Some _ \<Rightarrow> Value () m
      | None \<Rightarrow> gs_create addr 0 [] m)"

text \<open>Through a reference to an account or a storage.\<close>

definition with_account :: "u256 \<Rightarrow> (SimpleAccount \<Rightarrow> 'a) \<Rightarrow> 'a evm" where
  "with_account addr f m =
     (case om_get (accounts (gs m)) addr of
        None \<Rightarrow> Dangling | Some (a, s) \<Rightarrow> Value (f a) m)"

definition with_storage :: "u256 \<Rightarrow> (SimpleStorage \<Rightarrow> 'a) \<Rightarrow> 'a evm" where
  "with_storage addr f m =
     (case om_get (accounts (gs m)) addr of
        None \<Rightarrow> Dangling | Some (a, s) \<Rightarrow> Value (f s) m)"

definition upd_entry ::
  "u256 \<Rightarrow> (SimpleAccount \<times> SimpleStorage \<Rightarrow> SimpleAccount \<times> SimpleStorage) \<Rightarrow> unit evm" where
  "upd_entry addr f m =
     (case om_get (accounts (gs m)) addr of
        None \<Rightarrow> Dangling | Some e \<Rightarrow> Value () (set_accounts (om_put addr (f e)) m))"

definition set_balance :: "u256 \<Rightarrow> u256 \<Rightarrow> unit evm" where
  "set_balance addr b = upd_entry addr (\<lambda>(a, s). (a\<lparr>a_balance := b\<rparr>, s))"

definition upd_storage :: "u256 \<Rightarrow> (SimpleStorage \<Rightarrow> SimpleStorage) \<Rightarrow> unit evm" where
  "upd_storage addr f = upd_entry addr (\<lambda>(a, s). (a, f s))"

text \<open>Both balances are read before either is written, also when the two accounts are the same.\<close>

definition pay_to :: "u256 \<Rightarrow> u256 \<Rightarrow> u256 \<Rightarrow> unit evm" where
  "pay_to this other amount =
     bind (with_account this a_balance) (\<lambda>this_balance.
     if this_balance < amount then throw OutOfFunds
     else
       bind (with_account other a_balance) (\<lambda>other_balance.
       let proposed = other_balance + amount in
       if proposed < other_balance then throw Overflow
       else
         bind (set_balance this (this_balance - amount)) (\<lambda>_.
         set_balance other proposed)))"

section \<open>Contexts\<close>

definition MAX_CALL_DEPTH :: nat where
  "MAX_CALL_DEPTH = 1024"

definition new_context ::
  "u256 \<Rightarrow> u256 \<Rightarrow> bytes \<Rightarrow> bytes \<Rightarrow> u256 \<Rightarrow> handlers \<Rightarrow> Context" where
  "new_context caller as input code call_value h =
     \<lparr>cx_pc = 0, cx_pc_changed = True, cx_mem = [], cx_s = [], cx_as = as, cx_caller = caller,
      cx_input = input, cx_call_value = call_value, cx_code = code, cx_handlers = h\<rparr>"

definition push_context ::
  "u256 \<Rightarrow> u256 \<Rightarrow> bytes \<Rightarrow> bytes \<Rightarrow> u256 \<Rightarrow> handlers \<Rightarrow> unit evm" where
  "push_context caller as input code call_value h m =
     (if MAX_CALL_DEPTH \<le> length (ctxts m) mod 2 ^ 16 then Throws OutOfBounds m
      else Value () (m\<lparr>ctxts := new_context caller as input code call_value h # ctxts m\<rparr>))"

definition pop_context :: "unit evm" where
  "pop_context m =
     (case ctxts m of [] \<Rightarrow> Dangling | c # cs \<Rightarrow> Value () (m\<lparr>ctxts := cs\<rparr>))"

text \<open>\<open>step\<close> and \<open>set_pc\<close>.\<close>

definition cx_step :: "Context \<Rightarrow> Context" where
  "cx_step c = (if cx_pc_changed c then c\<lparr>cx_pc_changed := False\<rparr> else c\<lparr>cx_pc := cx_pc c + 1\<rparr>)"

definition set_pc :: "nat \<Rightarrow> Context \<Rightarrow> Context" where
  "set_pc p c = c\<lparr>cx_pc := p, cx_pc_changed := True\<rparr>"

section \<open>The handlers\<close>

text \<open>
  \<open>rh\<close> and \<open>eh\<close> run before the context is removed, \<open>hh\<close> after it. The \<open>rh\<close> made by \<open>create\<close> holds
  a reference to \<open>newAcc\<close>, a local variable of \<open>create\<close>, which has returned long before the
  handler runs: \<open>newAcc.acc\<close> is then read from a dead frame.
\<close>

definition call_rh :: "handlers \<Rightarrow> bytes \<Rightarrow> unit evm" where
  "call_rh h out =
     (case h of
        Outermost \<Rightarrow> (\<lambda>m. Value () (m\<lparr>result := (result m)\<lparr>er := Returned, exec_output := out\<rparr>\<rparr>))
      | Created a \<Rightarrow> (\<lambda>m. Dangling)
      | Called offOut sizeOut \<Rightarrow>
          bind (at 1 (\<lambda>c. case copy_mem_raw offOut 0 sizeOut (cx_mem c) out 0 of
                        Inl e \<Rightarrow> Inl e | Inr mem \<Rightarrow> Inr ((), c\<lparr>cx_mem := mem\<rparr>)))
            (\<lambda>_. at 1 (stack_push 1)))"

definition call_hh :: "handlers \<Rightarrow> unit evm" where
  "call_hh h =
     (case h of
        Outermost \<Rightarrow> (\<lambda>m. Value () (m\<lparr>result := (result m)\<lparr>er := Halted\<rparr>\<rparr>))
      | Created a \<Rightarrow> push 0
      | Called offOut sizeOut \<Rightarrow> push 1)"

definition call_eh :: "handlers \<Rightarrow> ET \<Rightarrow> unit evm" where
  "call_eh h e =
     (case h of
        Outermost \<Rightarrow> (\<lambda>m. Value () (m\<lparr>result := (result m)\<lparr>er := Threw, ex := e\<rparr>\<rparr>))
      | Created a \<Rightarrow> at 1 (stack_push 0)
      | Called offOut sizeOut \<Rightarrow> at 1 (stack_push 0))"

end
