(* ===== verification/Evm_Rlp.thy ===== *)
theory Evm_Rlp
  imports Evm_Words
begin

text \<open>
  The RLP encoding of \<open>eEVM/rlp.h\<close>, and the addresses made with it (\<open>util.cpp\<close>). Arguments of
  \<open>encode\<close> that are not tuples are byte strings or numbers; several arguments, or a tuple, are a
  list. Keccak-256 is a parameter.
\<close>

section \<open>Byte strings\<close>

text \<open>A 64-bit number without leading zero bytes: the loop over its bytes from the first one.\<close>

definition u64_byte :: "u64 \<Rightarrow> nat \<Rightarrow> u8" where
  "u64_byte n byte_index =
     (let offset = (7 - byte_index) * 8; msk = push_bit offset 0xff
      in ucast (drop_bit offset (msk AND n)))"

definition to_byte_string_u64 :: "u64 \<Rightarrow> bytes" where
  "to_byte_string_u64 n =
     snd (foldl (\<lambda>(started, bs) i.
       let b = u64_byte n i in
       if started \<or> b \<noteq> 0 then (True, bs @ [b]) else (started, bs)) (False, []) [0..<8])"

text \<open>\<open>count_significant_words<uint8_t>\<close>: the bytes but for the leading zeros.\<close>

definition count_significant_bytes :: "u256 \<Rightarrow> nat" where
  "count_significant_bytes n = length (dropWhile (\<lambda>b. b = 0) (to_big_endian n))"

definition to_byte_string_u256 :: "u256 \<Rightarrow> bytes" where
  "to_byte_string_u256 n =
     (if n \<noteq> 0 then drop (32 - count_significant_bytes n) (to_big_endian n) else [])"

section \<open>Encoding\<close>

datatype rlp = Single bytes | Multiple "rlp list"

definition prefix_multiple_length :: "nat \<Rightarrow> bytes \<Rightarrow> bytes" where
  "prefix_multiple_length total_length bs =
     (if total_length \<le> 55 then of_nat (0xc0 + total_length) # bs
      else
        let total_length_as_bytes = to_byte_string_u64 (of_nat total_length)
        in of_nat (0xf7 + length total_length_as_bytes) # total_length_as_bytes @ bs)"

definition encode_single :: "bytes \<Rightarrow> bytes" where
  "encode_single bs =
     (if length bs = 1 \<and> bs ! 0 \<le> 0x7f then bs
      else if length bs \<le> 55 then of_nat (0x80 + length bs) # bs
      else
        let length_as_bytes = to_byte_string_u64 (of_nat (length bs))
        in of_nat (0xb7 + length length_as_bytes) # length_as_bytes @ bs)"

fun rlp_encode :: "rlp \<Rightarrow> bytes" where
  "rlp_encode (Single bs) = encode_single bs"
| "rlp_encode (Multiple ts) =
     (let flattened = concat (map rlp_encode ts)
      in prefix_multiple_length (length flattened) flattened)"

section \<open>Addresses\<close>

definition generate_address :: "(bytes \<Rightarrow> bytes) \<Rightarrow> u256 \<Rightarrow> nat \<Rightarrow> u256" where
  "generate_address keccak sender nonce =
     from_big_endian (take 20 (drop 12 (keccak (rlp_encode
       (Multiple [Single (to_byte_string_u256 sender), Single (to_byte_string_u64 (of_nat nonce))])))))"

end
