(* ===== verification/Evm_Processor.thy ===== *)
theory Evm_Processor
  imports Evm_State Evm_Rlp
begin

text \<open>
  The processor of \<open>amd_sev/lib/eEVM/src/processor.cpp\<close>: jump destinations, one definition per
  instruction, the dispatch on the instruction byte, and the loop of \<open>run\<close>. The transaction's gas
  is never counted, so the loop need not end. The trace (for debugging) and the texts of exceptions
  are left out.
\<close>

section \<open>Programs\<close>

definition is_push :: "u8 \<Rightarrow> bool" where
  "is_push b \<longleftrightarrow> 0x60 \<le> b \<and> b \<le> 0x7f"

text \<open>\<open>compute_jump_dests\<close>: the loop from position \<open>i\<close> on, passing over the data of a push.\<close>

function jump_dests_from :: "bytes \<Rightarrow> nat \<Rightarrow> nat list" where
  "jump_dests_from code i =
     (if length code \<le> i then []
      else
        let b = code ! i in
        if is_push b then jump_dests_from code (i + (unat b - 0x60 + 1) + 1)
        else if b = 0x5b then i # jump_dests_from code (i + 1)
        else jump_dests_from code (i + 1))"
  by pat_completeness auto
termination by (relation "measure (\<lambda>(code, i). length code - i)") auto

declare jump_dests_from.simps [simp del]

definition compute_jump_dests :: "bytes \<Rightarrow> nat list" where
  "compute_jump_dests code = jump_dests_from code 0"

definition jump_to :: "nat \<Rightarrow> unit evm" where
  "jump_to newPc =
     at 0 (\<lambda>c. if newPc \<notin> set (compute_jump_dests (cx_code c)) then Inl IllegalInstruction
               else Inr ((), set_pc newPc c))"

section \<open>Opcodes\<close>

text \<open>The families \<open>PUSH1\<close> to \<open>PUSH32\<close>, \<open>DUP1\<close>, \<open>SWAP1\<close> and \<open>LOG0\<close> carry their number.\<close>

datatype Opcode =
    OP_STOP | OP_ADD | OP_MUL | OP_SUB | OP_DIV | OP_SDIV | OP_MOD | OP_SMOD | OP_ADDMOD
    | OP_MULMOD | OP_EXP | OP_SIGNEXTEND | OP_LT | OP_GT | OP_SLT | OP_SGT | OP_EQ | OP_ISZERO
    | OP_AND | OP_OR | OP_XOR | OP_NOT | OP_BYTE | OP_SHA3 | OP_ADDRESS | OP_BALANCE
    | OP_ORIGIN | OP_CALLER | OP_CALLVALUE | OP_CALLDATALOAD | OP_CALLDATASIZE
    | OP_CALLDATACOPY | OP_CODESIZE | OP_CODECOPY | OP_GASPRICE | OP_EXTCODESIZE
    | OP_EXTCODECOPY | OP_BLOCKHASH | OP_COINBASE | OP_TIMESTAMP | OP_NUMBER | OP_DIFFICULTY
    | OP_GASLIMIT | OP_POP | OP_MLOAD | OP_MSTORE | OP_MSTORE8 | OP_SLOAD | OP_SSTORE | OP_JUMP
    | OP_JUMPI | OP_PC | OP_MSIZE | OP_GAS | OP_JUMPDEST | OP_CREATE | OP_CALL | OP_CALLCODE
    | OP_RETURN | OP_DELEGATECALL | OP_SELFDESTRUCT | OP_PUSH nat | OP_DUP nat | OP_SWAP nat
    | OP_LOG nat

definition opcode_table :: "(nat \<times> Opcode) list" where
  "opcode_table = [
     (0x00, OP_STOP), (0x01, OP_ADD), (0x02, OP_MUL), (0x03, OP_SUB), (0x04, OP_DIV),
     (0x05, OP_SDIV), (0x06, OP_MOD), (0x07, OP_SMOD), (0x08, OP_ADDMOD), (0x09, OP_MULMOD),
     (0x0a, OP_EXP), (0x0b, OP_SIGNEXTEND), (0x10, OP_LT), (0x11, OP_GT), (0x12, OP_SLT),
     (0x13, OP_SGT), (0x14, OP_EQ), (0x15, OP_ISZERO), (0x16, OP_AND), (0x17, OP_OR),
     (0x18, OP_XOR), (0x19, OP_NOT), (0x1a, OP_BYTE), (0x20, OP_SHA3), (0x30, OP_ADDRESS),
     (0x31, OP_BALANCE), (0x32, OP_ORIGIN), (0x33, OP_CALLER), (0x34, OP_CALLVALUE),
     (0x35, OP_CALLDATALOAD), (0x36, OP_CALLDATASIZE), (0x37, OP_CALLDATACOPY),
     (0x38, OP_CODESIZE), (0x39, OP_CODECOPY), (0x3a, OP_GASPRICE), (0x3b, OP_EXTCODESIZE),
     (0x3c, OP_EXTCODECOPY), (0x40, OP_BLOCKHASH), (0x41, OP_COINBASE), (0x42, OP_TIMESTAMP),
     (0x43, OP_NUMBER), (0x44, OP_DIFFICULTY), (0x45, OP_GASLIMIT), (0x50, OP_POP),
     (0x51, OP_MLOAD), (0x52, OP_MSTORE), (0x53, OP_MSTORE8), (0x54, OP_SLOAD),
     (0x55, OP_SSTORE), (0x56, OP_JUMP), (0x57, OP_JUMPI), (0x58, OP_PC), (0x59, OP_MSIZE),
     (0x5a, OP_GAS), (0x5b, OP_JUMPDEST), (0xf0, OP_CREATE), (0xf1, OP_CALL),
     (0xf2, OP_CALLCODE), (0xf3, OP_RETURN), (0xf4, OP_DELEGATECALL), (0xff, OP_SELFDESTRUCT)]"

definition opcode_of :: "u8 \<Rightarrow> Opcode option" where
  "opcode_of b =
     (let n = unat b in
      if 0x60 \<le> n \<and> n \<le> 0x7f then Some (OP_PUSH (n - 0x60 + 1))
      else if 0x80 \<le> n \<and> n \<le> 0x8f then Some (OP_DUP (n - 0x80))
      else if 0x90 \<le> n \<and> n \<le> 0x9f then Some (OP_SWAP (n - 0x90 + 1))
      else if 0xa0 \<le> n \<and> n \<le> 0xa4 then Some (OP_LOG (n - 0xa0))
      else map_of opcode_table n)"

text \<open>\<open>get_op\<close> reads the vector at the program counter, which the loop of \<open>run\<close> has checked.\<close>

definition get_op :: "u8 evm" where
  "get_op m =
     (case ctxts m of
        [] \<Rightarrow> Dangling
      | c # cs \<Rightarrow> if cx_pc c < length (cx_code c) then Value (cx_code c ! cx_pc c) m else Dangling)"

section \<open>Arithmetic and comparison\<close>

definition unop :: "(u256 \<Rightarrow> u256) \<Rightarrow> unit evm" where
  "unop f = bind pop (\<lambda>x. push (f x))"

definition binop :: "(u256 \<Rightarrow> u256 \<Rightarrow> u256) \<Rightarrow> unit evm" where
  "binop f = bind pop (\<lambda>x. bind pop (\<lambda>y. push (f x y)))"

definition terop :: "(u256 \<Rightarrow> u256 \<Rightarrow> u256 \<Rightarrow> u256) \<Rightarrow> unit evm" where
  "terop f = bind pop (\<lambda>x. bind pop (\<lambda>y. bind pop (\<lambda>m. push (f x y m))))"

definition evm_add :: "unit evm" where "evm_add = binop (\<lambda>x y. x + y)"
definition evm_sub :: "unit evm" where "evm_sub = binop (\<lambda>x y. x - y)"
definition evm_mul :: "unit evm" where "evm_mul = binop (\<lambda>x y. x * y)"
definition evm_div :: "unit evm" where "evm_div = binop div_word"
definition evm_sdiv :: "unit evm" where "evm_sdiv = binop sdiv_word"
definition evm_mod :: "unit evm" where "evm_mod = binop mod_word"
definition evm_smod :: "unit evm" where "evm_smod = binop smod_word"
definition evm_addmod :: "unit evm" where "evm_addmod = terop addmod_word"
definition evm_mulmod :: "unit evm" where "evm_mulmod = terop mulmod_word"

definition evm_exp :: "unit evm" where
  "evm_exp = bind pop (\<lambda>b. bind pop64 (\<lambda>e. push (b ^ e)))"

definition evm_signextend :: "unit evm" where "evm_signextend = binop signextend_word"
definition evm_lt :: "unit evm" where "evm_lt = binop (\<lambda>x y. if x < y then 1 else 0)"
definition evm_gt :: "unit evm" where "evm_gt = binop (\<lambda>x y. if y < x then 1 else 0)"
definition evm_slt :: "unit evm" where "evm_slt = binop slt_word"

definition evm_sgt :: "unit evm" where
  "evm_sgt = bind (at 0 (stack_swap 1)) (\<lambda>_. evm_slt)"

definition evm_eq :: "unit evm" where "evm_eq = binop (\<lambda>x y. if x = y then 1 else 0)"
definition evm_isZero :: "unit evm" where "evm_isZero = unop (\<lambda>x. if x = 0 then 1 else 0)"
definition evm_and :: "unit evm" where "evm_and = binop (\<lambda>x y. x AND y)"
definition evm_or :: "unit evm" where "evm_or = binop (\<lambda>x y. x OR y)"
definition evm_xor :: "unit evm" where "evm_xor = binop (\<lambda>x y. x XOR y)"
definition evm_not :: "unit evm" where "evm_not = unop (\<lambda>x. NOT x)"

text \<open>For an index of 32 or more the second operand stays on the stack.\<close>

definition evm_byte :: "unit evm" where
  "evm_byte =
     bind pop (\<lambda>idx.
     if 32 \<le> idx then push 0
     else bind pop (\<lambda>val. push (byte_word idx val)))"

section \<open>Control flow\<close>

definition evm_jump :: "unit evm" where
  "evm_jump = bind pop64 jump_to"

definition evm_jumpi :: "unit evm" where
  "evm_jumpi = bind pop64 (\<lambda>newPc. bind pop (\<lambda>cond. if cond \<noteq> 0 then jump_to newPc else ret ()))"

definition evm_pc :: "unit evm" where
  "evm_pc = bind (asks cx_pc) (\<lambda>p. push (of_nat p))"

text \<open>A push whose data would reach past the end of the code is refused.\<close>

definition push_immediate :: "bytes \<Rightarrow> nat \<Rightarrow> nat \<Rightarrow> u256" where
  "push_immediate code p n = from_big_endian (take n (drop (p + 1) code))"

definition evm_push :: "nat \<Rightarrow> unit evm" where
  "evm_push n =
     bind (asks cx_pc) (\<lambda>p. bind (asks cx_code) (\<lambda>code.
     let last = (p + n) mod 2 ^ 64 in
     if last < p then throw OutOfBounds
     else if length code \<le> last then throw OutOfBounds
     else
       bind (push (push_immediate code p n)) (\<lambda>_.
       at 0 (\<lambda>c. Inr ((), set_pc (p + 1 + n) c)))))"

definition evm_pop :: "unit evm" where
  "evm_pop = bind pop (\<lambda>_. ret ())"

section \<open>Memory and storage\<close>

definition evm_msize :: "unit evm" where
  "evm_msize = bind (asks (\<lambda>c. (length (cx_mem c) + WORD_SIZE - 1) div WORD_SIZE)) (\<lambda>n.
     push (of_nat n * 32))"

definition evm_mload :: "unit evm" where
  "evm_mload =
     bind pop64 (\<lambda>offset.
     bind (copy_from_mem offset WORD_SIZE) (\<lambda>bs. push (from_big_endian bs)))"

definition write_mem :: "nat \<Rightarrow> bytes \<Rightarrow> unit evm" where
  "write_mem offset bs =
     bind (prepare_mem_access offset (length bs)) (\<lambda>_.
     at 0 (\<lambda>c. Inr ((), c\<lparr>cx_mem := overwrite offset bs (cx_mem c)\<rparr>)))"

definition evm_mstore :: "unit evm" where
  "evm_mstore = bind pop64 (\<lambda>offset. bind pop (\<lambda>word. write_mem offset (to_big_endian word)))"

definition evm_mstore8 :: "unit evm" where
  "evm_mstore8 = bind pop64 (\<lambda>offset. bind pop (\<lambda>v. write_mem offset [shrink8 v]))"

definition evm_sload :: "unit evm" where
  "evm_sload =
     bind pop (\<lambda>k. bind (asks cx_as) (\<lambda>a. bind (with_storage a (\<lambda>s. storage_load s k)) push))"

definition evm_sstore :: "unit evm" where
  "evm_sstore =
     bind pop (\<lambda>k. bind pop (\<lambda>v. bind (asks cx_as) (\<lambda>a.
     upd_storage a (if v = 0 then om_del k else om_put k v))))"

section \<open>Code and input\<close>

definition evm_codecopy :: "unit evm" where
  "evm_codecopy = bind (asks cx_code) (\<lambda>code. copy_mem code 0)"

definition code_at :: "bytes evm" where
  "code_at = bind pop_addr (\<lambda>a. bind (gs_get a) (\<lambda>_. with_account a a_code))"

definition evm_extcodesize :: "unit evm" where
  "evm_extcodesize = bind code_at (\<lambda>code. push (of_nat (length code)))"

definition evm_extcodecopy :: "unit evm" where
  "evm_extcodecopy = bind code_at (\<lambda>code. copy_mem code 0)"

text \<open>The size of the code of the account, which need not be the code that runs.\<close>

definition evm_codesize :: "unit evm" where
  "evm_codesize =
     bind (asks cx_as) (\<lambda>a. bind (with_account a a_code) (\<lambda>code. push (of_nat (length code))))"

text \<open>\<open>safeAdd\<close> throws \<open>std::overflow_error\<close>, which \<open>run\<close> does not catch.\<close>

definition evm_calldataload :: "unit evm" where
  "evm_calldataload =
     bind pop64 (\<lambda>offset.
     if (offset + WORD_SIZE) mod 2 ^ 64 < offset then leave
     else bind (asks cx_input) (\<lambda>input. push (calldata_word input offset)))"

definition evm_calldatasize :: "unit evm" where
  "evm_calldatasize = bind (asks cx_input) (\<lambda>input. push (of_nat (length input)))"

definition evm_calldatacopy :: "unit evm" where
  "evm_calldatacopy = bind (asks cx_input) (\<lambda>input. copy_mem input 0)"

section \<open>The environment\<close>

definition acc_address :: "u256 evm" where
  "acc_address = bind (asks cx_as) (\<lambda>a. with_account a a_address)"

definition evm_address :: "unit evm" where
  "evm_address = bind acc_address push"

definition evm_balance :: "unit evm" where
  "evm_balance = bind pop_addr (\<lambda>a. bind (gs_get a) (\<lambda>_. bind (with_account a a_balance) push))"

definition evm_origin :: "unit evm" where "evm_origin = bind (reads (\<lambda>m. tx_origin (tx m))) push"
definition evm_caller :: "unit evm" where "evm_caller = bind (asks cx_caller) push"
definition evm_callvalue :: "unit evm" where "evm_callvalue = bind (asks cx_call_value) push"

definition push_u64 :: "(machine \<Rightarrow> u64) \<Rightarrow> unit evm" where
  "push_u64 f = bind (reads f) (\<lambda>v. push (ucast v))"

definition evm_blockhash :: "unit evm" where
  "evm_blockhash =
     bind pop64 (\<lambda>i.
     if 256 \<le> i then push 0 else bind (reads (\<lambda>m. get_block_hash (gs m) (i mod 256))) push)"

definition evm_number :: "unit evm" where
  "evm_number = push_u64 (\<lambda>m. b_number (currentBlock (gs m)))"

definition evm_gasprice :: "unit evm" where
  "evm_gasprice = push_u64 (\<lambda>m. tx_gas_price (tx m))"

definition evm_coinbase :: "unit evm" where
  "evm_coinbase = bind (reads (\<lambda>m. b_coinbase (currentBlock (gs m)))) push"

definition evm_timestamp :: "unit evm" where
  "evm_timestamp = push_u64 (\<lambda>m. b_timestamp (currentBlock (gs m)))"

definition evm_difficulty :: "unit evm" where
  "evm_difficulty = push_u64 (\<lambda>m. b_difficulty (currentBlock (gs m)))"

definition evm_gas :: "unit evm" where
  "evm_gas = push_u64 (\<lambda>m. tx_gas_limit (tx m))"

definition evm_gaslimit :: "unit evm" where
  "evm_gaslimit = push_u64 (\<lambda>m. b_gas_limit (currentBlock (gs m)))"

definition evm_sha3 :: "(bytes \<Rightarrow> bytes) \<Rightarrow> unit evm" where
  "evm_sha3 keccak =
     bind pop64 (\<lambda>offset. bind pop64 (\<lambda>sz.
     bind (copy_from_mem offset sz) (\<lambda>bs. push (from_big_endian (keccak bs)))))"

definition evm_log :: "nat \<Rightarrow> unit evm" where
  "evm_log n =
     bind pop64 (\<lambda>offset. bind pop64 (\<lambda>sz. bind (pops n) (\<lambda>topics.
     bind acc_address (\<lambda>addr. bind (copy_from_mem offset sz) (\<lambda>bs m.
     Value () (m\<lparr>tx := (tx m)\<lparr>tx_logs := tx_logs (tx m) @
       [\<lparr>log_address = addr, log_data = bs, log_topics = topics\<rparr>]\<rparr>\<rparr>))))))"

section \<open>Leaving a context\<close>

definition evm_return :: "unit evm" where
  "evm_return =
     bind pop64 (\<lambda>offset. bind pop64 (\<lambda>sz.
     bind (copy_from_mem offset sz) (\<lambda>out.
     bind (asks cx_handlers) (\<lambda>h. bind (call_rh h out) (\<lambda>_. pop_context)))))"

definition evm_stop :: "unit evm" where
  "evm_stop = bind (asks cx_handlers) (\<lambda>h. bind pop_context (\<lambda>_. call_hh h))"

definition evm_selfdestruct :: "unit evm" where
  "evm_selfdestruct =
     bind pop_addr (\<lambda>recipient. bind (gs_get recipient) (\<lambda>_.
     bind (asks cx_as) (\<lambda>a.
     bind (with_account a a_balance) (\<lambda>bal.
     bind (pay_to a recipient bal) (\<lambda>_.
     bind (with_account a a_address) (\<lambda>addr.
     bind (\<lambda>m. Value () (m\<lparr>tx := (tx m)\<lparr>selfdestruct_list := selfdestruct_list (tx m) @ [addr]\<rparr>\<rparr>))
       (\<lambda>_. evm_stop)))))))"

section \<open>Entering a context\<close>

text \<open>\<open>create\<close>: the nonce of the account is not incremented.\<close>

definition evm_create :: "(bytes \<Rightarrow> bytes) \<Rightarrow> unit evm" where
  "evm_create keccak =
     bind pop (\<lambda>contractValue. bind pop64 (\<lambda>offset. bind pop64 (\<lambda>sz.
     bind (copy_from_mem offset sz) (\<lambda>initCode.
     bind (asks cx_as) (\<lambda>a.
     bind acc_address (\<lambda>addr.
     bind (with_account a a_nonce) (\<lambda>nonce.
     let newAddress = generate_address keccak addr nonce in
     bind (gs_create newAddress contractValue []) (\<lambda>_.
     bind (pay_to a newAddress contractValue) (\<lambda>_.
     push_context addr newAddress [] initCode 0 (Created newAddress))))))))))"

datatype call_kind = Call | Callcode | Delegatecall

definition enter_call ::
  "call_kind \<Rightarrow> u256 \<Rightarrow> nat \<Rightarrow> bytes \<Rightarrow> bytes \<Rightarrow> handlers \<Rightarrow> unit evm" where
  "enter_call kind addr value input code h =
     bind acc_address (\<lambda>this. bind (asks cx_as) (\<lambda>as.
     bind (asks cx_caller) (\<lambda>caller. bind (asks cx_call_value) (\<lambda>call_value.
     case kind of
       Call \<Rightarrow> push_context this addr input code (of_nat value) h
     | Callcode \<Rightarrow> push_context this as input code (of_nat value) h
     | Delegatecall \<Rightarrow> push_context caller as input code call_value h))))"

definition evm_call :: "call_kind \<Rightarrow> unit evm" where
  "evm_call kind =
     bind pop (\<lambda>_. bind pop_addr (\<lambda>addr.
     bind (if kind = Delegatecall then ret 0 else pop64) (\<lambda>value.
     bind pop64 (\<lambda>offIn. bind pop64 (\<lambda>sizeIn. bind pop64 (\<lambda>offOut. bind pop64 (\<lambda>sizeOut.
     if 1 \<le> addr \<and> addr \<le> 8 then throw NotImplemented
     else
       bind (gs_get addr) (\<lambda>_.
       bind (asks cx_as) (\<lambda>a.
       bind (pay_to a addr (of_nat value)) (\<lambda>_.
       bind (with_account addr a_code) (\<lambda>code.
       if code = [] then push 1
       else
         bind (prepare_mem_access offOut sizeOut) (\<lambda>_.
         bind (copy_from_mem offIn sizeIn) (\<lambda>input.
         enter_call kind addr value input code (Called offOut sizeOut))))))))))))))"

section \<open>Dispatch\<close>

fun execute :: "(bytes \<Rightarrow> bytes) \<Rightarrow> Opcode \<Rightarrow> unit evm" where
  "execute keccak OP_STOP = evm_stop"
| "execute keccak OP_ADD = evm_add"
| "execute keccak OP_MUL = evm_mul"
| "execute keccak OP_SUB = evm_sub"
| "execute keccak OP_DIV = evm_div"
| "execute keccak OP_SDIV = evm_sdiv"
| "execute keccak OP_MOD = evm_mod"
| "execute keccak OP_SMOD = evm_smod"
| "execute keccak OP_ADDMOD = evm_addmod"
| "execute keccak OP_MULMOD = evm_mulmod"
| "execute keccak OP_EXP = evm_exp"
| "execute keccak OP_SIGNEXTEND = evm_signextend"
| "execute keccak OP_LT = evm_lt"
| "execute keccak OP_GT = evm_gt"
| "execute keccak OP_SLT = evm_slt"
| "execute keccak OP_SGT = evm_sgt"
| "execute keccak OP_EQ = evm_eq"
| "execute keccak OP_ISZERO = evm_isZero"
| "execute keccak OP_AND = evm_and"
| "execute keccak OP_OR = evm_or"
| "execute keccak OP_XOR = evm_xor"
| "execute keccak OP_NOT = evm_not"
| "execute keccak OP_BYTE = evm_byte"
| "execute keccak OP_SHA3 = evm_sha3 keccak"
| "execute keccak OP_ADDRESS = evm_address"
| "execute keccak OP_BALANCE = evm_balance"
| "execute keccak OP_ORIGIN = evm_origin"
| "execute keccak OP_CALLER = evm_caller"
| "execute keccak OP_CALLVALUE = evm_callvalue"
| "execute keccak OP_CALLDATALOAD = evm_calldataload"
| "execute keccak OP_CALLDATASIZE = evm_calldatasize"
| "execute keccak OP_CALLDATACOPY = evm_calldatacopy"
| "execute keccak OP_CODESIZE = evm_codesize"
| "execute keccak OP_CODECOPY = evm_codecopy"
| "execute keccak OP_GASPRICE = evm_gasprice"
| "execute keccak OP_EXTCODESIZE = evm_extcodesize"
| "execute keccak OP_EXTCODECOPY = evm_extcodecopy"
| "execute keccak OP_BLOCKHASH = evm_blockhash"
| "execute keccak OP_COINBASE = evm_coinbase"
| "execute keccak OP_TIMESTAMP = evm_timestamp"
| "execute keccak OP_NUMBER = evm_number"
| "execute keccak OP_DIFFICULTY = evm_difficulty"
| "execute keccak OP_GASLIMIT = evm_gaslimit"
| "execute keccak OP_POP = evm_pop"
| "execute keccak OP_MLOAD = evm_mload"
| "execute keccak OP_MSTORE = evm_mstore"
| "execute keccak OP_MSTORE8 = evm_mstore8"
| "execute keccak OP_SLOAD = evm_sload"
| "execute keccak OP_SSTORE = evm_sstore"
| "execute keccak OP_JUMP = evm_jump"
| "execute keccak OP_JUMPI = evm_jumpi"
| "execute keccak OP_PC = evm_pc"
| "execute keccak OP_MSIZE = evm_msize"
| "execute keccak OP_GAS = evm_gas"
| "execute keccak OP_JUMPDEST = ret ()"
| "execute keccak OP_CREATE = evm_create keccak"
| "execute keccak OP_CALL = evm_call Call"
| "execute keccak OP_CALLCODE = evm_call Callcode"
| "execute keccak OP_RETURN = evm_return"
| "execute keccak OP_DELEGATECALL = evm_call Delegatecall"
| "execute keccak OP_SELFDESTRUCT = evm_selfdestruct"
| "execute keccak (OP_PUSH n) = evm_push n"
| "execute keccak (OP_DUP n) = at 0 (stack_dup n)"
| "execute keccak (OP_SWAP n) = at 0 (stack_swap n)"
| "execute keccak (OP_LOG n) = evm_log n"

definition dispatch_op :: "(bytes \<Rightarrow> bytes) \<Rightarrow> unit evm" where
  "dispatch_op keccak =
     bind get_op (\<lambda>b. case opcode_of b of None \<Rightarrow> throw IllegalInstruction | Some i \<Rightarrow> execute keccak i)"

section \<open>Running\<close>

text \<open>
  One turn of the loop: an exception of the instruction goes to the handler of the context that is
  current by then, which is removed; what that handler throws leaves \<open>run\<close>. Then the program
  counter of the current context, if any is left, is advanced.
\<close>

definition handle_exception :: "ET \<Rightarrow> unit evm" where
  "handle_exception e m =
     (case bind (asks cx_handlers) (\<lambda>h. bind (call_eh h e) (\<lambda>_. pop_context)) m of
        Throws e' m' \<Rightarrow> Leaves m' | r \<Rightarrow> r)"

definition advance :: "machine \<Rightarrow> machine" where
  "advance m = (case ctxts m of [] \<Rightarrow> m | c # cs \<Rightarrow> m\<lparr>ctxts := cx_step c # cs\<rparr>)"

definition turn :: "(bytes \<Rightarrow> bytes) \<Rightarrow> unit evm" where
  "turn keccak m =
     bind (\<lambda>m. case dispatch_op keccak m of Throws e m' \<Rightarrow> handle_exception e m' | r \<Rightarrow> r)
       (\<lambda>_ m'. Value () (advance m')) m"

text \<open>The loop goes on while there is a context and its program counter is inside its code.\<close>

definition running :: "machine \<Rightarrow> bool" where
  "running m \<longleftrightarrow> (case ctxts m of [] \<Rightarrow> False | c # cs \<Rightarrow> cx_pc c < length (cx_code c))"

partial_function (option) run_loop :: "(bytes \<Rightarrow> bytes) \<Rightarrow> machine \<Rightarrow> unit eval option" where
  "run_loop keccak m =
     (if \<not> running m then Some (Value () m)
      else case turn keccak m of
        Value _ m' \<Rightarrow> run_loop keccak m'
      | Throws e m' \<Rightarrow> Some (Throws e m')
      | Leaves m' \<Rightarrow> Some (Leaves m')
      | Aborts \<Rightarrow> Some Aborts
      | Dangling \<Rightarrow> Some Dangling)"

declare run_loop.simps [code]

text \<open>After the loop: the context that ran off the end of its code stops, outside the \<open>try\<close>.\<close>

definition finish :: "unit evm" where
  "finish m =
     bind (if ctxts m = [] then ret ()
           else (\<lambda>m. case evm_stop m of Throws e m' \<Rightarrow> Leaves m' | r \<Rightarrow> r))
       (\<lambda>_ m'. Value () (fold gs_remove (selfdestruct_list (tx m')) m')) m"

definition initial_result :: ExecResult where
  "initial_result = \<lparr>er = Returned, ex = OutOfBounds, exec_output = []\<rparr>"

definition initial_machine ::
  "SimpleGlobalState \<Rightarrow> Transaction \<Rightarrow> u256 \<Rightarrow> u256 \<Rightarrow> bytes \<Rightarrow> bytes \<Rightarrow> u256 \<Rightarrow> machine" where
  "initial_machine g t caller callee code input call_value =
     \<lparr>gs = g, tx = t,
      ctxts = [new_context caller callee input code call_value Outermost],
      result = initial_result\<rparr>"

text \<open>\<open>callee\<close> is a reference to an account of the global state.\<close>

definition evm_run ::
  "(bytes \<Rightarrow> bytes) \<Rightarrow> SimpleGlobalState \<Rightarrow> Transaction \<Rightarrow> u256 \<Rightarrow> u256 \<Rightarrow> bytes \<Rightarrow> u256
     \<Rightarrow> unit eval option" where
  "evm_run keccak g t caller callee input call_value =
     (case om_get (accounts g) callee of
        None \<Rightarrow> Some Dangling
      | Some (a, s) \<Rightarrow>
          Option.bind (run_loop keccak (initial_machine g t caller callee (a_code a) input call_value))
            (\<lambda>r. Some (bind (\<lambda>_. r) (\<lambda>_. finish) (initial_machine g t caller callee (a_code a) input call_value))))"

end
