(* ===== verification/Evm_Frame.thy ===== *)
theory Evm_Frame
  imports Evm_Processor
begin

text \<open>
  Relations between the states before and after an instruction, whether it returns or throws. The
  locale \<open>evm_frame\<close> is for relations that hold of every change of stack and memory; its lemmas go
  through the instructions that only compute. \<open>evm_frame_gs\<close> extends it to relations that do not
  look at contexts at all, \<open>evm_frame_pay\<close> to those that allow balances to change.
\<close>

named_theorems evm_respectful

definition evm_respects :: "(machine \<Rightarrow> machine \<Rightarrow> bool) \<Rightarrow> 'a evm \<Rightarrow> bool" where
  "evm_respects R f \<longleftrightarrow>
     (\<forall>m. case f m of
        Value a m' \<Rightarrow> R m m' | Throws e m' \<Rightarrow> R m m' | Leaves m' \<Rightarrow> R m m' | Aborts \<Rightarrow> True
      | Dangling \<Rightarrow> True)"

lemma evm_respects_if [evm_respectful]:
  "(b \<Longrightarrow> evm_respects R f) \<Longrightarrow> (\<not> b \<Longrightarrow> evm_respects R g) \<Longrightarrow> evm_respects R (if b then f else g)"
  by simp

lemma evm_respects_let [evm_respectful]:
  "(\<And>a. evm_respects R (f a)) \<Longrightarrow> evm_respects R (let a = v in f a)"
  by simp

lemma evm_respects_kind [evm_respectful]:
  "evm_respects R f \<Longrightarrow> evm_respects R g \<Longrightarrow> evm_respects R h \<Longrightarrow>
     evm_respects R (case k of Call \<Rightarrow> f | Callcode \<Rightarrow> g | Delegatecall \<Rightarrow> h)"
  by (cases k) auto

text \<open>A change of a context that leaves all but its stack and memory alone.\<close>

definition data_only :: "(Context \<Rightarrow> ET + 'a \<times> Context) \<Rightarrow> bool" where
  "data_only f \<longleftrightarrow>
     (\<forall>c a c'. f c = Inr (a, c') \<longrightarrow> c' = c\<lparr>cx_s := cx_s c', cx_mem := cx_mem c'\<rparr>)"

lemma data_only_simps [simp]:
  "data_only stack_pop" "data_only (stack_push v)" "data_only (stack_swap i)"
  "data_only (stack_dup i)" "data_only (\<lambda>c. Inr (f c, c))"
  "data_only (\<lambda>c. Inr ((), c\<lparr>cx_mem := g c\<rparr>))"
  "data_only (\<lambda>c. case h c of Inl e \<Rightarrow> Inl e | Inr mem \<Rightarrow> Inr ((), c\<lparr>cx_mem := mem\<rparr>))"
  by (auto simp: data_only_def stack_pop_def stack_push_def stack_swap_def stack_dup_def
      split: list.splits if_splits sum.splits)

text \<open>The current instruction, and the dispatch on it.\<close>

definition current :: "machine \<Rightarrow> Opcode option" where
  "current m =
     (case ctxts m of
        [] \<Rightarrow> None
      | c # cs \<Rightarrow> if cx_pc c < length (cx_code c) then opcode_of (cx_code c ! cx_pc c) else None)"

lemma running_obtains:
  assumes "running m"
  obtains c cs where "ctxts m = c # cs" "cx_pc c < length (cx_code c)"
  using assms by (auto simp: running_def split: list.splits)

lemma dispatch_op_eq:
  "running m \<Longrightarrow> dispatch_op keccak m =
     (case current m of None \<Rightarrow> Throws IllegalInstruction m | Some i \<Rightarrow> execute keccak i m)"
  by (auto simp: running_def dispatch_op_def bind_def get_op_def current_def throw_def
      split: list.splits option.splits)

text \<open>A result in a state related to \<open>m\<close>.\<close>

definition ends_in :: "(machine \<Rightarrow> machine \<Rightarrow> bool) \<Rightarrow> machine \<Rightarrow> 'a eval \<Rightarrow> bool" where
  "ends_in R m r \<longleftrightarrow>
     (case r of Value a m' \<Rightarrow> R m m' | Throws e m' \<Rightarrow> R m m' | Leaves m' \<Rightarrow> R m m' | Aborts \<Rightarrow> True
      | Dangling \<Rightarrow> True)"

lemma ends_in_simps [simp]:
  "ends_in R m (Value a m') = R m m'" "ends_in R m (Throws e m') = R m m'"
  "ends_in R m (Leaves m') = R m m'" "ends_in R m Aborts" "ends_in R m Dangling"
  by (simp_all add: ends_in_def)

lemma evm_respectsD: "evm_respects R f \<Longrightarrow> ends_in R m (f m)"
  by (simp add: evm_respects_def ends_in_def)

section \<open>Instructions that compute\<close>

locale evm_frame =
  fixes R :: "machine \<Rightarrow> machine \<Rightarrow> bool"
  assumes R_refl: "R m m"
    and R_trans: "R m m' \<Longrightarrow> R m' m'' \<Longrightarrow> R m m''"
    and R_data: "n < length (ctxts m) \<Longrightarrow> c = (ctxts m ! n)\<lparr>cx_s := s, cx_mem := mem\<rparr> \<Longrightarrow>
      R m (m\<lparr>ctxts := (ctxts m)[n := c]\<rparr>)"
    and R_new: "om_get (accounts (gs m)) a = None \<Longrightarrow>
      R m (set_accounts (om_put a (new_account a 0 [], [])) m)"
    and R_tx: "R m (m\<lparr>tx := t\<rparr>)"
begin

abbreviation rsp :: "'a evm \<Rightarrow> bool" where
  "rsp \<equiv> evm_respects R"

lemma rsp_bind [evm_respectful]: "rsp f \<Longrightarrow> (\<And>a. rsp (g a)) \<Longrightarrow> rsp (bind f g)"
  unfolding evm_respects_def bind_def by (fastforce split: eval.splits intro: R_trans)

lemma ends_in_trans: "R m m' \<Longrightarrow> ends_in R m' r \<Longrightarrow> ends_in R m r"
  by (cases r) (auto intro: R_trans)

lemma rsp_simple [evm_respectful]: "rsp (ret a)" "rsp (throw e)" "rsp leave" "rsp (reads f)"
  by (simp_all add: evm_respects_def ret_def throw_def leave_def reads_def R_refl)

lemma rsp_at: "data_only f \<Longrightarrow> rsp (at n f)"
  by (auto simp: evm_respects_def at_def data_only_def split: sum.splits intro: R_refl R_data)

lemma rsp_context [evm_respectful]:
  "rsp (at n stack_pop)" "rsp (at n (stack_push v))" "rsp (at n (stack_swap i))"
  "rsp (at n (stack_dup i))" "rsp (at n (\<lambda>c. Inr (f c, c)))"
  "rsp (at n (\<lambda>c. Inr ((), c\<lparr>cx_mem := g c\<rparr>)))"
  "rsp (at n (\<lambda>c. case h c of Inl e \<Rightarrow> Inl e | Inr mem \<Rightarrow> Inr ((), c\<lparr>cx_mem := mem\<rparr>)))"
  by (simp_all add: rsp_at)

lemma rsp_stack [evm_respectful]:
  "rsp pop" "rsp pop64" "rsp (push v)" "rsp pop_addr" "rsp (asks f)" "rsp (pops n)"
proof -
  show "rsp pop" "rsp (push v)" "rsp (asks f)"
    unfolding pop_def push_def asks_def by (intro evm_respectful)+
  then show "rsp pop64" "rsp pop_addr" "rsp (pops n)"
    unfolding pop64_def pop_addr_def by (induction n) (simp_all, (intro evm_respectful | assumption)+)
qed

lemma rsp_mem [evm_respectful]:
  "rsp (prepare_mem_access offset sz)" "rsp (copy_from_mem offset sz)" "rsp (copy_mem src pad)"
  "rsp (write_mem offset bs)"
  unfolding copy_from_mem_def copy_mem_def write_mem_def prepare_mem_access_def
  by (intro evm_respectful)+

lemma rsp_get [evm_respectful]:
  "rsp (gs_get a)" "rsp (with_account a f)" "rsp (with_storage a h)"
  by (auto simp: evm_respects_def gs_get_def gs_create_def with_account_def with_storage_def
      R_refl R_new split: option.splits)

lemma rsp_own [evm_respectful]: "rsp acc_address" "rsp code_at" "rsp (push_u64 h)"
  unfolding acc_address_def code_at_def push_u64_def by (intro evm_respectful)+

lemma rsp_ops [evm_respectful]: "rsp (unop f)" "rsp (binop g)" "rsp (terop h)"
  unfolding unop_def binop_def terop_def by (intro evm_respectful)+

lemma rsp_log [evm_respectful]: "rsp (evm_log n)"
proof -
  have log: "rsp (\<lambda>m. Value () (m\<lparr>tx := f m\<rparr>))" for f by (simp add: evm_respects_def R_tx)
  show ?thesis unfolding evm_log_def by (intro evm_respectful log)
qed

end

lemmas computing_defs = evm_add_def evm_sub_def evm_mul_def evm_div_def evm_sdiv_def evm_mod_def
  evm_smod_def evm_addmod_def evm_mulmod_def evm_exp_def evm_signextend_def evm_lt_def evm_gt_def
  evm_slt_def evm_sgt_def evm_eq_def evm_isZero_def evm_and_def evm_or_def evm_xor_def evm_not_def
  evm_byte_def evm_pc_def evm_pop_def evm_msize_def evm_mload_def evm_mstore_def evm_mstore8_def
  evm_sload_def evm_codecopy_def evm_extcodesize_def evm_extcodecopy_def evm_codesize_def
  evm_calldataload_def evm_calldatasize_def evm_calldatacopy_def evm_address_def evm_balance_def
  evm_origin_def evm_caller_def evm_callvalue_def evm_blockhash_def evm_number_def
  evm_gasprice_def evm_coinbase_def evm_timestamp_def evm_difficulty_def evm_gas_def
  evm_gaslimit_def evm_sha3_def

text \<open>The instructions that neither move the program counter, nor change contexts or storage.\<close>

fun computes :: "Opcode \<Rightarrow> bool" where
  "computes OP_STOP = False" | "computes OP_JUMP = False" | "computes OP_JUMPI = False"
| "computes OP_SSTORE = False" | "computes OP_CREATE = False" | "computes OP_CALL = False"
| "computes OP_CALLCODE = False" | "computes OP_DELEGATECALL = False"
| "computes OP_RETURN = False" | "computes OP_SELFDESTRUCT = False"
| "computes (OP_PUSH n) = False" | "computes i = True"

context evm_frame
begin

lemma rsp_computes [evm_respectful]: "computes i \<Longrightarrow> rsp (execute keccak i)"
  by (cases i; simp only: execute.simps computes.simps simp_thms;
      (unfold computing_defs)?; (intro evm_respectful)?)

end

section \<open>Relations between global states\<close>

text \<open>A relation that looks at the global state only is kept by every change of contexts.\<close>

locale evm_frame_gs =
  fixes R :: "machine \<Rightarrow> machine \<Rightarrow> bool"
  assumes G_gs: "gs m' = gs m \<Longrightarrow> R m m'"
    and G_trans: "R m m' \<Longrightarrow> R m' m'' \<Longrightarrow> R m m''"
    and G_new: "om_get (accounts (gs m)) a = None \<Longrightarrow>
      R m (set_accounts (om_put a (new_account a 0 [], [])) m)"

sublocale evm_frame_gs \<subseteq> evm_frame R
  by unfold_locales (erule G_new | erule (1) G_trans | simp add: G_gs)+

context evm_frame_gs
begin

lemma rsp_at_any [evm_respectful]: "rsp (at n f)"
  by (auto simp: evm_respects_def at_def intro: G_gs split: sum.splits)

lemma rsp_contexts [evm_respectful]: "rsp pop_context" "rsp (push_context r a i c v h)"
  by (auto simp: evm_respects_def pop_context_def push_context_def intro: G_gs split: list.splits)

lemma rsp_jump [evm_respectful]: "rsp (jump_to n)" "rsp evm_jump" "rsp evm_jumpi" "rsp (evm_push n)"
  unfolding jump_to_def evm_jump_def evm_jumpi_def evm_push_def by (intro evm_respectful)+

lemma rsp_handlers [evm_respectful]: "rsp (call_rh h out)" "rsp (call_hh h)" "rsp (call_eh h e)"
proof -
  have result: "rsp (\<lambda>m. Value () (m\<lparr>result := f m\<rparr>))" for f
    by (simp add: evm_respects_def G_gs)
  show "rsp (call_rh h out)"
    by (cases h; simp add: call_rh_def; (intro evm_respectful result)?)
      (simp_all add: evm_respects_def)
  show "rsp (call_hh h)" "rsp (call_eh h e)"
    by (cases h; simp add: call_hh_def call_eh_def; intro evm_respectful result)+
qed

lemma rsp_leaving [evm_respectful]: "rsp evm_return" "rsp evm_stop"
  unfolding evm_return_def evm_stop_def by (intro evm_respectful)+

lemma rsp_enter_call [evm_respectful]: "rsp (enter_call k a v i c h)"
  unfolding enter_call_def by (intro evm_respectful)

lemma rsp_handle: "rsp (handle_exception e)"
proof -
  have "rsp (bind (asks cx_handlers) (\<lambda>h. bind (call_eh h e) (\<lambda>_. pop_context)))"
    by (intro evm_respectful)
  then show ?thesis
    unfolding evm_respects_def handle_exception_def by (fastforce split: eval.splits)
qed

lemma rsp_plain:
  assumes "i \<notin> {OP_SSTORE, OP_CREATE, OP_CALL, OP_CALLCODE, OP_DELEGATECALL, OP_SELFDESTRUCT}"
  shows "rsp (execute keccak i)"
proof (cases "computes i")
  case False
  then show ?thesis using assms by (cases i) (simp_all add: evm_respectful)
qed (rule rsp_computes)

lemma turn_ends_in:
  assumes "running m" "\<And>i. current m = Some i \<Longrightarrow> ends_in R m (execute keccak i m)"
  shows "ends_in R m (turn keccak m)"
proof -
  have op: "ends_in R m (dispatch_op keccak m)"
    using assms by (auto simp: dispatch_op_eq R_refl split: option.split)
  have advance: "R m' (advance m')" for m'
    by (rule G_gs) (simp add: advance_def split: list.split)
  show ?thesis
  proof (cases "dispatch_op keccak m")
    case (Throws e m')
    then have "ends_in R m (handle_exception e m')"
      using op rsp_handle [of e, THEN evm_respectsD, of m'] by (auto intro: ends_in_trans)
    then show ?thesis
      using Throws advance by (cases "handle_exception e m'") (auto simp: turn_def bind_def intro: R_trans)
  qed (use op advance in \<open>auto simp: turn_def bind_def intro: R_trans\<close>)
qed

end

text \<open>A relation that does not look at balances either is kept by payments and creations.\<close>

locale evm_frame_pay = evm_frame_gs +
  assumes P_balance: "om_get (accounts (gs m)) a = Some (acc, s) \<Longrightarrow>
      R m (set_accounts (om_put a (acc\<lparr>a_balance := b\<rparr>, s)) m)"
    and P_new: "om_get (accounts (gs m)) a = None \<Longrightarrow>
      R m (set_accounts (om_put a (new_account a b [], [])) m)"
begin

lemma rsp_balance [evm_respectful]: "rsp (set_balance a b)" "rsp (gs_create a b [])"
  by (auto simp: evm_respects_def set_balance_def upd_entry_def gs_create_def P_balance P_new
      split: option.splits)

lemma rsp_pay [evm_respectful]: "rsp (pay_to a b v)"
  unfolding pay_to_def by (intro evm_respectful)

lemma rsp_selfdestruct [evm_respectful]: "rsp evm_selfdestruct"
proof -
  have "rsp (\<lambda>m. Value () (m\<lparr>tx := f m\<rparr>))" for f by (simp add: evm_respects_def R_tx)
  then show ?thesis unfolding evm_selfdestruct_def by (intro evm_respectful)
qed

lemma rsp_calls [evm_respectful]: "rsp (evm_create keccak)" "rsp (evm_call k)"
  unfolding evm_create_def evm_call_def by (intro evm_respectful)+

lemma rsp_but_store: "i \<noteq> OP_SSTORE \<Longrightarrow> rsp (execute keccak i)"
  using rsp_plain [of i] rsp_calls rsp_selfdestruct by (cases i) simp_all

end

end
