(* ===== verification/Evm_Invariants.thy ===== *)
theory Evm_Invariants
  imports Evm_Frame
begin

text \<open>
  What every turn of the processor keeps: the well-formedness of the machine (\<open>evm_ok\<close>), proved
  with a triple \<open>safe\<close> that also says which ends are possible; the control state of the contexts,
  the storages and the sum of the balances, as instances of the locales of \<open>Evm_Frame\<close>.
\<close>

section \<open>Memory\<close>

lemma length_resize [simp]: "length (resize n v) = max n (length v)"
  by (simp add: resize_def)

lemma length_overwrite: "length (overwrite off bs v) \<le> max (length v) (off + length bs)"
  by (simp add: overwrite_def)

lemma length_overwrite_inside [simp]:
  "off + length bs \<le> length v \<Longrightarrow> length (overwrite off bs v) = length v"
  by (simp add: overwrite_def)

lemma overwrite_nth:
  "off + length bs \<le> length v \<Longrightarrow> i < length v \<Longrightarrow>
     overwrite off bs v ! i = (if off \<le> i \<and> i < off + length bs then bs ! (i - off) else v ! i)"
  by (auto simp: overwrite_def nth_append min_def)

lemma copy_mem_raw_cases:
  assumes ok: "copy_mem_raw offDst offSrc sz dst src pad = Inr mem"
    and sz: "sz \<noteq> 0" "offDst < 2 ^ 64" "offSrc < 2 ^ 64" "sz < 2 ^ 64"
  obtains n where "n = min sz (length src - offSrc) \<or> n = 0 \<and> 2 ^ 64 \<le> offSrc + sz"
    "offDst + sz \<le> MAX_MEM_SIZE" "n \<le> sz" "n \<le> length src - offSrc"
    "mem = overwrite (offDst + n) (replicate (sz - n) pad)
      (overwrite offDst (take n (drop offSrc src)) (resize (offDst + sz) dst))"
proof -
  have dst: "(offDst + sz) mod 2 ^ 64 = offDst + sz"
    using ok sz by (cases "offDst + sz < 2 ^ 64")
      (auto simp: copy_mem_raw_def Let_def le_mod_geq split: if_splits)
  then have bound: "offDst + sz \<le> MAX_MEM_SIZE"
    using ok sz by (auto simp: copy_mem_raw_def Let_def split: if_splits)
  show ?thesis
  proof (cases "offSrc < min ((offSrc + sz) mod 2 ^ 64) (length src)")
    case True
    then have src: "(offSrc + sz) mod 2 ^ 64 = offSrc + sz"
      using sz by (cases "offSrc + sz < 2 ^ 64") (auto simp: le_mod_geq)
    have n: "min (offSrc + sz) (length src) - offSrc = min sz (length src - offSrc)"
      "offDst + sz - (offSrc + sz - min (offSrc + sz) (length src)) =
        offDst + min sz (length src - offSrc)"
      "offSrc + sz - min (offSrc + sz) (length src) = sz - min sz (length src - offSrc)"
      using True src by auto
    show ?thesis
      by (rule that [OF disjI1 [OF refl] bound])
        (use ok sz bound True in \<open>simp_all add: copy_mem_raw_def Let_def dst [simplified] src [simplified] n\<close>)
  next
    case False
    have "length src \<le> offSrc \<or> 2 ^ 64 \<le> offSrc + sz"
      using False sz by (cases "offSrc + sz < 2 ^ 64") auto
    then show ?thesis
      by (intro that [of 0]) (use ok sz bound False in
        \<open>auto simp: copy_mem_raw_def Let_def dst [simplified] overwrite_def [of offDst "[]"]\<close>)
  qed
qed

lemma copy_mem_raw_length:
  assumes "copy_mem_raw offDst offSrc sz dst src pad = Inr mem"
    and "offDst < 2 ^ 64" "offSrc < 2 ^ 64" "sz < 2 ^ 64" "length dst \<le> MAX_MEM_SIZE"
  shows "length mem \<le> MAX_MEM_SIZE"
proof (cases "sz = 0")
  case True
  then show ?thesis using assms by (simp add: copy_mem_raw_def)
next
  case False
  show ?thesis
    by (rule copy_mem_raw_cases [OF assms(1) False assms(2-4)]) (use assms(5) in simp)
qed

section \<open>Well-formed machines\<close>

text \<open>
  Only the first context reports to \<open>run\<close>; a context is for an account that exists; what a call
  writes back has a 64-bit size; an account is stored under its own address.
\<close>

definition handler_ok :: "handlers \<Rightarrow> bool" where
  "handler_ok h = (case h of Outermost \<Rightarrow> False | Created a \<Rightarrow> True
     | Called off sz \<Rightarrow> off < 2 ^ 64 \<and> sz < 2 ^ 64)"

definition handlers_ok :: "Context list \<Rightarrow> bool" where
  "handlers_ok cs \<longleftrightarrow>
     (\<forall>c \<in> set (butlast cs). handler_ok (cx_handlers c))
     \<and> (cs \<noteq> [] \<longrightarrow> cx_handlers (last cs) = Outermost)"

definition account_ok :: "u256 \<times> SimpleAccount \<times> SimpleStorage \<Rightarrow> bool" where
  "account_ok e \<longleftrightarrow> a_address (fst (snd e)) = fst e"

definition global_ok :: "SimpleGlobalState \<Rightarrow> bool" where
  "global_ok g \<longleftrightarrow> om_ok (accounts g) \<and> list_all account_ok (accounts g)"

definition context_ok :: "SimpleGlobalState \<Rightarrow> Context \<Rightarrow> bool" where
  "context_ok g c \<longleftrightarrow>
     cx_as c \<in> set (om_keys (accounts g)) \<and> length (cx_mem c) \<le> MAX_MEM_SIZE"

definition evm_ok :: "machine \<Rightarrow> bool" where
  "evm_ok m \<longleftrightarrow>
     global_ok (gs m) \<and> length (ctxts m) \<le> MAX_CALL_DEPTH \<and> handlers_ok (ctxts m)
     \<and> (\<forall>c \<in> set (ctxts m). context_ok (gs m) c)"

definition good :: "u256 set \<Rightarrow> machine \<Rightarrow> bool" where
  "good A m \<longleftrightarrow> evm_ok m \<and> ctxts m \<noteq> [] \<and> A \<subseteq> set (om_keys (accounts (gs m)))"

text \<open>
  From a well-formed machine whose accounts include \<open>A\<close>, the code ends in one, whether or not it
  throws, and follows no dangling pointer; it aborts only if \<open>k\<close>.
\<close>

fun ends :: "bool \<Rightarrow> u256 set \<Rightarrow> 'a eval \<Rightarrow> bool" where
  "ends k A (Value a m) = good A m"
| "ends k A (Throws e m) = good {} m"
| "ends k A (Leaves m) = good {} m"
| "ends k A Aborts = k"
| "ends k A Dangling = False"

definition safe :: "bool \<Rightarrow> u256 set \<Rightarrow> 'a evm \<Rightarrow> bool" where
  "safe k A f \<longleftrightarrow> (\<forall>m. good A m \<longrightarrow> ends k A (f m))"

named_theorems evm_safe

lemma good_mono: "good A m \<Longrightarrow> B \<subseteq> A \<Longrightarrow> good B m"
  by (auto simp: good_def)

lemma good_empty: "good A m \<Longrightarrow> good {} m"
  by (simp add: good_mono)

lemma ends_mono: "ends k B r \<Longrightarrow> A \<subseteq> B \<Longrightarrow> ends k A r"
  by (cases r) (auto intro: good_mono)

lemma safe_bind: "safe k A f \<Longrightarrow> (\<And>a. safe k A (g a)) \<Longrightarrow> safe k A (bind f g)"
  unfolding safe_def bind_def by (fastforce split: eval.split)

text \<open>What a step makes known is used by the steps after it.\<close>

lemma safe_bind_known:
  assumes f: "\<And>m. good A m \<Longrightarrow>
      case f m of Value a m' \<Rightarrow> good (insert (h a) A) m' \<and> P a | r \<Rightarrow> ends k A r"
    and g: "\<And>a. P a \<Longrightarrow> safe k (insert (h a) A) (g a)"
  shows "safe k A (bind f g)"
  unfolding safe_def
proof (intro allI impI)
  fix m assume "good A m"
  note m = f [OF this]
  show "ends k A (bind f g m)"
  proof (cases "f m")
    case (Value a m')
    then have "ends k (insert (h a) A) (g a m')" using m g by (simp add: safe_def)
    then show ?thesis using Value by (auto simp: bind_def intro: ends_mono)
  qed (use m in \<open>simp_all add: bind_def\<close>)
qed

lemma safe_if [evm_safe]:
  "(b \<Longrightarrow> safe k A f) \<Longrightarrow> (\<not> b \<Longrightarrow> safe k A g) \<Longrightarrow> safe k A (if b then f else g)"
  by simp

lemma safe_let [evm_safe]: "(\<And>a. safe k A (f a)) \<Longrightarrow> safe k A (let a = v in f a)"
  by simp

lemma safe_simple [evm_safe]:
  "safe k A (ret a)" "safe k A (throw e)" "safe k A leave" "safe k A (reads f)"
  by (auto simp: safe_def ret_def throw_def leave_def reads_def intro: good_empty)

lemma handlers_ok_Cons:
  "handlers_ok (c # cs) \<longleftrightarrow>
     (if cs = [] then cx_handlers c = Outermost else handler_ok (cx_handlers c) \<and> handlers_ok cs)"
  by (auto simp: handlers_ok_def)

lemma handlers_ok_map: "handlers_ok cs \<longleftrightarrow>
     (\<forall>h \<in> set (butlast (map cx_handlers cs)). handler_ok h)
     \<and> (map cx_handlers cs \<noteq> [] \<longrightarrow> last (map cx_handlers cs) = Outermost)"
  by (auto simp: handlers_ok_def last_map simp flip: map_butlast)

lemma good_update:
  assumes "good A m" "n < length (ctxts m)" "cx_handlers c = cx_handlers (ctxts m ! n)"
    "cx_as c = cx_as (ctxts m ! n)" "length (cx_mem c) \<le> MAX_MEM_SIZE"
  shows "good A (m\<lparr>ctxts := (ctxts m)[n := c]\<rparr>)"
proof -
  have "map cx_handlers ((ctxts m)[n := c]) = map cx_handlers (ctxts m)"
    using assms(2,3) by (simp add: map_update list_update_same_conv)
  then have "handlers_ok ((ctxts m)[n := c])"
    using assms(1) by (simp add: good_def evm_ok_def handlers_ok_map)
  moreover have "context_ok (gs m) c" "ctxts m \<noteq> []"
    using assms nth_mem [OF assms(2)] by (auto simp: good_def evm_ok_def context_ok_def)
  ultimately show ?thesis
    using assms(1) by (auto simp: good_def evm_ok_def dest!: set_update_subset_insert [THEN subsetD])
qed

text \<open>Changes of a context that keep its account, its handlers and the bound on its memory.\<close>

definition tame :: "(Context \<Rightarrow> ET + 'a \<times> Context) \<Rightarrow> bool" where
  "tame f \<longleftrightarrow>
     (\<forall>c a c'. f c = Inr (a, c') \<longrightarrow> length (cx_mem c) \<le> MAX_MEM_SIZE \<longrightarrow>
        cx_handlers c' = cx_handlers c \<and> cx_as c' = cx_as c \<and> length (cx_mem c') \<le> MAX_MEM_SIZE)"

lemma tame_simps [simp]:
  "tame stack_pop" "tame (stack_push v)" "tame (stack_swap i)" "tame (stack_dup i)"
  "tame (\<lambda>c. Inr (f c, c))" "tame (\<lambda>c. Inr ((), set_pc p c))"
  "tame (\<lambda>c. if P c then Inl e else Inr ((), set_pc p c))"
  by (auto simp: tame_def stack_pop_def stack_push_def stack_swap_def stack_dup_def set_pc_def
      split: list.splits if_splits)

lemma tame_copy [simp]:
  "offDst < 2 ^ 64 \<Longrightarrow> offSrc < 2 ^ 64 \<Longrightarrow> sz < 2 ^ 64 \<Longrightarrow>
     tame (\<lambda>c. case copy_mem_raw offDst offSrc sz (cx_mem c) src pad of
       Inl e \<Rightarrow> Inl e | Inr mem \<Rightarrow> Inr ((), c\<lparr>cx_mem := mem\<rparr>))"
  by (auto simp: tame_def split: sum.splits intro: copy_mem_raw_length)

lemma at_tame: "good A m \<Longrightarrow> tame f \<Longrightarrow> n < length (ctxts m) \<Longrightarrow> ends k A (at n f m)"
proof -
  assume m: "good A m" "tame f" "n < length (ctxts m)"
  then have "length (cx_mem (ctxts m ! n)) \<le> MAX_MEM_SIZE"
    using nth_mem by (fastforce simp: good_def evm_ok_def context_ok_def)
  then show ?thesis
    using m by (auto simp: at_def tame_def split: sum.splits intro!: good_update intro: good_empty)
qed

lemma at_length: "at n f m = Value a m' \<Longrightarrow> length (ctxts m') = length (ctxts m)"
  by (auto simp: at_def split: sum.splits if_splits)

lemma safe_at: "tame f \<Longrightarrow> safe k A (at 0 f)"
  by (simp add: safe_def at_tame good_def)

lemma safe_context [evm_safe]:
  "safe k A (at 0 stack_pop)" "safe k A (at 0 (stack_push v))" "safe k A (at 0 (stack_swap i))"
  "safe k A (at 0 (stack_dup i))" "safe k A (at 0 (\<lambda>c. Inr (f c, c)))"
  "safe k A (at 0 (\<lambda>c. Inr ((), set_pc p c)))"
  "safe k A (at 0 (\<lambda>c. if P c then Inl e else Inr ((), set_pc p c)))"
  by (simp_all add: safe_at)

section \<open>The instructions\<close>

lemma safe_pop [evm_safe]: "safe k A pop" "safe k A (push v)" "safe k A (asks f)"
  unfolding pop_def push_def asks_def by (intro evm_safe)+

lemma safe_pop64: "safe k A pop64"
  unfolding pop64_def by (intro safe_bind evm_safe)

lemma safe_bind_pop64:
  assumes "\<And>v. v < 2 ^ 64 \<Longrightarrow> safe k A (g v)"
  shows "safe k A (bind pop64 g)"
  unfolding pop64_def bind_assoc
proof (rule safe_bind [OF safe_pop(1)])
  fix v :: u256
  show "safe k A (bind (if 2 ^ 64 - 1 < v then throw OutOfBounds else ret (unat v)) g)"
  proof (cases "2 ^ 64 - 1 < v")
    case False
    then have "unat v < 2 ^ 64" by (simp add: word_less_nat_alt)
    then show ?thesis using False assms by simp
  qed (simp add: evm_safe)
qed

lemma safe_bind_as:
  assumes "\<And>a. safe k (insert a A) (g a)"
  shows "safe k A (bind (asks cx_as) g)"
proof (rule safe_bind_known [where h = "\<lambda>a. a" and P = "\<lambda>_. True"])
  fix m assume m: "good A m"
  then have "cx_as (ctxts m ! 0) \<in> set (om_keys (accounts (gs m)))"
    by (auto simp: good_def evm_ok_def context_ok_def)
  then show "case asks cx_as m of Value a m' \<Rightarrow> good (insert a A) m' \<and> True | r \<Rightarrow> ends k A r"
    using m by (simp add: asks_def at_def good_def)
qed (use assms in simp)

lemma good_put:
  assumes "good A m" "a_address (fst e) = a"
  shows "good (insert a A) (set_accounts (om_put a e) m)"
proof -
  have "list_all account_ok (om_put a e (accounts (gs m)))"
    using assms om_ok_put
    by (auto simp: good_def evm_ok_def global_ok_def list_all_iff account_ok_def
        simp flip: om_get_Some_iff split: if_splits)
  then show ?thesis
    using assms
    by (auto simp: good_def evm_ok_def global_ok_def set_accounts_def context_ok_def
        set_om_keys_put)
qed

lemma safe_bind_get:
  assumes "safe k (insert a A) (g ())"
  shows "safe k A (bind (gs_get a) g)"
proof (rule safe_bind_known [where h = "\<lambda>_. a" and P = "\<lambda>_. True"])
  fix m assume m: "good A m"
  show "case gs_get a m of Value u m' \<Rightarrow> good (insert a A) m' \<and> True | r \<Rightarrow> ends k A r"
  proof (cases "om_get (accounts (gs m)) a")
    case None
    then show ?thesis
      using good_put [OF m, of "(new_account a 0 [], [])" a]
      by (simp add: gs_get_def gs_create_def new_account_def)
  next
    case (Some e)
    then have "a \<in> set (om_keys (accounts (gs m)))" by (simp add: om_keys_iff)
    then show ?thesis using m Some by (simp add: gs_get_def good_def)
  qed
qed (use assms in simp)

lemma safe_bind_create:
  assumes "safe True (insert a A) (g ())"
  shows "safe True A (bind (gs_create a b c) g)"
proof (rule safe_bind_known [where h = "\<lambda>_. a" and P = "\<lambda>_. True"])
  fix m assume m: "good A m"
  show "case gs_create a b c m of Value u m' \<Rightarrow> good (insert a A) m' \<and> True | r \<Rightarrow> ends True A r"
    using good_put [OF m, of "(new_account a b c, [])" a]
    by (simp add: gs_create_def new_account_def split: option.split)
qed (use assms in simp)

lemma safe_known_account:
  assumes "a \<in> A"
  shows "safe k A (with_account a f)" "safe k A (with_storage a h)"
    "safe k A (set_balance a b)" "safe k A (upd_storage a u)"
proof -
  have there: "\<exists>acc s. om_get (accounts (gs m)) a = Some (acc, s) \<and> a_address acc = a"
    if "good A m" for m
  proof -
    have "a \<in> set (om_keys (accounts (gs m)))" using that assms by (auto simp: good_def)
    then obtain e where "om_get (accounts (gs m)) a = Some e" by (auto simp: om_keys_iff)
    then show ?thesis
      using that
      by (cases e) (fastforce simp: good_def evm_ok_def global_ok_def list_all_iff account_ok_def
          om_get_Some_iff)
  qed
  show "safe k A (with_account a f)" "safe k A (with_storage a h)"
    unfolding safe_def with_account_def with_storage_def using there by (fastforce)+
  have "safe k A (upd_entry a u)" if "\<And>acc s. a_address (fst (u (acc, s))) = a_address acc" for u
    unfolding safe_def upd_entry_def
  proof (intro allI impI)
    fix m assume m: "good A m"
    from there [OF m] obtain acc s where e: "om_get (accounts (gs m)) a = Some (acc, s)"
      "a_address acc = a" by auto
    then have "good (insert a A) (set_accounts (om_put a (u (acc, s))) m)"
      using that by (intro good_put [OF m]) simp
    then show "ends k A (case om_get (accounts (gs m)) a of None \<Rightarrow> Dangling
        | Some e \<Rightarrow> Value () (set_accounts (om_put a (u e)) m))"
      using e assms by (simp add: insert_absorb)
  qed
  then show "safe k A (set_balance a b)" "safe k A (upd_storage a u)"
    unfolding set_balance_def upd_storage_def by (simp_all split: prod.split)
qed

lemma safe_pay: "a \<in> A \<Longrightarrow> b \<in> A \<Longrightarrow> safe k A (pay_to a b v)"
  unfolding pay_to_def by (intro safe_bind evm_safe safe_known_account)

lemma safe_push_context:
  assumes "a \<in> A" "handler_ok h"
  shows "safe k A (push_context r a i c v h)"
  unfolding safe_def
proof (intro allI impI)
  fix m assume m: "good A m"
  then have "length (ctxts m) \<le> 1024" by (simp add: good_def evm_ok_def MAX_CALL_DEPTH_def)
  then show "ends k A (push_context r a i c v h m)"
    using m assms
    by (auto simp: push_context_def good_def evm_ok_def handlers_ok_Cons new_context_def
        context_ok_def MAX_CALL_DEPTH_def)
qed

lemma safe_prepare [evm_safe]: "safe k A (prepare_mem_access offset sz)"
  unfolding prepare_mem_access_def
  by (intro evm_safe safe_at) (auto simp: tame_def)

lemma safe_mem [evm_safe]: "safe k A (copy_from_mem offset sz)"
  unfolding copy_from_mem_def by (intro safe_bind evm_safe)

lemma safe_copy_mem [evm_safe]: "safe k A (copy_mem src pad)"
  unfolding copy_mem_def by (intro safe_bind_pop64 safe_at tame_copy)

lemma prepare_mem_access_eq:
  assumes "offset < 2 ^ 64" "sz < 2 ^ 64"
  shows "prepare_mem_access offset sz =
    (if offset + sz \<le> MAX_MEM_SIZE
     then at 0 (\<lambda>c. Inr ((), c\<lparr>cx_mem := resize (offset + sz) (cx_mem c)\<rparr>))
     else throw OutOfBounds)"
proof (cases "offset + sz < 2 ^ 64")
  case True
  then show ?thesis by (simp add: prepare_mem_access_def)
next
  case False
  then have "(offset + sz) mod 2 ^ 64 < offset" "\<not> offset + sz \<le> MAX_MEM_SIZE"
    using assms by (simp_all add: le_mod_geq MAX_MEM_SIZE_def)
  then show ?thesis by (simp only: prepare_mem_access_def Let_def if_True if_False)
qed

lemma safe_write_mem [evm_safe]:
  assumes "length bs < 2 ^ 64" "offset < 2 ^ 64"
  shows "safe k A (write_mem offset bs)"
proof (cases "offset + length bs \<le> MAX_MEM_SIZE")
  case True
  have "safe k A (at 0 (\<lambda>c. Inr ((), c\<lparr>cx_mem := overwrite offset bs (cx_mem c)\<rparr>)))"
    by (intro safe_at) (use True in \<open>auto simp: tame_def overwrite_def\<close>)
  then show ?thesis unfolding write_mem_def by (rule safe_bind [OF safe_prepare])
next
  case False
  then show ?thesis
    using assms by (simp add: write_mem_def prepare_mem_access_eq evm_safe)
qed

lemma safe_pops [evm_safe]: "safe k A (pops n)" "safe k A pop_addr"
proof -
  show "safe k A (pops n)"
    by (induction n) (simp_all, (intro safe_bind evm_safe | assumption)+)
  show "safe k A pop_addr" unfolding pop_addr_def by (intro safe_bind evm_safe)
qed

lemma safe_as [evm_safe]: "safe k A acc_address" "safe k A code_at"
  unfolding acc_address_def code_at_def
  by (rule safe_bind_as safe_bind [OF safe_pops(2)] safe_bind_get safe_known_account
      | simp)+

lemma safe_ops [evm_safe]:
  "safe k A (unop f)" "safe k A (binop g)" "safe k A (terop h)" "safe k A (push_u64 j)"
  unfolding unop_def binop_def terop_def push_u64_def by (intro safe_bind evm_safe)+

lemma safe_jump [evm_safe]: "safe k A (jump_to n)"
  unfolding jump_to_def by (intro evm_safe)

lemma safe_log [evm_safe]: "safe k A (evm_log n)"
proof -
  have "safe k A (\<lambda>m. Value () (m\<lparr>tx := f m\<rparr>))" for f
    by (auto simp: safe_def good_def evm_ok_def)
  then show ?thesis unfolding evm_log_def by (intro safe_bind safe_pop64 evm_safe)
qed

lemmas safe_at_known_place = safe_bind_as safe_bind_get safe_bind_pop64 safe_known_account

text \<open>An instruction that neither leaves a context nor enters one.\<close>

fun stays :: "Opcode \<Rightarrow> bool" where
  "stays OP_STOP = False" | "stays OP_RETURN = False" | "stays OP_SELFDESTRUCT = False"
| "stays OP_CREATE = False" | "stays OP_CALL = False" | "stays OP_CALLCODE = False"
| "stays OP_DELEGATECALL = False" | "stays i = True"

lemmas staying_defs = computing_defs evm_sstore_def evm_jump_def evm_jumpi_def evm_push_def

lemma safe_places [evm_safe]:
  "safe k A evm_sload" "safe k A evm_sstore" "safe k A evm_codesize" "safe k A evm_balance"
  "safe k A evm_mstore" "safe k A evm_mstore8"
  unfolding evm_sload_def evm_sstore_def evm_codesize_def evm_balance_def evm_mstore_def
    evm_mstore8_def
  by (rule safe_at_known_place | rule evm_safe | rule safe_bind | simp)+

lemma safe_stays:
  assumes "stays i"
  shows "safe k A (execute keccak i)"
  using assms
  by (cases i; simp only: execute.simps stays.simps simp_thms; (intro evm_safe; fail)?;
    unfold staying_defs; intro safe_bind safe_pop64 evm_safe)

section \<open>Turns\<close>

text \<open>How a context is left: the handlers of the current context find the context of its caller.\<close>

lemma good_split:
  assumes "good A m"
  obtains c cs where "ctxts m = c # cs" "cs = [] \<and> cx_handlers c = Outermost \<or>
    cs \<noteq> [] \<and> handler_ok (cx_handlers c) \<and> good A (m\<lparr>ctxts := cs\<rparr>)"
proof (cases "ctxts m")
  case (Cons c cs)
  then show ?thesis
    using assms by (intro that [OF Cons]) (auto simp: good_def evm_ok_def handlers_ok_Cons split: if_splits)
qed (use assms in \<open>simp add: good_def\<close>)

lemma evm_ok_pop: "good A m \<Longrightarrow> ctxts m = c # cs \<Longrightarrow> evm_ok (m\<lparr>ctxts := cs\<rparr>)"
  by (auto simp: good_def evm_ok_def handlers_ok_def split: if_splits dest: in_set_butlastD)

text \<open>The end of code that may remove the last context.\<close>

fun leaves_ok :: "bool \<Rightarrow> 'a eval \<Rightarrow> bool" where
  "leaves_ok d (Value a m) = evm_ok m"
| "leaves_ok d (Throws e m) = good {} m"
| "leaves_ok d (Leaves m) = evm_ok m"
| "leaves_ok d Aborts = False"
| "leaves_ok d Dangling = d"

lemma asks_eq: "ctxts m = c # cs \<Longrightarrow> asks f m = Value (f c) m"
  by (simp add: asks_def at_def)

lemma at_parent:
  "ctxts m = c # d # cs \<Longrightarrow>
     at 1 f m = (case f d of Inl e \<Rightarrow> Throws e m | Inr (a, d') \<Rightarrow> Value a (m\<lparr>ctxts := c # d' # cs\<rparr>))"
  by (simp add: at_def split: sum.split)

lemma at_parent_tame:
  assumes "good A m" "ctxts m = c # d # cs" "tame f"
  shows "ends k A (at 1 f m)"
  using assms at_tame [of A m f 1] by simp

lemma evm_stop_ok:
  assumes "good A m"
  shows "leaves_ok False (evm_stop m)"
proof -
  obtain c cs where c: "ctxts m = c # cs" and h: "cs = [] \<and> cx_handlers c = Outermost \<or>
      cs \<noteq> [] \<and> handler_ok (cx_handlers c) \<and> good A (m\<lparr>ctxts := cs\<rparr>)"
    by (rule good_split [OF assms])
  have stop: "evm_stop m = call_hh (cx_handlers c) (m\<lparr>ctxts := cs\<rparr>)"
    by (simp add: evm_stop_def bind_def asks_eq [OF c] pop_context_def c)
  from h show ?thesis
  proof (elim disjE conjE)
    assume "cx_handlers c = Outermost"
    then show ?thesis
      using evm_ok_pop [OF assms c] by (simp add: stop call_hh_def evm_ok_def)
  next
    assume "handler_ok (cx_handlers c)" and g: "good A (m\<lparr>ctxts := cs\<rparr>)"
    have "ends False A (push v (m\<lparr>ctxts := cs\<rparr>))" for v
      using g safe_pop(2) by (auto simp: safe_def)
    then have "leaves_ok False (push v (m\<lparr>ctxts := cs\<rparr>))" for v
      by (cases "push v (m\<lparr>ctxts := cs\<rparr>)"; metis leaves_ok.simps ends.simps good_def)
    then show ?thesis
      using \<open>handler_ok (cx_handlers c)\<close>
      by (simp add: stop call_hh_def handler_ok_def split: handlers.splits)
  qed
qed

lemma pop_context_ok: "good A m \<Longrightarrow> leaves_ok d (pop_context m)"
  by (rule good_split, assumption) (auto simp: pop_context_def evm_ok_pop)

lemma pop_after_ok: "ends k A (f m) \<Longrightarrow> \<not> k \<Longrightarrow> leaves_ok d (bind f (\<lambda>_. pop_context) m)"
  by (cases "f m") (auto simp: bind_def pop_context_ok good_def)

lemma ends_at_parent_twice:
  assumes "good A m" "ctxts m = c # p # cs" "tame f" "tame g"
  shows "ends k A (bind (at 1 f) (\<lambda>_. at 1 g) m)"
proof (cases "at 1 f m")
  case (Value a m')
  then have "good A m'" "1 < length (ctxts m')"
    using at_parent_tame [OF assms(1-3), of k] at_length [OF Value] assms(2) by simp_all
  then show ?thesis using Value at_tame [OF _ assms(4)] by (simp add: bind_def)
qed (use at_parent_tame [OF assms(1-3), of k] in \<open>simp_all add: bind_def\<close>)

lemma call_rh_ok:
  assumes "good A m" "ctxts m = c # cs" "h = cx_handlers c" "\<And>a. h \<noteq> Created a"
  shows "ends k A (call_rh h out m)"
proof (rule good_split [OF assms(1)])
  fix c' cs' assume c': "ctxts m = c' # cs'" and h: "cs' = [] \<and> cx_handlers c' = Outermost \<or>
    cs' \<noteq> [] \<and> handler_ok (cx_handlers c') \<and> good A (m\<lparr>ctxts := cs'\<rparr>)"
  show ?thesis
  proof (cases h)
    case Outermost
    then show ?thesis using assms(1) by (simp add: call_rh_def good_def evm_ok_def)
  next
    case (Called offOut sizeOut)
    then have sz: "offOut < 2 ^ 64" "sizeOut < 2 ^ 64" and "cs' \<noteq> []"
      using h c' assms(2,3) by (auto simp: handler_ok_def)
    then obtain p ps where m: "ctxts m = c # p # ps" using c' assms(2) by (cases cs') auto
    show ?thesis
      unfolding call_rh_def Called handlers.case
      by (intro ends_at_parent_twice [OF assms(1) m] tame_copy tame_simps) (use sz in simp_all)
  qed (use assms(4) in simp)
qed

lemma call_eh_ok:
  assumes "good A m" "ctxts m = c # cs" "h = cx_handlers c"
  shows "ends k A (call_eh h e m)"
proof (rule good_split [OF assms(1)])
  fix c' cs' assume c': "ctxts m = c' # cs'" and h: "cs' = [] \<and> cx_handlers c' = Outermost \<or>
    cs' \<noteq> [] \<and> handler_ok (cx_handlers c') \<and> good A (m\<lparr>ctxts := cs'\<rparr>)"
  show ?thesis
  proof (cases "h = Outermost")
    case True
    then show ?thesis using assms(1) by (simp add: call_eh_def good_def evm_ok_def)
  next
    case False
    then have "cs' \<noteq> []" using h c' assms(2,3) by auto
    then obtain p ps where "ctxts m = c # p # ps" using c' assms(2) by (cases cs') auto
    then have "ends k A (at 1 (stack_push 0) m)" by (rule at_parent_tame [OF assms(1)]) simp
    then show ?thesis using False by (cases h) (simp_all add: call_eh_def)
  qed
qed

lemma handle_exception_ok:
  assumes "good A m"
  shows "leaves_ok False (handle_exception e m)"
proof -
  obtain c cs where c: "ctxts m = c # cs" by (rule good_split [OF assms])
  have "leaves_ok False (bind (call_eh (cx_handlers c) e) (\<lambda>_. pop_context) m)"
    using call_eh_ok [OF assms c refl, where k = False] by (rule pop_after_ok) simp
  moreover have "bind (asks cx_handlers) (\<lambda>h. bind (call_eh h e) (\<lambda>_. pop_context)) m =
      bind (call_eh (cx_handlers c) e) (\<lambda>_. pop_context) m"
    by (simp add: bind_def [of "asks _"] asks_eq [OF c])
  ultimately show ?thesis
    by (cases "bind (call_eh (cx_handlers c) e) (\<lambda>_. pop_context) m")
      (simp_all add: handle_exception_def good_def)
qed

text \<open>The control state: what a context is apart from its stack and memory.\<close>

definition ctl :: "Context \<Rightarrow> Context" where
  "ctl c = c\<lparr>cx_s := [], cx_mem := []\<rparr>"

definition same_control :: "machine \<Rightarrow> machine \<Rightarrow> bool" where
  "same_control m m' \<longleftrightarrow> map ctl (ctxts m') = map ctl (ctxts m) \<and> result m' = result m"

interpretation control: evm_frame same_control
proof unfold_locales
  fix n :: nat and m :: machine and c s mem
  assume n: "n < length (ctxts m)" and c: "c = (ctxts m ! n)\<lparr>cx_s := s, cx_mem := mem\<rparr>"
  have "ctl c = ctl (ctxts m ! n)" by (simp add: c ctl_def)
  then show "same_control m (m\<lparr>ctxts := (ctxts m)[n := c]\<rparr>)"
    using n by (simp add: same_control_def map_update list_update_same_conv)
qed (simp_all add: same_control_def set_accounts_def)

lemma same_control_head:
  assumes "same_control m m'" "ctxts m = c # cs"
  obtains c' cs' where "ctxts m' = c' # cs'" "cx_handlers c' = cx_handlers c"
    "cx_as c' = cx_as c" "cx_pc c' = cx_pc c" "cx_pc_changed c' = cx_pc_changed c"
    "cx_code c' = cx_code c" "map ctl cs' = map ctl cs"
proof (cases "ctxts m'")
  case (Cons c' cs')
  then have eq: "ctl c' = ctl c" "map ctl cs' = map ctl cs"
    using assms by (simp_all add: same_control_def)
  from eq(1) have "cx_handlers c' = cx_handlers c \<and> cx_as c' = cx_as c \<and> cx_pc c' = cx_pc c
      \<and> cx_pc_changed c' = cx_pc_changed c \<and> cx_code c' = cx_code c"
    by (cases c, cases c') (simp add: ctl_def)
  then show ?thesis using that [OF Cons] eq(2) by blast
qed (use assms in \<open>simp add: same_control_def\<close>)

lemma evm_return_eq:
  "evm_return =
     bind (bind pop64 (\<lambda>offset. bind pop64 (\<lambda>sz. copy_from_mem offset sz)))
       (\<lambda>out. bind (asks cx_handlers) (\<lambda>h. bind (call_rh h out) (\<lambda>_. pop_context)))"
  by (simp add: evm_return_def bind_assoc)

definition created :: "Context \<Rightarrow> bool" where
  "created c \<longleftrightarrow> (case cx_handlers c of Created a \<Rightarrow> True | _ \<Rightarrow> False)"

lemma evm_return_ok:
  assumes "good A m" "ctxts m = c # cs"
  shows "leaves_ok (created c) (evm_return m)"
proof -
  let ?read = "bind pop64 (\<lambda>offset. bind pop64 (\<lambda>sz. copy_from_mem offset sz))"
  have "ends False A (?read m)"
    using assms(1) by (metis safe_def safe_bind safe_pop64 safe_mem)
  moreover have "evm_respects same_control ?read"
    by (intro control.rsp_bind control.rsp_stack control.rsp_mem)
  ultimately show ?thesis
  proof (cases "?read m")
    case (Value out m')
    then have m': "good A m'" "same_control m m'"
      using \<open>ends False A (?read m)\<close> \<open>evm_respects same_control ?read\<close>
      by (auto simp: evm_respects_def split: eval.splits dest!: spec [of _ m])
    obtain c' cs' where c': "ctxts m' = c' # cs'" "cx_handlers c' = cx_handlers c"
      by (rule same_control_head [OF m'(2) assms(2)])
    have "leaves_ok (created c) (bind (call_rh (cx_handlers c) out) (\<lambda>_. pop_context) m')"
    proof (cases "created c")
      case True
      then show ?thesis by (simp add: created_def call_rh_def bind_def split: handlers.splits)
    next
      case False
      then have "ends False A (call_rh (cx_handlers c) out m')"
        using c' by (intro call_rh_ok [OF m'(1) c'(1)]) (auto simp: created_def)
      then show ?thesis by (rule pop_after_ok) simp
    qed
    then show ?thesis
      unfolding evm_return_eq bind_def [of ?read]
      by (simp add: Value bind_def [of "asks _"] asks_eq [OF c'(1)] c'(2))
  qed (unfold evm_return_eq bind_def [of ?read], simp_all add: good_def)
qed

lemma leaves_ok_bind: "ends k A (f m) \<Longrightarrow> \<not> k \<Longrightarrow>
    (\<And>a m'. f m = Value a m' \<Longrightarrow> good A m' \<Longrightarrow> leaves_ok d (g a m')) \<Longrightarrow> leaves_ok d (bind f g m)"
  by (cases "f m") (auto simp: bind_def good_def)

lemma evm_selfdestruct_ok:
  assumes "good A m"
  shows "leaves_ok False (evm_selfdestruct m)"
proof -
  let ?pre = "bind pop_addr (\<lambda>recipient. bind (gs_get recipient) (\<lambda>_.
     bind (asks cx_as) (\<lambda>a. bind (with_account a a_balance) (\<lambda>bal.
     bind (pay_to a recipient bal) (\<lambda>_. bind (with_account a a_address) (\<lambda>addr.
     (\<lambda>m. Value () (m\<lparr>tx := (tx m)\<lparr>selfdestruct_list :=
        selfdestruct_list (tx m) @ [addr]\<rparr>\<rparr>))))))))"
  have tx: "safe False A (\<lambda>m. Value () (m\<lparr>tx := f m\<rparr>))" for f A
    by (auto simp: safe_def good_def evm_ok_def)
  have "safe False A ?pre"
    by (rule safe_bind_as safe_bind_get safe_known_account safe_pay tx safe_pops
        | rule safe_bind | simp)+
  then have "ends False A (?pre m)" using assms by (simp add: safe_def)
  moreover have "evm_selfdestruct = bind ?pre (\<lambda>_. evm_stop)"
    by (simp add: evm_selfdestruct_def bind_assoc)
  ultimately show ?thesis
    using leaves_ok_bind [of False A ?pre m False "\<lambda>_. evm_stop"] evm_stop_ok by simp
qed

lemma safe_create: "safe True A (evm_create keccak)"
  unfolding evm_create_def Let_def
  by (rule safe_bind_as safe_bind_create safe_known_account safe_pay safe_push_context
      safe_bind_pop64 safe_mem | rule safe_pop safe_as | rule safe_bind
      | simp add: handler_ok_def)+

lemma safe_enter_call:
  assumes "handler_ok h" "addr \<in> A"
  shows "safe k A (enter_call kind addr v i c h)"
  unfolding enter_call_def
  by (cases kind; simp; (rule safe_bind_as safe_push_context safe_as | rule safe_pop
      | rule safe_bind | simp add: assms)+)

lemma safe_call: "safe k A (evm_call kind)"
  unfolding evm_call_def
  by (rule safe_bind_as safe_bind_get safe_known_account safe_pay safe_enter_call
      safe_bind_pop64 safe_mem safe_prepare safe_if safe_simple safe_pop safe_pop64 safe_pops
      | rule safe_bind | simp add: handler_ok_def)+

text \<open>How an instruction can end.\<close>

definition op_ok :: "machine \<Rightarrow> 'a eval \<Rightarrow> bool" where
  "op_ok m r \<longleftrightarrow>
     (case r of Value a m' \<Rightarrow> evm_ok m' | Throws e m' \<Rightarrow> good {} m' | Leaves m' \<Rightarrow> evm_ok m'
      | Aborts \<Rightarrow> current m = Some OP_CREATE
      | Dangling \<Rightarrow> current m = Some OP_RETURN \<and> created (hd (ctxts m)))"

lemma op_ok_ends: "ends k A r \<Longrightarrow> (k \<Longrightarrow> current m = Some OP_CREATE) \<Longrightarrow> op_ok m r"
  by (cases r) (auto simp: op_ok_def good_def)

lemma op_ok_leaves: "leaves_ok d r \<Longrightarrow>
    (d \<Longrightarrow> current m = Some OP_RETURN \<and> created (hd (ctxts m))) \<Longrightarrow> op_ok m r"
  by (cases r) (auto simp: op_ok_def)

lemma execute_ok:
  assumes "good {} m" "current m = Some i"
  shows "op_ok m (execute keccak i m)"
proof (cases "stays i")
  case True
  then show ?thesis
    using safe_stays [OF True, of False "{}" keccak] assms(1)
    by (intro op_ok_ends [of False "{}"]) (simp_all add: safe_def)
next
  case False
  obtain c cs where c: "ctxts m = c # cs" using assms(1) by (rule good_split)
  have call: "op_ok m (evm_call k m)" for k
    using safe_call [of False "{}" k] assms(1)
    by (intro op_ok_ends [of False "{}"]) (simp_all add: safe_def)
  have "op_ok m (evm_create keccak m)" if "i = OP_CREATE"
    using safe_create [of "{}" keccak] assms that
    by (intro op_ok_ends [of True "{}"]) (simp_all add: safe_def)
  moreover have "op_ok m (evm_return m)" if "i = OP_RETURN"
    using op_ok_leaves [OF evm_return_ok [OF assms(1) c]] assms(2) that c by simp
  moreover have "op_ok m (evm_stop m)" "op_ok m (evm_selfdestruct m)"
    using op_ok_leaves [of False] evm_stop_ok [OF assms(1)] evm_selfdestruct_ok [OF assms(1)]
    by blast+
  ultimately show ?thesis using False call by (cases i) simp_all
qed

lemma evm_ok_advance: "evm_ok m \<Longrightarrow> evm_ok (advance m)"
  by (auto simp: advance_def evm_ok_def handlers_ok_Cons context_ok_def cx_step_def
      split: list.splits if_splits)

lemma turn_ok:
  assumes "evm_ok m" "running m"
  shows "case turn keccak m of Value u m' \<Rightarrow> evm_ok m' | Throws e m' \<Rightarrow> False
    | Leaves m' \<Rightarrow> evm_ok m' | Aborts \<Rightarrow> current m = Some OP_CREATE
    | Dangling \<Rightarrow> current m = Some OP_RETURN \<and> created (hd (ctxts m))"
proof -
  have m: "good {} m" using assms by (auto simp: good_def elim: running_obtains)
  have "op_ok m (dispatch_op keccak m)"
    using execute_ok [OF m] m
    by (auto simp: dispatch_op_eq [OF assms(2)] op_ok_def split: option.split)
  then show ?thesis
  proof (cases "dispatch_op keccak m")
    case (Throws e m')
    then have "leaves_ok False (handle_exception e m')"
      using \<open>op_ok m (dispatch_op keccak m)\<close> handle_exception_ok by (simp add: op_ok_def)
    moreover have "\<forall>e' m''. handle_exception e m' \<noteq> Throws e' m''"
      by (auto simp: handle_exception_def split: eval.splits)
    ultimately show ?thesis
      by (cases "handle_exception e m'")
        (simp_all add: turn_def bind_def Throws evm_ok_advance)
  qed (simp_all add: turn_def bind_def op_ok_def evm_ok_advance)
qed

section \<open>What leaves the loop\<close>

text \<open>
  Code that throws nothing but the exceptions of \<open>exception.h\<close>: every instruction except
  \<open>CALLDATALOAD\<close>.
\<close>

definition quiet :: "'a evm \<Rightarrow> bool" where
  "quiet f \<longleftrightarrow> (\<forall>m m'. f m \<noteq> Leaves m')"

named_theorems evm_quiet

lemma quiet_bind [evm_quiet]: "quiet f \<Longrightarrow> (\<And>a. quiet (g a)) \<Longrightarrow> quiet (bind f g)"
  by (auto simp: quiet_def bind_def split: eval.split)

lemma quiet_if [evm_quiet]: "(b \<Longrightarrow> quiet f) \<Longrightarrow> (\<not> b \<Longrightarrow> quiet g) \<Longrightarrow> quiet (if b then f else g)"
  by simp

lemma quiet_let [evm_quiet]: "(\<And>a. quiet (f a)) \<Longrightarrow> quiet (let a = v in f a)"
  by simp

lemma quiet_simple [evm_quiet]:
  "quiet (ret val)" "quiet (throw e)" "quiet (reads f)" "quiet (at n g)" "quiet (asks h)"
  "quiet (\<lambda>m. Value () (u m))" "quiet pop_context" "quiet (push_context r a i c v k)"
  "quiet (gs_get a)" "quiet (gs_create a b code)" "quiet (with_account a j)" "quiet (with_storage a l)"
  "quiet (upd_entry a w)"
  by (auto simp: quiet_def ret_def throw_def reads_def at_def asks_def pop_context_def
      push_context_def gs_get_def gs_create_def with_account_def with_storage_def upd_entry_def
      split: sum.split list.split option.split)

lemma quiet_stack [evm_quiet]: "quiet pop" "quiet pop64" "quiet (push v)" "quiet pop_addr" "quiet (pops n)"
proof -
  show "quiet pop" "quiet (push v)" unfolding pop_def push_def by (intro evm_quiet)+
  then show "quiet pop64" "quiet pop_addr" "quiet (pops n)"
    unfolding pop64_def pop_addr_def
    by (induction n) (simp_all, (intro evm_quiet | assumption)+)
qed

lemma quiet_parts [evm_quiet]:
  "quiet (prepare_mem_access offset sz)" "quiet (copy_from_mem offset sz)" "quiet (copy_mem src pad)"
  "quiet (write_mem offset bs)" "quiet acc_address" "quiet code_at" "quiet (push_u64 f)"
  "quiet (unop f1)" "quiet (binop f2)" "quiet (terop f3)" "quiet (jump_to p)"
  "quiet (set_balance a b)" "quiet (upd_storage a u)" "quiet (pay_to a c v)" "quiet (evm_log n)"
  unfolding copy_from_mem_def copy_mem_def write_mem_def prepare_mem_access_def acc_address_def
    code_at_def push_u64_def unop_def binop_def terop_def jump_to_def set_balance_def
    upd_storage_def pay_to_def evm_log_def
  by (intro evm_quiet)+

lemma quiet_handlers [evm_quiet]: "quiet (call_rh h out)" "quiet (call_hh h)" "quiet (call_eh h e)"
proof -
  show "quiet (call_rh h out)"
    by (cases h; simp add: call_rh_def; (intro evm_quiet)?) (simp add: quiet_def)
  show "quiet (call_hh h)" "quiet (call_eh h e)"
    by (cases h; simp add: call_hh_def call_eh_def; intro evm_quiet)+
qed

lemma quiet_leaving [evm_quiet]: "quiet evm_return" "quiet evm_stop" "quiet evm_selfdestruct"
  unfolding evm_return_def evm_stop_def evm_selfdestruct_def by (intro evm_quiet)+

lemma quiet_entering [evm_quiet]: "quiet (evm_create keccak)" "quiet (evm_call k)"
proof -
  have "quiet (enter_call k a v i c h)" for k a v i c h
    by (cases k; simp add: enter_call_def; intro evm_quiet)
  then show "quiet (evm_call k)" unfolding evm_call_def by (intro evm_quiet)
  show "quiet (evm_create keccak)" unfolding evm_create_def by (intro evm_quiet)
qed

lemma quiet_execute: "i \<noteq> OP_CALLDATALOAD \<Longrightarrow> quiet (execute keccak i)"
  by (cases i; simp only: execute.simps simp_thms; (unfold staying_defs)?; (intro evm_quiet)?)

text \<open>What the handler of an exception cannot do is push on a stack that is full.\<close>

abbreviation caller_full :: "machine \<Rightarrow> bool" where
  "caller_full m \<equiv> \<exists>c \<in> set (tl (ctxts m)). length (cx_s c) = STACK_MAX_SIZE"

lemma handle_exception_leaves:
  assumes "good {} m" "handle_exception e m = Leaves m'"
  shows "caller_full m'"
proof -
  obtain c cs where c: "ctxts m = c # cs" by (rule good_split [OF assms(1)])
  have pop: "pop_context m1 \<noteq> Throws e' m2" for m1 e' m2
    by (simp add: pop_context_def split: list.split)
  have "quiet (bind (asks cx_handlers) (\<lambda>h. bind (call_eh h e) (\<lambda>_. pop_context)))"
    by (intro evm_quiet)
  then obtain e' where "bind (asks cx_handlers) (\<lambda>h. bind (call_eh h e) (\<lambda>_. pop_context)) m = Throws e' m'"
    using assms(2) by (auto simp: handle_exception_def quiet_def split: eval.splits)
  then have "call_eh (cx_handlers c) e m = Throws e' m'"
    using pop by (auto simp: bind_def asks_eq [OF c] split: eval.splits)
  then show ?thesis
    using c by (auto simp: call_eh_def at_def stack_push_def split: handlers.splits if_splits sum.splits)
qed

text \<open>The operand with which \<open>CALLDATALOAD\<close> throws \<open>std::overflow_error\<close>.\<close>

abbreviation loads_past_the_end :: "machine \<Rightarrow> bool" where
  "loads_past_the_end m \<equiv> current m = Some OP_CALLDATALOAD
     \<and> (\<exists>v s. cx_s (hd (ctxts m)) = v # s \<and> 2 ^ 64 - 32 \<le> unat v)"

lemma calldataload_leaves:
  assumes "ctxts m = c # cs" "evm_calldataload m = Leaves m'"
  shows "\<exists>v s. cx_s c = v # s \<and> 2 ^ 64 - 32 \<le> unat v"
proof (cases "cx_s c")
  case Nil
  with assms show ?thesis
    by (simp add: evm_calldataload_def bind_def pop64_def pop_def at_def stack_pop_def)
next
  case (Cons v s)
  have quiet: "quiet (bind (asks cx_input) (\<lambda>input. push (calldata_word input offset)))" for offset
    by (intro evm_quiet)
  have wrap: "2 ^ 64 - 32 \<le> n" if "(n + 32) mod 2 ^ 64 < n" "n < 2 ^ 64" for n :: nat
    using that by (cases "n + 32 < 2 ^ 64") auto
  have "\<not> 2 ^ 64 - 1 < v \<and> (unat v + WORD_SIZE) mod 2 ^ 64 < unat v"
    using assms Cons quiet
    by (auto simp: evm_calldataload_def bind_def pop64_def pop_def at_def stack_pop_def throw_def
        ret_def quiet_def split: if_splits)
  then have "(unat v + 32) mod 2 ^ 64 < unat v" "unat v < 2 ^ 64"
    by (simp_all add: WORD_SIZE_def word_less_nat_alt)
  from wrap [OF this] Cons show ?thesis by simp
qed

lemma turn_leaves:
  assumes "evm_ok m" "running m" "turn keccak m = Leaves m'"
  shows "loads_past_the_end m \<or> caller_full m'"
proof -
  obtain c cs where c: "ctxts m = c # cs" using assms(2) by (cases "ctxts m") (auto simp: running_def)
  then have m: "good {} m" using assms(1) by (simp add: good_def)
  have op: "op_ok m (dispatch_op keccak m)"
    using execute_ok [OF m] m
    by (auto simp: dispatch_op_eq [OF assms(2)] op_ok_def split: option.split)
  show ?thesis
  proof (cases "dispatch_op keccak m")
    case (Throws e m1)
    then have "handle_exception e m1 = Leaves m'"
      using assms(3) by (auto simp: turn_def bind_def split: eval.splits)
    then show ?thesis using handle_exception_leaves op Throws by (fastforce simp: op_ok_def)
  next
    case (Leaves m1)
    then obtain i where i: "current m = Some i" "execute keccak i m = Leaves m1"
      by (auto simp: dispatch_op_eq [OF assms(2)] split: option.splits)
    then have "i = OP_CALLDATALOAD" using quiet_execute [of i keccak] by (auto simp: quiet_def)
    then show ?thesis using i calldataload_leaves [OF c] c by auto
  qed (use assms(3) in \<open>simp_all add: turn_def bind_def\<close>)
qed

section \<open>Reachable machines\<close>

inductive evm_reach :: "(bytes \<Rightarrow> bytes) \<Rightarrow> machine \<Rightarrow> machine \<Rightarrow> bool" for keccak m0 where
  reach_start: "evm_reach keccak m0 m0"
| reach_turn: "evm_reach keccak m0 m \<Longrightarrow> running m \<Longrightarrow> turn keccak m = Value u m' \<Longrightarrow>
    evm_reach keccak m0 m'"

lemma initial_ok:
  assumes "global_ok g" "om_get (accounts g) callee \<noteq> None"
  shows "evm_ok (initial_machine g t caller callee code input v)"
  using assms
  by (simp add: initial_machine_def evm_ok_def handlers_ok_def context_ok_def new_context_def
      MAX_CALL_DEPTH_def om_keys_iff)

lemma reach_ok: "evm_reach keccak m0 m \<Longrightarrow> evm_ok m0 \<Longrightarrow> evm_ok m"
proof (induction rule: evm_reach.induct)
  case (reach_turn m u m')
  then show ?case using turn_ok [of m keccak] by simp
qed

end
