(* ===== verification/Evm_Effects.thy ===== *)
theory Evm_Effects
  imports Evm_Invariants
begin

text \<open>
  What a turn of the processor can change in the global state, as instances of the locales of
  \<open>Evm_Frame\<close>: the storages (only \<open>SSTORE\<close>, and only that of the account the current context is
  for), and the sum of all balances (only instructions that pay or create).
\<close>

section \<open>Storages\<close>

definition storage_of :: "machine \<Rightarrow> u256 \<Rightarrow> SimpleStorage" where
  "storage_of m a = (case om_get (accounts (gs m)) a of None \<Rightarrow> [] | Some e \<Rightarrow> snd e)"

definition same_storage :: "machine \<Rightarrow> machine \<Rightarrow> bool" where
  "same_storage m m' \<longleftrightarrow> (\<forall>a. storage_of m' a = storage_of m a)"

interpretation storages: evm_frame_pay same_storage
  by unfold_locales (auto simp: same_storage_def storage_of_def set_accounts_def)

text \<open>The storages of all accounts but one.\<close>

definition same_storage_but :: "u256 \<Rightarrow> machine \<Rightarrow> machine \<Rightarrow> bool" where
  "same_storage_but b m m' \<longleftrightarrow> (\<forall>a. a \<noteq> b \<longrightarrow> storage_of m' a = storage_of m a)"

interpretation other_storages: evm_frame_pay "same_storage_but b" for b
  by unfold_locales (auto simp: same_storage_but_def storage_of_def set_accounts_def)

lemma rsp_upd_storage: "evm_respects (same_storage_but a) (upd_storage a f)"
  by (auto simp: evm_respects_def upd_storage_def upd_entry_def same_storage_but_def
      storage_of_def set_accounts_def split: option.split prod.split)

lemma sstore_other_storages:
  assumes "ctxts m = c # cs"
  shows "ends_in (same_storage_but (cx_as c)) m (evm_sstore m)"
proof -
  let ?R = "same_storage_but (cx_as c)"
  let ?pops = "bind pop (\<lambda>k. bind pop (\<lambda>v. ret (k, v)))"
  have eq: "evm_sstore = bind ?pops (\<lambda>(k, v). bind (asks cx_as) (\<lambda>a.
      upd_storage a (if v = 0 then om_del k else om_put k v)))"
    by (simp add: evm_sstore_def bind_assoc)
  have "evm_respects ?R ?pops" "evm_respects same_control ?pops"
    by (intro other_storages.rsp_bind other_storages.rsp_stack other_storages.rsp_simple
        control.rsp_bind control.rsp_stack control.rsp_simple)+
  note pops = this [THEN evm_respectsD, of m]
  show ?thesis
  proof (cases "?pops m")
    case (Value kv m')
    then obtain c' cs' where c': "ctxts m' = c' # cs'" "cx_as c' = cx_as c"
      using pops(2) assms by (auto elim: same_control_head)
    obtain k v where kv: "kv = (k, v)" by (cases kv)
    have "ends_in ?R m (upd_storage (cx_as c) f m')" for f
      using pops(1) rsp_upd_storage [THEN evm_respectsD]
      by (auto simp: Value intro: other_storages.ends_in_trans)
    then show ?thesis
      unfolding eq bind_def [of ?pops] Value kv
      by (simp add: bind_def [of "asks _"] asks_eq [OF c'(1)] c'(2))
  qed (use pops(1) in \<open>simp_all add: eq bind_def [of ?pops]\<close>)
qed

section \<open>Balances\<close>

definition entry_balance :: "u256 \<times> SimpleAccount \<times> SimpleStorage \<Rightarrow> int" where
  "entry_balance e = uint (a_balance (fst (snd e)))"

definition total_balance :: "machine \<Rightarrow> int" where
  "total_balance m = sum_list (map entry_balance (accounts (gs m)))"

definition balance_of :: "machine \<Rightarrow> u256 \<Rightarrow> int" where
  "balance_of m a =
     (case om_get (accounts (gs m)) a of None \<Rightarrow> 0 | Some e \<Rightarrow> uint (a_balance (fst e)))"

lemma total_put:
  "om_ok xs \<Longrightarrow>
     sum_list (map entry_balance (om_put a e xs)) =
       sum_list (map entry_balance xs) + uint (a_balance (fst e))
       - (case om_get xs a of None \<Rightarrow> 0 | Some e' \<Rightarrow> uint (a_balance (fst e')))"
proof (induction xs)
  case (Cons p xs)
  obtain b e' where p: "p = (b, e')" by (cases p)
  have "om_ok xs" "om_get xs b = None" using Cons.prems om_ok_ConsD by (auto simp: p)
  moreover have "om_get xs a = None" if "a < b"
    using om_get_below [of b e' xs a] Cons.prems that by (simp add: p split: if_splits)
  ultimately show ?case
    using Cons.IH by (auto simp: p entry_balance_def split: option.splits)
qed (simp add: entry_balance_def)

lemma total_set:
  assumes "om_ok (accounts (gs m))"
  shows "om_ok (accounts (gs (set_accounts (om_put a e) m)))"
    "total_balance (set_accounts (om_put a e) m) =
      total_balance m + uint (a_balance (fst e)) - balance_of m a"
  using assms total_put [OF assms, of a e]
  by (simp_all add: set_accounts_def total_balance_def balance_of_def)

text \<open>Two relations: the sum of the balances grows by \<open>n\<close>, and it does not shrink.\<close>

definition grows_by :: "int \<Rightarrow> machine \<Rightarrow> machine \<Rightarrow> bool" where
  "grows_by n m m' \<longleftrightarrow>
     (om_ok (accounts (gs m)) \<longrightarrow>
        om_ok (accounts (gs m')) \<and> total_balance m' = total_balance m + n)"

definition no_less :: "machine \<Rightarrow> machine \<Rightarrow> bool" where
  "no_less m m' \<longleftrightarrow>
     (om_ok (accounts (gs m)) \<longrightarrow>
        om_ok (accounts (gs m')) \<and> total_balance m \<le> total_balance m')"

lemma grows_by_add: "grows_by i m m' \<Longrightarrow> grows_by j m' m'' \<Longrightarrow> grows_by (i + j) m m''"
  by (simp add: grows_by_def)

lemma grows_by_gs: "gs m' = gs m \<Longrightarrow> grows_by 0 m m'"
  by (simp add: grows_by_def total_balance_def)

lemma grows_by_no_less: "grows_by n m m' \<Longrightarrow> 0 \<le> n \<Longrightarrow> no_less m m'"
  by (simp add: grows_by_def no_less_def)

lemma grows_by_new:
  "om_get (accounts (gs m)) a = None \<Longrightarrow>
     grows_by (uint b) m (set_accounts (om_put a (new_account a b c, [])) m)"
  using total_set [of m a "(new_account a b c, [])"]
  by (simp add: grows_by_def balance_of_def new_account_def)

interpretation balances: evm_frame_gs "grows_by 0"
proof unfold_locales
  show "grows_by 0 m m'" if "gs m' = gs m" for m m' by (rule grows_by_gs [OF that])
  show "grows_by 0 m m''" if "grows_by 0 m m'" "grows_by 0 m' m''" for m m' m''
    using grows_by_add [OF that] by simp
  show "grows_by 0 m (set_accounts (om_put a (new_account a 0 [], [])) m)"
    if "om_get (accounts (gs m)) a = None" for m a
    using grows_by_new [OF that, of 0 "[]"] by simp
qed

interpretation funds: evm_frame_gs no_less
proof unfold_locales
  show "no_less m m'" if "gs m' = gs m" for m m'
    using grows_by_gs [OF that] by (rule grows_by_no_less) simp
  show "no_less m m''" if "no_less m m'" "no_less m' m''" for m m' m''
    using that by (auto simp: no_less_def)
  show "no_less m (set_accounts (om_put a (new_account a 0 [], [])) m)"
    if "om_get (accounts (gs m)) a = None" for m a
    using grows_by_new [OF that] by (rule grows_by_no_less) simp
qed

lemma balances_storage: "evm_respects (grows_by 0) (upd_storage a f)"
  unfolding evm_respects_def upd_storage_def upd_entry_def
  using total_set by (auto simp: grows_by_def balance_of_def split: option.split prod.split)

text \<open>A payment moves money, unless an account pays itself.\<close>

lemma pay_to_eq:
  "pay_to a b v m =
     (case om_get (accounts (gs m)) a of
        None \<Rightarrow> Dangling
      | Some ea \<Rightarrow>
          if a_balance (fst ea) < v then Throws OutOfFunds m
          else
            (case om_get (accounts (gs m)) b of
               None \<Rightarrow> Dangling
             | Some eb \<Rightarrow>
                 if a_balance (fst eb) + v < a_balance (fst eb) then Throws Overflow m
                 else
                   let m1 = set_accounts (om_put a
                         ((fst ea)\<lparr>a_balance := a_balance (fst ea) - v\<rparr>, snd ea)) m;
                       eb1 = the (om_get (accounts (gs m1)) b)
                   in Value () (set_accounts (om_put b
                        ((fst eb1)\<lparr>a_balance := a_balance (fst eb) + v\<rparr>, snd eb1)) m1)))"
  by (auto simp: pay_to_def bind_def with_account_def throw_def set_balance_def upd_entry_def
      Let_def set_accounts_def split: option.split prod.split)

lemma pay_to_total:
  "ends_in (grows_by (if a = b then uint v else 0)) m (pay_to a b v m) \<or>
   (\<exists>e. pay_to a b v m = Throws e m)"
proof (cases "pay_to a b v m")
  case (Value u m')
  then obtain ea eb where a: "om_get (accounts (gs m)) a = Some ea"
    and b: "om_get (accounts (gs m)) b = Some eb"
    and v: "v \<le> a_balance (fst ea)" "a_balance (fst eb) \<le> a_balance (fst eb) + v"
    and m': "m' = set_accounts (om_put b ((fst (if b = a then
        ((fst ea)\<lparr>a_balance := a_balance (fst ea) - v\<rparr>, snd ea) else eb))
          \<lparr>a_balance := a_balance (fst eb) + v\<rparr>, snd (if b = a then ea else eb)))
        (set_accounts (om_put a ((fst ea)\<lparr>a_balance := a_balance (fst ea) - v\<rparr>, snd ea)) m)"
    by (auto simp: pay_to_eq Let_def set_accounts_def not_less split: option.splits if_splits)
  have nat: "uint (a_balance (fst ea) - v) = uint (a_balance (fst ea)) - uint v"
    "uint (a_balance (fst eb) + v) = uint (a_balance (fst eb)) + uint v"
    using v uint_lt2p [of v]
    by (simp_all add: uint_sub_lem [THEN iffD1] word_le_def uint_plus_if' split: if_splits)
  define m1 where
    "m1 = set_accounts (om_put a ((fst ea)\<lparr>a_balance := a_balance (fst ea) - v\<rparr>, snd ea)) m"
  have known: "balance_of m a = uint (a_balance (fst ea))"
    "balance_of m1 b = (if a = b then uint (a_balance (fst ea)) - uint v else uint (a_balance (fst eb)))"
    using a b nat(1) by (simp_all add: balance_of_def m1_def set_accounts_def)
  have "grows_by (if a = b then uint v else 0) m m'"
    unfolding grows_by_def
  proof
    assume ok: "om_ok (accounts (gs m))"
    note one = total_set [OF ok, of a "((fst ea)\<lparr>a_balance := a_balance (fst ea) - v\<rparr>, snd ea)",
        folded m1_def]
    show "om_ok (accounts (gs m')) \<and>
        total_balance m' = total_balance m + (if a = b then uint v else 0)"
      using total_set [OF one(1)] one(2) a b
      by (auto simp: m' m1_def [symmetric] known nat)
  qed
  then show ?thesis by (simp add: Value)
qed (auto simp: pay_to_eq Let_def split: option.splits if_splits)

section \<open>Instructions and money\<close>

lemma funds_pay: "evm_respects no_less (pay_to a b v)" "evm_respects no_less (gs_create a c [])"
proof -
  have "ends_in no_less m (pay_to a b v m)" for m
    using pay_to_total [of a b v m] funds.R_refl
    by (cases "pay_to a b v m") (auto intro: grows_by_no_less split: if_splits)
  then show "evm_respects no_less (pay_to a b v)"
    by (simp add: evm_respects_def ends_in_def)
  show "evm_respects no_less (gs_create a c [])"
    by (auto simp: evm_respects_def gs_create_def intro: grows_by_no_less [OF grows_by_new]
        split: option.split)
qed

lemma funds_tx: "evm_respects R (\<lambda>m. Value () (m\<lparr>tx := f m\<rparr>))" if "R = no_less \<or> R = grows_by 0"
  using that funds.R_tx balances.R_tx by (auto simp: evm_respects_def)

lemma funds_execute: "evm_respects no_less (execute keccak i)"
proof -
  have "evm_respects no_less evm_sstore"
    unfolding evm_sstore_def
    by (intro funds.rsp_bind funds.rsp_stack) (use balances_storage [THEN evm_respectsD] in
      \<open>fastforce simp: evm_respects_def ends_in_def intro: grows_by_no_less split: eval.splits\<close>)
  moreover have "evm_respects no_less evm_selfdestruct"
    unfolding evm_selfdestruct_def
    by (intro funds.rsp_bind funds.rsp_stack funds.rsp_get funds_pay funds_tx funds.rsp_leaving) simp
  moreover have "evm_respects no_less (evm_create keccak)" "evm_respects no_less (evm_call k)" for k
    unfolding evm_create_def evm_call_def Let_def
    by (intro evm_respects_if funds.rsp_bind funds.rsp_stack funds.rsp_get funds_pay funds.rsp_own
        funds.rsp_mem funds.rsp_contexts funds.rsp_simple funds.rsp_enter_call)+
  ultimately show ?thesis
    using funds.rsp_plain [of i] by (cases i) simp_all
qed

lemma balances_store: "evm_respects (grows_by 0) evm_sstore"
  unfolding evm_sstore_def
  by (intro balances.rsp_bind balances.rsp_stack balances_storage)

text \<open>A payment into another account, and what follows it in a call.\<close>

lemma balances_pay: "a \<noteq> b \<Longrightarrow> evm_respects (grows_by 0) (pay_to a b v)"
proof -
  assume "a \<noteq> b"
  then have "ends_in (grows_by 0) m (pay_to a b v m)" for m
    using pay_to_total [of a b v m] balances.R_refl by auto
  then show ?thesis by (simp add: evm_respects_def ends_in_def)
qed

lemma ends_in_bind:
  assumes "ends_in R m (f m)" "\<And>a m1. f m = Value a m1 \<Longrightarrow> R m m1 \<Longrightarrow> ends_in R m (g a m1)"
  shows "ends_in R m (bind f g m)"
  using assms by (cases "f m") (simp_all add: bind_def)

lemma bind_if_throw: "bind (if b then throw e else f) h = (if b then throw e else bind f h)"
  by simp

lemma own_after:
  assumes f: "evm_respects (grows_by 0) f" "evm_respects same_control f"
    and g: "\<And>x. evm_respects (grows_by 0) (g x (cx_as c))"
    and c: "ctxts m = c # cs"
  shows "ends_in (grows_by 0) m (bind f (\<lambda>x. bind (asks cx_as) (g x)) m)"
proof (rule ends_in_bind [OF evm_respectsD [OF f(1)]])
  fix x m1 assume x: "f m = Value x m1" "grows_by 0 m m1"
  have "same_control m m1" using evm_respectsD [OF f(2), of m] x(1) by simp
  then obtain c' cs' where c': "ctxts m1 = c' # cs'" "cx_as c' = cx_as c"
    by (rule same_control_head [OF _ c])
  have "ends_in (grows_by 0) m1 (g x (cx_as c) m1)" using g by (rule evm_respectsD)
  then have "ends_in (grows_by 0) m (g x (cx_as c) m1)" by (rule balances.ends_in_trans [OF x(2)])
  then show "ends_in (grows_by 0) m (bind (asks cx_as) (g x) m1)"
    by (simp add: bind_def [of "asks _"] asks_eq [OF c'(1)] c'(2))
qed

lemma pop_Cons:
  "ctxts m = c # cs \<Longrightarrow> cx_s c = x # s \<Longrightarrow>
     pop m = Value x (m\<lparr>ctxts := c\<lparr>cx_s := s\<rparr> # cs\<rparr>)"
  by (simp add: pop_def at_def stack_pop_def)

lemma pop_Nil: "ctxts m = c # cs \<Longrightarrow> cx_s c = [] \<Longrightarrow> pop m = Throws OutOfBounds m"
  by (simp add: pop_def at_def stack_pop_def)

definition address_mask :: u256 where
  "address_mask = push_bit 160 1 - 1"

lemma pop_addr_Cons:
  "ctxts m = c # cs \<Longrightarrow> cx_s c = x # s \<Longrightarrow>
     pop_addr m = Value (x AND address_mask) (m\<lparr>ctxts := c\<lparr>cx_s := s\<rparr> # cs\<rparr>)"
  by (simp add: pop_addr_def bind_def pop_Cons ret_def address_mask_def)

lemma pop_addr_Nil: "ctxts m = c # cs \<Longrightarrow> cx_s c = [] \<Longrightarrow> pop_addr m = Throws OutOfBounds m"
  by (simp add: pop_addr_def bind_def pop_Nil)

lemma grows_back: "gs m1 = gs m \<Longrightarrow> ends_in (grows_by 0) m1 r \<Longrightarrow> ends_in (grows_by 0) m r"
  by (rule balances.ends_in_trans [OF grows_by_gs])

lemma own_after_pop_addr:
  assumes eq: "h = bind pop_addr (\<lambda>addr. bind (f addr) (\<lambda>x. bind (asks cx_as) (g addr x)))"
    and f: "\<And>addr. evm_respects (grows_by 0) (f addr)" "\<And>addr. evm_respects same_control (f addr)"
    and g: "\<And>addr x. addr \<noteq> cx_as c \<Longrightarrow> evm_respects (grows_by 0) (g addr x (cx_as c))"
    and c: "ctxts m = c # cs" "\<And>x s. cx_s c = x # s \<Longrightarrow> x AND address_mask \<noteq> cx_as c"
  shows "ends_in (grows_by 0) m (h m)"
proof (cases "cx_s c")
  case Nil
  then show ?thesis by (simp add: eq bind_def pop_addr_Nil [OF c(1)] balances.R_refl)
next
  case (Cons x s)
  let ?m = "m\<lparr>ctxts := c\<lparr>cx_s := s\<rparr> # cs\<rparr>" and ?a = "x AND address_mask"
  have "ends_in (grows_by 0) ?m (bind (f ?a) (\<lambda>x. bind (asks cx_as) (g ?a x)) ?m)"
    by (rule own_after [where c = "c\<lparr>cx_s := s\<rparr>", OF f]) (use g c(2) Cons in auto)
  then have "ends_in (grows_by 0) m (bind (f ?a) (\<lambda>x. bind (asks cx_as) (g ?a x)) ?m)"
    by (rule grows_back [rotated]) simp
  then show ?thesis unfolding eq bind_def [of pop_addr] pop_addr_Cons [OF c(1) Cons] by simp
qed

lemma evm_call_balances:
  assumes "ctxts m = c # cs" "\<And>x y s. cx_s c = x # y # s \<Longrightarrow> y AND address_mask \<noteq> cx_as c"
  shows "ends_in (grows_by 0) m (evm_call k m)"
proof -
  define f where "f addr = bind (if k = Delegatecall then ret 0 else pop64) (\<lambda>value.
      bind pop64 (\<lambda>offIn. bind pop64 (\<lambda>sizeIn. bind pop64 (\<lambda>offOut. bind pop64 (\<lambda>sizeOut.
      if 1 \<le> addr \<and> addr \<le> 8 then throw NotImplemented
      else bind (gs_get addr) (\<lambda>_. ret (value, offIn, sizeIn, offOut, sizeOut)))))))"
    for addr
  define g where "g addr x a = (case x of (value, offIn, sizeIn, offOut, sizeOut) \<Rightarrow>
      bind (pay_to a addr (of_nat value)) (\<lambda>_.
      bind (with_account addr a_code) (\<lambda>code.
       if code = [] then push 1
       else
         bind (prepare_mem_access offOut sizeOut) (\<lambda>_.
         bind (copy_from_mem offIn sizeIn) (\<lambda>input.
         enter_call k addr value input code (Called offOut sizeOut))))))" for addr x a
  define h where "h = bind pop_addr (\<lambda>addr. bind (f addr) (\<lambda>x. bind (asks cx_as) (g addr x)))"
  have eq: "evm_call k = bind pop (\<lambda>_. h)"
    unfolding evm_call_def h_def f_def g_def bind_assoc bind_if_throw ret_bind prod.case ..
  have f: "evm_respects (grows_by 0) (f addr)" "evm_respects same_control (f addr)" for addr
    unfolding f_def
    by (intro evm_respects_if balances.rsp_bind balances.rsp_stack balances.rsp_get
        balances.rsp_simple control.rsp_bind control.rsp_stack control.rsp_get
        control.rsp_simple)+
  have g: "evm_respects (grows_by 0) (g addr x a)" if "a \<noteq> addr" for addr x a
    unfolding g_def
    by (cases x) (simp, intro evm_respects_if balances_pay that balances.rsp_bind
        balances.rsp_stack balances.rsp_get balances.rsp_mem balances.rsp_enter_call)
  show ?thesis
  proof (cases "cx_s c")
    case Nil
    then show ?thesis by (simp add: eq bind_def pop_Nil [OF assms(1)] balances.R_refl)
  next
    case (Cons x s)
    let ?m = "m\<lparr>ctxts := c\<lparr>cx_s := s\<rparr> # cs\<rparr>"
    have "ends_in (grows_by 0) ?m (h ?m)"
      by (rule own_after_pop_addr [where c = "c\<lparr>cx_s := s\<rparr>", OF h_def f g])
        (use assms(2) Cons in auto)
    then have "ends_in (grows_by 0) m (h ?m)" by (rule grows_back [rotated]) simp
    then show ?thesis unfolding eq bind_def [of pop] pop_Cons [OF assms(1) Cons] by simp
  qed
qed

lemma evm_selfdestruct_balances:
  assumes "ctxts m = c # cs" "\<And>x s. cx_s c = x # s \<Longrightarrow> x AND address_mask \<noteq> cx_as c"
  shows "ends_in (grows_by 0) m (evm_selfdestruct m)"
proof (rule own_after_pop_addr [OF evm_selfdestruct_def _ _ _ assms])
  show "evm_respects (grows_by 0) (gs_get addr)" "evm_respects same_control (gs_get addr)" for addr
    by (rule balances.rsp_get control.rsp_get)+
  show "evm_respects (grows_by 0) (bind (with_account a a_balance) (\<lambda>bal.
      bind (pay_to a addr bal) (\<lambda>_. bind (with_account a a_address) (\<lambda>addr.
      bind (\<lambda>m. Value () (m\<lparr>tx := (tx m)\<lparr>selfdestruct_list := selfdestruct_list (tx m) @ [addr]\<rparr>\<rparr>))
       (\<lambda>_. evm_stop)))))" if "addr \<noteq> a" for addr a
    by (intro balances.rsp_bind balances.rsp_get balances_pay funds_tx balances.rsp_leaving)
      (use that in auto)
qed

section \<open>Creating an account\<close>

lemma pop64_Cons:
  "ctxts m = c # cs \<Longrightarrow> cx_s c = x # s \<Longrightarrow> unat x < 2 ^ 64 \<Longrightarrow>
     pop64 m = Value (unat x) (m\<lparr>ctxts := c\<lparr>cx_s := s\<rparr> # cs\<rparr>)"
proof -
  assume "unat x < 2 ^ 64"
  then have "\<not> 2 ^ 64 - 1 < x" by (simp add: word_less_nat_alt)
  moreover assume "ctxts m = c # cs" "cx_s c = x # s"
  ultimately show ?thesis
    unfolding pop64_def bind_def by (simp only: pop_Cons eval.case if_False ret_def)
qed

lemma copy_from_mem_eq:
  "ctxts m = c # cs \<Longrightarrow> off + sz \<le> MAX_MEM_SIZE \<Longrightarrow>
     copy_from_mem off sz m =
       Value (take sz (drop off (resize (off + sz) (cx_mem c))))
         (m\<lparr>ctxts := c\<lparr>cx_mem := resize (off + sz) (cx_mem c)\<rparr> # cs\<rparr>)"
  by (simp add: copy_from_mem_def prepare_mem_access_eq MAX_MEM_SIZE_def bind_def at_def asks_def)

definition own_account :: "machine \<Rightarrow> SimpleAccount" where
  "own_account m = fst (the (om_get (accounts (gs m)) (cx_as (hd (ctxts m)))))"

definition created_address :: "(bytes \<Rightarrow> bytes) \<Rightarrow> machine \<Rightarrow> u256" where
  "created_address keccak m =
     generate_address keccak (a_address (own_account m)) (a_nonce (own_account m))"

lemma evm_create_eq:
  assumes c: "ctxts m = c # cs" "cx_s c = v # off # sz # s"
    and mem: "unat off + unat sz \<le> MAX_MEM_SIZE"
    and own: "om_get (accounts (gs m)) (cx_as c) \<noteq> None"
  obtains c' init where "cx_as c' = cx_as c"
    "evm_create keccak m =
      bind (gs_create (created_address keccak m) v []) (\<lambda>_.
      bind (pay_to (cx_as c) (created_address keccak m) v) (\<lambda>_.
      push_context (a_address (own_account m)) (created_address keccak m) [] init 0
        (Created (created_address keccak m)))) (m\<lparr>ctxts := c' # cs\<rparr>)"
proof -
  let ?c' = "c\<lparr>cx_s := s, cx_mem := resize (unat off + unat sz) (cx_mem c)\<rparr>"
  obtain acc st where acc: "om_get (accounts (gs m)) (cx_as c) = Some (acc, st)"
    using own by auto
  have small: "unat off < 2 ^ 64" "unat sz < 2 ^ 64" using mem by (simp_all add: MAX_MEM_SIZE_def)
  show ?thesis
  proof (rule that [of ?c'])
    show "evm_create keccak m =
      bind (gs_create (created_address keccak m) v []) (\<lambda>_.
      bind (pay_to (cx_as c) (created_address keccak m) v) (\<lambda>_.
      push_context (a_address (own_account m)) (created_address keccak m) []
        (take (unat sz) (drop (unat off) (resize (unat off + unat sz) (cx_mem c)))) 0
        (Created (created_address keccak m)))) (m\<lparr>ctxts := ?c' # cs\<rparr>)"
      unfolding evm_create_def bind_def [of pop] pop_Cons [OF c]
      by (simp add: bind_def [of pop64] pop64_Cons small [simplified] bind_def [of "copy_from_mem _ _"]
          copy_from_mem_eq mem bind_def [of "asks _"] asks_eq acc_address_def bind_assoc
          bind_def [of "with_account _ _"] with_account_def acc created_address_def own_account_def
          c(1) Let_def)
  qed simp
qed

lemma evm_create_mints:
  assumes m: "good {} m" "ctxts m = c # cs" "cx_s c = v # off # sz # s"
    and mem: "unat off + unat sz \<le> MAX_MEM_SIZE"
    and fresh: "om_get (accounts (gs m)) (created_address keccak m) = None"
  shows "ends_in (grows_by (uint v)) m (evm_create keccak m)" "evm_create keccak m \<noteq> Aborts"
proof -
  let ?new = "created_address keccak m"
  have own: "om_get (accounts (gs m)) (cx_as c) \<noteq> None"
    using m by (auto simp: good_def evm_ok_def context_ok_def om_keys_iff)
  then have ne: "cx_as c \<noteq> ?new" using fresh by auto
  obtain c' init where c': "cx_as c' = cx_as c" and eq: "evm_create keccak m =
      bind (gs_create ?new v []) (\<lambda>_. bind (pay_to (cx_as c) ?new v) (\<lambda>_.
      push_context (a_address (own_account m)) ?new [] init 0 (Created ?new)))
        (m\<lparr>ctxts := c' # cs\<rparr>)"
    by (rule evm_create_eq [OF m(2,3) mem own])
  define f where "f = bind (pay_to (cx_as c) ?new v) (\<lambda>_.
      push_context (a_address (own_account m)) ?new [] init 0 (Created ?new))"
  define m1 where "m1 = set_accounts (om_put ?new (new_account ?new v [], [])) (m\<lparr>ctxts := c' # cs\<rparr>)"
  have created: "evm_create keccak m = f m1"
    unfolding eq f_def m1_def using fresh by (simp add: bind_def gs_create_def)
  have "grows_by (uint v) m m1"
    using grows_by_new [OF fresh, of v "[]"]
    by (simp add: m1_def grows_by_def set_accounts_def total_balance_def)
  moreover have "evm_respects (grows_by 0) f"
    unfolding f_def by (intro balances.rsp_bind balances_pay [OF ne] balances.rsp_contexts)
  then have "ends_in (grows_by 0) m1 (f m1)" by (rule evm_respectsD)
  ultimately show "ends_in (grows_by (uint v)) m (evm_create keccak m)"
    unfolding created using grows_by_add [of "uint v" m m1 0] by (cases "f m1") auto
  have no_abort: "pay_to a b v m1 \<noteq> Aborts" for a b
    by (simp add: pay_to_eq Let_def split: option.split)
  have "push_context r a i code cv h m2 \<noteq> Aborts" for r a i code cv h m2
    by (simp add: push_context_def)
  then show "evm_create keccak m \<noteq> Aborts"
    unfolding created f_def bind_def using no_abort by (auto split: eval.splits)
qed

end
