(* ===== verification/Evm_Control.thy ===== *)
theory Evm_Control
  imports Evm_Effects
begin

text \<open>
  Where the program counter goes, and whether the loop of \<open>run\<close> ends: an instruction that only
  computes moves on by one, a push over its data; code without jumps and calls ends, with a measure
  on the context; a loop of three instructions never does.
\<close>

section \<open>A single context\<close>

text \<open>While only the outermost context is left, code either keeps it or removes it.\<close>

definition keeps_or_ends :: "machine \<Rightarrow> machine \<Rightarrow> bool" where
  "keeps_or_ends m m' \<longleftrightarrow>
     (length (ctxts m) \<le> 1 \<longrightarrow> ctxts m' = [] \<or> map ctl (ctxts m') = map ctl (ctxts m))"

lemma keeps_or_ends_same: "map ctl (ctxts m') = map ctl (ctxts m) \<Longrightarrow> keeps_or_ends m m'"
  by (simp add: keeps_or_ends_def)

lemma same_control_keeps: "same_control m m' \<Longrightarrow> keeps_or_ends m m'"
  by (simp add: same_control_def keeps_or_ends_def)

interpretation alone: evm_frame keeps_or_ends
proof unfold_locales
  show "keeps_or_ends m m" for m by (simp add: keeps_or_ends_same)
  show "keeps_or_ends m m''" if "keeps_or_ends m m'" "keeps_or_ends m' m''" for m m' m''
    using that unfolding keeps_or_ends_def by (force dest: map_eq_imp_length_eq)
  show "keeps_or_ends m (m\<lparr>ctxts := (ctxts m)[n := c]\<rparr>)"
    if "n < length (ctxts m)" "c = (ctxts m ! n)\<lparr>cx_s := s, cx_mem := mem\<rparr>" for n m c s mem
    using control.R_data [OF that] by (rule same_control_keeps)
  show "keeps_or_ends m (set_accounts (om_put a (new_account a 0 [], [])) m)" for m a
    by (simp add: keeps_or_ends_same set_accounts_def)
  show "keeps_or_ends m (m\<lparr>tx := t\<rparr>)" for m t by (simp add: keeps_or_ends_same)
qed

lemma alone_pop: "evm_respects keeps_or_ends pop_context"
  by (auto simp: evm_respects_def pop_context_def keeps_or_ends_def split: list.split)

lemma alone_result: "evm_respects keeps_or_ends (\<lambda>m. Value () (m\<lparr>result := f m\<rparr>))"
  by (simp add: evm_respects_def keeps_or_ends_same)

lemma alone_parent: "evm_respects keeps_or_ends (at 1 f)"
  by (auto simp: evm_respects_def at_def keeps_or_ends_def split: sum.split)

lemma alone_handlers:
  "evm_respects keeps_or_ends (call_rh h out)" "evm_respects keeps_or_ends (call_hh h)"
  "evm_respects keeps_or_ends (call_eh h e)"
proof -
  show "evm_respects keeps_or_ends (call_rh h out)"
  proof (cases h)
    case (Created a)
    then show ?thesis by (simp add: call_rh_def evm_respects_def)
  qed (auto simp: call_rh_def intro!: alone.rsp_bind alone_parent alone_result
      simp del: One_nat_def)
  show "evm_respects keeps_or_ends (call_hh h)"
    by (cases h) (simp_all add: call_hh_def alone_result alone.rsp_stack)
  show "evm_respects keeps_or_ends (call_eh h e)"
    by (cases h) (simp_all add: call_eh_def alone_result alone_parent del: One_nat_def)
qed

lemma alone_leaving: "evm_respects keeps_or_ends evm_return" "evm_respects keeps_or_ends evm_stop"
  unfolding evm_return_def evm_stop_def
  by (intro alone.rsp_bind alone.rsp_stack alone.rsp_mem alone_handlers alone_pop)+

lemma alone_pay: "evm_respects keeps_or_ends (pay_to a b v)"
proof -
  have "evm_respects keeps_or_ends (set_balance a v)" for a v
    by (auto simp: evm_respects_def set_balance_def upd_entry_def set_accounts_def
        keeps_or_ends_same split: option.split)
  then show ?thesis
    unfolding pay_to_def
    by (intro alone.rsp_bind alone.rsp_get evm_respects_if evm_respects_let alone.rsp_simple)
qed

lemma alone_selfdestruct: "evm_respects keeps_or_ends evm_selfdestruct"
proof -
  have "evm_respects keeps_or_ends (\<lambda>m. Value () (m\<lparr>tx := f m\<rparr>))" for f
    by (simp add: evm_respects_def alone.R_tx)
  then show ?thesis
    unfolding evm_selfdestruct_def
    by (intro alone.rsp_bind alone.rsp_stack alone.rsp_get alone_pay alone_leaving)
qed

section \<open>The program counter\<close>

lemma evm_push_eq:
  assumes "ctxts m = c # cs"
  shows "evm_push n m =
    (if (cx_pc c + n) mod 2 ^ 64 < cx_pc c \<or> length (cx_code c) \<le> (cx_pc c + n) mod 2 ^ 64
        \<or> length (cx_s c) = STACK_MAX_SIZE
     then Throws OutOfBounds m
     else Value () (m\<lparr>ctxts := set_pc (cx_pc c + 1 + n)
       (c\<lparr>cx_s := push_immediate (cx_code c) (cx_pc c) n # cx_s c\<rparr>) # cs\<rparr>))"
proof -
  have push: "push v m = (if length (cx_s c) = STACK_MAX_SIZE then Throws OutOfBounds m
      else Value () (m\<lparr>ctxts := c\<lparr>cx_s := v # cx_s c\<rparr> # cs\<rparr>))" for v
    by (simp add: push_def at_def stack_push_def assms)
  show ?thesis
    by (auto simp: evm_push_def bind_def asks_eq [OF assms] Let_def throw_def push at_def
        set_pc_def)
qed

lemma evm_push_cases:
  assumes "ctxts m = c # cs"
  shows "(\<exists>e. evm_push n m = Throws e m) \<or> (\<exists>v. evm_push n m =
      Value () (m\<lparr>ctxts := set_pc (cx_pc c + 1 + n) (c\<lparr>cx_s := v # cx_s c\<rparr>) # cs\<rparr>))"
  unfolding evm_push_eq [OF assms] by (split if_split) blast

text \<open>What is left of the code, counted twice, for the turn that only clears \<open>pc_changed\<close>.\<close>

definition work :: "Context \<Rightarrow> nat" where
  "work c = 2 * (length (cx_code c) - cx_pc c) + (if cx_pc_changed c then 1 else 0)"

lemma work_step: "cx_pc c < length (cx_code c) \<Longrightarrow> work (cx_step c) < work c"
  by (auto simp: work_def cx_step_def)

lemma work_push:
  "cx_pc c < length (cx_code c) \<Longrightarrow> work (cx_step (set_pc (cx_pc c + 1 + n) c)) < work c"
  by (auto simp: work_def cx_step_def set_pc_def)

definition straight_op :: "Opcode \<Rightarrow> bool" where
  "straight_op i \<longleftrightarrow>
     i \<notin> {OP_JUMP, OP_JUMPI, OP_CREATE, OP_CALL, OP_CALLCODE, OP_DELEGATECALL}"

definition straight :: "bytes \<Rightarrow> bool" where
  "straight code \<longleftrightarrow>
     list_all (\<lambda>b. case opcode_of b of None \<Rightarrow> True | Some i \<Rightarrow> straight_op i) code"

lemma straight_current:
  "straight (cx_code c) \<Longrightarrow> ctxts m = c # cs \<Longrightarrow> current m = Some i \<Longrightarrow> straight_op i"
  by (fastforce simp: straight_def current_def list_all_iff split: if_splits dest: nth_mem)

section \<open>Termination of straight code\<close>

text \<open>Straight code either ends the context or keeps it, and does not move backwards.\<close>

lemma straight_keeps: "straight_op i \<Longrightarrow> \<not> (\<exists>n. i = OP_PUSH n) \<Longrightarrow> evm_respects keeps_or_ends (execute keccak i)"
proof (cases "computes i")
  case True
  then show ?thesis by (rule alone.rsp_computes)
next
  case False
  have "evm_respects keeps_or_ends (upd_storage a f)" for a f
    by (auto simp: evm_respects_def upd_storage_def upd_entry_def set_accounts_def
        keeps_or_ends_same split: option.split)
  then have "evm_respects keeps_or_ends evm_sstore"
    unfolding evm_sstore_def by (intro alone.rsp_bind alone.rsp_stack)
  moreover assume "straight_op i" "\<not> (\<exists>n. i = OP_PUSH n)"
  ultimately show ?thesis
    using False alone_leaving alone_selfdestruct by (cases i) (simp_all add: straight_op_def)
qed

definition lone :: "Context \<Rightarrow> machine \<Rightarrow> bool" where
  "lone c m \<longleftrightarrow> ctxts m = [c] \<and> cx_handlers c = Outermost \<and> straight (cx_code c)"

lemma lone_exception:
  assumes "ctxts m = [] \<or> (\<exists>c. ctxts m = [c] \<and> cx_handlers c = Outermost)"
  shows "(\<exists>m'. handle_exception e m = Value () m' \<and> ctxts m' = []) \<or> handle_exception e m = Dangling"
  using assms
  by (auto simp: handle_exception_def bind_def asks_def at_def call_eh_def pop_context_def)

lemma lone_turn:
  assumes m: "lone c m" "running m"
  shows "case turn keccak m of
      Value u m' \<Rightarrow> ctxts m' = [] \<or> (\<exists>c'. lone c' m' \<and> work c' < work c)
    | r \<Rightarrow> True"
proof (cases "current m")
  case None
  then have "dispatch_op keccak m = Throws IllegalInstruction m"
    using m by (simp add: dispatch_op_eq)
  then show ?thesis
    using lone_exception [of m IllegalInstruction] m(1)
    by (auto simp: turn_def bind_def lone_def advance_def)
next
  case (Some i)
  have c: "ctxts m = [c]" and pc: "cx_pc c < length (cx_code c)"
    using m by (auto simp: lone_def running_def)
  have straight: "straight_op i" using m(1) Some straight_current c by (auto simp: lone_def)
  have dispatch: "dispatch_op keccak m = execute keccak i m"
    using Some m(2) by (simp add: dispatch_op_eq)
  show ?thesis
  proof (cases "\<exists>n. i = OP_PUSH n")
    case True
    then obtain n where i: "i = OP_PUSH n" ..
    from evm_push_cases [OF c, of n] show ?thesis
    proof (elim disjE exE)
      fix e assume "evm_push n m = Throws e m"
      then show ?thesis
        using lone_exception [of m e] m(1) dispatch i
        by (auto simp: turn_def bind_def lone_def advance_def)
    next
      fix v
      let ?c = "c\<lparr>cx_s := v # cx_s c\<rparr>"
      assume "evm_push n m = Value () (m\<lparr>ctxts := set_pc (cx_pc c + 1 + n) ?c # []\<rparr>)"
      then have turn: "turn keccak m =
          Value () (m\<lparr>ctxts := [cx_step (set_pc (cx_pc c + 1 + n) ?c)]\<rparr>)"
        using dispatch i by (simp add: turn_def bind_def advance_def)
      have "work (cx_step (set_pc (cx_pc c + 1 + n) ?c)) < work c"
        using work_push [of ?c n] pc by (simp add: work_def)
      moreover have "lone (cx_step (set_pc (cx_pc c + 1 + n) ?c))
          (m\<lparr>ctxts := [cx_step (set_pc (cx_pc c + 1 + n) ?c)]\<rparr>)"
        using m(1) by (simp add: lone_def cx_step_def set_pc_def)
      ultimately show ?thesis unfolding turn by auto
    qed
  next
    case False
    have keeps: "ends_in keeps_or_ends m (dispatch_op keccak m)"
      unfolding dispatch by (rule evm_respectsD [OF straight_keeps [OF straight False]])
    have same: "ctxts m1 = [] \<or> (\<exists>c1. ctxts m1 = [c1] \<and> ctl c1 = ctl c)"
      if "keeps_or_ends m m1" for m1
      using that c by (auto simp: keeps_or_ends_def)
    have fields: "cx_handlers c1 = cx_handlers c \<and> cx_pc c1 = cx_pc c \<and> cx_code c1 = cx_code c
        \<and> cx_pc_changed c1 = cx_pc_changed c" if "ctl c1 = ctl c" for c1
      using that by (cases c, cases c1) (simp add: ctl_def)
    show ?thesis
    proof (cases "dispatch_op keccak m")
      case (Value u m1)
      have "lone (cx_step c1) (m1\<lparr>ctxts := [cx_step c1]\<rparr>) \<and> work (cx_step c1) < work c"
        if "ctl c1 = ctl c" for c1
        using fields [OF that] m(1) pc work_step [of c1] by (simp add: lone_def cx_step_def work_def)
      then show ?thesis
        using same [of m1] keeps Value by (fastforce simp: turn_def bind_def advance_def)
    next
      case (Throws e m1)
      then have "ctxts m1 = [] \<or> (\<exists>c1. ctxts m1 = [c1] \<and> ctl c1 = ctl c)"
        using keeps by (intro same) simp
      then have "ctxts m1 = [] \<or> (\<exists>c. ctxts m1 = [c] \<and> cx_handlers c = Outermost)"
        using fields m(1) unfolding lone_def by metis
      then show ?thesis
        using lone_exception [of m1 e] Throws by (auto simp: turn_def bind_def advance_def)
    qed (simp_all add: turn_def bind_def)
  qed
qed

lemma lone_ends: "lone c m \<Longrightarrow> \<exists>r. run_loop keccak m = Some r"
proof (induction "work c" arbitrary: c m rule: less_induct)
  case less
  show ?case
  proof (cases "running m")
    case False
    then show ?thesis by (simp add: run_loop.simps)
  next
    case True
    note turn = lone_turn [OF less.prems True, of keccak]
    show ?thesis
    proof (cases "turn keccak m")
      case (Value u m')
      then consider "ctxts m' = []" | c' where "lone c' m'" "work c' < work c" using turn by auto
      then have "\<exists>r. run_loop keccak m' = Some r"
      proof cases
        case 1
        then show ?thesis by (simp add: run_loop.simps running_def)
      qed (rule less.hyps)
      then show ?thesis using True Value by (simp add: run_loop.simps [of keccak m])
    qed (use True in \<open>simp_all add: run_loop.simps [of keccak m]\<close>)
  qed
qed

section \<open>A loop without an end\<close>

text \<open>\<open>JUMPDEST PUSH1 0 JUMP\<close>, and the three points a turn starts from.\<close>

definition spin :: bytes where
  "spin = [0x5b, 0x60, 0x00, 0x56]"

definition spinning :: "machine \<Rightarrow> bool" where
  "spinning m \<longleftrightarrow>
     (case ctxts m of
        [c] \<Rightarrow> cx_code c = spin \<and>
          (cx_pc c = 0 \<and> cx_s c = [] \<or> cx_pc c = 1 \<and> \<not> cx_pc_changed c \<and> cx_s c = []
           \<or> cx_pc c = 3 \<and> \<not> cx_pc_changed c \<and> cx_s c = [0])
      | _ \<Rightarrow> False)"

lemma opcode_of_spin:
  "opcode_of 0x5b = Some OP_JUMPDEST" "opcode_of 0x60 = Some (OP_PUSH 1)"
  "opcode_of 0x56 = Some OP_JUMP"
  by (simp_all add: opcode_of_def opcode_table_def)

lemma spin_dest: "0 \<in> set (compute_jump_dests spin)"
  by (simp add: compute_jump_dests_def jump_dests_from.simps spin_def is_push_def)

lemma spinning_turn:
  assumes "spinning m"
  shows "running m \<and> (\<exists>m'. turn keccak m = Value () m' \<and> spinning m')"
proof -
  obtain c where c: "ctxts m = [c]" "cx_code c = spin"
    using assms by (auto simp: spinning_def split: list.splits)
  have len: "length spin = 4" by (simp add: spin_def)
  from assms c consider
    "cx_pc c = 0" "cx_s c = []" | "cx_pc c = 1" "\<not> cx_pc_changed c" "cx_s c = []"
    | "cx_pc c = 3" "\<not> cx_pc_changed c" "cx_s c = [0]"
    by (auto simp: spinning_def)
  then show ?thesis
  proof cases
    case 1
    then have run: "running m" "current m = Some OP_JUMPDEST"
      using c len by (auto simp: running_def current_def spin_def opcode_of_spin)
    then show ?thesis
      using 1 c by (auto simp: turn_def bind_def dispatch_op_eq ret_def advance_def cx_step_def
          spinning_def)
  next
    case 2
    then have run: "running m" "current m = Some (OP_PUSH 1)"
      using c len by (auto simp: running_def current_def spin_def opcode_of_spin)
    have imm: "push_immediate spin 1 1 = 0"
      by (simp add: push_immediate_def spin_def from_big_endian_def)
    show ?thesis
      using 2 c run by (auto simp: turn_def bind_def dispatch_op_eq evm_push_eq [OF c(1)]
          advance_def cx_step_def set_pc_def spinning_def len imm [unfolded One_nat_def]
          STACK_MAX_SIZE_def)
  next
    case 3
    then have run: "running m" "current m = Some OP_JUMP"
      using c len by (auto simp: running_def current_def spin_def opcode_of_spin)
    have "evm_jump m = Value () (m\<lparr>ctxts := [set_pc 0 (c\<lparr>cx_s := []\<rparr>)]\<rparr>)"
      unfolding evm_jump_def bind_def [of pop64]
      using 3 c spin_dest by (simp add: pop64_Cons jump_to_def at_def)
    then show ?thesis
      using 3 c run by (auto simp: turn_def bind_def dispatch_op_eq advance_def cx_step_def
          set_pc_def spinning_def)
  qed
qed

lemma spinning_never_ends: "spinning m \<Longrightarrow> run_loop keccak m = None"
proof -
  have "\<not> spinning m" if "run_loop k m = Some r" for k m r
  proof (rule run_loop.raw_induct [OF _ that])
    fix f k m r
    assume "\<And>k m r. f k m = Some r \<Longrightarrow> \<not> spinning m"
      "(if \<not> running m then Some (Value () m)
        else case turn k m of Value u m' \<Rightarrow> f k m' | Throws e m' \<Rightarrow> Some (Throws e m')
          | Leaves m' \<Rightarrow> Some (Leaves m') | Aborts \<Rightarrow> Some Aborts | Dangling \<Rightarrow> Some Dangling) = Some r"
    then show "\<not> spinning m" using spinning_turn [of m k] by (auto split: if_splits)
  qed
  then show "spinning m \<Longrightarrow> run_loop keccak m = None" by (cases "run_loop keccak m") auto
qed

end
