(* ===== verification/Evm_Reference.thy ===== *)
theory Evm_Reference
  imports Evm_Control
begin

text \<open>
  The arithmetic instructions as the Yellow Paper defines them, on integers, and the evaluation of
  the instructions that take two operands from the stack.
\<close>

definition twos :: "int \<Rightarrow> int" where
  "twos x = (if x < 2 ^ 255 then x else x - 2 ^ 256)"

fun yellow :: "Opcode \<Rightarrow> (int \<Rightarrow> int \<Rightarrow> int) option" where
  "yellow OP_ADD = Some (\<lambda>x y. x + y)"
| "yellow OP_MUL = Some (\<lambda>x y. x * y)"
| "yellow OP_SUB = Some (\<lambda>x y. x - y)"
| "yellow OP_DIV = Some (\<lambda>x y. if y = 0 then 0 else x div y)"
| "yellow OP_SDIV = Some (\<lambda>x y. if y = 0 then 0 else twos x sdiv twos y)"
| "yellow OP_MOD = Some (\<lambda>x y. if y = 0 then 0 else x mod y)"
| "yellow OP_SMOD = Some (\<lambda>x y. if y = 0 then 0 else twos x smod twos y)"
| "yellow OP_EXP = Some (\<lambda>x y. x ^ nat y)"
| "yellow OP_SIGNEXTEND = Some (\<lambda>x y. if 32 \<le> x then y else signed_take_bit (8 * nat x + 7) y)"
| "yellow OP_LT = Some (\<lambda>x y. if x < y then 1 else 0)"
| "yellow OP_GT = Some (\<lambda>x y. if y < x then 1 else 0)"
| "yellow OP_SLT = Some (\<lambda>x y. if twos x < twos y then 1 else 0)"
| "yellow OP_SGT = Some (\<lambda>x y. if twos y < twos x then 1 else 0)"
| "yellow OP_EQ = Some (\<lambda>x y. if x = y then 1 else 0)"
| "yellow OP_AND = Some (\<lambda>x y. x AND y)"
| "yellow OP_OR = Some (\<lambda>x y. x OR y)"
| "yellow OP_XOR = Some (\<lambda>x y. x XOR y)"
| "yellow OP_BYTE = Some (\<lambda>x y. if 32 \<le> x then 0 else y div 256 ^ nat (31 - x) mod 256)"
| "yellow _ = None"

text \<open>Where the code is known to differ from it.\<close>

fun yellow_differs :: "Opcode \<Rightarrow> u256 \<Rightarrow> u256 \<Rightarrow> bool" where
  "yellow_differs OP_SDIV x y \<longleftrightarrow> x = 2 ^ 255 \<and> y = 2 ^ 64 - 1"
| "yellow_differs OP_EXP x y \<longleftrightarrow> 2 ^ 64 \<le> unat y"
| "yellow_differs OP_BYTE x y \<longleftrightarrow> 32 \<le> x"
| "yellow_differs _ x y \<longleftrightarrow> False"

lemma twos_uint: "twos (uint (x :: u256)) = sint x"
  using sint_by_uint [of x] sint_lt [of x] sint_ge [of x] uint_ge_0 [of x] uint_lt2p [of x]
  by (simp add: twos_def split: if_splits)

lemma push_eq:
  "ctxts m = c # cs \<Longrightarrow> length (cx_s c) < STACK_MAX_SIZE \<Longrightarrow>
     push v m = Value () (m\<lparr>ctxts := c\<lparr>cx_s := v # cx_s c\<rparr> # cs\<rparr>)"
  by (simp add: push_def at_def stack_push_def)

lemma binop_eq:
  "ctxts m = c # cs \<Longrightarrow> cx_s c = x # y # s \<Longrightarrow> length s < STACK_MAX_SIZE \<Longrightarrow>
     binop f m = Value () (m\<lparr>ctxts := c\<lparr>cx_s := f x y # s\<rparr> # cs\<rparr>)"
  by (simp add: binop_def bind_def pop_Cons push_eq)

lemma word_of_yellow:
  fixes x y :: u256
  shows "word_of_int (if uint y = 0 then 0 else a) = (if y = 0 then 0 else word_of_int a)"
    "word_of_int (if P then 1 else 0) = (if P then 1 else 0 :: u256)"
  by (simp_all add: uint_0_iff)

lemma byte_word_int:
  fixes x y :: u256
  assumes "\<not> 32 \<le> x"
  shows "byte_word x y =
    word_of_int (if 32 \<le> uint x then 0 else uint y div 256 ^ nat (31 - uint x) mod 256)"
proof -
  have "x < 32" using assms by simp
  have x: "unat x < 32" using \<open>x < 32\<close> by (simp add: word_less_nat_alt)
  have "nat (31 - uint x) = 31 - unat x" by (simp flip: uint_nat add: nat_diff_distrib')
  then have exp: "(256 :: int) ^ nat (31 - uint x) = 2 ^ (8 * (31 - unat x))"
    by (simp add: power_mult)
  have "byte_word x y = ucast (ucast (drop_bit (8 * (31 - unat x)) y) :: u8)"
    using \<open>x < 32\<close> x by (simp add: byte_word_nth)
  also have "uint \<dots> = uint y div 256 ^ nat (31 - uint x) mod 256"
  proof -
    have low: "uint (ucast (ucast w :: u8) :: u256) = uint w mod 256" for w :: u256
      by (simp add: unsigned_ucast_eq unsigned_take_bit_eq take_bit_eq_mod [where 'a = int])
    have "take_bit 256 (uint y) = uint y" using uint_lt2p [of y] by (simp add: take_bit_int_eq_self)
    then show ?thesis
      unfolding exp low by (simp add: unsigned_drop_bit_eq drop_bit_eq_div [where 'a = int])
  qed
  finally have "byte_word x y = word_of_int (uint y div 256 ^ nat (31 - uint x) mod 256)"
    by (metis word_of_int_uint)
  then show ?thesis using \<open>x < 32\<close> by (simp add: word_less_def)
qed

lemma binary_word:
  fixes x y :: u256
  shows "x + y = word_of_int (uint x + uint y)" "x * y = word_of_int (uint x * uint y)"
    "x - y = word_of_int (uint x - uint y)"
    "div_word x y = word_of_int (if uint y = 0 then 0 else uint x div uint y)"
    "mod_word x y = word_of_int (if uint y = 0 then 0 else uint x mod uint y)"
    "x AND y = word_of_int (uint x AND uint y)" "x OR y = word_of_int (uint x OR uint y)"
    "x XOR y = word_of_int (uint x XOR uint y)"
    "x ^ unat y = word_of_int (uint x ^ nat (uint y))"
proof -
  show "x AND y = word_of_int (uint x AND uint y)" "x OR y = word_of_int (uint x OR uint y)"
    "x XOR y = word_of_int (uint x XOR uint y)"
    by (metis unsigned_and_eq unsigned_or_eq unsigned_xor_eq word_of_int_uint)+
qed (simp_all add: div_word_def mod_word_def word_div_def word_mod_def uint_0_iff
    word_of_int_power_hom)

lemma signed_word:
  fixes x y :: u256
  shows "slt_word x y = word_of_int (if twos (uint x) < twos (uint y) then 1 else 0)"
    "smod_word x y =
      word_of_int (if uint y = 0 then 0 else twos (uint x) smod twos (uint y))"
    "\<not> (x = 2 ^ 255 \<and> y = 2 ^ 64 - 1) \<Longrightarrow>
      sdiv_word x y = word_of_int (if uint y = 0 then 0 else twos (uint x) sdiv twos (uint y))"
  by (auto simp: slt_word_int smod_word_int sdiv_word_int twos_uint uint_0_iff)

lemma compare_word:
  fixes x y :: u256
  shows "(if x < y then 1 else 0) = (word_of_int (if uint x < uint y then 1 else 0) :: u256)"
    "(if x = y then 1 else 0) = (word_of_int (if uint x = uint y then 1 else 0) :: u256)"
  by (simp_all add: word_less_def word_uint_eq_iff)

lemma signextend_word_int:
  fixes x y :: u256
  shows "signextend_word x y = word_of_int (if 32 \<le> uint x then uint y
      else signed_take_bit (8 * nat (uint x) + 7) (uint y))"
proof (cases "x < 32")
  case True
  then have x: "uint x < 32" "unat x < 32" "nat (uint x) = unat x"
    by (simp add: word_less_def, simp add: word_less_nat_alt, simp)
  have "signed_take_bit n y = word_of_int (signed_take_bit n (uint y))" if "n < 256" for n
    using that by (intro bit_word_eqI) (auto simp: bit_simps min_def)
  then show ?thesis
    using True x by (simp add: signextend_word_bits)
next
  case False
  then show ?thesis by (simp add: signextend_word_def word_le_def not_less)
qed

lemma evm_binop_yellow:
  assumes c: "ctxts m = c # cs" "cx_s c = x # y # s" "length s < STACK_MAX_SIZE - 1"
    and f: "yellow i = Some f" "\<not> yellow_differs i x y"
  shows "execute keccak i m =
    Value () (m\<lparr>ctxts := c\<lparr>cx_s := word_of_int (f (uint x) (uint y)) # s\<rparr> # cs\<rparr>)"
proof -
  have room: "length s < STACK_MAX_SIZE" using c(3) by simp
  note bin = binop_eq [OF c(1,2) room]
  have exp: "evm_exp m = Value () (m\<lparr>ctxts := c\<lparr>cx_s := x ^ unat y # s\<rparr> # cs\<rparr>)"
    if "unat y < 2 ^ 64"
    using c that room
    by (simp add: evm_exp_def bind_def pop_Cons pop64_Cons push_eq)
  have byte: "evm_byte m = Value () (m\<lparr>ctxts := c\<lparr>cx_s := byte_word x y # s\<rparr> # cs\<rparr>)"
    if "\<not> 32 \<le> x"
    using c that room by (simp add: evm_byte_def bind_def pop_Cons push_eq)
  have sgt: "evm_sgt m = Value () (m\<lparr>ctxts := c\<lparr>cx_s := slt_word y x # s\<rparr> # cs\<rparr>)"
    using c room binop_eq [of "m\<lparr>ctxts := c\<lparr>cx_s := y # x # s\<rparr> # cs\<rparr>" "c\<lparr>cx_s := y # x # s\<rparr>" cs y x s]
    by (simp add: evm_sgt_def evm_slt_def bind_def at_def stack_swap_def)
  show ?thesis
    using f
    by (cases i; simp only: yellow.simps option.inject option.distinct yellow_differs.simps;
        simp only: execute.simps evm_add_def evm_sub_def evm_mul_def evm_div_def evm_sdiv_def
          evm_mod_def evm_smod_def evm_signextend_def evm_lt_def evm_gt_def evm_slt_def
          evm_eq_def evm_and_def evm_or_def evm_xor_def;
        hypsubst;
        simp only: bin exp byte sgt binary_word signed_word compare_word signextend_word_int
          byte_word_int not_le simp_thms)
qed

end
