(* ===== verification/Evm_Properties.thy ===== *)
theory Evm_Properties
  imports Evm_Reference
begin

text \<open>
  What holds of the EVM: its well-formedness and memory safety, its arithmetic against the Yellow
  Paper, money, storage, failed calls, termination, and the limits it does not keep.
\<close>

section \<open>Examples\<close>

definition demo_block :: Block where
  "demo_block = \<lparr>b_number = 0, b_difficulty = 0, b_gas_limit = 0, b_timestamp = 0,
     b_coinbase = 0\<rparr>"

definition demo_global :: "bytes \<Rightarrow> SimpleGlobalState" where
  "demo_global code = \<lparr>currentBlock = demo_block,
     accounts = [(16, new_account 16 5 code, []), (32, new_account 32 7 [], [(1, 2)])]\<rparr>"

definition demo_tx :: "u64 \<Rightarrow> Transaction" where
  "demo_tx gas_limit = \<lparr>tx_origin = 32, tx_gas_price = 0, tx_gas_limit = gas_limit, tx_logs = [],
     selfdestruct_list = []\<rparr>"

definition demo_keccak :: "bytes \<Rightarrow> bytes" where
  "demo_keccak bs = replicate 32 9"

definition demo_context :: "bytes \<Rightarrow> u256 list \<Rightarrow> Context" where
  "demo_context code s = (new_context 32 16 [] code 0 Outermost)\<lparr>cx_s := s\<rparr>"

definition demo_machine :: "bytes \<Rightarrow> u256 list \<Rightarrow> machine" where
  "demo_machine code s = \<lparr>gs = demo_global code, tx = demo_tx 0, ctxts = [demo_context code s],
     result = initial_result\<rparr>"

lemmas demo_defs = demo_machine_def demo_context_def demo_global_def demo_tx_def demo_block_def
  new_context_def new_account_def initial_result_def

lemma demo_accounts:
  "om_get (accounts (demo_global code)) 16 = Some (new_account 16 5 code, [])"
  by (simp add: demo_global_def)

lemma demo_global_ok: "global_ok (demo_global code)"
  by (simp add: global_ok_def demo_global_def om_ok_def om_keys_def account_ok_def new_account_def)

lemma demo_ok: "evm_ok (demo_machine code s)"
  using demo_global_ok [of code]
  by (simp add: evm_ok_def handlers_ok_def context_ok_def demo_machine_def demo_context_def
      new_context_def MAX_CALL_DEPTH_def) (simp add: demo_global_def om_keys_def)

section \<open>Type safety\<close>

text \<open>
  C24: The EVM is type safe. However long a contract has run, the machine is well formed: its
  accounts are where their addresses say, every context is for an existing account, at most 1024
  contexts are nested, the memory of each is at most 32 MB, and only the first one reports the
  result. The next turn ends in such a machine again, also when an exception leaves the loop. An
  exception does so in two cases only: \<open>CALLDATALOAD\<close> at an offset within 32 of \<open>2\<^sup>6\<^sup>4\<close> (its
  \<open>std::overflow_error\<close> is not caught), and when the handler of a caught exception has to push the 0
  on the full stack of a caller. It follows a dangling pointer only in the \<open>RETURN\<close> of init code,
  and it aborts (on the assertion of \<open>insert\<close>) only in a \<open>CREATE\<close>.
\<close>

theorem evm_is_type_safe:
  assumes "global_ok g" "om_get (accounts g) callee \<noteq> None"
    and "evm_reach keccak (initial_machine g t caller callee code input v) m"
  shows "evm_ok m \<and> (running m \<longrightarrow>
    (case turn keccak m of
       Value u m' \<Rightarrow> evm_ok m'
     | Throws e m' \<Rightarrow> False
     | Leaves m' \<Rightarrow> evm_ok m' \<and> (
         current m = Some OP_CALLDATALOAD \<and>
           (\<exists>v s. cx_s (hd (ctxts m)) = v # s \<and> 2 ^ 64 - 32 \<le> unat v)
         \<or> (\<exists>c \<in> set (tl (ctxts m')). length (cx_s c) = STACK_MAX_SIZE))
     | Aborts \<Rightarrow> current m = Some OP_CREATE
     | Dangling \<Rightarrow> current m = Some OP_RETURN \<and> created (hd (ctxts m))))"
proof -
  have ok: "evm_ok m" by (rule reach_ok [OF assms(3) initial_ok [OF assms(1,2)]])
  show ?thesis
  proof (intro conjI impI ok)
    assume run: "running m"
    show "case turn keccak m of
       Value u m' \<Rightarrow> evm_ok m'
     | Throws e m' \<Rightarrow> False
     | Leaves m' \<Rightarrow> evm_ok m' \<and> (loads_past_the_end m \<or> caller_full m')
     | Aborts \<Rightarrow> current m = Some OP_CREATE
     | Dangling \<Rightarrow> current m = Some OP_RETURN \<and> created (hd (ctxts m))"
      using turn_ok [OF ok run, of keccak] turn_leaves [OF ok run, of keccak]
      by (cases "turn keccak m") simp_all
  qed
qed

theorem evm_is_type_safe_witness:
  "evm_ok (initial_machine (demo_global spin) (demo_tx 0) 32 16 spin [] 0)"
  using evm_is_type_safe [where g = "demo_global spin" and callee = 16 and code = spin,
      OF demo_global_ok _ reach_start] demo_accounts
  by simp

section \<open>Arithmetic\<close>

text \<open>
  C25: The two-operand instructions compute what the Yellow Paper says, read as integers (signed
  where it says so) and reduced to 256 bits, pop their operands and touch nothing else. The
  exceptions are listed in \<open>yellow_differs\<close>: one quotient of \<open>SDIV\<close>, exponents of \<open>2\<^sup>6\<^sup>4\<close> or more, which
  throw, and \<open>BYTE\<close> with an index of 32 or more, which leaves its second operand on the stack.
\<close>

theorem evm_arithmetic_is_the_yellow_papers:
  assumes "ctxts m = c # cs" "cx_s c = x # y # s" "length s < STACK_MAX_SIZE - 1"
    and "yellow i = Some f" "\<not> yellow_differs i x y"
  shows "execute keccak i m =
    Value () (m\<lparr>ctxts := c\<lparr>cx_s := word_of_int (f (uint x) (uint y)) # s\<rparr> # cs\<rparr>)"
  by (rule evm_binop_yellow [OF assms])

theorem evm_arithmetic_is_the_yellow_papers_witness:
  "execute demo_keccak OP_SUB (demo_machine [] [3, 5]) = Value () (demo_machine [] [- 2])"
  using evm_arithmetic_is_the_yellow_papers [of "demo_machine [] [3, 5]" "demo_context [] [3, 5]"
      "[]" 3 5 "[]" OP_SUB "\<lambda>x y. x - y" demo_keccak]
  by (simp add: demo_defs STACK_MAX_SIZE_def)

text \<open>The three cases in which they do not.\<close>

theorem sdiv_takes_two_to_the_64_for_minus_one:
  "sdiv_word (2 ^ 255) (2 ^ 64 - 1) = 2 ^ 255"
  "word_of_int (twos (2 ^ 255) sdiv twos (2 ^ 64 - 1)) \<noteq> (2 ^ 255 :: u256)"
  by (simp_all add: sdiv_word_int twos_def)

theorem large_exponents_throw:
  assumes "ctxts m = c # cs" "cx_s c = b # e # s" "2 ^ 64 \<le> unat e"
  shows "execute keccak OP_EXP m = Throws OutOfBounds (m\<lparr>ctxts := c\<lparr>cx_s := s\<rparr> # cs\<rparr>)"
proof -
  have "2 ^ 64 - 1 < e" using assms(3) by (simp add: word_less_nat_alt)
  then show ?thesis
    using assms(1,2) by (simp add: evm_exp_def bind_def pop_Cons pop64_def throw_def)
qed

theorem byte_leaves_an_operand:
  assumes "ctxts m = c # cs" "cx_s c = idx # val # s" "32 \<le> idx" "length s < STACK_MAX_SIZE - 1"
  shows "execute keccak OP_BYTE m = Value () (m\<lparr>ctxts := c\<lparr>cx_s := 0 # val # s\<rparr> # cs\<rparr>)"
  using assms by (simp add: evm_byte_def bind_def pop_Cons push_eq)

section \<open>Money\<close>

text \<open>The account an instruction pays, if it is one that pays.\<close>

definition payee :: "machine \<Rightarrow> u256 option" where
  "payee m =
     (case ctxts m of
        [] \<Rightarrow> None
      | c # cs \<Rightarrow>
          (case (current m, cx_s c) of
             (Some OP_SELFDESTRUCT, x # s) \<Rightarrow> Some (x AND address_mask)
           | (Some OP_CALL, x # y # s) \<Rightarrow> Some (y AND address_mask)
           | (Some OP_CALLCODE, x # y # s) \<Rightarrow> Some (y AND address_mask)
           | (Some OP_DELEGATECALL, x # y # s) \<Rightarrow> Some (y AND address_mask)
           | _ \<Rightarrow> None))"

definition pays_itself :: "machine \<Rightarrow> bool" where
  "pays_itself m \<longleftrightarrow> payee m = Some (cx_as (hd (ctxts m)))"

lemma execute_balances:
  assumes "running m" "current m = Some i" "i \<noteq> OP_CREATE" "\<not> pays_itself m"
  shows "ends_in (grows_by 0) m (execute keccak i m)"
proof -
  obtain c cs where c: "ctxts m = c # cs" using assms(1) by (rule running_obtains)
  have call: "ends_in (grows_by 0) m (evm_call k m)"
    if "i \<in> {OP_CALL, OP_CALLCODE, OP_DELEGATECALL}" for k
    by (rule evm_call_balances [OF c])
      (use assms that c in \<open>auto simp: pays_itself_def payee_def\<close>)
  have selfdestruct: "ends_in (grows_by 0) m (evm_selfdestruct m)" if "i = OP_SELFDESTRUCT"
    by (rule evm_selfdestruct_balances [OF c])
      (use assms that c in \<open>auto simp: pays_itself_def payee_def\<close>)
  show ?thesis
  proof (cases "i \<in> {OP_SSTORE, OP_CREATE, OP_CALL, OP_CALLCODE, OP_DELEGATECALL, OP_SELFDESTRUCT}")
    case True
    then show ?thesis
      using assms(3) call selfdestruct balances_store [THEN evm_respectsD] by auto
  next
    case False
    then show ?thesis by (intro evm_respectsD balances.rsp_plain)
  qed
qed

text \<open>
  C26: No turn of the processor destroys money: the sum of all balances does not shrink, whatever
  the instruction, also when it throws. And it does not grow, unless the instruction is a \<open>CREATE\<close>
  or makes an account pay itself.
\<close>

theorem evm_keeps_the_money:
  assumes "evm_ok m" "running m"
    and "turn keccak m = Value u m' \<or> turn keccak m = Leaves m'"
  shows "total_balance m \<le> total_balance m' \<and>
    (current m \<noteq> Some OP_CREATE \<longrightarrow> \<not> pays_itself m \<longrightarrow> total_balance m' = total_balance m)"
proof -
  have ok: "om_ok (accounts (gs m))" using assms(1) by (simp add: evm_ok_def global_ok_def)
  have "ends_in no_less m (turn keccak m)"
    using funds_execute [THEN evm_respectsD] by (intro funds.turn_ends_in assms(2))
  moreover have "ends_in (grows_by 0) m (turn keccak m)"
    if "current m \<noteq> Some OP_CREATE" "\<not> pays_itself m"
    using that execute_balances [OF assms(2)] by (intro balances.turn_ends_in assms(2)) auto
  ultimately show ?thesis
    using assms(3) ok by (auto simp: no_less_def grows_by_def)
qed

text \<open>Account 16 calls account 32 with three units.\<close>

definition demo_payment :: machine where
  "demo_payment = demo_machine [0xf1] [0, 32, 3, 0, 0, 0, 0]"

definition demo_paid :: machine where
  "demo_paid = (demo_machine [0xf1] [1])
     \<lparr>gs := (demo_global [0xf1])\<lparr>accounts :=
       [(16, new_account 16 2 [0xf1], []), (32, new_account 32 10 [], [(1, 2)])]\<rparr>,
      ctxts := [(demo_context [0xf1] [1])\<lparr>cx_pc_changed := False\<rparr>]\<rparr>"

lemma demo_payment_turn: "turn demo_keccak demo_payment = Value () demo_paid"
  by code_simp

theorem evm_keeps_the_money_witness: "total_balance demo_paid = total_balance demo_payment"
proof -
  have ready: "evm_ok demo_payment" "running demo_payment"
    using demo_ok by (simp_all add: demo_payment_def demo_machine_def running_def demo_context_def
        new_context_def)
  have "current demo_payment \<noteq> Some OP_CREATE" "\<not> pays_itself demo_payment"
    by code_simp+
  then show ?thesis
    using evm_keeps_the_money [OF ready disjI1 [OF demo_payment_turn]] by simp
qed

text \<open>
  C27: A \<open>CREATE\<close> makes money. When the new address is free and its operands are in range, the turn
  ends with the sum of all balances increased by the endowment: the new account is created with the
  endowment as its balance, before the creator is asked to pay it. It does so when the creator
  cannot pay (the instruction throws, but the account stays) and when it can (the new account then
  has it twice).
\<close>

theorem evm_create_makes_money:
  assumes m: "evm_ok m" "running m" "current m = Some OP_CREATE"
    and c: "ctxts m = c # cs" "cx_s c = v # off # sz # s" "unat off + unat sz \<le> MAX_MEM_SIZE"
    and fresh: "om_get (accounts (gs m)) (created_address keccak m) = None"
  shows "\<exists>m'. (turn keccak m = Value () m' \<or> turn keccak m = Leaves m') \<and>
    total_balance m' = total_balance m + uint v"
proof -
  have good: "good {} m" using m(1) c(1) by (simp add: good_def)
  note mints = evm_create_mints [OF good c(1,2,3) fresh]
  have dispatch: "dispatch_op keccak m = evm_create keccak m"
    using m(2,3) by (simp add: dispatch_op_eq)
  have advance: "grows_by (uint v) m (advance m')" if "grows_by (uint v) m m'" for m'
    using that grows_by_gs [of "advance m'" m'] grows_by_add [of "uint v" m m' 0]
    by (simp add: advance_def split: list.splits)
  have step: "ends_in (grows_by (uint v)) m r" if "grows_by (uint v) m m1" "ends_in (grows_by 0) m1 r"
    for m1 and r :: "unit eval"
    using that grows_by_add [of "uint v" m m1 0] by (cases r) auto
  have "ends_in (grows_by (uint v)) m (turn keccak m)"
  proof (cases "evm_create keccak m")
    case (Value u m1)
    then show ?thesis
      using mints(1) advance by (simp add: turn_def bind_def dispatch)
  next
    case (Throws e m1)
    then have "ends_in (grows_by (uint v)) m (handle_exception e m1)"
      using mints(1) balances.rsp_handle [THEN evm_respectsD] by (intro step [of m1]) simp_all
    then have "ends_in (grows_by (uint v)) m (bind (handle_exception e) (\<lambda>_ m'. Value () (advance m')) m1)"
      using advance by (cases "handle_exception e m1") (auto simp: bind_def)
    then show ?thesis using Throws by (simp add: turn_def bind_def dispatch)
  qed (use mints in \<open>simp_all add: turn_def bind_def dispatch\<close>)
  moreover have "turn keccak m \<noteq> Aborts"
  proof
    assume "turn keccak m = Aborts"
    moreover have "leaves_ok False (handle_exception e m1)" if "evm_create keccak m = Throws e m1" for e m1
      using execute_ok [OF good m(3), of keccak] that
      by (intro handle_exception_ok) (simp add: op_ok_def)
    ultimately show False
      using mints(2) by (fastforce simp: turn_def bind_def dispatch split: eval.splits)
  qed
  ultimately show ?thesis
    using turn_ok [OF m(1,2), of keccak] m
    by (cases "turn keccak m") (auto simp: grows_by_def evm_ok_def global_ok_def)
qed

text \<open>Account 16, which has 5 units, creates an account with 1000.\<close>

definition demo_create :: machine where
  "demo_create = demo_machine [0xf0] [1000, 0, 0]"

theorem evm_create_makes_money_witness:
  "\<exists>m'. (turn demo_keccak demo_create = Value () m' \<or> turn demo_keccak demo_create = Leaves m') \<and>
    total_balance m' = 1012"
proof -
  have ready: "evm_ok demo_create" "running demo_create"
    using demo_ok by (simp_all add: demo_create_def demo_machine_def running_def demo_context_def
        new_context_def)
  have op: "current demo_create = Some OP_CREATE" by code_simp
  have c: "ctxts demo_create = [demo_context [0xf0] [1000, 0, 0]]"
    "cx_s (demo_context [0xf0] [1000, 0, 0]) = 1000 # 0 # 0 # []"
    by (simp_all add: demo_create_def demo_machine_def demo_context_def)
  have fresh: "om_get (accounts (gs demo_create)) (created_address demo_keccak demo_create) = None"
    by code_simp
  have "total_balance demo_create = 12" by code_simp
  then show ?thesis
    using evm_create_makes_money [OF ready op c _ fresh] by (simp add: MAX_MEM_SIZE_def)
qed

section \<open>Storage\<close>

text \<open>
  C28: Storage is private. If a turn changes the storage of an account, then that is the account
  the current context runs for, and the instruction is \<open>SSTORE\<close>; this holds across calls,
  exceptions, creations and self-destruction.
\<close>

theorem evm_storage_is_private:
  assumes "running m" "turn keccak m = Value u m' \<or> turn keccak m = Leaves m'"
    and "storage_of m' a \<noteq> storage_of m a"
  shows "a = cx_as (hd (ctxts m)) \<and> current m = Some OP_SSTORE"
proof -
  obtain c cs where c: "ctxts m = c # cs" using assms(1) by (rule running_obtains)
  have "ends_in (same_storage_but (cx_as c)) m (execute keccak i m)" for i
    using sstore_other_storages [OF c]
      other_storages.rsp_but_store [of i "cx_as c" keccak, THEN evm_respectsD, of m]
    by (cases "i = OP_SSTORE") auto
  then have "ends_in (same_storage_but (cx_as c)) m (turn keccak m)"
    by (intro other_storages.turn_ends_in assms(1))
  with assms(2) have "same_storage_but (cx_as c) m m'" by (elim disjE) simp_all
  then have "a = cx_as c" using assms(3) unfolding same_storage_but_def by blast
  moreover have "current m = Some OP_SSTORE"
  proof (rule ccontr)
    assume "current m \<noteq> Some OP_SSTORE"
    then have "ends_in same_storage m (turn keccak m)"
      using storages.rsp_but_store [THEN evm_respectsD]
      by (intro storages.turn_ends_in assms(1)) auto
    with assms(2) have "same_storage m m'" by (elim disjE) simp_all
    then show False using assms(3) unfolding same_storage_def by blast
  qed
  ultimately show ?thesis using c by simp
qed

text \<open>Account 16 writes 9 under the key 4.\<close>

theorem evm_storage_is_private_witness:
  "storage_of (demo_machine [0x55] [4, 9]) 16 = [] \<and>
   (16 :: u256) = cx_as (hd (ctxts (demo_machine [0x55] [4, 9])))"
proof -
  let ?m = "demo_machine [0x55] [4, 9]"
  define m' where "m' = ?m\<lparr>gs := (demo_global [0x55])\<lparr>accounts :=
      [(16, new_account 16 5 [0x55], [(4, 9)]), (32, new_account 32 7 [], [(1, 2)])]\<rparr>,
    ctxts := [(demo_context [0x55] [])\<lparr>cx_pc_changed := False\<rparr>]\<rparr>"
  have "turn demo_keccak ?m = Value () m'" unfolding m'_def by code_simp
  moreover have "running ?m" by code_simp
  moreover have "storage_of ?m 16 = []" "storage_of m' 16 = [(4, 9)]"
    unfolding m'_def by code_simp+
  ultimately show ?thesis
    using evm_storage_is_private [of ?m demo_keccak "()" m' 16] by simp
qed

section \<open>Failed calls\<close>

text \<open>
  C29: A failed call is not undone. When the code of a call throws, the turn removes its context,
  pushes 0 for the caller and moves the caller on; the accounts, their storage and the log are those
  at the moment of the exception, with everything the failed call (and the calls inside it) wrote
  and paid. The Yellow Paper reverts them.
\<close>

theorem evm_failed_call_is_not_undone:
  assumes "running m" "dispatch_op keccak m = Throws e m1"
    and "ctxts m1 = c # p # cs" "cx_handlers c = Called off sz" "length (cx_s p) < STACK_MAX_SIZE"
  shows "turn keccak m = Value () (m1\<lparr>ctxts := cx_step (p\<lparr>cx_s := 0 # cx_s p\<rparr>) # cs\<rparr>)"
  using assms
  by (simp add: turn_def bind_def handle_exception_def asks_eq call_eh_def at_parent
      stack_push_def pop_context_def advance_def del: One_nat_def)

definition demo_callee :: Context where
  "demo_callee = (new_context 16 32 [] [0x0c] 3 (Called 0 0))\<lparr>cx_pc_changed := False\<rparr>"

text \<open>The called account has been paid and stops at an unknown instruction.\<close>

definition demo_failing :: machine where
  "demo_failing = demo_paid\<lparr>ctxts := [demo_callee,
     (demo_context [0xf1] [])\<lparr>cx_pc_changed := False\<rparr>]\<rparr>"

theorem evm_failed_call_is_not_undone_witness:
  "\<exists>m'. turn demo_keccak demo_failing = Value () m' \<and> balance_of m' 32 = 10 \<and>
    map cx_s (ctxts m') = [[0]]"
proof -
  have "running demo_failing" by code_simp
  moreover have "dispatch_op demo_keccak demo_failing = Throws IllegalInstruction demo_failing"
    by code_simp
  ultimately have turn: "turn demo_keccak demo_failing = Value () (demo_failing\<lparr>ctxts :=
      [cx_step ((demo_context [0xf1] [])\<lparr>cx_pc_changed := False, cx_s := [0]\<rparr>)]\<rparr>)"
    using evm_failed_call_is_not_undone [of demo_failing demo_keccak IllegalInstruction demo_failing
        demo_callee "(demo_context [0xf1] [])\<lparr>cx_pc_changed := False\<rparr>" "[]" 0 0]
    by (simp add: demo_failing_def demo_callee_def demo_context_def new_context_def
        STACK_MAX_SIZE_def)
  have "balance_of (demo_failing\<lparr>ctxts := cs\<rparr>) 32 = 10" for cs
    by (simp add: balance_of_def demo_failing_def demo_paid_def new_account_def)
  then show ?thesis unfolding turn by (simp add: cx_step_def)
qed

text \<open>
  When the code of a nested call runs off its end (it has no \<open>STOP\<close>), the loop of \<open>run\<close> ends,
  not the call: one context is stopped, and \<open>run\<close> returns with the caller half done, although the
  result still says \<open>returned\<close> with no output, as it was initialised.
\<close>

theorem evm_call_without_stop_ends_the_run:
  assumes "ctxts m = c # p # cs" "length (cx_code c) \<le> cx_pc c" "cx_handlers c = Called off sz"
    and "length (cx_s p) < STACK_MAX_SIZE" "selfdestruct_list (tx m) = []"
  shows "run_loop keccak m = Some (Value () m) \<and>
    finish m = Value () (m\<lparr>ctxts := p\<lparr>cx_s := 1 # cx_s p\<rparr> # cs\<rparr>)"
proof
  show "run_loop keccak m = Some (Value () m)"
    using assms(1,2) by (simp add: run_loop.simps running_def)
  have "evm_stop m = Value () (m\<lparr>ctxts := p\<lparr>cx_s := 1 # cx_s p\<rparr> # cs\<rparr>)"
    using assms push_eq [of "m\<lparr>ctxts := p # cs\<rparr>" p cs 1]
    by (simp add: evm_stop_def bind_def asks_eq pop_context_def call_hh_def)
  then show "finish m = Value () (m\<lparr>ctxts := p\<lparr>cx_s := 1 # cx_s p\<rparr> # cs\<rparr>)"
    using assms by (simp add: finish_def bind_def)
qed

theorem evm_call_without_stop_ends_the_run_witness:
  "\<exists>m'. finish (demo_failing\<lparr>ctxts := [demo_callee\<lparr>cx_pc := 1\<rparr>, demo_context [0xf1] []]\<rparr>) = Value () m'
    \<and> length (ctxts m') = 1 \<and> er (result m') = Returned"
  using evm_call_without_stop_ends_the_run
    [of "demo_failing\<lparr>ctxts := [demo_callee\<lparr>cx_pc := 1\<rparr>, demo_context [0xf1] []]\<rparr>"
      "demo_callee\<lparr>cx_pc := 1\<rparr>" "demo_context [0xf1] []" "[]" 0 0 demo_keccak]
  by (simp add: demo_failing_def demo_paid_def demo_callee_def demo_defs STACK_MAX_SIZE_def)

section \<open>Init code and first instructions\<close>

text \<open>Init code that returns code for its account, as it must to create a contract, is undefined.\<close>

theorem returning_init_code_is_undefined:
  assumes "current m = Some OP_RETURN" "running m" "ctxts m = c # cs" "cx_s c = off # sz # s"
    and "created c" "unat off + unat sz \<le> MAX_MEM_SIZE"
  shows "turn keccak m = Dangling"
proof -
  obtain a where a: "cx_handlers c = Created a"
    using assms(5) by (auto simp: created_def split: handlers.splits)
  have small: "unat off < 2 ^ 64" "unat sz < 2 ^ 64" using assms(6) by (simp_all add: MAX_MEM_SIZE_def)
  have "evm_return m = Dangling"
    using assms(3,4,6) a small [simplified]
    by (simp add: evm_return_def bind_def pop64_Cons copy_from_mem_eq asks_eq call_rh_def)
  then show ?thesis using assms(1,2) by (simp add: turn_def bind_def dispatch_op_eq)
qed

text \<open>
  The first instruction of a transaction runs twice, unless it is a push or a jump, as \<open>pc_changed\<close>
  is true before it and nothing has consumed it.
\<close>

theorem first_instruction_runs_twice:
  assumes "code \<noteq> []" "opcode_of (code ! 0) = Some i" "computes i"
    and "execute keccak i (initial_machine g t caller callee code input v) = Value u m1"
  shows "\<exists>m'. turn keccak (initial_machine g t caller callee code input v) = Value () m' \<and>
    running m' \<and> current m' = Some i"
proof -
  let ?m = "initial_machine g t caller callee code input v"
  have c: "ctxts ?m = [new_context caller callee input code v Outermost]"
    by (simp add: initial_machine_def)
  have run: "running ?m" "current ?m = Some i"
    using assms(1,2) by (simp_all add: running_def current_def c) (simp_all add: new_context_def)
  have "ends_in same_control ?m (execute keccak i ?m)"
    by (rule evm_respectsD [OF control.rsp_computes [OF assms(3)]])
  then have "same_control ?m m1" by (simp add: assms(4))
  then obtain c' cs' where c': "ctxts m1 = c' # cs'" "cx_pc c' = 0" "cx_pc_changed c'"
    "cx_code c' = code"
    by (rule same_control_head [OF _ c]) (simp add: new_context_def)
  then have "turn keccak ?m = Value () (m1\<lparr>ctxts := c'\<lparr>cx_pc_changed := False\<rparr> # cs'\<rparr>)"
    using run assms(4) by (simp add: turn_def bind_def dispatch_op_eq advance_def cx_step_def)
  then show ?thesis
    using c' assms(1,2) by (simp add: running_def current_def)
qed

section \<open>Termination\<close>

text \<open>
  C30: Code without jumps, calls and creations always comes to an end: \<open>run\<close> returns or leaves by
  an exception, whatever the state, the input and the gas.
\<close>

theorem evm_straight_code_ends:
  assumes "\<And>e. om_get (accounts g) callee = Some e \<Longrightarrow> straight (a_code (fst e))"
  shows "\<exists>r. evm_run keccak g t caller callee input v = Some r"
proof (cases "om_get (accounts g) callee")
  case None
  then show ?thesis by (simp add: evm_run_def)
next
  case (Some e)
  then have "lone (new_context caller callee input (a_code (fst e)) v Outermost)
      (initial_machine g t caller callee (a_code (fst e)) input v)"
    using assms by (simp add: lone_def initial_machine_def) (simp add: new_context_def)
  from lone_ends [OF this, of keccak] show ?thesis
    using Some by (auto simp: evm_run_def split: prod.split)
qed

theorem evm_straight_code_ends_witness:
  "\<exists>r. evm_run demo_keccak (demo_global [0x60, 0x01, 0x54]) (demo_tx 0) 32 16 [] 0 = Some r"
  by (rule evm_straight_code_ends)
    (simp add: demo_accounts new_account_def straight_def opcode_of_def opcode_table_def
      straight_op_def)

text \<open>
  C31: Gas ends nothing. A contract that jumps in a circle keeps \<open>run\<close> busy for ever, with any gas
  limit and price of the transaction and the block.
\<close>

theorem evm_gas_does_not_end_a_loop:
  assumes "om_get (accounts g) callee = Some (a, s)" "a_code a = spin"
  shows "evm_run keccak g t caller callee input v = None"
proof -
  have "spinning (initial_machine g t caller callee spin input v)"
    by (simp add: spinning_def initial_machine_def new_context_def)
  then show ?thesis
    using assms by (simp add: evm_run_def spinning_never_ends)
qed

theorem evm_gas_does_not_end_a_loop_witness:
  "evm_run demo_keccak (demo_global spin) (demo_tx 1) 32 16 [] 0 = None"
  using evm_gas_does_not_end_a_loop [OF demo_accounts] by (simp add: new_account_def)

section \<open>The stack\<close>

text \<open>
  The limit of 1024 words on the stack does not bind: \<open>DUP\<close> does not test it, and \<open>push\<close> tests
  for a stack of exactly 1024 words. A \<open>DUP\<close> on a full stack leaves 1025 words, and on a stack
  beyond the limit every push succeeds.
\<close>

theorem evm_stack_limit_does_not_bind:
  assumes "ctxts m = c # cs" "STACK_MAX_SIZE \<le> length (cx_s c)" "n < length (cx_s c)"
  shows "execute keccak (OP_DUP n) m =
      Value () (m\<lparr>ctxts := c\<lparr>cx_s := (cx_s c ! n) # cx_s c\<rparr> # cs\<rparr>) \<and>
    (STACK_MAX_SIZE < length (cx_s c) \<longrightarrow>
      push v m = Value () (m\<lparr>ctxts := c\<lparr>cx_s := v # cx_s c\<rparr> # cs\<rparr>))"
  using assms by (simp add: at_def stack_dup_def push_def stack_push_def)

theorem evm_stack_limit_does_not_bind_witness:
  "execute demo_keccak (OP_DUP 0) (demo_machine [] (replicate 1024 7)) =
     Value () (demo_machine [] (replicate 1025 7))"
proof -
  have "ctxts (demo_machine [] (replicate 1024 7)) = demo_context [] (replicate 1024 7) # []"
    by (simp add: demo_machine_def)
  moreover have "cx_s (demo_context [] (replicate 1024 7)) = replicate 1024 7"
    by (simp add: demo_context_def)
  moreover have "replicate 1025 (7 :: u256) = 7 # replicate 1024 7"
    by (simp flip: replicate_Suc)
  ultimately show ?thesis
    using evm_stack_limit_does_not_bind [of "demo_machine [] (replicate 1024 7)"
        "demo_context [] (replicate 1024 7)" "[]" 0 demo_keccak]
    by (simp only: STACK_MAX_SIZE_def length_replicate nth_replicate)
      (simp add: demo_machine_def demo_context_def)
qed

section \<open>Memory\<close>

text \<open>
  What \<open>MSTORE\<close> writes, \<open>MLOAD\<close> reads: storing a word and loading from the same offset
  gives the word back; the memory grows to the end of the word at most, new bytes are zero, and
  bytes outside the word keep their value.
\<close>

theorem evm_memory_round_trip:
  assumes "ctxts m = c # cs" "cx_s c = off # v # off # s" "length s < STACK_MAX_SIZE"
    and "unat off + 32 \<le> MAX_MEM_SIZE"
  shows "\<exists>mem. bind evm_mstore (\<lambda>_. evm_mload) m =
      Value () (m\<lparr>ctxts := c\<lparr>cx_s := v # s, cx_mem := mem\<rparr> # cs\<rparr>) \<and>
    length mem = max (unat off + 32) (length (cx_mem c)) \<and>
    (\<forall>i < length mem. i < unat off \<or> unat off + 32 \<le> i \<longrightarrow>
       mem ! i = (if i < length (cx_mem c) then cx_mem c ! i else 0))"
proof -
  let ?off = "unat off"
  define mem where "mem = overwrite ?off (to_big_endian v) (resize (?off + 32) (cx_mem c))"
  have small: "?off < 2 ^ 64" using assms(4) by (simp add: MAX_MEM_SIZE_def)
  have len: "length mem = max (?off + 32) (length (cx_mem c))"
    by (simp add: mem_def)
  have written: "write_mem ?off (to_big_endian v) m1 =
      Value () (m1\<lparr>ctxts := c1\<lparr>cx_mem := mem\<rparr> # cs\<rparr>)"
    if "ctxts m1 = c1 # cs" "cx_mem c1 = cx_mem c" for m1 c1
    using that small assms(4)
    by (simp add: write_mem_def prepare_mem_access_eq bind_def at_def mem_def)
  have store: "evm_mstore m = Value () (m\<lparr>ctxts := c\<lparr>cx_s := off # s, cx_mem := mem\<rparr> # cs\<rparr>)"
    using assms(1,2) small [simplified]
    by (simp add: evm_mstore_def bind_def pop64_Cons pop_Cons written)
  have word: "take 32 (drop ?off mem) = to_big_endian v"
    by (rule nth_equalityI) (auto simp: len mem_def overwrite_nth nth_to_big_endian simp del: nth_to_big_endian)
  have load: "evm_mload (m\<lparr>ctxts := c\<lparr>cx_s := off # s, cx_mem := mem\<rparr> # cs\<rparr>) =
      Value () (m\<lparr>ctxts := c\<lparr>cx_s := v # s, cx_mem := mem\<rparr> # cs\<rparr>)"
    using assms(3,4) small [simplified]
    by (simp add: evm_mload_def bind_def pop64_Cons copy_from_mem_eq WORD_SIZE_def resize_def len
        word push_eq)
  have "mem ! i = (if i < length (cx_mem c) then cx_mem c ! i else 0)"
    if "i < length mem" "i < ?off \<or> ?off + 32 \<le> i" for i
    using that len by (auto simp: mem_def overwrite_nth resize_def nth_append)
  then show ?thesis using store load len by (auto simp: bind_def [of evm_mstore])
qed

theorem evm_memory_round_trip_witness:
  "\<exists>mem. bind evm_mstore (\<lambda>_. evm_mload) (demo_machine [] [64, 513, 64]) =
    Value () ((demo_machine [] [513])\<lparr>ctxts := [(demo_context [] [513])\<lparr>cx_mem := mem\<rparr>]\<rparr>)"
  using evm_memory_round_trip [of "demo_machine [] [64, 513, 64]" "demo_context [] [64, 513, 64]"
      "[]" 64 513 "[]"]
  by (auto simp: demo_machine_def demo_context_def STACK_MAX_SIZE_def MAX_MEM_SIZE_def)

text \<open>A copy into memory reads past the end of its source as the padding byte.\<close>

theorem copy_mem_raw_bytes:
  assumes "sz \<noteq> 0" "offDst < 2 ^ 64" "offSrc < 2 ^ 64" "sz < 2 ^ 64" "length src < 2 ^ 63"
    and "copy_mem_raw offDst offSrc sz dst src pad = Inr mem" "i < length mem"
  shows "mem ! i =
    (if offDst \<le> i \<and> i < offDst + sz
     then (if offSrc + (i - offDst) < length src then src ! (offSrc + (i - offDst)) else pad)
     else if i < length dst then dst ! i else 0)"
proof -
  obtain n where n: "n = min sz (length src - offSrc) \<or> n = 0 \<and> 2 ^ 64 \<le> offSrc + sz"
    "offDst + sz \<le> MAX_MEM_SIZE" "n \<le> sz" "n \<le> length src - offSrc"
    "mem = overwrite (offDst + n) (replicate (sz - n) pad)
      (overwrite offDst (take n (drop offSrc src)) (resize (offDst + sz) dst))"
    by (rule copy_mem_raw_cases [OF assms(6,1-4)])
  have "n = min sz (length src - offSrc)"
    using n(1,2) assms(5) by (auto simp: MAX_MEM_SIZE_def)
  then have inside: "offSrc + j < length src \<longleftrightarrow> j < n" if "j < sz" for j
    using that by auto
  have len: "length (take n (drop offSrc src)) = n" "length mem = max (offDst + sz) (length dst)"
    using n(3,4) by (simp_all add: n(5))
  have "mem ! i =
    (if offDst \<le> i \<and> i < offDst + sz
     then (if i - offDst < n then src ! (offSrc + (i - offDst)) else pad)
     else resize (offDst + sz) dst ! i)"
    using assms(7) n(3,4) len by (auto simp: n(5) overwrite_nth)
  moreover have "resize (offDst + sz) dst ! i = (if i < length dst then dst ! i else 0)"
    using assms(7) len by (auto simp: resize_def nth_append)
  moreover have "offSrc + (i - offDst) < length src \<longleftrightarrow> i - offDst < n"
    if "offDst \<le> i \<and> i < offDst + sz"
    using that by (intro inside) auto
  ultimately show ?thesis by (simp only: split: if_split) blast
qed

end
