(* ===== verification/Contract_Driver.thy ===== *)
theory Contract_Driver
  imports Evm_Processor Wallet
begin

text \<open>
  The contract driver of an LN-TEE node (\<open>amd_sev/lntee/src/enclave/TEE_contract.cpp\<close>) on top of
  the EVM, and the helpers that build calls (\<open>src/contract\<close>). A function of the driver ends as an
  \<open>outcome\<close>, where \<open>Terminated\<close> is an exception (nothing in the process of the enclave catches one)
  or a failed assertion; \<open>None\<close> says that the contract does not end. A contract definition is a
  value of \<open>nlohmann::json\<close>; an object is a map from its keys.
\<close>

section \<open>JSON values\<close>

text \<open>A floating-point number is only ever converted to \<open>int\<close>, so it is kept truncated to an integer.\<close>

datatype json = J_null | J_bool bool | J_int int | J_float int | J_string string
  | J_array "json list" | J_object "(string, json) omap"

text \<open>\<open>operator[]\<close> on a constant value: an exception, or a failed assertion for a missing key.\<close>

definition const_at :: "json \<Rightarrow> string \<Rightarrow> json outcome" where
  "const_at j k =
     (case j of
        J_object m \<Rightarrow> (case om_get m k of Some v \<Rightarrow> Returns v | None \<Rightarrow> Terminated)
      | _ \<Rightarrow> Terminated)"

definition as_string :: "json \<Rightarrow> string outcome" where
  "as_string j = (case j of J_string s \<Rightarrow> Returns s | _ \<Rightarrow> Terminated)"

section \<open>Calls as text\<close>

definition bytes_of :: "string \<Rightarrow> bytes" where
  "bytes_of s = map (\<lambda>c. of_nat (of_char c)) s"

definition text_of :: "bytes \<Rightarrow> string" where
  "text_of bs = map (\<lambda>b. char_of (unat b)) bs"

definition strip :: "string \<Rightarrow> string" where
  "strip s = (if 2 \<le> length s \<and> s ! 1 = CHR ''x'' then drop 2 s else s)"

text \<open>
  \<open>strtoul(s, nullptr, 16)\<close> on at most two characters: blanks, a sign, and the hexadecimal digits up
  to the first other character. (A prefix \<open>0x\<close> would need a third character to matter.)
\<close>

fun hex_value :: "nat \<Rightarrow> string \<Rightarrow> nat" where
  "hex_value v [] = v"
| "hex_value v (c # s) = (if hex2int c < 16 then hex_value (16 * v + hex2int c) s else v)"

definition strtoul16 :: "string \<Rightarrow> int" where
  "strtoul16 s =
     (case dropWhile is_blank s of
        [] \<Rightarrow> 0
      | c # t \<Rightarrow>
          if c = CHR ''-'' then - int (hex_value 0 t)
          else if c = CHR ''+'' then int (hex_value 0 t)
          else int (hex_value 0 (c # t)))"

definition to_bytes :: "string \<Rightarrow> bytes" where
  "to_bytes s =
     (let t = strip s; n = length t mod 2
      in (if n = 0 then [] else [word_of_int (strtoul16 (take 1 t))]) @
         map (\<lambda>i. word_of_int (strtoul16 (take 2 (drop (n + 2 * i) t)))) [0..<length t div 2])"

text \<open>\<open>to_hex_string\<close> of a vector.\<close>

definition to_hex_string :: "bytes \<Rightarrow> string" where
  "to_hex_string bs = ''0x'' @ to_hex (text_of bs)"

definition append_argument :: "bytes \<Rightarrow> u256 \<Rightarrow> bytes" where
  "append_argument code arg = code @ to_big_endian arg"

section \<open>The helpers\<close>

record helper =
  func :: "(string, string) omap"
  function_call :: bytes

definition new_helper :: "(string \<times> string) list \<Rightarrow> helper" where
  "new_helper kvs = \<lparr>func = fold (\<lambda>(k, v). om_put k v) kvs [], function_call = []\<rparr>"

definition clean :: "helper \<Rightarrow> helper" where
  "clean h = h\<lparr>function_call := []\<rparr>"

text \<open>\<open>clean(); function_call = to_bytes(func.find(k)->second)\<close>, with no comparison to \<open>end()\<close>.\<close>

definition selected :: "string \<Rightarrow> helper \<Rightarrow> helper outcome" where
  "selected k h =
     bindo (of_option_ub (om_get (func (clean h)) k)) (\<lambda>v.
     Returns ((clean h)\<lparr>function_call := to_bytes v\<rparr>))"

definition answer :: "helper outcome \<Rightarrow> (bytes \<times> helper) outcome" where
  "answer r = bindo r (\<lambda>h. Returns (function_call h, h))"

definition erc20_helper :: helper where
  "erc20_helper = new_helper
     [(''allowance'', ''dd62ed3e''), (''approve'', ''095ea7b3''), (''balanceOf'', ''70a08231''),
      (''totalSupply'', ''18160ddd''), (''transfer'', ''a9059cbb'')]"

definition erc20_allowance :: "string \<Rightarrow> string \<Rightarrow> helper \<Rightarrow> (bytes \<times> helper) outcome" where
  "erc20_allowance addr addr2 h = answer (selected ''allowance(address,address)'' h)"

definition erc20_approve :: "string \<Rightarrow> u32 \<Rightarrow> helper \<Rightarrow> (bytes \<times> helper) outcome" where
  "erc20_approve addr val h = answer (selected ''approve(address,uint256)'' h)"

definition erc20_balanceOf :: "string \<Rightarrow> helper \<Rightarrow> (bytes \<times> helper) outcome" where
  "erc20_balanceOf addr h = answer (selected ''balanceOf(address)'' h)"

definition erc20_totalSupply :: "helper \<Rightarrow> (bytes \<times> helper) outcome" where
  "erc20_totalSupply h = answer (selected ''totalSupply'' h)"

definition erc20_transferFrom ::
  "string \<Rightarrow> string \<Rightarrow> u32 \<Rightarrow> helper \<Rightarrow> (bytes \<times> helper) outcome" where
  "erc20_transferFrom from to val h =
     answer (selected ''transferFrom(address,address,uint256)'' h)"

text \<open>
  \<open>transfer\<close> writes the decoded addresses into two local variables of 32 bytes (\<open>junk_to\<close> and
  \<open>junk_from\<close> are what they held), appends its arguments, and then replaces the whole call by a
  constant.
\<close>

definition fixed_transfer :: string where
  "fixed_transfer =
     ''0xa9059cbb00000000000000000000000064b0ab6c0c3db74c4ba31b3d1e9eeda7831d6ba9'' @
     ''0000000000000000000000000000000000000000000000000000000000000023''"

definition erc20_transfer ::
  "string \<Rightarrow> string \<Rightarrow> string \<Rightarrow> string \<Rightarrow> u32 \<Rightarrow> helper \<Rightarrow> (bytes \<times> helper) outcome" where
  "erc20_transfer junk_to junk_from addr_hex to val h =
     bindo (selected ''transfer'' h) (\<lambda>h1.
     bindo (blit 0 (from_hex to) junk_to) (\<lambda>to'.
     bindo (blit 0 (from_hex addr_hex) junk_from) (\<lambda>from'.
     let call = append_argument (function_call h1) (of_nat (le_value to'));
         h2 = h1\<lparr>function_call := append_argument call (word_of_int (sint val))\<rparr>
     in answer (Returns (h2\<lparr>function_call := to_bytes fixed_transfer\<rparr>)))))"

definition gomoku_helper :: helper where
  "gomoku_helper = new_helper
     [(''GameState'', ''3bbf41d9''), (''GetLastWinner'', ''f503f294''), (''MakeMove'', ''3c22b640'')]"

definition gomoku_GetLastWinnerAddress :: "helper \<Rightarrow> (bytes \<times> helper) outcome" where
  "gomoku_GetLastWinnerAddress h = answer (Returns h)"

definition gomoku_MakeMove :: "u256 \<Rightarrow> u256 \<Rightarrow> u256 \<Rightarrow> helper \<Rightarrow> (bytes \<times> helper) outcome" where
  "gomoku_MakeMove player row col h =
     answer (bindo (selected ''MakeMove'' h) (\<lambda>h1.
       Returns (h1\<lparr>function_call :=
         append_argument (append_argument (append_argument (function_call h1) player) row) col\<rparr>)))"

definition rpc_helper :: helper where
  "rpc_helper = new_helper [(''play'', ''93e84cd9'')]"

definition rpc_play :: "helper \<Rightarrow> (bytes \<times> helper) outcome" where
  "rpc_play h = answer (Returns (h\<lparr>function_call := to_bytes ''93e84cd9''\<rparr>))"

section \<open>Runs\<close>

definition bindr ::
  "'a outcome option \<Rightarrow> ('a \<Rightarrow> 'b outcome option) \<Rightarrow> 'b outcome option" where
  "bindr r f =
     (case r of
        None \<Rightarrow> None
      | Some (Returns a) \<Rightarrow> f a
      | Some Terminated \<Rightarrow> Some Terminated
      | Some Undefined \<Rightarrow> Some Undefined)"

abbreviation done_with :: "'a \<Rightarrow> 'a outcome option" where
  "done_with a \<equiv> Some (Returns a)"

lemma bindr_simps [simp]:
  "bindr None f = None"
  "bindr (Some (Returns a)) f = f a"
  "bindr (Some Terminated) f = Some Terminated"
  "bindr (Some Undefined) f = Some Undefined"
  by (simp_all add: bindr_def)

lemma bindr_done_iff [simp]:
  "bindr r f = Some (Returns b) \<longleftrightarrow> (\<exists>a. r = Some (Returns a) \<and> f a = Some (Returns b))"
  by (auto simp: bindr_def split: option.split outcome.split)

section \<open>The driver\<close>

text \<open>\<open>gs\<close>, \<open>owner_address\<close> and \<open>contract_definition\<close> are the fields of its \<open>env\<close>.\<close>

record tee_contract =
  env_gs :: SimpleGlobalState
  owner_address :: u256
  contract_definition :: json
  contract_address :: u256
  users :: "u256 list"

definition total_supply :: u256 where
  "total_supply = 1000"

definition empty_global :: SimpleGlobalState where
  "empty_global =
     \<lparr>currentBlock = \<lparr>b_number = 0, b_difficulty = 0, b_gas_limit = 0, b_timestamp = 0, b_coinbase = 0\<rparr>,
      accounts = []\<rparr>"

definition new_transaction :: "u256 \<Rightarrow> Transaction" where
  "new_transaction origin =
     \<lparr>tx_origin = origin, tx_gas_price = 0, tx_gas_limit = 0, tx_logs = [], selfdestruct_list = []\<rparr>"

text \<open>\<open>SimpleGlobalState::get\<close>: an account that does not exist is created.\<close>

definition with_got :: "u256 \<Rightarrow> SimpleGlobalState \<Rightarrow> SimpleGlobalState" where
  "with_got a g =
     (case om_get (accounts g) a of
        Some _ \<Rightarrow> g
      | None \<Rightarrow> g\<lparr>accounts := om_put a (new_account a 0 [], []) (accounts g)\<rparr>)"

definition run_and_check_result ::
  "(bytes \<Rightarrow> bytes) \<Rightarrow> u256 \<Rightarrow> u256 \<Rightarrow> bytes \<Rightarrow> tee_contract \<Rightarrow> (bytes \<times> tee_contract) outcome option" where
  "run_and_check_result keccak from to input c =
     Option.bind (evm_run keccak (with_got to (env_gs c)) (new_transaction from) from to input 0) (\<lambda>r.
     Some (case r of
        Value _ m \<Rightarrow>
          if er (result m) = Returned then Returns (exec_output (result m), c\<lparr>env_gs := gs m\<rparr>)
          else Terminated
      | Throws e m \<Rightarrow> Terminated
      | Leaves m \<Rightarrow> Terminated
      | Aborts \<Rightarrow> Terminated
      | Dangling \<Rightarrow> Undefined))"

text \<open>\<open>from_big_endian(output.data(), output.size())\<close> throws on more than 32 bytes.\<close>

definition number_of_output :: "bytes \<Rightarrow> u256 outcome" where
  "number_of_output out = (if 32 < length out then Terminated else Returns (from_big_endian out))"

text \<open>The account of the contract is held by reference across the run of its constructor.\<close>

definition deploy_lntee_contract ::
  "(bytes \<Rightarrow> bytes) \<Rightarrow> tee_contract \<Rightarrow> (u256 \<times> tee_contract) outcome option" where
  "deploy_lntee_contract keccak c =
     (let addr = generate_address keccak (owner_address c) 0 in
      bindr (Some (bindo (const_at (contract_definition c) ''bin'') as_string)) (\<lambda>bin.
      let constructor = append_argument (to_bytes bin) total_supply in
      if om_get (accounts (env_gs c)) addr \<noteq> None then Some Terminated
      else
        let c1 = c\<lparr>env_gs := (env_gs c)\<lparr>accounts :=
              om_put addr (new_account addr 0 constructor, []) (accounts (env_gs c))\<rparr>\<rparr> in
        bindr (run_and_check_result keccak (owner_address c) addr [] c1) (\<lambda>(code, c2).
        case om_get (accounts (env_gs c2)) addr of
          None \<Rightarrow> Some Undefined
        | Some (acc, st) \<Rightarrow>
            done_with (a_address acc, c2\<lparr>env_gs := (env_gs c2)\<lparr>accounts :=
              om_put addr (acc\<lparr>a_code := code\<rparr>, st) (accounts (env_gs c2))\<rparr>\<rparr>))))"

text \<open>The old environment, if there is one, is not freed; its fields are replaced.\<close>

definition loadContract ::
  "(bytes \<Rightarrow> bytes) \<Rightarrow> json \<Rightarrow> u256 \<Rightarrow> u256 list \<Rightarrow> tee_contract outcome option" where
  "loadContract keccak definition owner us =
     bindr (deploy_lntee_contract keccak
         \<lparr>env_gs = empty_global, owner_address = owner, contract_definition = definition,
          contract_address = 0, users = us\<rparr>) (\<lambda>(addr, c).
     done_with (c\<lparr>contract_address := addr\<rparr>))"

definition hash_of :: "tee_contract \<Rightarrow> string \<Rightarrow> bytes outcome" where
  "hash_of c signature =
     bindo (const_at (contract_definition c) ''hashes'') (\<lambda>hs.
     bindo (const_at hs signature) (\<lambda>v.
     bindo (as_string v) (\<lambda>s. Returns (to_bytes s))))"

definition get_total_supply ::
  "(bytes \<Rightarrow> bytes) \<Rightarrow> tee_contract \<Rightarrow> (u256 \<times> tee_contract) outcome option" where
  "get_total_supply keccak c =
     bindr (Some (hash_of c ''totalSupply()'')) (\<lambda>call.
     bindr (run_and_check_result keccak (owner_address c) (contract_address c) call c) (\<lambda>(out, c').
     bindr (Some (number_of_output out)) (\<lambda>n. done_with (n, c'))))"

definition get_contract_balance ::
  "(bytes \<Rightarrow> bytes) \<Rightarrow> u256 \<Rightarrow> tee_contract \<Rightarrow> (u256 \<times> tee_contract) outcome option" where
  "get_contract_balance keccak target c =
     bindr (Some (hash_of c ''balanceOf(address)'')) (\<lambda>call.
     bindr (run_and_check_result keccak target (contract_address c) (append_argument call target) c)
       (\<lambda>(out, c').
     bindr (Some (number_of_output out)) (\<lambda>n. done_with (n, c'))))"

definition invoke ::
  "(bytes \<Rightarrow> bytes) \<Rightarrow> u256 \<Rightarrow> bytes \<Rightarrow> tee_contract \<Rightarrow> (bool \<times> tee_contract) outcome option" where
  "invoke keccak source call c =
     bindr (run_and_check_result keccak source (contract_address c) call c) (\<lambda>(out, c').
     if length out \<noteq> 32 \<or> (out ! 31 \<noteq> 0 \<and> out ! 31 \<noteq> 1) then Some Terminated
     else done_with (out ! 31 = 1, c'))"

text \<open>
  \<open>memset\<close> clears all bytes of the amount but the first eight, which are the low ones; the address
  of the source is not used.
\<close>

definition transfer ::
  "(bytes \<Rightarrow> bytes) \<Rightarrow> u256 \<Rightarrow> u256 \<Rightarrow> u256 \<Rightarrow> tee_contract \<Rightarrow> (bool \<times> tee_contract) outcome option" where
  "transfer keccak source target amount c =
     bindr (Some (hash_of c ''transfer(address,uint256)'')) (\<lambda>call.
     invoke keccak (owner_address c)
       (append_argument (append_argument call target) (take_bit 64 amount)) c)"

text \<open>What \<open>print_lntee_state\<close> prints: the supply, then the balance of each user.\<close>

fun user_balances ::
  "(bytes \<Rightarrow> bytes) \<Rightarrow> u256 list \<Rightarrow> tee_contract \<Rightarrow> ((u256 \<times> u256) list \<times> tee_contract) outcome option" where
  "user_balances keccak [] c = done_with ([], c)"
| "user_balances keccak (u # us) c =
     bindr (get_contract_balance keccak u c) (\<lambda>(b, c1).
     bindr (user_balances keccak us c1) (\<lambda>(bs, c2). done_with ((u, b) # bs, c2)))"

definition print_lntee_state ::
  "(bytes \<Rightarrow> bytes) \<Rightarrow> tee_contract \<Rightarrow> ((u256 \<times> (u256 \<times> u256) list) \<times> tee_contract) outcome option" where
  "print_lntee_state keccak c =
     bindr (get_total_supply keccak c) (\<lambda>(total, c1).
     bindr (user_balances keccak (users c1) c1) (\<lambda>(bs, c2). done_with ((total, bs), c2)))"

end
