(* ===== verification/Contract_Shipped.thy ===== *)
theory Contract_Shipped
  imports Contract_Driver
begin

text \<open>
  The contract the host loads (\<open>amd_sev/lntee/contract/json/rpc.json\<close>), compiled from
  \<open>contract/rpc.sol\<close>, and the processor run on it, turn by turn: its constructor and a call of
  \<open>play()\<close>. \<open>evm_turn\<close> is the bundle that computes a turn.
\<close>

section \<open>The contract\<close>

definition rpc_bin :: string where
  "rpc_bin =
     ''60806040526002600055348015601457600080fd5b50609d806100236000396000f3fe6080604052'' @
     ''348015600f57600080fd5b50600436106044577c0100000000000000000000000000000000000000'' @
     ''000000000000000000600035046393e84cd981146049575b600080fd5b604f6063565b6040805191'' @
     ''15158252519081900360200190f35b60009056fea265627a7a723158206dde3c6243bb90c4040a21'' @
     ''f6f84e3d0f1276b4c69f98b0a9ae48757442f7907564736f6c63430005100032''"

definition rpc_json :: json where
  "rpc_json = J_object
     [(''bin'', J_string rpc_bin), (''hashes'', J_object [(''play()'', J_string ''93e84cd9'')])]"

text \<open>The bytes of its code: the constructor, and the part of it that becomes the account's code.\<close>

definition rpc_runtime :: bytes where
  "rpc_runtime =
    [96, 128, 96, 64, 82, 52, 128, 21, 96, 15, 87, 96, 0, 128, 253, 91, 80, 96, 4, 54, 16, 96,
     68, 87, 124, 1, 0, 0, 0, 0, 0, 0, 0, 0, 0, 0, 0, 0, 0, 0, 0, 0, 0, 0, 0, 0, 0, 0, 0, 0, 0,
     0, 0, 0, 96, 0, 53, 4, 99, 147, 232, 76, 217, 129, 20, 96, 73, 87, 91, 96, 0, 128, 253, 91,
     96, 79, 96, 99, 86, 91, 96, 64, 128, 81, 145, 21, 21, 130, 82, 81, 144, 129, 144, 3, 96,
     32, 1, 144, 243, 91, 96, 0, 144, 86, 254, 162, 101, 98, 122, 122, 114, 49, 88, 32, 109,
     222, 60, 98, 67, 187, 144, 196, 4, 10, 33, 246, 248, 78, 61, 15, 18, 118, 180, 198, 159,
     152, 176, 169, 174, 72, 117, 116, 66, 247, 144, 117, 100, 115, 111, 108, 99, 67, 0, 5, 16,
     0, 50]"

definition rpc_constructor :: bytes where
  "rpc_constructor =
    [96, 128, 96, 64, 82, 96, 2, 96, 0, 85, 52, 128, 21, 96, 20, 87, 96, 0, 128, 253, 91, 80,
     96, 157, 128, 97, 0, 35, 96, 0, 57, 96, 0, 243, 254] @ rpc_runtime"

text \<open>What the driver deploys: the constructor with the total supply as its argument.\<close>

definition rpc_init :: bytes where
  "rpc_init = append_argument rpc_constructor total_supply"

section \<open>The text of the contract\<close>

lemma text_of_bytes_of [simp]: "text_of (bytes_of s) = s"
proof (induction s)
  case (Cons c s)
  have "unat (of_nat (of_char c) :: u8) = of_char c" by (simp add: unat_of_nat of_char_less)
  with Cons show ?case by (simp add: text_of_def bytes_of_def)
qed (simp add: text_of_def bytes_of_def)

lemma bytes_of_text_of [simp]: "bytes_of (text_of bs) = bs"
proof (induction bs)
  case (Cons b bs)
  have "unat b < 256" using unsigned_less [of b] by simp
  with Cons show ?case by (simp add: text_of_def bytes_of_def)
qed (simp add: text_of_def bytes_of_def)

lemma hexmap_plain:
  assumes "i < 16"
  shows "\<not> is_blank (hexmap i)" "hexmap i \<noteq> CHR ''-''" "hexmap i \<noteq> CHR ''+''" "hexmap i \<noteq> CHR ''x''"
proof -
  have "\<forall>i \<in> set [0..<16]. \<not> is_blank (hexmap i) \<and> hexmap i \<noteq> CHR ''-'' \<and> hexmap i \<noteq> CHR ''+''
      \<and> hexmap i \<noteq> CHR ''x''"
    by code_simp
  with assms show "\<not> is_blank (hexmap i)" "hexmap i \<noteq> CHR ''-''" "hexmap i \<noteq> CHR ''+''"
    "hexmap i \<noteq> CHR ''x''"
    by simp_all
qed

lemma strtoul16_byte:
  "n < 256 \<Longrightarrow> strtoul16 [hexmap (n div 16), hexmap (n mod 16)] = int n"
  using hexmap_plain [of "n div 16"] hex2int_hexmap [of "n div 16"] hex2int_hexmap [of "n mod 16"]
  by (simp add: strtoul16_def less_mult_imp_div_less)

lemma strip_to_hex [simp]: "strip (to_hex s) = to_hex s"
  by (cases s) (simp_all add: strip_def hexmap_plain)

lemma to_bytes_to_hex [simp]: "to_bytes (to_hex s) = bytes_of s"
proof -
  have "map (\<lambda>i. word_of_int (strtoul16 (take 2 (drop (2 * i) (to_hex s))))) [0..<length s]
      = bytes_of s"
  proof (induction s)
    case (Cons c s)
    have "[0..<length (c # s)] = 0 # map Suc [0..<length s]"
      by (simp add: upt_conv_Cons map_Suc_upt del: upt_Suc)
    with Cons show ?case
      by (simp add: bytes_of_def comp_def strtoul16_byte of_char_less)
  qed (simp add: bytes_of_def)
  then show ?thesis by (simp add: to_bytes_def length_to_hex)
qed

text \<open>The prefix \<open>0x\<close> makes no difference.\<close>

lemma hex_string_round_trip: "to_bytes (to_hex_string bs) = bs"
proof -
  have "strip (to_hex_string bs) = strip (to_hex (text_of bs))"
    unfolding strip_to_hex by (simp add: to_hex_string_def strip_def)
  then have "to_bytes (to_hex_string bs) = to_bytes (to_hex (text_of bs))"
    by (simp only: to_bytes_def)
  then show ?thesis by simp
qed

lemma to_hex_text_of [simp]:
  "to_hex (text_of []) = []"
  "to_hex (text_of (b # bs)) =
     hexmap (unat b div 16) # hexmap (unat b mod 16) # to_hex (text_of bs)"
proof -
  have "unat b < 256" using unsigned_less [of b] by simp
  then show "to_hex (text_of []) = []"
    "to_hex (text_of (b # bs)) =
       hexmap (unat b div 16) # hexmap (unat b mod 16) # to_hex (text_of bs)"
    by (simp_all add: text_of_def)
qed

lemma to_bytes_rpc_bin: "to_bytes rpc_bin = rpc_constructor"
proof -
  have "rpc_bin = to_hex (text_of rpc_constructor)"
    by (simp add: rpc_bin_def rpc_constructor_def rpc_runtime_def hexmap_def)
  then have "to_bytes rpc_bin = to_bytes (to_hex (text_of rpc_constructor))" by (rule arg_cong)
  also have "\<dots> = rpc_constructor" by simp
  finally show ?thesis .
qed

section \<open>Turns of the processor\<close>

text \<open>
  The bundle that computes a turn of a machine whose code, stack and memory are known. The code
  stays folded; its length, its bytes and its jump destinations are rules of their own.
\<close>

lemma replicate_numeral: "replicate (numeral n) x = x # replicate (pred_numeral n) x"
  by (simp add: numeral_eq_Suc)

lemmas evm_turn =
  turn_def dispatch_op_def get_op_def opcode_of_def opcode_table_def running_def advance_def finish_def
  bind_def ret_def throw_def at_def asks_def cx_step_def set_pc_def pop_context_def call_rh_def
  push_def stack_push_def pop_def stack_pop_def pop64_def stack_dup_def stack_swap_def
  STACK_MAX_SIZE_def evm_push_def push_immediate_def from_big_endian_arith evm_pop_def
  unop_def binop_def evm_isZero_def evm_lt_def evm_eq_def evm_div_def div_word_def evm_sub_def evm_add_def
  evm_jump_def evm_jumpi_def jump_to_def evm_callvalue_def evm_calldatasize_def evm_calldataload_def
  calldata_word_bytes evm_codecopy_def copy_mem_def copy_mem_raw_def MAX_MEM_SIZE_def WORD_SIZE_def
  resize_def overwrite_def replicate_numeral upt_rec prepare_mem_access_def copy_from_mem_def
  evm_mload_def evm_mstore_def write_mem_def to_big_endian_def evm_sstore_def upd_storage_def
  upd_entry_def set_accounts_def evm_return_def initial_machine_def new_context_def initial_result_def

lemmas listings = rpc_init_def append_argument_def total_supply_def rpc_constructor_def rpc_runtime_def

lemmas jump_listing = compute_jump_dests_def jump_dests_from.simps is_push_def

lemma rpc_runtime_rules:
  "length rpc_runtime = 157"
  "compute_jump_dests rpc_runtime = [15, 68, 73, 79, 99]"
  by (simp_all add: rpc_runtime_def jump_listing)

lemmas rpc_runtime_bytes =
  arg_cong [OF rpc_runtime_def, of "\<lambda>c. c ! n" for n] arg_cong [OF rpc_runtime_def, of "drop n" for n]

lemma rpc_init_listed:
  "rpc_init =
    [96, 128, 96, 64, 82, 96, 2, 96, 0, 85, 52, 128, 21, 96, 20, 87, 96, 0, 128, 253, 91, 80,
     96, 157, 128, 97, 0, 35, 96, 0, 57, 96, 0, 243, 254, 96, 128, 96, 64, 82, 52, 128, 21, 96,
     15, 87, 96, 0, 128, 253, 91, 80, 96, 4, 54, 16, 96, 68, 87, 124, 1, 0, 0, 0, 0, 0, 0, 0, 0,
     0, 0, 0, 0, 0, 0, 0, 0, 0, 0, 0, 0, 0, 0, 0, 0, 0, 0, 0, 0, 96, 0, 53, 4, 99, 147, 232, 76,
     217, 129, 20, 96, 73, 87, 91, 96, 0, 128, 253, 91, 96, 79, 96, 99, 86, 91, 96, 64, 128, 81,
     145, 21, 21, 130, 82, 81, 144, 129, 144, 3, 96, 32, 1, 144, 243, 91, 96, 0, 144, 86, 254,
     162, 101, 98, 122, 122, 114, 49, 88, 32, 109, 222, 60, 98, 67, 187, 144, 196, 4, 10, 33,
     246, 248, 78, 61, 15, 18, 118, 180, 198, 159, 152, 176, 169, 174, 72, 117, 116, 66, 247,
     144, 117, 100, 115, 111, 108, 99, 67, 0, 5, 16, 0, 50, 0, 0, 0, 0, 0, 0, 0, 0, 0, 0, 0, 0,
     0, 0, 0, 0, 0, 0, 0, 0, 0, 0, 0, 0, 0, 0, 0, 0, 0, 0, 3, 232]"
  by (simp add: listings to_big_endian_def upt_rec)

lemma rpc_init_rules:
  "length rpc_init = 224"
  "compute_jump_dests rpc_init = [20, 50, 103, 108, 114, 134]"
  by (simp_all add: rpc_init_listed jump_listing)

lemmas rpc_init_bytes =
  arg_cong [OF rpc_init_listed, of "\<lambda>c. c ! n" for n] arg_cong [OF rpc_init_listed, of "drop n" for n]

section \<open>The constructor\<close>

text \<open>It stores 2 in the first word of its storage (\<open>chose\<close>) and returns the code of the account.\<close>

lemma constructor_run:
  assumes "om_get (accounts g) a = Some (acc, st)"
  shows "run_loop keccak (initial_machine g t from a rpc_init [] 0) =
    Some (Value () \<lparr>gs = g\<lparr>accounts := om_put a (acc, om_put 0 2 st) (accounts g)\<rparr>, tx = t, ctxts = [],
      result = \<lparr>er = Returned, ex = OutOfBounds, exec_output = rpc_runtime\<rparr>\<rparr>)"
  using assms
  by ((subst run_loop.simps, simp add: evm_turn rpc_init_rules rpc_init_bytes)+) (simp add: rpc_runtime_def)

section \<open>A call\<close>

text \<open>
  \<open>play()\<close> answers false and changes nothing; so does the call padded to a block of 16 bytes.
\<close>

lemma play_run:
  "run_loop keccak (initial_machine g t from a rpc_runtime [147, 232, 76, 217] 0) =
    Some (Value () \<lparr>gs = g, tx = t, ctxts = [],
      result = \<lparr>er = Returned, ex = OutOfBounds, exec_output = replicate 32 0\<rparr>\<rparr>)"
  by ((subst run_loop.simps, simp add: evm_turn rpc_runtime_rules rpc_runtime_bytes)+)

lemma padded_play_run:
  "run_loop keccak (initial_machine g t from a rpc_runtime
      [147, 232, 76, 217, 0, 0, 0, 0, 0, 0, 0, 0, 0, 0, 0, 0] 0) =
    Some (Value () \<lparr>gs = g, tx = t, ctxts = [],
      result = \<lparr>er = Returned, ex = OutOfBounds, exec_output = replicate 32 0\<rparr>\<rparr>)"
  by ((subst run_loop.simps, simp add: evm_turn rpc_runtime_rules rpc_runtime_bytes)+)

section \<open>Through the driver\<close>

definition rpc_loaded :: "(bytes \<Rightarrow> bytes) \<Rightarrow> u256 \<Rightarrow> u256 list \<Rightarrow> tee_contract" where
  "rpc_loaded keccak owner us =
     (let addr = generate_address keccak owner 0 in
      \<lparr>env_gs = empty_global\<lparr>accounts := [(addr, new_account addr 0 rpc_runtime, [(0, 2)])]\<rparr>,
       owner_address = owner, contract_definition = rpc_json, contract_address = addr, users = us\<rparr>)"

lemma new_fields [simp]:
  "a_code (new_account a b code) = code" "a_address (new_account a b code) = a"
  "selfdestruct_list (new_transaction a) = []"
  by (simp_all add: new_account_def new_transaction_def)

lemma with_got_there [simp]: "om_get (accounts g) a = Some e \<Longrightarrow> with_got a g = g"
  by (simp add: with_got_def)

lemma evm_run_value:
  assumes "om_get (accounts g) to = Some (acc, st)"
    and "run_loop keccak (initial_machine g t from to (a_code acc) input v) = Some (Value () m)"
    and "ctxts m = []" "selfdestruct_list (tx m) = []"
  shows "evm_run keccak g t from to input v = Some (Value () m)"
  using assms by (simp add: evm_run_def bind_def finish_def ret_def)

lemma rpc_loads: "loadContract keccak rpc_json owner us = done_with (rpc_loaded keccak owner us)"
proof -
  let ?a = "generate_address keccak owner 0"
  let ?acc = "new_account ?a 0 rpc_init"
  let ?g = "empty_global\<lparr>accounts := [(?a, ?acc, [])]\<rparr>"
  have got: "om_get (accounts ?g) ?a = Some (?acc, [])" by simp
  then have "evm_run keccak (with_got ?a ?g) (new_transaction owner) owner ?a [] 0 =
    Some (Value () \<lparr>gs = ?g\<lparr>accounts := [(?a, ?acc, [(0, 2)])]\<rparr>, tx = new_transaction owner, ctxts = [],
      result = \<lparr>er = Returned, ex = OutOfBounds, exec_output = rpc_runtime\<rparr>\<rparr>)"
    using constructor_run [OF got, of keccak "new_transaction owner" owner]
    by (simp add: evm_run_value [OF got])
  then show ?thesis
    by (simp add: loadContract_def deploy_lntee_contract_def rpc_json_def const_at_def as_string_def
        to_bytes_rpc_bin empty_global_def run_and_check_result_def rpc_loaded_def Let_def
        flip: rpc_init_def) (simp add: new_account_def)
qed

lemma rpc_answers:
  assumes "call = [147, 232, 76, 217] \<or> call = [147, 232, 76, 217, 0, 0, 0, 0, 0, 0, 0, 0, 0, 0, 0, 0]"
  shows "invoke keccak source call (rpc_loaded keccak owner us) = done_with (False, rpc_loaded keccak owner us)"
proof -
  let ?c = "rpc_loaded keccak owner us" and ?a = "generate_address keccak owner 0"
  have got: "om_get (accounts (env_gs ?c)) ?a = Some (new_account ?a 0 rpc_runtime, [(0, 2)])"
    by (simp add: rpc_loaded_def Let_def)
  have "run_loop keccak (initial_machine (env_gs ?c) (new_transaction source) source ?a rpc_runtime call 0)
      = Some (Value () \<lparr>gs = env_gs ?c, tx = new_transaction source, ctxts = [],
          result = \<lparr>er = Returned, ex = OutOfBounds, exec_output = replicate 32 0\<rparr>\<rparr>)"
    using assms play_run padded_play_run by blast
  then have "evm_run keccak (with_got ?a (env_gs ?c)) (new_transaction source) source ?a call 0
      = Some (Value () \<lparr>gs = env_gs ?c, tx = new_transaction source, ctxts = [],
          result = \<lparr>er = Returned, ex = OutOfBounds, exec_output = replicate 32 0\<rparr>\<rparr>)"
    using got by (simp add: evm_run_value [OF got])
  moreover have "contract_address ?c = ?a" by (simp add: rpc_loaded_def Let_def)
  ultimately show ?thesis by (simp add: invoke_def run_and_check_result_def)
qed

end
