(* ===== verification/Lntee_Messages.thy ===== *)
theory Lntee_Messages
  imports Contract_Driver
begin

text \<open>
  What the two processes of an LN-TEE node (the host and the enclave, a confidential virtual
  machine) exchange: the types of \<open>lntee/include/common/message.h\<close>, messages and the router of
  \<open>lib/libf2f\<close>, and the access to the JSON text they carry. A socket takes whatever is written;
  what has been written, and to which connection, is part of the router's state.
\<close>

section \<open>Types\<close>

datatype MESSAGE_TYPE =
    Internet_connection | Internet_connection_res | Internet_connection_final
  | Initialize_from_blockchain | HOST_CMD_LOAD_CONTRACT | HOST_CMD_DIRECT_SEND_TX
  | SEV_CMD_DIRECT_SEND_TX_RES | HOST_CMD_DIRECT_RECV_TX | SEV_CMD_DIRECT_RECV_TX_RES
  | SEV_CMD_ACCOUNT_RET | HOST_CMD_INVOKE_SEND_TX | SEV_CMD_INVOKE_SEND_TX_RES
  | HOST_CMD_INVOKE_RECV_TX | SEV_CMD_INVOKE_RECV_TX_RES | Register_to_blockchain
  | Update_initial_state | Claim_recv_asset | Verify_initial_state | Verify_initial_state_res
  | Send_host_to_enc | Send_transaction | Contract_transaction | Direct_tranaction
  | End_contract_instance

text \<open>The number of an enumerator is its position.\<close>

definition MESSAGE_TYPES :: "MESSAGE_TYPE list" where
  "MESSAGE_TYPES =
     [Internet_connection, Internet_connection_res, Internet_connection_final,
      Initialize_from_blockchain, HOST_CMD_LOAD_CONTRACT, HOST_CMD_DIRECT_SEND_TX,
      SEV_CMD_DIRECT_SEND_TX_RES, HOST_CMD_DIRECT_RECV_TX, SEV_CMD_DIRECT_RECV_TX_RES,
      SEV_CMD_ACCOUNT_RET, HOST_CMD_INVOKE_SEND_TX, SEV_CMD_INVOKE_SEND_TX_RES,
      HOST_CMD_INVOKE_RECV_TX, SEV_CMD_INVOKE_RECV_TX_RES, Register_to_blockchain,
      Update_initial_state, Claim_recv_asset, Verify_initial_state, Verify_initial_state_res,
      Send_host_to_enc, Send_transaction, Contract_transaction, Direct_tranaction,
      End_contract_instance]"

text \<open>The type of a message is a character, which no enumerator need stand for.\<close>

definition type_of :: "nat \<Rightarrow> MESSAGE_TYPE option" where
  "type_of b = (if b < length MESSAGE_TYPES then Some (MESSAGE_TYPES ! b) else None)"

fun index_of :: "'a \<Rightarrow> 'a list \<Rightarrow> nat" where
  "index_of x [] = 0"
| "index_of x (y # ys) = (if x = y then 0 else Suc (index_of x ys))"

section \<open>Messages\<close>

record Message =
  header_type :: nat
  payload :: string

definition GeneralMessage :: "MESSAGE_TYPE \<Rightarrow> string \<Rightarrow> Message" where
  "GeneralMessage t body = \<lparr>header_type = index_of t MESSAGE_TYPES, payload = body\<rparr>"

text \<open>
  \<open>std::string(msgp->payload())\<close>: the payload is a block of exactly its length without a NUL at its
  end (\<open>malloc_payload\<close>), so the string goes on into the memory behind the block, \<open>heap\<close>, up to the
  next NUL; an empty payload is a null pointer.
\<close>

definition c_text :: "string \<Rightarrow> string" where
  "c_text s = takeWhile (\<lambda>c. c \<noteq> CHR 0x00) s"

definition payload_c_str :: "string \<Rightarrow> Message \<Rightarrow> string outcome" where
  "payload_c_str heap msg =
     (if payload msg = [] then Undefined else Returns (c_text (payload msg @ heap)))"

text \<open>The same, cut to the length in the header.\<close>

definition payload_str :: "string \<Rightarrow> Message \<Rightarrow> string outcome" where
  "payload_str heap msg =
     bindo (payload_c_str heap msg) (\<lambda>s. Returns (take (length (payload msg)) s))"

section \<open>The router\<close>

text \<open>\<open>m_connections\<close> holds the connections with their names; a connection is a number here.\<close>

record router =
  m_connections :: "(nat \<times> string) list"
  sent :: "(nat \<times> Message) list"

definition register_connection :: "nat \<Rightarrow> string \<Rightarrow> router \<Rightarrow> router outcome" where
  "register_connection conn pubkey r =
     (if conn \<in> fst ` set (m_connections r) then Terminated
      else Returns (r\<lparr>m_connections := m_connections r @ [(conn, pubkey)]\<rparr>))"

text \<open>
  The loop goes on after \<open>erase(it)\<close>, which invalidates the iterator: by the standard that is
  undefined. The iterator of a vector is a pointer, which after \<open>erase\<close> points to the next entry, and
  \<open>++it\<close> then skips that one unseen; so the model goes on behind it. For a connection that is
  registered once (\<open>unregister_distinct\<close>) it comes to removing the entry.
\<close>

fun erase_all :: "nat \<Rightarrow> (nat \<times> string) list \<Rightarrow> (nat \<times> string) list" where
  "erase_all conn [] = []"
| "erase_all conn (p # ps) =
     (if fst p = conn then (case ps of [] \<Rightarrow> [] | q # qs \<Rightarrow> q # erase_all conn qs)
      else p # erase_all conn ps)"

definition unregister_connection :: "nat \<Rightarrow> router \<Rightarrow> router" where
  "unregister_connection conn r = r\<lparr>m_connections := erase_all conn (m_connections r)\<rparr>"

definition get_connection_by_name :: "string \<Rightarrow> router \<Rightarrow> nat option" where
  "get_connection_by_name nam r = map_option fst (find (\<lambda>(c, n). n = nam) (m_connections r))"

definition async_write :: "nat \<Rightarrow> Message \<Rightarrow> router \<Rightarrow> router" where
  "async_write conn msg r = r\<lparr>sent := sent r @ [(conn, msg)]\<rparr>"

text \<open>Without a connection of that name a null pointer is followed, which \<open>shared_ptr\<close> asserts not to be.\<close>

definition router_send :: "string \<Rightarrow> Message \<Rightarrow> router \<Rightarrow> router outcome" where
  "router_send target msg r =
     (case get_connection_by_name target r of
        None \<Rightarrow> Terminated
      | Some conn \<Rightarrow> Returns (async_write conn msg r))"

text \<open>\<open>handle_read_header\<close>: the limit on the length of a payload is an assertion.\<close>

definition MAX_PAYLOAD :: nat where
  "MAX_PAYLOAD = 16384"

definition accepts_length :: "Message \<Rightarrow> unit outcome" where
  "accepts_length msg = (if length (payload msg) \<le> MAX_PAYLOAD then Returns () else Terminated)"

definition SEV_SOCK_TOKEN :: string where
  "SEV_SOCK_TOKEN = ''0x000000000000000000000000000000000000000000000000''"

section \<open>JSON text\<close>

text \<open>
  A process with what it takes from outside: the parser and printer of JSON (\<open>parse\<close> of text that is
  not JSON throws), Keccak-256, AES-GCM under the constant key and vector of \<open>eth_aes.cpp\<close>, the
  bytes of uninitialised local buffers, and the memory behind a received payload.
\<close>

record lntee_ext =
  lx_parse :: "string \<Rightarrow> json option"
  lx_dump :: "json \<Rightarrow> string"
  lx_keccak :: "bytes \<Rightarrow> bytes"
  lx_encrypt :: "string \<Rightarrow> string"
  lx_decrypt :: "string \<Rightarrow> string"
  lx_junk_key :: string
  lx_junk_tx :: string
  lx_heap :: string

definition parse_json :: "lntee_ext \<Rightarrow> string \<Rightarrow> json outcome" where
  "parse_json X s = (case lx_parse X s of None \<Rightarrow> Terminated | Some j \<Rightarrow> Returns j)"

text \<open>
  \<open>j[k].get<string>()\<close> and \<open>j[k].get<int>()\<close>. A missing key is added with the value null, whose
  conversion throws, like that of any other value of the wrong type.
\<close>

definition get_string :: "json \<Rightarrow> string \<Rightarrow> string outcome" where
  "get_string j k = bindo (const_at j k) as_string"

definition as_int :: "json \<Rightarrow> u32 outcome" where
  "as_int j =
     (case j of
        J_int i \<Rightarrow> Returns (word_of_int i)
      | J_bool b \<Rightarrow> Returns (if b then 1 else 0)
      | J_float i \<Rightarrow>
          if - (2 ^ 31) \<le> i \<and> i < 2 ^ 31 then Returns (word_of_int i) else Undefined
      | _ \<Rightarrow> Terminated)"

definition get_int :: "json \<Rightarrow> string \<Rightarrow> u32 outcome" where
  "get_int j k = bindo (const_at j k) as_int"

section \<open>Laws\<close>

lemma erase_all_absent: "conn \<notin> fst ` set ps \<Longrightarrow> erase_all conn ps = ps"
  by (induction conn ps rule: erase_all.induct) auto

lemma erase_all_distinct:
  "distinct (map fst ps) \<Longrightarrow> erase_all conn ps = filter (\<lambda>(c, n). c \<noteq> conn) ps"
proof (induction conn ps rule: erase_all.induct)
  case (2 conn p ps)
  show ?case
  proof (cases "fst p = conn")
    case True
    then have "conn \<notin> fst ` set ps" using "2.prems" by auto
    then have "filter (\<lambda>(c, n). c \<noteq> conn) ps = ps" by (force simp: filter_id_conv)
    with True \<open>conn \<notin> fst ` set ps\<close> show ?thesis
      by (cases ps) (auto simp: erase_all_absent split: prod.splits)
  qed (use 2 in \<open>auto split: prod.splits\<close>)
qed simp

lemma unregister_distinct:
  "distinct (map fst (m_connections r)) \<Longrightarrow>
     unregister_connection conn r = r\<lparr>m_connections := filter (\<lambda>(c, n). c \<noteq> conn) (m_connections r)\<rparr>"
  by (simp add: unregister_connection_def erase_all_distinct)

lemma length_MESSAGE_TYPES [simp]: "length MESSAGE_TYPES = 24"
  by (simp add: MESSAGE_TYPES_def)

lemma type_of_message [simp]: "type_of (header_type (GeneralMessage t s)) = Some t"
  by (cases t) (simp_all add: type_of_def GeneralMessage_def MESSAGE_TYPES_def)

lemma payload_message [simp]: "payload (GeneralMessage t s) = s"
  by (simp add: GeneralMessage_def)

text \<open>Text is received as it was sent, whatever lies behind the block it is received in.\<close>

lemma payload_str_text:
  assumes "payload msg \<noteq> []" "CHR 0x00 \<notin> set (payload msg)"
  shows "payload_str heap msg = Returns (payload msg)"
proof -
  have "takeWhile (\<lambda>c. c \<noteq> CHR 0x00) (payload msg) = payload msg"
    using assms(2) by (auto simp: takeWhile_eq_all_conv)
  then show ?thesis
    using assms by (auto simp: payload_str_def payload_c_str_def c_text_def takeWhile_append)
qed

lemma get_string_object [simp]:
  "get_string (J_object m) k =
     (case om_get m k of Some (J_string s) \<Rightarrow> Returns s | _ \<Rightarrow> Terminated)"
  by (simp add: get_string_def const_at_def as_string_def split: option.split json.split)

lemma get_int_object [simp]:
  "get_int (J_object m) k = (case om_get m k of Some v \<Rightarrow> as_int v | None \<Rightarrow> Terminated)"
  by (simp add: get_int_def const_at_def split: option.split)

lemma first_of_its_name:
  assumes "list_all (\<lambda>(c, n). n = nam) (m_connections r)" "m_connections r = (first, n0) # rest"
  shows "get_connection_by_name nam r = Some first"
  using assms by (simp add: get_connection_by_name_def)

end
