(* ===== verification/Lntee_Enclave.thy ===== *)
theory Lntee_Enclave
  imports Lntee_Messages
begin

text \<open>
  The enclave process of an LN-TEE node: the entry points of \<open>lntee/src/enclave/enclave.cpp\<close> and
  the dispatch of \<open>include/enclave/enclave_protocol.h\<close>. Its state is the wallet with the address of
  the account, the contract driver (None: \<open>env\<close> is an uninitialised pointer until a contract is
  loaded), and the router.
\<close>

section \<open>The state\<close>

record tee_node =
  n_wallet :: wallet
  n_address :: u256
  n_contract :: "tee_contract option"
  n_router :: router

text \<open>\<open>j.dump()\<close> in a message to the host.\<close>

definition answer_host :: "lntee_ext \<Rightarrow> MESSAGE_TYPE \<Rightarrow> json \<Rightarrow> tee_node \<Rightarrow> tee_node outcome" where
  "answer_host X t j n =
     bindo (router_send SEV_SOCK_TOKEN (GeneralMessage t (lx_dump X j)) (n_router n)) (\<lambda>r.
     Returns (n\<lparr>n_router := r\<rparr>))"

section \<open>Start-up\<close>

text \<open>
  The key is read from the account file or, if there is none, made from a random text and written
  to the file; \<open>public\<close> is the multiplication with the base point of the curve (\<open>mbedtls\<close>), the
  address the last 20 bytes of the hash of the public key, copied into the low bytes of a number.
  Also returned: what is written to the account file.
\<close>

definition get_pubkey_addr :: "lntee_ext \<Rightarrow> (string \<Rightarrow> string) \<Rightarrow> string \<Rightarrow> string \<times> u256" where
  "get_pubkey_addr X public key =
     (let pubkey = public key
      in (pubkey, of_nat (le_value (take 20 (drop 12 (text_of (lx_keccak X (bytes_of pubkey))))))))"

definition ecall_lntee_init_tee ::
  "lntee_ext \<Rightarrow> (string \<Rightarrow> string) \<Rightarrow> (string \<Rightarrow> string) \<Rightarrow> string \<Rightarrow> string option \<Rightarrow> tee_node
     \<Rightarrow> (string option \<times> tee_node) outcome" where
  "ecall_lntee_init_tee X sha256 public random file n =
     bindo (recover_account file (n_wallet n)) (\<lambda>(hex_prikey, w).
     let (written, w1) =
           (if length hex_prikey < 1 then
              let w' = w\<lparr>account_prikey := sha256 random\<rparr> in (Some (persist_account w'), w')
            else (None, w));
         (pubkey, address) = get_pubkey_addr X public (account_prikey w1)
     in Returns (written,
          n\<lparr>n_wallet := Wallet.set_balance 1000000 (w1\<lparr>account_pubkey := pubkey\<rparr>),
            n_address := address\<rparr>))"

section \<open>Payments\<close>

definition node_direct_send :: "lntee_ext \<Rightarrow> string \<Rightarrow> u32 \<Rightarrow> tee_node \<Rightarrow> tee_node outcome" where
  "node_direct_send X pubkey amt n =
     bindo (ecall_lntee_direct_send (lx_junk_key X) (lx_junk_tx X) pubkey amt (n_wallet n)) (\<lambda>(made, w).
     let n' = n\<lparr>n_wallet := w\<rparr> in
     case made of
       None \<Rightarrow> Returns n'
     | Some t \<Rightarrow> answer_host X SEV_CMD_DIRECT_SEND_TX_RES
         (J_object [(''pubkey'', J_string pubkey), (''tx'', J_string t)]) n')"

definition node_direct_recv :: "string \<Rightarrow> tee_node \<Rightarrow> tee_node outcome" where
  "node_direct_recv t n =
     bindo (ecall_lntee_direct_recv t (n_wallet n)) (\<lambda>(r, w). Returns (n\<lparr>n_wallet := w\<rparr>))"

section \<open>Contracts\<close>

definition ecall_lntee_main :: "lntee_ext \<Rightarrow> string \<Rightarrow> tee_node \<Rightarrow> tee_node outcome option" where
  "ecall_lntee_main X text n =
     bindr (Some (parse_json X text)) (\<lambda>definition.
     bindr (loadContract (lx_keccak X) definition (n_address n)
         (case n_contract n of None \<Rightarrow> [] | Some c \<Rightarrow> users c)) (\<lambda>c.
     done_with (n\<lparr>n_contract := Some c\<rparr>)))"

definition node_invoke ::
  "lntee_ext \<Rightarrow> u256 \<Rightarrow> bytes \<Rightarrow> tee_node \<Rightarrow> (bool \<times> tee_node) outcome option" where
  "node_invoke X source script n =
     (case n_contract n of
        None \<Rightarrow> Some Undefined
      | Some c \<Rightarrow>
          bindr (invoke (lx_keccak X) source script c) (\<lambda>(ok, c').
          done_with (ok, n\<lparr>n_contract := Some c'\<rparr>)))"

definition process_contract_invoke ::
  "lntee_ext \<Rightarrow> string \<Rightarrow> u256 \<Rightarrow> string \<Rightarrow> tee_node \<Rightarrow> (bool \<times> tee_node) outcome option" where
  "process_contract_invoke X contract_addr origin t n =
     node_invoke X origin (to_bytes (c_text t)) n"

text \<open>
  The call is padded with zero bytes to whole blocks, encrypted, decrypted again, and sent in
  clear. \<open>&script[0]\<close> of an empty vector is undefined. The result of the call is not looked at.
\<close>

definition blocks_of :: "nat \<Rightarrow> nat" where
  "blocks_of len = (if len mod 16 = 0 then len div 16 else len div 16 + 1)"

definition padded :: "string \<Rightarrow> string" where
  "padded s = s @ replicate (blocks_of (length s) * 16 - length s) (CHR 0x00)"

definition ecall_lntee_send :: "lntee_ext \<Rightarrow> string \<Rightarrow> tee_node \<Rightarrow> tee_node outcome option" where
  "ecall_lntee_send X call n =
     (let script = from_hex_vector call in
      bindr (node_invoke X (n_address n) (bytes_of script) n) (\<lambda>(ok, n').
      if script = [] then Some Undefined
      else
        let plain = lx_decrypt X (lx_encrypt X (padded script))
        in Some (answer_host X SEV_CMD_INVOKE_SEND_TX_RES
             (J_object [(''tx'', J_string (to_hex plain))]) n')))"

definition ecall_lntee_recv_transaction ::
  "lntee_ext \<Rightarrow> string \<Rightarrow> tee_node \<Rightarrow> (int \<times> tee_node) outcome option" where
  "ecall_lntee_recv_transaction X transaction n =
     bindr (node_invoke X (n_address n) (bytes_of (from_hex_vector transaction)) n) (\<lambda>(ok, n').
     done_with (if ok then 0 else -1, n'))"

section \<open>Dispatch\<close>

text \<open>What the protocol does with a message whose text is \<open>j\<close>.\<close>

definition enclave_dispatch ::
  "lntee_ext \<Rightarrow> MESSAGE_TYPE option \<Rightarrow> json \<Rightarrow> tee_node \<Rightarrow> tee_node outcome option" where
  "enclave_dispatch X t j n =
     (case t of
        Some HOST_CMD_LOAD_CONTRACT \<Rightarrow>
          bindr (Some (get_string j ''contract'')) (\<lambda>s. ecall_lntee_main X (c_text s) n)
      | Some HOST_CMD_DIRECT_SEND_TX \<Rightarrow>
          bindr (Some (get_string j ''pubkey'')) (\<lambda>pubkey.
          bindr (Some (get_int j ''amt'')) (\<lambda>amt. Some (node_direct_send X pubkey amt n)))
      | Some HOST_CMD_DIRECT_RECV_TX \<Rightarrow>
          bindr (Some (get_string j ''tx'')) (\<lambda>t. Some (node_direct_recv t n))
      | Some HOST_CMD_INVOKE_SEND_TX \<Rightarrow>
          bindr (Some (get_string j ''tx'')) (\<lambda>t. ecall_lntee_send X t n)
      | Some HOST_CMD_INVOKE_RECV_TX \<Rightarrow>
          bindr (Some (get_string j ''tx'')) (\<lambda>t.
          bindr (ecall_lntee_recv_transaction X t n) (\<lambda>(r, n'). done_with n'))
      | _ \<Rightarrow> done_with n)"

definition enclave_message_received ::
  "lntee_ext \<Rightarrow> Message \<Rightarrow> tee_node \<Rightarrow> tee_node outcome option" where
  "enclave_message_received X msg n =
     bindr (Some (accepts_length msg)) (\<lambda>_.
     bindr (Some (payload_str (lx_heap X) msg)) (\<lambda>str.
     bindr (Some (parse_json X str)) (\<lambda>j. enclave_dispatch X (type_of (header_type msg)) j n)))"

text \<open>\<open>to_json\<close> of the account: numbers without leading zeros, the low byte of the key last.\<close>

fun hex_digits :: "nat \<Rightarrow> string" where
  "hex_digits v = (if v < 16 then [hexmap v] else hex_digits (v div 16) @ [hexmap (v mod 16)])"

declare hex_digits.simps [simp del]

definition account_json :: "tee_node \<Rightarrow> json" where
  "account_json n =
     J_object
       [(''address'', J_string (''0x'' @ hex_digits (unat (n_address n)))),
        (''pubkey'', J_string (''0x'' @ hex_digits (le_value (account_pubkey (n_wallet n)))))]"

text \<open>
  A connection comes in: the account is written to it, and it is registered under the name that
  every connection of the enclave has.
\<close>

definition enclave_new_incoming_connection ::
  "lntee_ext \<Rightarrow> nat \<Rightarrow> tee_node \<Rightarrow> tee_node outcome" where
  "enclave_new_incoming_connection X conn n =
     (let msg = GeneralMessage SEV_CMD_ACCOUNT_RET (lx_dump X (account_json n)) in
      bindo (register_connection conn SEV_SOCK_TOKEN (async_write conn msg (n_router n))) (\<lambda>r.
      Returns (n\<lparr>n_router := r\<rparr>)))"

text \<open>
  \<open>process_message_from_host\<close> takes its type from the text itself. The text of \<open>tx\<close> is a temporary
  that is gone when it is used; so is the key of \<open>HOST_CMD_DIRECT_RECV_TX\<close>, which is not used.
\<close>

definition command_of :: "u32 \<Rightarrow> MESSAGE_TYPE option" where
  "command_of c = (if 0 \<le> sint c then type_of (unat c) else None)"

definition process_message_from_host ::
  "lntee_ext \<Rightarrow> string \<Rightarrow> tee_node \<Rightarrow> tee_node outcome option" where
  "process_message_from_host X msg n =
     (if c_text msg = [] then done_with n
      else
        bindr (Some (parse_json X (c_text msg))) (\<lambda>j.
        bindr (Some (get_int j ''cmd'')) (\<lambda>cmd.
        case command_of cmd of
          Some HOST_CMD_LOAD_CONTRACT \<Rightarrow>
            bindr (Some (get_string j ''contract'')) (\<lambda>s. ecall_lntee_main X (c_text s) n)
        | Some HOST_CMD_DIRECT_RECV_TX \<Rightarrow>
            bindr (Some (get_string j ''pubkey'')) (\<lambda>_.
            bindr (Some (get_int j ''amt'')) (\<lambda>_. done_with n))
        | Some HOST_CMD_DIRECT_SEND_TX \<Rightarrow>
            bindr (Some (get_string j ''pubkey'')) (\<lambda>_.
            bindr (Some (get_int j ''amt'')) (\<lambda>_. done_with n))
        | Some HOST_CMD_INVOKE_SEND_TX \<Rightarrow>
            bindr (Some (get_string j ''tx'')) (\<lambda>_. Some Undefined)
        | _ \<Rightarrow> done_with n)))"

end
