(* ===== verification/Lntee_Host.thy ===== *)
theory Lntee_Host
  imports Lntee_Messages
begin

text \<open>
  The host process of an LN-TEE node: its commands (\<open>lntee/src/host/command.cpp\<close>), the account it
  is told (\<open>sev_handler.cpp\<close>), the dispatch of \<open>include/host/lntee_protocol.h\<close>, and the command
  line of \<open>main.cpp\<close>. Built for the contract \<open>rpc\<close>, as \<open>config.h\<close> selects (\<open>_CONTRACT_RPC_\<close>).
  Connections to other nodes are registered under the public key given when connecting.
\<close>

section \<open>The state\<close>

text \<open>
  The globals of \<open>Global.cpp\<close> are arrays of 131 and 43 characters; \<open>p_count\<close> is the counter of the
  protocol, \<open>cmd_count\<close> that of the class \<open>Command\<close>.
\<close>

record lntee_host =
  h_router :: router
  pubkey_hex :: string
  addr_hex :: string
  p_count :: int
  cmd_count :: int
  isRun :: bool

definition initial_host :: lntee_host where
  "initial_host =
     \<lparr>h_router = \<lparr>m_connections = [], sent = []\<rparr>, pubkey_hex = replicate 131 (CHR 0x00),
      addr_hex = replicate 43 (CHR 0x00), p_count = 10000, cmd_count = 10000, isRun = True\<rparr>"

text \<open>The node that all payments and calls go to, in the protocol and in \<open>main.cpp\<close>.\<close>

definition target_node :: string where
  "target_node =
     ''0x9cf2c942bc2dddba9a9b5cda4d449330c7fbd90271916e65aac0e5a353a5c61d'' @
     ''8b20f3a2d51f2150bca091ea81a79a7fcd598ad9ff3281a8b1fbafd6bf8ae690''"

definition contract_call :: string where
  "contract_call = ''0x93e84cd9''"

definition host_send :: "string \<Rightarrow> MESSAGE_TYPE \<Rightarrow> string \<Rightarrow> lntee_host \<Rightarrow> lntee_host outcome" where
  "host_send target t body h =
     bindo (router_send target (GeneralMessage t body) (h_router h)) (\<lambda>r.
     Returns (h\<lparr>h_router := r\<rparr>))"

section \<open>Commands\<close>

text \<open>The file of the contract is an argument, None when it cannot be opened.\<close>

definition load_contract :: "lntee_ext \<Rightarrow> string option \<Rightarrow> lntee_host \<Rightarrow> lntee_host outcome" where
  "load_contract X file h =
     (case file of
        None \<Rightarrow> Terminated
      | Some str \<Rightarrow>
          host_send SEV_SOCK_TOKEN HOST_CMD_LOAD_CONTRACT
            (lx_dump X (J_object [(''contract'', J_string str)])) h)"

definition command_direct_send ::
  "lntee_ext \<Rightarrow> string \<Rightarrow> int \<Rightarrow> lntee_host \<Rightarrow> lntee_host outcome" where
  "command_direct_send X target amt h =
     host_send SEV_SOCK_TOKEN HOST_CMD_DIRECT_SEND_TX
       (lx_dump X (J_object [(''amt'', J_int amt), (''pubkey'', J_string target)])) h"

definition command_direct_recv :: "string \<Rightarrow> lntee_host \<Rightarrow> lntee_host outcome" where
  "command_direct_recv tx_hex h =
     host_send SEV_SOCK_TOKEN HOST_CMD_DIRECT_RECV_TX (c_text tx_hex) h"

text \<open>The target and the length are not used.\<close>

definition send_contract_tx ::
  "lntee_ext \<Rightarrow> string \<Rightarrow> string \<Rightarrow> nat \<Rightarrow> lntee_host \<Rightarrow> lntee_host outcome" where
  "send_contract_tx X target t len h =
     host_send SEV_SOCK_TOKEN HOST_CMD_INVOKE_SEND_TX
       (lx_dump X (J_object [(''tx'', J_string (c_text t))])) h"

definition recv_contract_tx :: "string \<Rightarrow> lntee_host \<Rightarrow> lntee_host outcome" where
  "recv_contract_tx t h = host_send SEV_SOCK_TOKEN HOST_CMD_INVOKE_RECV_TX (c_text t) h"

section \<open>The account of the enclave\<close>

text \<open>
  \<open>memcpy\<close> copies a fixed number of characters, whatever the length of the text. An exception is
  caught, after what has been copied by then.
\<close>

definition copy_text :: "string \<Rightarrow> nat \<Rightarrow> string \<Rightarrow> string outcome" where
  "copy_text s len buf = bindo (memcpy_str s len) (\<lambda>b. blit 0 b buf)"

definition connect_sev_enclave :: "lntee_ext \<Rightarrow> string \<Rightarrow> lntee_host \<Rightarrow> (int \<times> lntee_host) outcome" where
  "connect_sev_enclave X msg h =
     (case bindo (parse_json X msg) (\<lambda>j. bindo (get_string j ''pubkey'') (\<lambda>s. Returns (j, s))) of
        Terminated \<Rightarrow> Returns (-1, h)
      | Undefined \<Rightarrow> Undefined
      | Returns (j, pubkey) \<Rightarrow>
          bindo (copy_text pubkey 130 (pubkey_hex h)) (\<lambda>pk.
          let h1 = h\<lparr>pubkey_hex := pk\<rparr> in
          case get_string j ''address'' of
            Terminated \<Rightarrow> Returns (-1, h1)
          | Undefined \<Rightarrow> Undefined
          | Returns address \<Rightarrow>
              bindo (copy_text address 42 (addr_hex h1)) (\<lambda>a. Returns (0, h1\<lparr>addr_hex := a\<rparr>))))"

section \<open>Dispatch\<close>

text \<open>
  A reply of the enclave to a payment or a call is passed on to the target node, and as long as the
  counter is not 0 the next payment or call is ordered.
\<close>

definition payment_reply :: "lntee_ext \<Rightarrow> string \<Rightarrow> lntee_host \<Rightarrow> lntee_host outcome" where
  "payment_reply X str h =
     bindo (host_send target_node HOST_CMD_DIRECT_SEND_TX str h) (\<lambda>h1.
     if p_count h1 = 0 then Returns h1
     else
       bindo (command_direct_send X target_node (p_count h1 mod 10 + 1) h1) (\<lambda>h2.
       Returns (h2\<lparr>p_count := p_count h2 - 1\<rparr>)))"

definition call_reply :: "lntee_ext \<Rightarrow> string \<Rightarrow> lntee_host \<Rightarrow> lntee_host outcome" where
  "call_reply X str h =
     bindo (host_send target_node HOST_CMD_INVOKE_SEND_TX str h) (\<lambda>h1.
     if p_count h1 = 0 then Returns h1
     else
       bindo (send_contract_tx X target_node contract_call 10 h1) (\<lambda>h2.
       Returns (h2\<lparr>p_count := p_count h2 - 1\<rparr>)))"

definition host_dispatch ::
  "lntee_ext \<Rightarrow> string option \<Rightarrow> Message \<Rightarrow> string \<Rightarrow> lntee_host \<Rightarrow> lntee_host outcome" where
  "host_dispatch X file msg str h =
     (case type_of (header_type msg) of
        Some HOST_CMD_DIRECT_SEND_TX \<Rightarrow> command_direct_recv str h
      | Some Contract_transaction \<Rightarrow> recv_contract_tx str h
      | Some SEV_CMD_ACCOUNT_RET \<Rightarrow>
          bindo (payload_c_str (lx_heap X) msg) (\<lambda>s.
          bindo (connect_sev_enclave X s h) (\<lambda>(r, h1). load_contract X file h1))
      | Some SEV_CMD_DIRECT_SEND_TX_RES \<Rightarrow> payment_reply X str h
      | Some SEV_CMD_INVOKE_SEND_TX_RES \<Rightarrow> call_reply X str h
      | Some HOST_CMD_INVOKE_SEND_TX \<Rightarrow> recv_contract_tx str h
      | _ \<Rightarrow> Returns h)"

definition host_message_received ::
  "lntee_ext \<Rightarrow> string option \<Rightarrow> Message \<Rightarrow> lntee_host \<Rightarrow> lntee_host outcome" where
  "host_message_received X file msg h =
     bindo (accepts_length msg) (\<lambda>_.
     bindo (payload_str (lx_heap X) msg) (\<lambda>str.
     bindo (parse_json X str) (\<lambda>j. host_dispatch X file msg str h)))"

text \<open>
  A connection is made: the host introduces itself (unless the text is short), and the connection
  is registered under the key it was made with.
\<close>

definition host_new_outgoing_connection ::
  "lntee_ext \<Rightarrow> nat \<Rightarrow> string \<Rightarrow> lntee_host \<Rightarrow> lntee_host outcome" where
  "host_new_outgoing_connection X conn pubkey h =
     (let ss = lx_dump X (J_object [(''pubkey'', J_string (c_text (pubkey_hex h)))]);
          r = (if length ss < 32 then h_router h
               else async_write conn (GeneralMessage Internet_connection ss) (h_router h))
      in bindo (register_connection conn pubkey r) (\<lambda>r'. Returns (h\<lparr>h_router := r'\<rparr>)))"

text \<open>A connection that comes in has no key: its name is the empty text.\<close>

definition host_new_incoming_connection :: "nat \<Rightarrow> lntee_host \<Rightarrow> lntee_host outcome" where
  "host_new_incoming_connection conn h =
     bindo (register_connection conn [] (h_router h)) (\<lambda>r. Returns (h\<lparr>h_router := r\<rparr>))"

section \<open>The former callbacks\<close>

text \<open>
  \<open>Command::cmd_call_back\<close>, to which \<open>SEV_Handler::process_from_tee_message\<close> passes two kinds of
  messages; each has targets of its own.
\<close>

definition callback_target_1 :: string where
  "callback_target_1 =
     ''0xc2f64c9051839d9b6f692e24face387a6a99e1c31e63fad39cef32d3b3e08657'' @
     ''969877bc78c05b63c22ee8f04f5fd10ba7dd16a12d91561a8b920c0776e577c2''"

definition callback_target_2 :: string where
  "callback_target_2 =
     ''0x9cb7efb8881d42071935df9ded99d235570557ead9058a95324a87f1ac0e9567'' @
     ''8e2c5685e261087fec0b747516e67e9db5950a67d0b22d09c8c786404893ea49''"

definition cmd_call_back :: "lntee_ext \<Rightarrow> string \<Rightarrow> lntee_host \<Rightarrow> lntee_host outcome" where
  "cmd_call_back X t h =
     bindo (parse_json X t) (\<lambda>j.
     bindo (get_int j ''cmd'') (\<lambda>cmd.
     case (if 0 \<le> sint cmd then type_of (unat cmd) else None) of
       Some SEV_CMD_DIRECT_SEND_TX_RES \<Rightarrow>
         bindo (host_send callback_target_1 HOST_CMD_DIRECT_SEND_TX (lx_dump X j) h) (\<lambda>h1.
         if 0 < cmd_count h1 then
           bindo (command_direct_send X callback_target_1 1 h1) (\<lambda>h2.
           Returns (h2\<lparr>cmd_count := cmd_count h2 - 1\<rparr>))
         else Returns h1)
     | Some SEV_CMD_INVOKE_SEND_TX_RES \<Rightarrow>
         bindo (get_string j ''tx'') (\<lambda>s. host_send callback_target_2 HOST_CMD_INVOKE_SEND_TX s h)
     | _ \<Rightarrow> Returns h))"

definition process_from_tee_message :: "lntee_ext \<Rightarrow> string \<Rightarrow> lntee_host \<Rightarrow> lntee_host outcome" where
  "process_from_tee_message X msg h =
     bindo (parse_json X msg) (\<lambda>j.
     bindo (get_int j ''cmd'') (\<lambda>cmd.
     case (if 0 \<le> sint cmd then type_of (unat cmd) else None) of
       Some SEV_CMD_DIRECT_SEND_TX_RES \<Rightarrow> cmd_call_back X msg h
     | Some SEV_CMD_INVOKE_SEND_TX_RES \<Rightarrow> cmd_call_back X msg h
     | _ \<Rightarrow> Returns h))"

definition sev_call_back :: "lntee_ext \<Rightarrow> string \<Rightarrow> lntee_host \<Rightarrow> lntee_host outcome" where
  "sev_call_back X t h =
     (if length (c_text t) < 2 then Returns h else process_from_tee_message X (c_text t) h)"

section \<open>The command line\<close>

fun split_on :: "char \<Rightarrow> string \<Rightarrow> string list" where
  "split_on d [] = [[]]"
| "split_on d (c # s) =
     (if c = d then [] # split_on d s
      else case split_on d s of [] \<Rightarrow> [[c]] | p # ps \<Rightarrow> (c # p) # ps)"

text \<open>
  \<open>command_parser\<close>: \<open>connect\<close> starts a connection to the target node, which comes about later, if at
  all; \<open>parts[1]\<close> of a vector of one part is undefined.
\<close>

definition command_parser :: "lntee_ext \<Rightarrow> string \<Rightarrow> lntee_host \<Rightarrow> lntee_host outcome" where
  "command_parser X line h0 =
     (let h = (if line = ''quit'' then h0\<lparr>isRun := False\<rparr> else h0); parts = split_on (CHR '' '') line in
      if parts ! 0 = ''send'' then
        (if length parts < 2 then Undefined
         else if parts ! 1 = ''-d'' then command_direct_send X target_node 1 h
         else if parts ! 1 = ''-c'' then
           bindo (rpc_play rpc_helper) (\<lambda>(call, helper).
           send_contract_tx X target_node (to_hex_string call) (length call) h)
         else Returns h)
      else if parts ! 0 = ''quit'' then Returns (h\<lparr>isRun := False\<rparr>)
      else Returns h)"

end
