(* ===== verification/Contract_Invariants.thy ===== *)
theory Contract_Invariants
  imports Contract_Driver Evm_Invariants
begin

text \<open>
  What every run of the driver keeps: the global state stays well formed, and the environment
  apart from it stays as it is. The driver as a transition system, whose calls come in any order.
\<close>

section \<open>A whole run of the processor\<close>

text \<open>A run that ends does so at a machine it reaches, when the loop stops or the turn fails.\<close>

lemma run_loop_ends_at:
  assumes "run_loop keccak m = Some r" "evm_reach keccak m0 m"
  shows "\<exists>m'. evm_reach keccak m0 m' \<and>
    (\<not> running m' \<and> r = Value () m' \<or> running m' \<and> turn keccak m' = r \<and> (\<forall>u n. r \<noteq> Value u n))"
  using assms
proof (induction keccak m r rule: run_loop.raw_induct [rotated, consumes 1, case_names step])
  case (step run k m y)
  show ?case
  proof (cases "running m")
    case False
    with "step.hyps" "step.prems" show ?thesis by auto
  next
    case True
    show ?thesis
    proof (cases "turn k m")
      case (Value u m')
      with True "step.prems" have "evm_reach k m0 m'" by (blast intro: reach_turn)
      with True Value "step.hyps" "step.IH" show ?thesis by auto
    qed (use True "step.hyps" "step.prems" in auto)
  qed
qed


lemma removals_ok: "global_ok (gs m) \<Longrightarrow> global_ok (gs (fold gs_remove as m))"
proof (induction as arbitrary: m)
  case (Cons a as)
  have "list_all account_ok (om_del a (accounts (gs m)))"
    using Cons.prems by (auto simp: global_ok_def list_all_iff om_del_def)
  with Cons.prems have "global_ok (gs (gs_remove a m))"
    by (simp add: global_ok_def gs_remove_def set_accounts_def)
  with Cons.IH show ?case by simp
qed simp

lemma finish_ok:
  assumes "evm_ok m"
  shows "case finish m of
    Value u m' \<Rightarrow> global_ok (gs m') | Throws e m' \<Rightarrow> False | Leaves m' \<Rightarrow> True
  | Aborts \<Rightarrow> False | Dangling \<Rightarrow> False"
proof (cases "ctxts m = []")
  case True
  with assms removals_ok [of m] show ?thesis
    by (simp add: finish_def evm_ok_def ret_def bind_def)
next
  case False
  with assms have "leaves_ok False (evm_stop m)" by (intro evm_stop_ok [of "{}"]) (simp add: good_def)
  with removals_ok False show ?thesis
    by (cases "evm_stop m") (auto simp: finish_def bind_def evm_ok_def)
qed

lemma global_ok_put:
  assumes "global_ok g" "a_address (fst e) = a"
  shows "global_ok (g\<lparr>accounts := om_put a e (accounts g)\<rparr>)"
proof -
  have "list_all account_ok (om_put a e (accounts g))"
    using assms by (auto simp: list_all_iff global_ok_def account_ok_def om_get_Some_iff [symmetric]
        split: if_splits)
  with assms show ?thesis by (simp add: global_ok_def)
qed

section \<open>A run of the driver\<close>

lemma with_got_ok [simp]: "global_ok g \<Longrightarrow> global_ok (with_got a g)"
  using global_ok_put [of g "(new_account a 0 [], [])" a]
  by (simp add: with_got_def new_account_def split: option.split)

lemma with_got_got [simp]: "om_get (accounts (with_got a g)) a \<noteq> None"
  by (simp add: with_got_def split: option.split)

definition entry_machine :: "u256 \<Rightarrow> u256 \<Rightarrow> bytes \<Rightarrow> tee_contract \<Rightarrow> machine" where
  "entry_machine from to input c =
     (let g = with_got to (env_gs c) in
      initial_machine g (new_transaction from) from to
        (case om_get (accounts g) to of Some (a, s) \<Rightarrow> a_code a | None \<Rightarrow> []) input 0)"

text \<open>Init code that returns, the only thing undefined in a run.\<close>

definition returns_init_code :: "(bytes \<Rightarrow> bytes) \<Rightarrow> machine \<Rightarrow> bool" where
  "returns_init_code keccak m0 \<longleftrightarrow>
     (\<exists>m. evm_reach keccak m0 m \<and> running m \<and> current m = Some OP_RETURN \<and> created (hd (ctxts m)))"

lemma run_and_check_ok:
  assumes "global_ok (env_gs c)" "run_and_check_result keccak from to input c = Some r"
  shows "case r of
      Returns (out, c') \<Rightarrow> \<exists>g. c' = c\<lparr>env_gs := g\<rparr> \<and> global_ok g
    | Terminated \<Rightarrow> True
    | Undefined \<Rightarrow> returns_init_code keccak (entry_machine from to input c)"
proof -
  let ?g = "with_got to (env_gs c)" and ?m0 = "entry_machine from to input c"
  obtain a s where got: "om_get (accounts ?g) to = Some (a, s)"
    using with_got_got [of to "env_gs c"] by (metis not_None_eq prod.exhaust)
  obtain l where l: "run_loop keccak ?m0 = Some l"
    and r: "r = (case bind (\<lambda>_. l) (\<lambda>_. finish) ?m0 of
        Value _ m \<Rightarrow>
          if er (result m) = Returned then Returns (exec_output (result m), c\<lparr>env_gs := gs m\<rparr>)
          else Terminated
      | Throws e m \<Rightarrow> Terminated | Leaves m \<Rightarrow> Terminated | Aborts \<Rightarrow> Terminated
      | Dangling \<Rightarrow> Undefined)"
    using assms(2) got
    by (auto simp: run_and_check_result_def evm_run_def entry_machine_def bind_eq_Some_conv)
  have "evm_ok ?m0"
    using initial_ok [of ?g to] assms(1) got by (simp add: entry_machine_def)
  then have reached: "evm_reach keccak ?m0 m \<Longrightarrow> evm_ok m" for m by (rule reach_ok [rotated])
  obtain m where m: "evm_reach keccak ?m0 m"
    and l': "\<not> running m \<and> l = Value () m \<or> running m \<and> turn keccak m = l \<and> (\<forall>u n. l \<noteq> Value u n)"
    using run_loop_ends_at [OF l reach_start] by blast
  from l' show ?thesis
  proof (elim disjE conjE)
    assume "l = Value () m"
    with finish_ok [OF reached [OF m]] r show ?thesis
      by (cases "finish m") (auto simp: bind_def)
  next
    assume "running m" "turn keccak m = l" "\<forall>u n. l \<noteq> Value u n"
    with turn_ok [OF reached [OF m], of keccak] r m show ?thesis
      by (cases l) (auto simp: bind_def returns_init_code_def)
  qed
qed

section \<open>The calls of the driver\<close>

text \<open>A call changes nothing of the driver but the global state, which stays well formed.\<close>

definition moves_state :: "tee_contract \<Rightarrow> tee_contract \<Rightarrow> bool" where
  "moves_state c c' \<longleftrightarrow> (\<exists>g. c' = c\<lparr>env_gs := g\<rparr> \<and> global_ok g)"

lemma moves_state_trans: "moves_state c c1 \<Longrightarrow> moves_state c1 c2 \<Longrightarrow> moves_state c c2"
  by (auto simp: moves_state_def)

lemma moves_state_fields:
  assumes "moves_state c c'"
  shows "global_ok (env_gs c')" "owner_address c' = owner_address c"
    "contract_definition c' = contract_definition c" "contract_address c' = contract_address c"
    "users c' = users c"
  using assms by (auto simp: moves_state_def)

lemma run_moves:
  assumes "run_and_check_result keccak from to input c = done_with (out, c')" "global_ok (env_gs c)"
  shows "moves_state c c'"
  using run_and_check_ok [OF assms(2,1)] by (simp add: moves_state_def)

lemma invoke_moves:
  assumes "invoke keccak source call c = done_with (b, c')" "global_ok (env_gs c)"
  shows "moves_state c c'"
  using assms by (auto simp: invoke_def split: if_splits intro: run_moves)

lemma transfer_moves:
  assumes "transfer keccak source target amount c = done_with (b, c')" "global_ok (env_gs c)"
  shows "moves_state c c'"
  using assms by (auto simp: transfer_def intro: invoke_moves)

lemma total_supply_moves:
  assumes "get_total_supply keccak c = done_with (n, c')" "global_ok (env_gs c)"
  shows "moves_state c c'"
  using assms by (auto simp: get_total_supply_def intro: run_moves)

lemma contract_balance_moves:
  assumes "get_contract_balance keccak target c = done_with (n, c')" "global_ok (env_gs c)"
  shows "moves_state c c'"
  using assms by (auto simp: get_contract_balance_def intro: run_moves)

lemma user_balances_moves:
  "user_balances keccak us c = done_with (bs, c') \<Longrightarrow> global_ok (env_gs c) \<Longrightarrow> moves_state c c'"
proof (induction us arbitrary: c bs)
  case Nil
  then show ?case by (auto simp: moves_state_def intro!: exI [of _ "env_gs c"])
next
  case (Cons u us)
  then obtain b c1 bs1 where 1: "get_contract_balance keccak u c = done_with (b, c1)"
    and 2: "user_balances keccak us c1 = done_with (bs1, c')"
    by auto
  from 1 Cons.prems have m: "moves_state c c1" by (intro contract_balance_moves)
  with Cons.IH [OF 2] show ?case by (auto intro: moves_state_trans dest: moves_state_fields(1))
qed

lemma print_moves:
  assumes "print_lntee_state keccak c = done_with (p, c')" "global_ok (env_gs c)"
  shows "moves_state c c'"
proof -
  obtain t c1 bs where 1: "get_total_supply keccak c = done_with (t, c1)"
    and 2: "user_balances keccak (users c1) c1 = done_with (bs, c')"
    using assms(1) by (auto simp: print_lntee_state_def)
  from 1 assms(2) have "moves_state c c1" by (intro total_supply_moves)
  with user_balances_moves [OF 2] show ?thesis
    by (auto intro: moves_state_trans dest: moves_state_fields(1))
qed

section \<open>Loading\<close>

lemma deploy_deploys:
  assumes "deploy_lntee_contract keccak c = done_with (a, c')" "global_ok (env_gs c)"
  shows "moves_state c c' \<and> a = generate_address keccak (owner_address c) 0 \<and>
    om_get (accounts (env_gs c')) a \<noteq> None"
proof -
  let ?a = "generate_address keccak (owner_address c) 0"
  obtain bin code c1 c2 acc st where
    run: "run_and_check_result keccak (owner_address c) ?a [] c1 = done_with (code, c2)"
    and c1: "c1 = c\<lparr>env_gs := (env_gs c)\<lparr>accounts :=
      om_put ?a (new_account ?a 0 (append_argument (to_bytes bin) total_supply), []) (accounts (env_gs c))\<rparr>\<rparr>"
    and acc: "om_get (accounts (env_gs c2)) ?a = Some (acc, st)"
    and out: "a = a_address acc" "c' = c2\<lparr>env_gs := (env_gs c2)\<lparr>accounts :=
      om_put ?a (acc\<lparr>a_code := code\<rparr>, st) (accounts (env_gs c2))\<rparr>\<rparr>"
    using assms(1)
    by (auto simp: deploy_lntee_contract_def Let_def split: if_splits option.splits)
  have "global_ok (env_gs c1)" using assms(2) by (simp add: c1 global_ok_put new_account_def)
  with run have m: "moves_state c1 c2" by (rule run_moves)
  then have g2: "global_ok (env_gs c2)" by (rule moves_state_fields)
  with acc have at: "a_address acc = ?a"
    by (auto simp: global_ok_def list_all_iff account_ok_def om_get_Some_iff)
  with g2 have "global_ok (env_gs c')" by (simp add: out global_ok_put)
  with m c1 out at show ?thesis by (auto simp: moves_state_def)
qed

lemma load_loads:
  assumes "loadContract keccak d owner us = done_with c"
  shows "global_ok (env_gs c)" "owner_address c = owner" "contract_definition c = d"
    "contract_address c = generate_address keccak owner 0" "users c = us"
    "om_get (accounts (env_gs c)) (contract_address c) \<noteq> None"
proof -
  let ?c0 = "\<lparr>env_gs = empty_global, owner_address = owner, contract_definition = d,
    contract_address = 0, users = us\<rparr>"
  obtain a c1 where d: "deploy_lntee_contract keccak ?c0 = done_with (a, c1)"
    and c: "c = c1\<lparr>contract_address := a\<rparr>"
    using assms by (auto simp: loadContract_def)
  have "global_ok (env_gs ?c0)" by (simp add: empty_global_def global_ok_def om_ok_def om_keys_def)
  from deploy_deploys [OF d this] c
  show "global_ok (env_gs c)" "owner_address c = owner" "contract_definition c = d"
    "contract_address c = generate_address keccak owner 0" "users c = us"
    "om_get (accounts (env_gs c)) (contract_address c) \<noteq> None"
    by (auto simp: moves_state_def)
qed

section \<open>The driver as a system\<close>

inductive driver_step :: "(bytes \<Rightarrow> bytes) \<Rightarrow> tee_contract \<Rightarrow> tee_contract \<Rightarrow> bool" for keccak where
  by_invoke: "invoke keccak source call c = done_with (b, c') \<Longrightarrow> driver_step keccak c c'"
| by_transfer: "transfer keccak source target amount c = done_with (b, c') \<Longrightarrow> driver_step keccak c c'"
| by_supply: "get_total_supply keccak c = done_with (n, c') \<Longrightarrow> driver_step keccak c c'"
| by_balance: "get_contract_balance keccak target c = done_with (n, c') \<Longrightarrow> driver_step keccak c c'"
| by_print: "print_lntee_state keccak c = done_with (p, c') \<Longrightarrow> driver_step keccak c c'"

lemma driver_step_moves: "driver_step keccak c c' \<Longrightarrow> global_ok (env_gs c) \<Longrightarrow> moves_state c c'"
  by (induction rule: driver_step.induct)
    (auto intro: invoke_moves transfer_moves total_supply_moves contract_balance_moves print_moves)

definition loaded_from ::
  "(bytes \<Rightarrow> bytes) \<Rightarrow> json \<Rightarrow> u256 \<Rightarrow> u256 list \<Rightarrow> tee_contract \<Rightarrow> bool" where
  "loaded_from keccak d owner us c \<longleftrightarrow>
     global_ok (env_gs c) \<and> owner_address c = owner \<and> contract_definition c = d \<and>
     contract_address c = generate_address keccak owner 0 \<and> users c = us"

interpretation driver: invariant_system "\<lambda>c. loadContract keccak d owner us = done_with c"
    "driver_step keccak" "loaded_from keccak d owner us" for keccak d owner us
proof unfold_locales
  show "loaded_from keccak d owner us c" if "loadContract keccak d owner us = done_with c" for c
    using load_loads [OF that] by (simp add: loaded_from_def)
  show "loaded_from keccak d owner us c'" if "loaded_from keccak d owner us c" "driver_step keccak c c'"
    for c c'
    using moves_state_fields [OF driver_step_moves [OF that(2)]] that(1) by (simp add: loaded_from_def)
qed

section \<open>Undefined behaviour\<close>

text \<open>
  Some call of the contract, in the state of the driver or in one that its own calls lead to, runs
  into the return of init code.
\<close>

definition runs_into_init_code :: "(bytes \<Rightarrow> bytes) \<Rightarrow> tee_contract \<Rightarrow> bool" where
  "runs_into_init_code keccak c \<longleftrightarrow> (\<exists>from call c1. (driver_step keccak)\<^sup>*\<^sup>* c c1 \<and>
     returns_init_code keccak (entry_machine from (contract_address c) call c1))"

lemma run_undefined:
  "run_and_check_result keccak from to input c = Some Undefined \<Longrightarrow> global_ok (env_gs c) \<Longrightarrow>
     returns_init_code keccak (entry_machine from to input c)"
  using run_and_check_ok by fastforce

lemma bindr_undefined [simp]:
  "bindr r f = Some Undefined \<longleftrightarrow>
     r = Some Undefined \<or> (\<exists>a. r = Some (Returns a) \<and> f a = Some Undefined)"
  by (auto simp: bindr_def split: option.splits outcome.splits)

lemma hash_of_defined [simp]: "hash_of c signature \<noteq> Undefined"
  by (auto simp: hash_of_def const_at_def as_string_def bindo_def
      split: json.splits option.splits outcome.splits)

lemma number_of_output_defined [simp]: "number_of_output out \<noteq> Undefined"
  by (simp add: number_of_output_def)

lemma invoke_undefined:
  assumes "invoke keccak source call c = Some Undefined" "global_ok (env_gs c)"
  shows "returns_init_code keccak (entry_machine source (contract_address c) call c)"
  using assms by (auto simp: invoke_def split: if_splits intro: run_undefined)

lemma runs_into_here:
  "returns_init_code keccak (entry_machine from (contract_address c) call c) \<Longrightarrow>
     runs_into_init_code keccak c"
  unfolding runs_into_init_code_def by blast

lemma calls_undefined:
  assumes "global_ok (env_gs c)"
  shows "transfer keccak source target amount c = Some Undefined \<Longrightarrow> runs_into_init_code keccak c"
    and "get_total_supply keccak c = Some Undefined \<Longrightarrow> runs_into_init_code keccak c"
    and "get_contract_balance keccak target c = Some Undefined \<Longrightarrow> runs_into_init_code keccak c"
  using assms
  by (auto simp: transfer_def get_total_supply_def get_contract_balance_def
      intro: runs_into_here invoke_undefined run_undefined)

lemma runs_into_later:
  assumes "driver_step keccak c c1" "global_ok (env_gs c)" "runs_into_init_code keccak c1"
  shows "runs_into_init_code keccak c"
proof -
  have "contract_address c1 = contract_address c"
    by (rule moves_state_fields(4) [OF driver_step_moves [OF assms(1,2)]])
  with assms(1,3) show ?thesis
    unfolding runs_into_init_code_def by (metis converse_rtranclp_into_rtranclp)
qed

lemma user_balances_undefined:
  "user_balances keccak us c = Some Undefined \<Longrightarrow> global_ok (env_gs c) \<Longrightarrow> runs_into_init_code keccak c"
proof (induction us arbitrary: c)
  case (Cons u us)
  show ?case
  proof (cases "get_contract_balance keccak u c = Some Undefined")
    case True
    then show ?thesis using calls_undefined(3) Cons.prems(2) by blast
  next
    case False
    with Cons.prems obtain b c1 where 1: "get_contract_balance keccak u c = done_with (b, c1)"
      and 2: "user_balances keccak us c1 = Some Undefined"
      by auto
    then have "global_ok (env_gs c1)"
      using contract_balance_moves [OF 1 Cons.prems(2)] moves_state_fields(1) by blast
    from Cons.IH [OF 2 this] show ?thesis
      by (rule runs_into_later [OF driver_step.by_balance [OF 1] Cons.prems(2)])
  qed
qed simp

lemma print_undefined:
  assumes "print_lntee_state keccak c = Some Undefined" "global_ok (env_gs c)"
  shows "runs_into_init_code keccak c"
proof (cases "get_total_supply keccak c = Some Undefined")
  case True
  then show ?thesis using calls_undefined(2) assms(2) by blast
next
  case False
  with assms(1) obtain t c1 where 1: "get_total_supply keccak c = done_with (t, c1)"
    and 2: "user_balances keccak (users c1) c1 = Some Undefined"
    by (auto simp: print_lntee_state_def)
  then have "global_ok (env_gs c1)"
    using total_supply_moves [OF 1 assms(2)] moves_state_fields(1) by blast
  from user_balances_undefined [OF 2 this] show ?thesis
    by (rule runs_into_later [OF driver_step.by_supply [OF 1] assms(2)])
qed

end
