(* ===== verification/Lntee_System.thy ===== *)
theory Lntee_System
  imports Lntee_Enclave Lntee_Host Contract_Invariants
begin

text \<open>
  An LN-TEE enclave as a transition system: connections come in and messages arrive, in any order
  and with any content. What every step keeps (the books of the wallet, the contract driver, the
  account), whom the enclave answers, and what it takes for a message to arrive.
\<close>

section \<open>Messages that arrive\<close>

text \<open>
  What is relied on of the JSON library for the text of a value: it is parsed back, and it is a
  text within the limit on payloads that neither is empty nor has a NUL in it.
\<close>

definition carries :: "lntee_ext \<Rightarrow> json \<Rightarrow> bool" where
  "carries X j \<longleftrightarrow>
     lx_parse X (lx_dump X j) = Some j \<and> lx_dump X j \<noteq> [] \<and> CHR 0x00 \<notin> set (lx_dump X j) \<and>
     length (lx_dump X j) \<le> MAX_PAYLOAD"

lemma enclave_receives:
  assumes "lx_parse X s = Some j" "s \<noteq> []" "CHR 0x00 \<notin> set s" "length s \<le> MAX_PAYLOAD"
  shows "enclave_message_received X (GeneralMessage t s) n = enclave_dispatch X (Some t) j n"
  using assms payload_str_text [of "GeneralMessage t s" "lx_heap X"]
  by (simp add: enclave_message_received_def accepts_length_def parse_json_def)

lemma host_receives:
  assumes "lx_parse X s = Some j" "s \<noteq> []" "CHR 0x00 \<notin> set s" "length s \<le> MAX_PAYLOAD"
  shows "host_message_received X file (GeneralMessage t s) h =
    host_dispatch X file (GeneralMessage t s) s h"
  using assms payload_str_text [of "GeneralMessage t s" "lx_heap X"]
  by (simp add: host_message_received_def accepts_length_def parse_json_def)

lemma carries_to_enclave:
  "carries X j \<Longrightarrow>
     enclave_message_received X (GeneralMessage t (lx_dump X j)) n = enclave_dispatch X (Some t) j n"
  by (simp add: carries_def enclave_receives)

lemma carries_to_host:
  "carries X j \<Longrightarrow>
     host_message_received X file (GeneralMessage t (lx_dump X j)) h =
       host_dispatch X file (GeneralMessage t (lx_dump X j)) (lx_dump X j) h"
  by (simp add: carries_def host_receives)

lemma c_text_no_nul [simp]: "CHR 0x00 \<notin> set s \<Longrightarrow> c_text s = s"
  by (auto simp: c_text_def takeWhile_eq_all_conv)

text \<open>Sending over a connection that is there.\<close>

definition with_sent :: "(nat \<times> Message) list \<Rightarrow> lntee_host \<Rightarrow> lntee_host" where
  "with_sent ms h = h\<lparr>h_router := (h_router h)\<lparr>sent := sent (h_router h) @ ms\<rparr>\<rparr>"

lemma host_sends:
  assumes "get_connection_by_name target (h_router h) = Some s"
  shows "host_send target t body h = Returns (with_sent [(s, GeneralMessage t body)] h)"
  using assms by (simp add: host_send_def router_send_def async_write_def with_sent_def)

lemma with_sent_simps [simp]:
  "m_connections (h_router (with_sent ms h)) = m_connections (h_router h)"
  "get_connection_by_name target (h_router (with_sent ms h)) =
     get_connection_by_name target (h_router h)"
  "p_count (with_sent ms h) = p_count h"
  "with_sent ms (with_sent ks h) = with_sent (ks @ ms) h"
  by (simp_all add: with_sent_def get_connection_by_name_def)

section \<open>Whom the enclave answers\<close>

definition answers_to :: "nat \<Rightarrow> tee_node \<Rightarrow> tee_node \<Rightarrow> bool" where
  "answers_to first n n' \<longleftrightarrow>
     m_connections (n_router n') = m_connections (n_router n) \<and>
     (\<exists>ms. sent (n_router n') = sent (n_router n) @ map (Pair first) ms)"

lemma answers_to_refl: "n_router n' = n_router n \<Longrightarrow> answers_to first n n'"
  by (simp add: answers_to_def)

lemma answer_host_first:
  assumes "answer_host X t j n = Returns n'"
    and "get_connection_by_name SEV_SOCK_TOKEN (n_router n) = Some first"
  shows "n' = n\<lparr>n_router := async_write first (GeneralMessage t (lx_dump X j)) (n_router n)\<rparr>"
  using assms by (auto simp: answer_host_def router_send_def)

lemma async_write_answers:
  "n_router n' = async_write first msg (n_router n) \<Longrightarrow> answers_to first n n'"
  by (auto simp: answers_to_def async_write_def intro: exI [of _ "[msg]"])

section \<open>What a step keeps\<close>

definition tee_node_ok :: "tee_node \<Rightarrow> bool" where
  "tee_node_ok n \<longleftrightarrow>
     wallet_inv (n_wallet n) \<and>
     (case n_contract n of
        None \<Rightarrow> True
      | Some c \<Rightarrow>
          global_ok (env_gs c) \<and> owner_address c = n_address n \<and> users c = [])"

text \<open>One step: the state stays in order, the money does not grow, the account stays the same.\<close>

definition keeps_tee :: "tee_node \<Rightarrow> tee_node \<Rightarrow> bool" where
  "keeps_tee n n' \<longleftrightarrow>
     (tee_node_ok n \<longrightarrow> tee_node_ok n' \<and> held (n_wallet n') = held (n_wallet n)) \<and>
     n_address n' = n_address n"

lemma keeps_tee_router [simp]: "keeps_tee n (n\<lparr>n_router := r\<rparr>)"
  by (simp add: keeps_tee_def tee_node_ok_def split: option.split)

lemma keeps_tee_trans: "keeps_tee n n1 \<Longrightarrow> keeps_tee n1 n2 \<Longrightarrow> keeps_tee n n2"
  by (auto simp: keeps_tee_def)

lemma answer_host_keeps: "answer_host X t j n = Returns n' \<Longrightarrow> keeps_tee n n'"
  by (auto simp: answer_host_def)

lemma wallet_books_kept:
  assumes "wallet_inv (n_wallet n) \<Longrightarrow> wallet_inv w \<and> held w = held (n_wallet n)"
  shows "keeps_tee n (n\<lparr>n_wallet := w\<rparr>)"
  using assms by (auto simp: keeps_tee_def tee_node_ok_def split: option.split)

lemma contract_kept:
  assumes "n_contract n = Some c" "global_ok (env_gs c) \<Longrightarrow> moves_state c c'"
  shows "keeps_tee n (n\<lparr>n_contract := Some c'\<rparr>)"
  using assms moves_state_fields [of c c'] by (auto simp: keeps_tee_def tee_node_ok_def)

lemma ecall_direct_send_books:
  assumes "ecall_lntee_direct_send jk jt key amt w = Returns (r, w')" "wallet_inv w"
  shows "wallet_inv w' \<and> held w' = held w"
proof -
  obtain py where c: "(case direct_send (of_nat (le_value py)) 100 w of
      (True, v) \<Rightarrow> Returns (Some (to_hex (direct_send_tx jt amt v)), v)
    | (False, v) \<Rightarrow> Returns (None, v)) = Returns (r, w')"
    using assms(1) by (auto simp: ecall_lntee_direct_send_def)
  obtain b v where d: "direct_send (of_nat (le_value py)) 100 w = (b, v)" by fastforce
  with c have "w' = v" by (cases b) auto
  with direct_send_books [OF d assms(2)] show ?thesis by simp
qed

lemma ecall_direct_recv_books:
  assumes "ecall_lntee_direct_recv t w = Returns (r, w')" "wallet_inv w"
  shows "wallet_inv w' \<and> held w' = held w"
proof -
  obtain k a where c: "(case direct_receive k a w of
      (True, v) \<Rightarrow> Returns (0, v) | (False, v) \<Rightarrow> Returns (-1, v)) = Returns (r, w')"
    using assms(1) by (auto simp: ecall_lntee_direct_recv_def)
  obtain b v where d: "direct_receive k a w = (b, v)" by fastforce
  with c have "w' = v" by (cases b) auto
  with direct_receive_books [OF d assms(2)] show ?thesis by simp
qed

text \<open>Each call of the enclave keeps the node in order and answers the first connection only.\<close>

definition step_ok :: "nat \<Rightarrow> tee_node \<Rightarrow> tee_node \<Rightarrow> bool" where
  "step_ok first n n' \<longleftrightarrow>
     keeps_tee n n' \<and>
     (get_connection_by_name SEV_SOCK_TOKEN (n_router n) = Some first \<longrightarrow> answers_to first n n')"

lemma step_ok_refl [simp]: "step_ok first n n"
  by (simp add: step_ok_def answers_to_refl keeps_tee_def)

lemma step_ok_quiet: "keeps_tee n n' \<Longrightarrow> n_router n' = n_router n \<Longrightarrow> step_ok first n n'"
  by (simp add: step_ok_def answers_to_refl)

lemma step_ok_answer:
  assumes "answer_host X t j n = Returns n'" shows "step_ok first n n'"
  using assms answer_host_keeps [OF assms] answer_host_first [OF assms] async_write_answers
  by (auto simp: step_ok_def)

text \<open>A call that does not touch the router, then an answer.\<close>

lemma step_ok_then:
  assumes "step_ok first n n1" "n_router n1 = n_router n" "step_ok first n1 n2"
  shows "step_ok first n n2"
  using assms by (auto simp: step_ok_def answers_to_def intro: keeps_tee_trans)

lemma node_direct_send_ok:
  assumes "node_direct_send X pubkey amt n = Returns n'" shows "step_ok first n n'"
proof -
  obtain made w where e: "ecall_lntee_direct_send (lx_junk_key X) (lx_junk_tx X) pubkey amt (n_wallet n)
      = Returns (made, w)"
    and r: "(case made of
        None \<Rightarrow> Returns (n\<lparr>n_wallet := w\<rparr>)
      | Some t \<Rightarrow> answer_host X SEV_CMD_DIRECT_SEND_TX_RES
          (J_object [(''pubkey'', J_string pubkey), (''tx'', J_string t)]) (n\<lparr>n_wallet := w\<rparr>)) = Returns n'"
    using assms by (auto simp: node_direct_send_def Let_def)
  have paid: "step_ok first n (n\<lparr>n_wallet := w\<rparr>)"
    by (intro step_ok_quiet wallet_books_kept ecall_direct_send_books [OF e]) simp_all
  show ?thesis
  proof (cases made)
    case None
    with r paid show ?thesis by simp
  next
    case (Some t)
    with r have a: "answer_host X SEV_CMD_DIRECT_SEND_TX_RES
        (J_object [(''pubkey'', J_string pubkey), (''tx'', J_string t)]) (n\<lparr>n_wallet := w\<rparr>) = Returns n'"
      by simp
    show ?thesis by (rule step_ok_then [OF paid _ step_ok_answer [OF a]]) simp
  qed
qed

lemma node_direct_recv_ok: "node_direct_recv t n = Returns n' \<Longrightarrow> step_ok first n n'"
  by (auto simp: node_direct_recv_def intro!: step_ok_quiet wallet_books_kept
      dest: ecall_direct_recv_books)

lemma node_invoke_ok:
  assumes "node_invoke X source script n = done_with (ok, n')"
  shows "step_ok first n n' \<and> n_router n' = n_router n"
  using assms
  by (auto simp: node_invoke_def split: option.splits intro!: step_ok_quiet contract_kept intro: invoke_moves)

lemma ecall_lntee_main_ok: "ecall_lntee_main X text n = done_with n' \<Longrightarrow> step_ok first n n'"
  by (auto simp: ecall_lntee_main_def keeps_tee_def tee_node_ok_def load_loads intro!: step_ok_quiet
      split: option.splits dest: load_loads)

lemma ecall_lntee_send_ok:
  assumes "ecall_lntee_send X call n = done_with n'" shows "step_ok first n n'"
proof -
  obtain ok n1 t j where 1: "node_invoke X (n_address n) (bytes_of (from_hex_vector call)) n = done_with (ok, n1)"
    and 2: "answer_host X t j n1 = Returns n'"
    using assms by (auto simp: ecall_lntee_send_def Let_def split: if_splits)
  from node_invoke_ok [OF 1] step_ok_answer [OF 2] show ?thesis by (blast intro: step_ok_then)
qed

lemma ecall_recv_transaction_ok:
  "ecall_lntee_recv_transaction X t n = done_with (r, n') \<Longrightarrow> step_ok first n n'"
  by (auto simp: ecall_lntee_recv_transaction_def dest: node_invoke_ok)

lemma enclave_dispatch_ok:
  "enclave_dispatch X t j n = done_with n' \<Longrightarrow> step_ok first n n'"
  by (auto simp: enclave_dispatch_def split: option.splits MESSAGE_TYPE.splits
      intro: ecall_lntee_main_ok node_direct_send_ok node_direct_recv_ok ecall_lntee_send_ok
        ecall_recv_transaction_ok)

lemma enclave_message_ok:
  "enclave_message_received X msg n = done_with n' \<Longrightarrow> step_ok first n n'"
  by (auto simp: enclave_message_received_def intro: enclave_dispatch_ok)

section \<open>The enclave as a system\<close>

inductive tee_step :: "lntee_ext \<Rightarrow> tee_node \<Rightarrow> tee_node \<Rightarrow> bool" for X where
  connects: "enclave_new_incoming_connection X conn n = Returns n' \<Longrightarrow> tee_step X n n'"
| receives: "enclave_message_received X msg n = done_with n' \<Longrightarrow> tee_step X n n'"
| disconnects: "n' = n\<lparr>n_router := unregister_connection conn (n_router n)\<rparr> \<Longrightarrow> tee_step X n n'"

lemma connection_keeps:
  assumes "enclave_new_incoming_connection X conn n = Returns n'"
  shows "keeps_tee n n' \<and> conn \<notin> fst ` set (m_connections (n_router n)) \<and>
    m_connections (n_router n') = m_connections (n_router n) @ [(conn, SEV_SOCK_TOKEN)]"
  using assms
  by (auto simp: enclave_new_incoming_connection_def register_connection_def async_write_def Let_def
      split: if_splits)

lemma tee_step_keeps: "tee_step X n n' \<Longrightarrow> keeps_tee n n'"
  by (induction rule: tee_step.induct) (auto dest: connection_keeps enclave_message_ok simp: step_ok_def)

text \<open>A started enclave: the wallet in order, no contract, no connection.\<close>

definition tee_started :: "tee_node \<Rightarrow> bool" where
  "tee_started n \<longleftrightarrow>
     wallet_inv (n_wallet n) \<and> n_contract n = None \<and> m_connections (n_router n) = []"

interpretation tee: invariant_system tee_started "tee_step X" tee_node_ok for X
  by unfold_locales
    (auto simp: tee_started_def tee_node_ok_def [of s for s] keeps_tee_def dest: tee_step_keeps)

interpretation tee_account: monotone_system "tee_step X"
    "\<lambda>n n'. n_address n' = n_address n \<and>
       (tee_node_ok n \<longrightarrow> tee_node_ok n' \<and> held (n_wallet n') = held (n_wallet n))" for X
  by unfold_locales (auto dest: tee_step_keeps simp: keeps_tee_def)

text \<open>
  The first connection stays the first of its name while it lasts, since all have the same. The steps
  here are those that do not end it.
\<close>

definition tee_step_while :: "lntee_ext \<Rightarrow> nat \<Rightarrow> tee_node \<Rightarrow> tee_node \<Rightarrow> bool" where
  "tee_step_while X first n n' \<longleftrightarrow>
     tee_step X n n' \<and> first \<in> fst ` set (m_connections (n_router n'))"

definition first_is :: "nat \<Rightarrow> tee_node \<Rightarrow> bool" where
  "first_is first n \<longleftrightarrow>
     list_all (\<lambda>(c, nam). nam = SEV_SOCK_TOKEN) (m_connections (n_router n)) \<and>
     distinct (map fst (m_connections (n_router n))) \<and>
     (\<exists>rest. m_connections (n_router n) = (first, SEV_SOCK_TOKEN) # rest)"

lemma first_is_found: "first_is first n \<Longrightarrow> get_connection_by_name SEV_SOCK_TOKEN (n_router n) = Some first"
  by (auto simp: first_is_def get_connection_by_name_def)

lemma distinct_fst_filter: "distinct (map fst xs) \<Longrightarrow> distinct (map fst (filter P xs))"
  by (induction xs) auto

lemma first_is_step:
  assumes "first_is first n" "tee_step_while X first n n'"
  shows "first_is first n'"
proof -
  from assms(2) have step: "tee_step X n n'" and there: "first \<in> fst ` set (m_connections (n_router n'))"
    by (simp_all add: tee_step_while_def)
  from step show ?thesis
  proof cases
    case (connects conn)
    with assms(1) connection_keeps show ?thesis by (fastforce simp: first_is_def)
  next
    case (receives msg)
    from enclave_message_ok [OF this, of first] first_is_found [OF assms(1)] assms(1) show ?thesis
      by (simp add: step_ok_def answers_to_def first_is_def)
  next
    case (disconnects conn)
    with there assms(1) show ?thesis
      by (auto simp: first_is_def unregister_distinct list_all_iff intro: distinct_fst_filter)
  qed
qed

interpretation tee_first: invariant_system
    "\<lambda>n. m_connections (n_router n) = [(first, SEV_SOCK_TOKEN)]" "tee_step_while X first" "first_is first"
  for X first
  by unfold_locales (simp add: first_is_def, rule first_is_step)

section \<open>The host as a system\<close>

text \<open>
  What the network does to a host: connections and messages come in, connections are made, and end.
  The orders of a host are its requests to its enclave, over connection \<open>e\<close>, to pay or to call.
\<close>

inductive host_step :: "lntee_ext \<Rightarrow> string option \<Rightarrow> lntee_host \<Rightarrow> lntee_host \<Rightarrow> bool" for X source where
  host_receives_message: "host_message_received X source msg h = Returns h' \<Longrightarrow> host_step X source h h'"
| host_accepts: "host_new_incoming_connection conn h = Returns h' \<Longrightarrow> host_step X source h h'"
| host_connects: "host_new_outgoing_connection X conn key h = Returns h' \<Longrightarrow> host_step X source h h'"
| host_disconnects: "h' = h\<lparr>h_router := unregister_connection conn (h_router h)\<rparr> \<Longrightarrow> host_step X source h h'"

definition is_order :: "nat \<Rightarrow> nat \<times> Message \<Rightarrow> bool" where
  "is_order e = (\<lambda>(c, m). c = e \<and>
     type_of (header_type m) \<in> {Some HOST_CMD_DIRECT_SEND_TX, Some HOST_CMD_INVOKE_SEND_TX})"

definition orders :: "nat \<Rightarrow> lntee_host \<Rightarrow> int" where
  "orders e h = int (length (filter (is_order e) (sent (h_router h))))"

text \<open>No connection is registered twice, and the first that has the name of the enclave is \<open>e\<close>.\<close>

definition connections_ok :: "nat \<Rightarrow> router \<Rightarrow> bool" where
  "connections_ok e r \<longleftrightarrow>
     distinct (map fst (m_connections r)) \<and> get_connection_by_name SEV_SOCK_TOKEN r = Some e"

lemma found_registered: "get_connection_by_name nam r = Some c \<Longrightarrow> (c, nam) \<in> set (m_connections r)"
  by (auto simp: get_connection_by_name_def find_Some_iff) (metis nth_mem)

lemma other_name_other_connection:
  assumes "connections_ok e r" "get_connection_by_name nam r = Some c" "nam \<noteq> SEV_SOCK_TOKEN"
  shows "c \<noteq> e"
proof
  assume "c = e"
  with assms found_registered [of nam r c] found_registered [of SEV_SOCK_TOKEN r e]
  have "(e, nam) \<in> set (m_connections r)" "(e, SEV_SOCK_TOKEN) \<in> set (m_connections r)"
    by (simp_all add: connections_ok_def)
  with assms(1,3) show False by (auto simp: connections_ok_def dest: eq_key_imp_eq_value)
qed

lemma register_sends_nothing: "register_connection conn nam r = Returns r' \<Longrightarrow> sent r' = sent r"
  by (auto simp: register_connection_def split: if_splits)

lemma register_keeps_ok:
  assumes "register_connection conn nam r = Returns r'" "connections_ok e r"
  shows "connections_ok e r'"
proof -
  have "find P (xs @ ys) = (case find P xs of None \<Rightarrow> find P ys | Some x \<Rightarrow> Some x)" for P and xs ys :: "(nat \<times> string) list"
    by (induction xs) simp_all
  with assms show ?thesis
    by (auto simp: register_connection_def connections_ok_def get_connection_by_name_def split: if_splits)
qed

definition host_keeps :: "nat \<Rightarrow> lntee_host \<Rightarrow> lntee_host \<Rightarrow> bool" where
  "host_keeps e h h' \<longleftrightarrow>
     (connections_ok e (h_router h) \<longrightarrow>
        connections_ok e (h_router h') \<and> orders e h' + p_count h' = orders e h + p_count h \<and>
        (0 \<le> p_count h \<longrightarrow> 0 \<le> p_count h'))"

lemma host_keeps_refl [simp]: "host_keeps e h h"
  by (simp add: host_keeps_def)

lemma host_keeps_trans: "host_keeps e h h1 \<Longrightarrow> host_keeps e h1 h2 \<Longrightarrow> host_keeps e h h2"
  by (auto simp: host_keeps_def)

lemma host_send_sends:
  assumes "host_send target t body h = Returns h'"
  shows "\<exists>c. get_connection_by_name target (h_router h) = Some c \<and>
    h' = with_sent [(c, GeneralMessage t body)] h"
  using assms
  by (auto simp: host_send_def router_send_def async_write_def with_sent_def split: option.splits)

lemma connections_ok_with_sent [simp]:
  "connections_ok e (h_router (with_sent ms h)) = connections_ok e (h_router h)"
  by (simp add: connections_ok_def)

lemma orders_with_sent [simp]:
  "orders e (with_sent ms h) = orders e h + int (length (filter (is_order e) ms))"
  by (simp add: orders_def with_sent_def)

lemma orders_p_count [simp]: "orders e (h\<lparr>p_count := n\<rparr>) = orders e h"
  by (simp add: orders_def)

lemma is_order_message [simp]:
  "is_order e (c, GeneralMessage t s) \<longleftrightarrow> c = e \<and> t \<in> {HOST_CMD_DIRECT_SEND_TX, HOST_CMD_INVOKE_SEND_TX}"
  by (simp add: is_order_def)

text \<open>A message that is no order, or not for the enclave.\<close>

lemma host_send_keeps:
  assumes "host_send target t body h = Returns h'"
    and "t \<notin> {HOST_CMD_DIRECT_SEND_TX, HOST_CMD_INVOKE_SEND_TX} \<or> target \<noteq> SEV_SOCK_TOKEN"
  shows "host_keeps e h h' \<and> p_count h' = p_count h"
  using host_send_sends [OF assms(1)] assms(2) other_name_other_connection
  by (fastforce simp: host_keeps_def)

text \<open>A message to the target, and an order for which the counter is taken down.\<close>

lemma order_keeps:
  assumes "host_send target_node t s h = Returns h1" "p_count h1 \<noteq> 0"
    and "host_send SEV_SOCK_TOKEN t' s' h1 = Returns h2"
      "t' \<in> {HOST_CMD_DIRECT_SEND_TX, HOST_CMD_INVOKE_SEND_TX}"
  shows "host_keeps e h (h2\<lparr>p_count := p_count h2 - 1\<rparr>)"
proof -
  have "target_node \<noteq> SEV_SOCK_TOKEN" by (simp add: target_node_def SEV_SOCK_TOKEN_def)
  with host_send_keeps [OF assms(1)] have 1: "host_keeps e h h1" by blast
  have "host_keeps e h1 (h2\<lparr>p_count := p_count h2 - 1\<rparr>)"
    using host_send_sends [OF assms(3)] assms(2,4) by (auto simp: host_keeps_def connections_ok_def)
  with 1 show ?thesis by (rule host_keeps_trans)
qed

lemma target_is_no_enclave [simp]: "target_node \<noteq> SEV_SOCK_TOKEN"
  by (simp add: target_node_def SEV_SOCK_TOKEN_def)

lemma payment_reply_keeps: "payment_reply X s h = Returns h' \<Longrightarrow> host_keeps e h h'"
  by (auto simp: payment_reply_def command_direct_send_def split: if_splits
      intro: order_keeps dest: host_send_keeps)

lemma call_reply_keeps: "call_reply X s h = Returns h' \<Longrightarrow> host_keeps e h h'"
  by (auto simp: call_reply_def send_contract_tx_def split: if_splits
      intro: order_keeps dest: host_send_keeps)

lemma case_outcome_Returns_iff:
  "(case m of Returns a \<Rightarrow> f a | Terminated \<Rightarrow> t | Undefined \<Rightarrow> u) = Returns y \<longleftrightarrow>
     (\<exists>a. m = Returns a \<and> f a = Returns y) \<or> m = Terminated \<and> t = Returns y \<or> m = Undefined \<and> u = Returns y"
  by (cases m) auto

lemma account_keeps: "connect_sev_enclave X s h = Returns (r, h') \<Longrightarrow> host_keeps e h h'"
  by (auto simp: connect_sev_enclave_def Let_def host_keeps_def orders_def case_outcome_Returns_iff)

lemma host_dispatch_keeps:
  assumes "host_dispatch X source msg s h = Returns h'"
  shows "host_keeps e h h'"
proof (cases "type_of (header_type msg)")
  case None
  with assms show ?thesis by (simp add: host_dispatch_def)
next
  case (Some t)
  with assms show ?thesis
    by (cases t)
      (auto simp: host_dispatch_def command_direct_recv_def recv_contract_tx_def load_contract_def
        split: option.splits dest: host_send_keeps
        intro: payment_reply_keeps call_reply_keeps account_keeps host_keeps_trans)
qed

text \<open>
  The whole host: the network, and the lines typed at the command line. Beside the host, the number
  of lines that order a payment or a call.
\<close>

definition orders_something :: "string \<Rightarrow> bool" where
  "orders_something line \<longleftrightarrow> (let parts = split_on (CHR '' '') line in
     parts ! 0 = ''send'' \<and> 2 \<le> length parts \<and> parts ! 1 \<in> {''-d'', ''-c''})"

inductive whole_host_step ::
  "lntee_ext \<Rightarrow> string option \<Rightarrow> lntee_host \<times> nat \<Rightarrow> lntee_host \<times> nat \<Rightarrow> bool" for X source where
  by_network: "host_step X source h h' \<Longrightarrow> whole_host_step X source (h, k) (h', k)"
| by_command: "command_parser X line h = Returns h' \<Longrightarrow>
    whole_host_step X source (h, k) (h', if orders_something line then k + 1 else k)"

text \<open>The steps that do not end the connection to the enclave.\<close>

definition host_step_while ::
  "lntee_ext \<Rightarrow> string option \<Rightarrow> nat \<Rightarrow> lntee_host \<times> nat \<Rightarrow> lntee_host \<times> nat \<Rightarrow> bool" where
  "host_step_while X source e s s' \<longleftrightarrow>
     whole_host_step X source s s' \<and> e \<in> fst ` set (m_connections (h_router (fst s')))"

text \<open>A typed order is one more order, for which the counter is not taken down.\<close>

lemma command_orders:
  assumes "command_parser X line h = Returns h'" "connections_ok e (h_router h)"
  shows "connections_ok e (h_router h') \<and> p_count h' = p_count h
    \<and> orders e h' = orders e h + (if orders_something line then 1 else 0)"
proof -
  have send: "connections_ok e (h_router h2) \<and> p_count h2 = p_count h1 \<and> orders e h2 = orders e h1 + 1"
    if "host_send SEV_SOCK_TOKEN t body h1 = Returns h2" "connections_ok e (h_router h1)"
      "t \<in> {HOST_CMD_DIRECT_SEND_TX, HOST_CMD_INVOKE_SEND_TX}" for t body h1 h2
    using host_send_sends [OF that(1)] that(2,3) by (auto simp: connections_ok_def)
  have run: "orders e (h\<lparr>isRun := b\<rparr>) = orders e h" for b by (simp add: orders_def)
  show ?thesis
    using assms
    by (auto simp: command_parser_def orders_something_def Let_def command_direct_send_def
        send_contract_tx_def run split: if_splits dest!: send)
qed

definition whole_host_keeps :: "nat \<Rightarrow> lntee_host \<times> nat \<Rightarrow> lntee_host \<times> nat \<Rightarrow> bool" where
  "whole_host_keeps e = (\<lambda>(h, k) (h', k'). connections_ok e (h_router h) \<longrightarrow>
     connections_ok e (h_router h') \<and>
     orders e h' + p_count h' - int k' = orders e h + p_count h - int k \<and>
     (0 \<le> p_count h \<longrightarrow> 0 \<le> p_count h'))"

lemma unregister_keeps_ok:
  assumes "connections_ok e r" "e \<in> fst ` set (m_connections (unregister_connection conn r))"
  shows "connections_ok e (unregister_connection conn r)"
proof -
  have d: "distinct (map fst (m_connections r))" using assms(1) by (simp add: connections_ok_def)
  have "conn \<noteq> e" using assms(2) by (auto simp: unregister_distinct [OF d])
  then have "find P (filter (\<lambda>(c, n). c \<noteq> conn) xs) = Some (e, n)"
    if "find P xs = Some (e, n)" for P and xs :: "(nat \<times> string) list" and n
    using that by (induction xs) (auto split: if_splits)
  with assms(1) show ?thesis
    by (auto simp: connections_ok_def unregister_distinct get_connection_by_name_def
        intro: distinct_fst_filter)
qed

lemma host_step_keeps:
  "host_step X source h h' \<Longrightarrow> e \<in> fst ` set (m_connections (h_router h')) \<Longrightarrow> host_keeps e h h'"
proof (induction rule: host_step.induct)
  case (host_disconnects h' conn h)
  then show ?case
    using unregister_keeps_ok [of e "h_router h" conn]
    by (simp add: host_keeps_def orders_def) (simp add: unregister_connection_def)
next
  case (host_receives_message msg h h')
  then show ?case by (auto simp: host_message_received_def intro: host_dispatch_keeps)
next
  case (host_accepts conn h h')
  then show ?case
    by (auto simp: host_new_incoming_connection_def host_keeps_def orders_def
        dest: register_sends_nothing intro: register_keeps_ok)
next
  case (host_connects conn key h h')
  then obtain r r' where reg: "register_connection conn key r = Returns r'" and h': "h' = h\<lparr>h_router := r'\<rparr>"
    and r: "m_connections r = m_connections (h_router h)"
      "filter (is_order e) (sent r) = filter (is_order e) (sent (h_router h))"
    by (auto simp: host_new_outgoing_connection_def Let_def async_write_def split: if_splits)
  have "connections_ok e r" if "connections_ok e (h_router h)"
    using that r(1) by (simp add: connections_ok_def get_connection_by_name_def)
  then show ?case
    using register_keeps_ok [OF reg] register_sends_nothing [OF reg] r(2) by (simp add: host_keeps_def h' orders_def)
qed

lemma whole_host_step_keeps:
  assumes "host_step_while X source e s s'"
  shows "whole_host_keeps e s s'"
proof -
  from assms have step: "whole_host_step X source s s'" and there: "e \<in> fst ` set (m_connections (h_router (fst s')))"
    by (simp_all add: host_step_while_def)
  from step show ?thesis
  proof cases
    case (by_network h h' k)
    then have "host_keeps e h h'" using there by (intro host_step_keeps) simp_all
    then show ?thesis by (auto simp: by_network whole_host_keeps_def host_keeps_def)
  next
    case (by_command line h h' k)
    then show ?thesis using command_orders by (auto simp: whole_host_keeps_def)
  qed
qed

interpretation host_orders: monotone_system "host_step_while X source e" "whole_host_keeps e" for X source e
proof unfold_locales
  show "whole_host_keeps e s t" if "host_step_while X source e s t" for s t
    by (rule whole_host_step_keeps [OF that])
qed (auto simp: whole_host_keeps_def)

end
