(* ===== verification/Lntee_Connection.thy ===== *)
theory Lntee_Connection
  imports Lntee_Messages
begin

text \<open>
  A connection of \<open>lib/libf2f\<close> (\<open>connection.cpp\<close>): messages as bytes, the queue that any thread
  appends to and one asynchronous write at a time takes from, and the reading of messages at the
  other end. \<open>pending\<close> holds the writes that have been started and not completed, \<open>wire\<close> the bytes
  that have left. A step is what happens under the lock, or the completion of a write.
\<close>

section \<open>Messages as bytes\<close>

text \<open>
  \<open>message_header\<close> has three bytes of padding (\<open>pad\<close>, not initialised) before the length, which is
  in network order.
\<close>

definition to_buffers :: "string \<Rightarrow> Message \<Rightarrow> string" where
  "to_buffers pad m =
     char_of (header_type m) # pad @ rev (bytes_le 4 (length (payload m))) @ payload m"

definition HEADER_SIZE :: nat where
  "HEADER_SIZE = 8"

text \<open>
  \<open>async_read\<close>, \<open>handle_read_header\<close> and \<open>handle_read_data\<close>: None while the bytes of the next message
  have not all come.
\<close>

definition next_message :: "string \<Rightarrow> (Message \<times> string) option outcome" where
  "next_message s =
     (if length s < HEADER_SIZE then Returns None
      else
        let len = le_value (rev (take 4 (drop 4 s))) in
        if MAX_PAYLOAD < len then Terminated
        else if length s < HEADER_SIZE + len then Returns None
        else Returns (Some (\<lparr>header_type = of_char (s ! 0), payload = take len (drop HEADER_SIZE s)\<rparr>,
                            drop (HEADER_SIZE + len) s)))"

function read_messages :: "string \<Rightarrow> (Message list \<times> string) outcome" where
  "read_messages s =
     bindo (next_message s) (\<lambda>r.
     case r of
       None \<Rightarrow> Returns ([], s)
     | Some (m, t) \<Rightarrow> bindo (read_messages t) (\<lambda>(ms, rest). Returns (m # ms, rest)))"
  by pat_completeness auto
termination
proof (relation "measure length")
  show "(t, s) \<in> measure length" if "next_message s = Returns r" "r = Some x2" "(m, t) = x2"
    for s r x2 m t
    using that by (auto simp: next_message_def HEADER_SIZE_def Let_def split: if_splits)
qed simp

declare read_messages.simps [simp del]

section \<open>The queue\<close>

record connection =
  m_writeq :: "Message list"
  m_sending :: bool
  m_shuttingdown :: bool
  pending :: "Message list"
  wire :: string

definition new_connection :: connection where
  "new_connection =
     \<lparr>m_writeq = [], m_sending = False, m_shuttingdown = False, pending = [], wire = []\<rparr>"

text \<open>\<open>fin\<close> also tells the router and closes the socket.\<close>

definition fin :: "connection \<Rightarrow> connection" where
  "fin c = c\<lparr>m_shuttingdown := True\<rparr>"

definition do_async_write :: "bool \<Rightarrow> bool \<Rightarrow> connection \<Rightarrow> connection" where
  "do_async_write failed finished c =
     (if m_shuttingdown c then c
      else if failed then fin c
      else if m_sending c \<and> \<not> finished then c
      else case m_writeq c of
        [] \<Rightarrow> c\<lparr>m_sending := False\<rparr>
      | m # q \<Rightarrow> c\<lparr>m_writeq := q, m_sending := True, pending := pending c @ [m]\<rparr>)"

definition enqueue :: "Message \<Rightarrow> connection \<Rightarrow> connection" where
  "enqueue m c = c\<lparr>m_writeq := m_writeq c @ [m]\<rparr>"

text \<open>
  The second component of a state is the list of the messages given to \<open>async_write\<close>, whose two
  parts (\<open>gives\<close> and \<open>kicks\<close>) other threads may come between. A write that fails may have sent a
  part of its bytes.
\<close>

inductive connection_step :: "connection \<times> Message list \<Rightarrow> connection \<times> Message list \<Rightarrow> bool" where
  gives: "connection_step (c, ms) (enqueue m c, ms @ [m])"
| kicks: "connection_step (c, ms) (do_async_write False False c, ms)"
| completes: "m \<in> set (pending c) \<Longrightarrow> length pad = 3 \<Longrightarrow> connection_step (c, ms)
    (do_async_write False True
      (c\<lparr>pending := remove1 m (pending c), wire := wire c @ to_buffers pad m\<rparr>), ms)"
| fails: "m \<in> set (pending c) \<Longrightarrow> length pad = 3 \<Longrightarrow> connection_step (c, ms)
    (do_async_write True True
      (c\<lparr>pending := remove1 m (pending c), wire := wire c @ take k (to_buffers pad m)\<rparr>), ms)"
| ends: "connection_step (c, ms) (fin c, ms)"

section \<open>Reading what was written\<close>

text \<open>The bytes of a list of messages, with any padding.\<close>

inductive frames :: "Message list \<Rightarrow> string \<Rightarrow> bool" where
  no_frames: "frames [] []"
| one_more: "length pad = 3 \<Longrightarrow> frames ms w \<Longrightarrow> frames (m # ms) (to_buffers pad m @ w)"

lemma frames_append: "frames ms w \<Longrightarrow> frames ks v \<Longrightarrow> frames (ms @ ks) (w @ v)"
  by (induction rule: frames.induct) (auto intro: one_more)

lemma frames_snoc: "frames ms w \<Longrightarrow> length pad = 3 \<Longrightarrow> frames (ms @ [m]) (w @ to_buffers pad m)"
  using frames_append [OF _ one_more [OF _ no_frames]] by force

definition sendable :: "Message \<Rightarrow> bool" where
  "sendable m \<longleftrightarrow> header_type m < 256 \<and> length (payload m) \<le> MAX_PAYLOAD"

lemma frame_parts:
  assumes "length pad = 3"
  shows "length (to_buffers pad m) = HEADER_SIZE + length (payload m)"
    "take 4 (drop 4 (to_buffers pad m @ t)) = rev (bytes_le 4 (length (payload m)))"
    "drop HEADER_SIZE (to_buffers pad m @ t) = payload m @ t"
    "(to_buffers pad m @ t) ! 0 = char_of (header_type m)"
proof -
  obtain a b c where "pad = [a, b, c]" using assms by (auto simp: length_Suc_conv numeral_3_eq_3)
  then show "length (to_buffers pad m) = HEADER_SIZE + length (payload m)"
    "take 4 (drop 4 (to_buffers pad m @ t)) = rev (bytes_le 4 (length (payload m)))"
    "drop HEADER_SIZE (to_buffers pad m @ t) = payload m @ t"
    "(to_buffers pad m @ t) ! 0 = char_of (header_type m)"
    by (simp_all add: to_buffers_def HEADER_SIZE_def)
qed

lemma frame_length:
  assumes "sendable m" "length pad = 3"
  shows "le_value (rev (take 4 (drop 4 (to_buffers pad m @ t)))) = length (payload m)"
proof -
  have "length (payload m) mod 256 ^ 4 = length (payload m)"
    using assms(1) by (simp add: sendable_def MAX_PAYLOAD_def)
  then show ?thesis by (simp only: frame_parts [OF assms(2)] rev_rev_ident le_value_bytes_le)
qed

lemma next_of_frame:
  assumes "sendable m" "length pad = 3"
  shows "next_message (to_buffers pad m @ t) = Returns (Some (m, t))"
proof -
  let ?s = "to_buffers pad m @ t"
  have "of_char (char_of (header_type m) :: char) = header_type m"
    using assms(1) by (simp add: sendable_def)
  moreover have "length ?s = HEADER_SIZE + length (payload m) + length t"
    by (simp add: frame_parts(1) [OF assms(2)])
  moreover have "drop (HEADER_SIZE + length (payload m)) ?s = t"
    using frame_parts(3) [OF assms(2), of m t] by (metis add.commute append_eq_conv_conj drop_drop)
  moreover have "take (length (payload m)) (drop HEADER_SIZE ?s) = payload m"
    by (simp only: frame_parts(3) [OF assms(2)]) simp
  ultimately show ?thesis
    unfolding next_message_def Let_def frame_length [OF assms] frame_parts(4) [OF assms(2)]
    using assms(1) by (simp add: sendable_def del: length_append take_append drop_append)
qed

lemma next_of_part:
  assumes "sendable m" "length pad = 3" "k < length (to_buffers pad m)"
  shows "next_message (take k (to_buffers pad m)) = Returns None"
proof (cases "k < HEADER_SIZE")
  case True
  then show ?thesis by (simp add: next_message_def)
next
  case False
  then have "take 4 (drop 4 (take k (to_buffers pad m))) = take 4 (drop 4 (to_buffers pad m))"
    by (simp add: drop_take HEADER_SIZE_def)
  moreover have "le_value (rev (take 4 (drop 4 (to_buffers pad m)))) = length (payload m)"
    using frame_length [OF assms(1,2), of "[]"] by simp
  ultimately show ?thesis
    using False assms(1,3) frame_parts(1) [OF assms(2), of m]
    by (simp add: next_message_def sendable_def)
qed

lemma read_frames:
  "frames ms w \<Longrightarrow> list_all sendable ms \<Longrightarrow>
     read_messages (w @ t) = bindo (read_messages t) (\<lambda>(ks, rest). Returns (ms @ ks, rest))"
proof (induction rule: frames.induct)
  case no_frames
  show ?case by (cases "read_messages t") auto
next
  case (one_more pad ms w m)
  then have "read_messages ((to_buffers pad m @ w) @ t) =
      bindo (read_messages (w @ t)) (\<lambda>(ks, rest). Returns (m # ks, rest))"
    by (subst read_messages.simps) (simp add: next_of_frame)
  with one_more show ?case by (cases "read_messages t") auto
qed

lemma read_nothing [simp]: "read_messages [] = Returns ([], [])"
  by (subst read_messages.simps) (simp add: next_message_def HEADER_SIZE_def)

lemma read_part:
  assumes "sendable m" "length pad = 3"
  shows "\<exists>ms rest. read_messages (take k (to_buffers pad m)) = Returns (ms, rest) \<and> (ms = [] \<or> ms = [m])"
proof (cases "k < length (to_buffers pad m)")
  case True
  then show ?thesis using next_of_part [OF assms True] by (subst read_messages.simps) simp
next
  case False
  then show ?thesis
    using next_of_frame [OF assms, of "[]"] by (subst read_messages.simps) simp
qed


section \<open>What the queue keeps\<close>

text \<open>
  While the connection is up, what has been given to it is on the wire, then in the one write that
  may be pending, then in the queue. When it goes down, the last write may be cut.
\<close>

inductive connection_ok :: "connection \<times> Message list \<Rightarrow> bool" where
  up: "\<not> m_shuttingdown c \<Longrightarrow> frames gone (wire c) \<Longrightarrow> length (pending c) \<le> 1 \<Longrightarrow>
     ms = gone @ pending c @ m_writeq c \<Longrightarrow> (m_sending c \<longleftrightarrow> pending c \<noteq> []) \<Longrightarrow> connection_ok (c, ms)"
| down: "m_shuttingdown c \<Longrightarrow> frames gone (wire c) \<Longrightarrow> length (pending c) \<le> 1 \<Longrightarrow>
     ms = gone @ pending c @ rest \<Longrightarrow> connection_ok (c, ms)"
| cut: "m_shuttingdown c \<Longrightarrow> frames gone w \<Longrightarrow> length pad = 3 \<Longrightarrow>
     wire c = w @ take k (to_buffers pad m) \<Longrightarrow> ms = gone @ m # rest \<Longrightarrow> pending c = [] \<Longrightarrow>
     connection_ok (c, ms)"

inductive_cases connection_okE: "connection_ok (c, ms)"

lemma only_one: "length xs \<le> 1 \<Longrightarrow> m \<in> set xs \<Longrightarrow> xs = [m]"
  by (cases xs) auto

lemma given_ok: "connection_ok (c, ms) \<Longrightarrow> connection_ok (enqueue m c, ms @ [m])"
  by (erule connection_okE)
    (auto simp: enqueue_def intro: connection_ok.intros)

lemma fin_ok: "connection_ok (c, ms) \<Longrightarrow> connection_ok (fin c, ms)"
  by (erule connection_okE) (auto simp: fin_def intro: connection_ok.intros)

lemma kicked_ok: "connection_ok (c, ms) \<Longrightarrow> connection_ok (do_async_write False False c, ms)"
  by (erule connection_okE)
    (auto simp: do_async_write_def intro: connection_ok.intros split: list.split)

lemma completed_ok:
  assumes "connection_ok (c, ms)" "m \<in> set (pending c)" "length pad = 3"
  shows "connection_ok (do_async_write False True
    (c\<lparr>pending := remove1 m (pending c), wire := wire c @ to_buffers pad m\<rparr>), ms)"
  using assms(1)
proof cases
  case (up gone)
  with assms only_one [of "pending c" m] show ?thesis
    by (auto simp: do_async_write_def intro!: connection_ok.up [of _ "gone @ [m]"] frames_snoc split: list.split)
next
  case (down gone rest)
  with assms only_one [of "pending c" m] show ?thesis
    by (auto simp: do_async_write_def intro!: connection_ok.down [of _ "gone @ [m]" _ rest] frames_snoc)
qed (use assms in auto)

lemma failed_ok:
  assumes "connection_ok (c, ms)" "m \<in> set (pending c)" "length pad = 3"
  shows "connection_ok (do_async_write True True
    (c\<lparr>pending := remove1 m (pending c), wire := wire c @ take k (to_buffers pad m)\<rparr>), ms)"
  using assms(1)
proof cases
  case (up gone)
  with assms only_one [of "pending c" m] show ?thesis
    by (auto simp: do_async_write_def fin_def intro!: connection_ok.cut [of _ gone "wire c" pad k m _ "m_writeq c"])
next
  case (down gone rest)
  with assms only_one [of "pending c" m] show ?thesis
    by (auto simp: do_async_write_def intro!: connection_ok.cut [of _ gone "wire c" pad k m _ rest])
qed (use assms in auto)

interpretation connection: invariant_system "\<lambda>s. s = (new_connection, [])" connection_step connection_ok
proof unfold_locales
  show "connection_ok s" if "s = (new_connection, [])" for s
    using that connection_ok.up [of new_connection "[]"] no_frames by (simp add: new_connection_def)
  show "connection_ok t" if "connection_ok s" "connection_step s t" for s t
    using that(2,1)
    by (induction rule: connection_step.induct)
      (auto intro: given_ok kicked_ok completed_ok failed_ok fin_ok)
qed

text \<open>What the other end reads is a beginning of what was given, in order.\<close>

lemma read_ok:
  assumes "connection_ok (c, ms)" "list_all sendable ms"
  shows "\<exists>n rest. read_messages (wire c) = Returns (take n ms, rest)"
  using assms(1)
proof cases
  case (up gone)
  with assms(2) read_frames [of "gone" "wire c" "[]"] show ?thesis
    by (intro exI [of _ "length gone"] exI [of _ "[]"]) simp
next
  case (down gone rest)
  with assms(2) read_frames [of "gone" "wire c" "[]"] show ?thesis
    by (intro exI [of _ "length gone"] exI [of _ "[]"]) simp
next
  case (cut gone w pad k m rest)
  obtain ks r where part: "read_messages (take k (to_buffers pad m)) = Returns (ks, r)"
    and ks: "ks = [] \<or> ks = [m]"
    using read_part [of m pad k] cut assms(2) by auto
  have "ms = gone @ m # rest" by (rule cut)
  with ks have "take (length (gone @ ks)) ms = gone @ ks" by auto
  with cut assms(2) read_frames [of "gone" w "take k (to_buffers pad m)"] part show ?thesis
    by (intro exI [of _ "length (gone @ ks)"] exI [of _ r]) simp
qed

text \<open>A connection that is up and idle has sent everything.\<close>

lemma idle_has_sent:
  assumes "connection_ok (c, ms)" "list_all sendable ms"
    and "\<not> m_shuttingdown c" "pending (do_async_write False False c) = []"
  shows "read_messages (wire c) = Returns (ms, [])"
  using assms(1)
proof cases
  case (up gone)
  with assms(4) have "pending c = []" "m_writeq c = []"
    by (auto simp: do_async_write_def split: if_splits list.splits)
  with up assms(2) read_frames [of "gone" "wire c" "[]"] show ?thesis by simp
qed (use assms in auto)

end
