(* ===== verification/Lntee_Properties.thy ===== *)
theory Lntee_Properties
  imports Contract_Shipped Lntee_System Lntee_Connection
begin

text \<open>
  What makes the contract driver and the two processes of an LN-TEE node correct, and where they
  are not. The example node has the library \<open>demo_ext\<close>, whose JSON texts are those of a table.
\<close>

section \<open>Example\<close>

definition call_json :: "string \<Rightarrow> json" where
  "call_json t = J_object [(''tx'', J_string t)]"

definition pay_json :: "int \<Rightarrow> string \<Rightarrow> json" where
  "pay_json amt k = J_object [(''amt'', J_int amt), (''pubkey'', J_string k)]"

definition demo_script :: string where
  "demo_script = text_of [147, 232, 76, 217]"

definition demo_texts :: "(string \<times> json) list" where
  "demo_texts =
     [(''call'', call_json contract_call), (''reply'', call_json (to_hex (padded demo_script))),
      (''pay'', pay_json 1 target_node), (''nothing'', J_object []),
      (''contract'', J_object [(''contract'', J_string ''rpc'')]), (''rpc'', rpc_json)]"

definition demo_ext :: lntee_ext where
  "demo_ext =
     \<lparr>lx_parse = map_of demo_texts,
      lx_dump = (\<lambda>j. case find (\<lambda>(s, j'). j' = j) demo_texts of Some (s, _) \<Rightarrow> s | None \<Rightarrow> ''?''),
      lx_keccak = (\<lambda>_. replicate 32 0), lx_encrypt = rev, lx_decrypt = rev,
      lx_junk_key = replicate 64 (CHR 0x01), lx_junk_tx = replicate 80 (CHR 0x02), lx_heap = ''heap''\<rparr>"

definition demo_enclave :: tee_node where
  "demo_enclave =
     \<lparr>n_wallet = initial_wallet, n_address = 7, n_contract = None,
      n_router = \<lparr>m_connections = [], sent = []\<rparr>\<rparr>"

definition demo_connected :: tee_node where
  "demo_connected =
     demo_enclave\<lparr>n_router := \<lparr>m_connections = [(1, SEV_SOCK_TOKEN)], sent = []\<rparr>\<rparr>"

definition demo_loaded :: tee_node where
  "demo_loaded = demo_connected\<lparr>n_contract := Some (rpc_loaded (\<lambda>_. replicate 32 0) 7 [])\<rparr>"

definition demo_host :: lntee_host where
  "demo_host =
     initial_host\<lparr>h_router := \<lparr>m_connections = [(1, SEV_SOCK_TOKEN), (2, target_node)], sent = []\<rparr>\<rparr>"

text \<open>The enclave after a first connection has come in.\<close>

definition demo_registered :: tee_node where
  "demo_registered = demo_enclave\<lparr>n_router := \<lparr>m_connections = [(1, SEV_SOCK_TOKEN)],
     sent = [(1, GeneralMessage SEV_CMD_ACCOUNT_RET (lx_dump demo_ext (account_json demo_enclave)))]\<rparr>\<rparr>"

lemma demo_connects: "tee_step demo_ext demo_enclave demo_registered"
  by (rule tee_step.connects [of _ 1])
    (simp add: enclave_new_incoming_connection_def demo_registered_def demo_enclave_def
      register_connection_def async_write_def)

lemma call_json_inject [simp]: "call_json s = call_json t \<longleftrightarrow> s = t"
  by (simp add: call_json_def)

lemma get_call [simp]: "get_string (call_json t) ''tx'' = Returns t"
  by (simp add: call_json_def)

lemma to_hex_plain: "c \<in> set (to_hex s) \<Longrightarrow> c \<noteq> CHR 0x00 \<and> c \<noteq> CHR ''x''"
proof (induction s)
  case (Cons a s)
  have "(of_char a :: nat) div 16 < 16" "(of_char a :: nat) mod 16 < 16"
    using of_char_less [of a] by (simp_all add: less_mult_imp_div_less)
  with Cons show ?case by (auto simp: hexmap_plain hex2int_hexmap)
qed simp

lemma c_text_to_hex [simp]: "c_text (to_hex s) = to_hex s"
  using to_hex_plain by (intro c_text_no_nul) blast

lemma from_hex_vector_to_hex [simp]: "from_hex_vector (to_hex s) = s"
proof -
  have "take 2 (to_hex s) \<noteq> ''0x''"
    using to_hex_plain [of "CHR ''x''" s] by (metis in_set_takeD list.set_intros)
  then show ?thesis
    unfolding from_hex_vector_def c_text_to_hex [unfolded c_text_def] Let_def
    by (simp add: from_hex_to_hex)
qed

lemma from_hex_contract_call [simp]: "from_hex_vector contract_call = demo_script"
  by (simp add: from_hex_vector_def contract_call_def demo_script_def text_of_def hex2int_def)

lemma call_not_reply [simp]: "contract_call \<noteq> to_hex (padded demo_script)"
proof -
  have "CHR ''x'' \<in> set contract_call" by (simp add: contract_call_def)
  then show ?thesis using to_hex_plain [of "CHR ''x''" "padded demo_script"] by metis
qed

lemma demo_dumps [simp]:
  "lx_dump demo_ext (call_json contract_call) = ''call''"
  "lx_dump demo_ext (call_json (to_hex (padded demo_script))) = ''reply''"
  "lx_dump demo_ext (pay_json 1 target_node) = ''pay''"
  by (simp_all add: demo_ext_def demo_texts_def pay_json_def call_json_def)

lemma demo_carries [simp]:
  "carries demo_ext (call_json contract_call)"
  "carries demo_ext (call_json (to_hex (padded demo_script)))"
  "carries demo_ext (pay_json 1 target_node)"
  by (simp_all add: carries_def MAX_PAYLOAD_def) (simp_all add: demo_ext_def demo_texts_def)

lemma demo_script_bytes:
  "bytes_of demo_script = [147, 232, 76, 217]"
  "bytes_of (padded demo_script) = [147, 232, 76, 217, 0, 0, 0, 0, 0, 0, 0, 0, 0, 0, 0, 0]"
  by (simp_all add: padded_def blocks_of_def demo_script_def text_of_def bytes_of_def replicate_numeral)

section \<open>Calls on their way\<close>

lemma node_invoke_there:
  assumes "n_contract n = Some c" "invoke (lx_keccak X) source script c = done_with (ok, c')"
  shows "node_invoke X source script n = done_with (ok, n\<lparr>n_contract := Some c'\<rparr>)"
  using assms by (simp add: node_invoke_def)

lemma enclave_sends_call:
  assumes "carries X (call_json call)" "script = from_hex_vector call" "script \<noteq> []"
    and "lx_decrypt X (lx_encrypt X (padded script)) = padded script"
    and "n_contract n = Some c" "invoke (lx_keccak X) (n_address n) (bytes_of script) c = done_with (ok, c')"
    and "get_connection_by_name SEV_SOCK_TOKEN (n_router n) = Some e"
  shows "enclave_message_received X (GeneralMessage HOST_CMD_INVOKE_SEND_TX (lx_dump X (call_json call))) n =
    done_with (n\<lparr>n_contract := Some c', n_router := async_write e
      (GeneralMessage SEV_CMD_INVOKE_SEND_TX_RES (lx_dump X (call_json (to_hex (padded script)))))
      (n_router n)\<rparr>)"
  using assms
  by (simp add: carries_to_enclave enclave_dispatch_def ecall_lntee_send_def node_invoke_there
      answer_host_def router_send_def call_json_def)

lemma enclave_runs_call:
  assumes "carries X (call_json (to_hex s))" "n_contract n = Some c"
    and "invoke (lx_keccak X) (n_address n) (bytes_of s) c = done_with (ok, c')"
  shows "enclave_message_received X (GeneralMessage HOST_CMD_INVOKE_RECV_TX (lx_dump X (call_json (to_hex s)))) n =
    done_with (n\<lparr>n_contract := Some c'\<rparr>)"
  using assms
  by (simp add: carries_to_enclave enclave_dispatch_def ecall_lntee_recv_transaction_def node_invoke_there)

lemma host_passes_call:
  assumes "carries X (call_json t)"
    and "get_connection_by_name SEV_SOCK_TOKEN (h_router h) = Some e"
    and "get_connection_by_name target_node (h_router h) = Some p"
  shows "host_message_received X file (GeneralMessage SEV_CMD_INVOKE_SEND_TX_RES (lx_dump X (call_json t))) h =
    (let passed = (p, GeneralMessage HOST_CMD_INVOKE_SEND_TX (lx_dump X (call_json t)));
         following = (e, GeneralMessage HOST_CMD_INVOKE_SEND_TX (lx_dump X (call_json contract_call)))
     in Returns (if p_count h = 0 then with_sent [passed] h
                 else (with_sent [passed, following] h)\<lparr>p_count := p_count h - 1\<rparr>))"
  using assms
  by (simp add: carries_to_host host_dispatch_def call_reply_def host_sends send_contract_tx_def
      c_text_no_nul [of contract_call] call_json_def [of contract_call])
    (simp add: contract_call_def)

lemma host_hands_call_over:
  assumes "carries X (call_json t)" "get_connection_by_name SEV_SOCK_TOKEN (h_router h) = Some e"
  shows "host_message_received X file (GeneralMessage HOST_CMD_INVOKE_SEND_TX (lx_dump X (call_json t))) h =
    Returns (with_sent [(e, GeneralMessage HOST_CMD_INVOKE_RECV_TX (lx_dump X (call_json t)))] h)"
  using assms
  by (simp add: carries_to_host host_dispatch_def recv_contract_tx_def host_sends) (simp add: carries_def)

lemma length_from_hex_target: "length (from_hex target_node) = 65"
  by (simp add: target_node_def)

lemma demo_there:
  "get_connection_by_name SEV_SOCK_TOKEN (h_router demo_host) = Some 1"
  "get_connection_by_name target_node (h_router demo_host) = Some 2"
  "get_connection_by_name SEV_SOCK_TOKEN (n_router demo_loaded) = Some 1"
  by (simp_all add: get_connection_by_name_def demo_host_def demo_loaded_def demo_connected_def
      SEV_SOCK_TOKEN_def target_node_def)

lemma demo_invokes:
  "s = demo_script \<or> s = padded demo_script \<Longrightarrow>
     invoke (lx_keccak demo_ext) source (bytes_of s) (rpc_loaded (\<lambda>_. replicate 32 0) owner us) =
       done_with (False, rpc_loaded (\<lambda>_. replicate 32 0) owner us)"
  using demo_script_bytes by (auto simp: demo_ext_def intro!: rpc_answers)

lemma demo_call:
  "enclave_message_received demo_ext (GeneralMessage HOST_CMD_INVOKE_SEND_TX ''call'') demo_loaded =
     done_with (demo_loaded\<lparr>n_router := async_write 1
       (GeneralMessage SEV_CMD_INVOKE_SEND_TX_RES ''reply'') (n_router demo_loaded)\<rparr>)"
proof -
  have "demo_script \<noteq> []" by (simp add: demo_script_def text_of_def)
  then show ?thesis
    using enclave_sends_call [of demo_ext contract_call demo_script demo_loaded _ False _ 1]
      demo_invokes [of demo_script]
    by (simp add: demo_loaded_def demo_connected_def get_connection_by_name_def) (simp add: demo_ext_def)
qed

section \<open>The contract driver\<close>

text \<open>
  C32: the contract the host ships loads: its constructor runs to its end, the account of the contract
  gets the code it returns and the value 2 in its first word. A call of \<open>play()\<close>, with the text of
  \<open>rpc_helper\<close> or padded to a block as it arrives at a peer, then answers false, whoever calls, and
  changes nothing.\<close>

theorem shipped_contract_plays:
  "loadContract keccak rpc_json owner us = done_with (rpc_loaded keccak owner us) \<and>
   rpc_play rpc_helper = Returns ([147, 232, 76, 217], rpc_helper\<lparr>function_call := [147, 232, 76, 217]\<rparr>) \<and>
   invoke keccak source [147, 232, 76, 217] (rpc_loaded keccak owner us) =
     done_with (False, rpc_loaded keccak owner us) \<and>
   invoke keccak source (bytes_of (padded demo_script)) (rpc_loaded keccak owner us) =
     done_with (False, rpc_loaded keccak owner us)"
proof -
  have "to_bytes ''93e84cd9'' = [147, 232, 76, 217]"
    by (simp add: to_bytes_def strip_def strtoul16_def is_blank_def hex2int_def upt_rec)
  then show ?thesis
    using rpc_loads rpc_answers by (simp add: rpc_play_def answer_def demo_script_bytes)
qed



section \<open>The enclave\<close>

text \<open>
  C34: whatever connections and messages come in, and whatever connections end, in any order, the wallet of a started enclave stays
  in order and holds what it held at the start, the account stays the same, and the state of a loaded
  contract is well formed and belongs to that account. (Calls that end the process or are undefined
  behaviour are not steps.)\<close>

theorem enclave_stays_in_order:
  assumes "tee_started n0" "(tee_step X)\<^sup>*\<^sup>* n0 n"
  shows "wallet_inv (n_wallet n) \<and> held (n_wallet n) = held (n_wallet n0) \<and>
    n_address n = n_address n0 \<and>
    (\<forall>c. n_contract n = Some c \<longrightarrow>
       global_ok (env_gs c) \<and> owner_address c = n_address n0 \<and> users c = [])"
proof -
  have start: "tee_node_ok n0" using assms(1) by (rule tee.inv_init)
  have "tee_node_ok n" using assms by (rule tee.inv_reachable)
  with tee_account.steps_below [OF assms(2)] start show ?thesis
    by (auto simp: tee_node_ok_def)
qed

theorem enclave_stays_in_order_witness:
  "held (n_wallet demo_registered) = 1000000000 \<and> n_address demo_registered = 7"
proof -
  have "tee_started demo_enclave"
    by (simp add: tee_started_def demo_enclave_def wallet_inv_def held_def initial_wallet_def)
  from enclave_stays_in_order [OF this r_into_rtranclp [of "tee_step demo_ext", OF demo_connects]]
  show ?thesis by (simp add: demo_enclave_def initial_wallet_def held_def)
qed

text \<open>
  C35: all connections of an enclave have the same name, so whichever connection a message comes from
  (the enclave does not even know), every answer goes to the connection that was made first, as long as
  that one lasts.\<close>

theorem answers_go_to_the_first_connection:
  assumes "m_connections (n_router n0) = [(first, SEV_SOCK_TOKEN)]" "(tee_step_while X first)\<^sup>*\<^sup>* n0 n"
    and "enclave_message_received X msg n = done_with n'"
  shows "\<exists>ms. sent (n_router n') = sent (n_router n) @ map (Pair first) ms"
proof -
  have "first_is first n" using assms(1,2) by (rule tee_first.inv_reachable)
  with enclave_message_ok [OF assms(3), of first] show ?thesis
    by (auto simp: step_ok_def answers_to_def dest: first_is_found)
qed

theorem answers_go_to_the_first_connection_witness:
  "\<exists>n'. enclave_message_received demo_ext (GeneralMessage HOST_CMD_INVOKE_SEND_TX ''call'') demo_loaded =
     done_with n' \<and> (\<exists>ms. ms \<noteq> [] \<and> sent (n_router n') = map (Pair 1) ms)"
proof -
  let ?n = "demo_loaded\<lparr>n_router := async_write 1
    (GeneralMessage SEV_CMD_INVOKE_SEND_TX_RES ''reply'') (n_router demo_loaded)\<rparr>"
  have e: "enclave_message_received demo_ext (GeneralMessage HOST_CMD_INVOKE_SEND_TX ''call'') demo_loaded
    = done_with ?n"
    by (rule demo_call)
  have "m_connections (n_router demo_loaded) = [(1, SEV_SOCK_TOKEN)]" and "sent (n_router demo_loaded) = []"
    by (simp_all add: demo_loaded_def demo_connected_def)
  from answers_go_to_the_first_connection [OF this(1) rtranclp.rtrancl_refl e] this(2) e
  show ?thesis by (auto simp: async_write_def)
qed

section \<open>A connection\<close>

text \<open>
  C36: whatever threads give to a connection and however its writes end, at most one write is under way,
  and the other end reads a beginning of the messages given, in the order they were given, whole and
  once; all of them when the connection is up and has nothing more to send.\<close>

theorem connection_delivers_in_order:
  assumes "connection_step\<^sup>*\<^sup>* (new_connection, []) (c, ms)" "list_all sendable ms"
  shows "length (pending c) \<le> 1 \<and>
    (\<exists>n rest. read_messages (wire c) = Returns (take n ms, rest)) \<and>
    (\<not> m_shuttingdown c \<and> pending (do_async_write False False c) = [] \<longrightarrow>
       read_messages (wire c) = Returns (ms, []))"
proof -
  have ok: "connection_ok (c, ms)" by (rule connection.inv_reachable [OF refl assms(1)])
  then have "length (pending c) \<le> 1" by cases auto
  with read_ok [OF ok assms(2)] idle_has_sent [OF ok assms(2)] show ?thesis by blast
qed

text \<open>A message given, put on the wire, and read.\<close>

definition demo_message :: Message where
  "demo_message = GeneralMessage HOST_CMD_LOAD_CONTRACT ''rpc''"

lemma demo_delivery: "connection_step\<^sup>*\<^sup>* (new_connection, [])
  (new_connection\<lparr>wire := to_buffers ''pad'' demo_message\<rparr>, [demo_message])"
proof -
  let ?q = "new_connection\<lparr>m_writeq := [demo_message]\<rparr>"
  let ?p = "new_connection\<lparr>m_sending := True, pending := [demo_message]\<rparr>"
  have "connection_step (new_connection, []) (?q, [demo_message])"
    using connection_step.gives [of new_connection "[]" demo_message]
    by (simp add: enqueue_def new_connection_def)
  moreover have "connection_step (?q, [demo_message]) (?p, [demo_message])"
    using connection_step.kicks [of ?q] by (simp add: do_async_write_def new_connection_def)
  moreover have "connection_step (?p, [demo_message])
      (new_connection\<lparr>wire := to_buffers ''pad'' demo_message\<rparr>, [demo_message])"
    using connection_step.completes [of demo_message ?p "''pad''"]
    by (simp add: do_async_write_def new_connection_def)
  ultimately show ?thesis by (meson converse_rtranclp_into_rtranclp rtranclp.rtrancl_refl)
qed

theorem connection_delivers_in_order_witness:
  "read_messages (to_buffers ''pad'' demo_message) = Returns ([demo_message], [])"
  using connection_delivers_in_order [OF demo_delivery]
  by (simp add: sendable_def demo_message_def GeneralMessage_def MESSAGE_TYPES_def MAX_PAYLOAD_def
      do_async_write_def new_connection_def)

section \<open>Both nodes\<close>

text \<open>
  C37: a call on its way. The enclave of the first node runs it from its own account on the bytes of the
  text, and answers its host with the bytes padded to blocks; the host passes the answer on to the
  built-in target and, until its counter is 0, orders the next call; the host of the target hands the
  text to its enclave, which runs the padded call from \<^emph>\<open>its\<close> own account. What the first call
  answered goes nowhere.\<close>

theorem call_runs_at_both_nodes:
  assumes texts: "carries X (call_json call)" "carries X (call_json (to_hex (padded script)))"
    and script: "script = from_hex_vector call" "script \<noteq> []"
    and aes: "lx_decrypt X (lx_encrypt X (padded script)) = padded script"
    and A: "n_contract nA = Some cA"
      "invoke (lx_keccak X) (n_address nA) (bytes_of script) cA = done_with (okA, cA')"
      "get_connection_by_name SEV_SOCK_TOKEN (n_router nA) = Some eA"
    and hA: "get_connection_by_name SEV_SOCK_TOKEN (h_router hA) = Some sA"
      "get_connection_by_name target_node (h_router hA) = Some peer"
    and hB: "get_connection_by_name SEV_SOCK_TOKEN (h_router hB) = Some sB"
    and B: "n_contract nB = Some cB"
      "invoke (lx_keccak X) (n_address nB) (bytes_of (padded script)) cB = done_with (okB, cB')"
  shows "let reply = lx_dump X (call_json (to_hex (padded script)));
      passed = (peer, GeneralMessage HOST_CMD_INVOKE_SEND_TX reply);
      following = (sA, GeneralMessage HOST_CMD_INVOKE_SEND_TX (lx_dump X (call_json contract_call)))
    in
    enclave_message_received X (GeneralMessage HOST_CMD_INVOKE_SEND_TX (lx_dump X (call_json call))) nA =
      done_with (nA\<lparr>n_contract := Some cA', n_router :=
        async_write eA (GeneralMessage SEV_CMD_INVOKE_SEND_TX_RES reply) (n_router nA)\<rparr>) \<and>
    host_message_received X file (GeneralMessage SEV_CMD_INVOKE_SEND_TX_RES reply) hA =
      Returns (if p_count hA = 0 then with_sent [passed] hA
               else (with_sent [passed, following] hA)\<lparr>p_count := p_count hA - 1\<rparr>) \<and>
    host_message_received X file (GeneralMessage HOST_CMD_INVOKE_SEND_TX reply) hB =
      Returns (with_sent [(sB, GeneralMessage HOST_CMD_INVOKE_RECV_TX reply)] hB) \<and>
    enclave_message_received X (GeneralMessage HOST_CMD_INVOKE_RECV_TX reply) nB =
      done_with (nB\<lparr>n_contract := Some cB'\<rparr>)"
  using enclave_sends_call [OF texts(1) script aes A] enclave_runs_call [OF texts(2) B]
    host_passes_call [OF texts(2) hA] host_hands_call_over [OF texts(2) hB]
  by (simp add: Let_def)

theorem call_runs_at_both_nodes_witness:
  "host_message_received demo_ext None (GeneralMessage SEV_CMD_INVOKE_SEND_TX_RES ''reply'') demo_host =
     Returns ((with_sent [(2, GeneralMessage HOST_CMD_INVOKE_SEND_TX ''reply''),
       (1, GeneralMessage HOST_CMD_INVOKE_SEND_TX ''call'')] demo_host)\<lparr>p_count := 9999\<rparr>) \<and>
   enclave_message_received demo_ext (GeneralMessage HOST_CMD_INVOKE_RECV_TX ''reply'') demo_loaded =
     done_with demo_loaded"
proof -
  let ?c = "rpc_loaded (\<lambda>_. replicate 32 0) 7 []"
  have "lx_decrypt demo_ext (lx_encrypt demo_ext (padded demo_script)) = padded demo_script"
    by (simp add: demo_ext_def)
  note run = call_runs_at_both_nodes [OF demo_carries(1,2) from_hex_contract_call [symmetric] _ this,
      of demo_loaded ?c False ?c 1 demo_host 1 2 demo_host 1 demo_loaded ?c False ?c None]
  have "demo_script \<noteq> []" by (simp add: demo_script_def text_of_def)
  with run show ?thesis
    by (simp add: Let_def demo_invokes demo_there) (simp add: demo_loaded_def demo_host_def initial_host_def)
qed

text \<open>
  C38: whatever messages and connections a host gets, and whatever is typed at its command line, while
  the connection to its enclave lasts: the orders to the enclave (to pay or to call) are those typed,
  one each, for which the counter is not taken down, and those that follow a reply, for which it is
  taken down by one; nothing else takes it down. So orders and counter add up to what they were at
  the start and the orders typed, and no more orders follow than the counter says and are typed.\<close>

theorem orders_run_out:
  assumes "connections_ok e (h_router h0)" "0 \<le> p_count h0"
    and "(host_step_while X contract e)\<^sup>*\<^sup>* (h0, 0) (h, typed)"
  shows "orders e h + p_count h = orders e h0 + p_count h0 + int typed \<and>
    orders e h \<le> orders e h0 + p_count h0 + int typed \<and> connections_ok e (h_router h)"
  using host_orders.steps_below [OF assms(3)] assms(1,2) by (auto simp: whole_host_keeps_def)

theorem orders_run_out_witness:
  "orders 1 (with_sent [(1, GeneralMessage HOST_CMD_DIRECT_SEND_TX ''pay'')]
     ((with_sent [(2, GeneralMessage HOST_CMD_INVOKE_SEND_TX ''reply''),
       (1, GeneralMessage HOST_CMD_INVOKE_SEND_TX ''call'')] demo_host)\<lparr>p_count := 9999\<rparr>)) = 2"
proof -
  let ?h1 = "(with_sent [(2, GeneralMessage HOST_CMD_INVOKE_SEND_TX ''reply''),
       (1, GeneralMessage HOST_CMD_INVOKE_SEND_TX ''call'')] demo_host)\<lparr>p_count := 9999\<rparr>"
  let ?h2 = "with_sent [(1, GeneralMessage HOST_CMD_DIRECT_SEND_TX ''pay'')] ?h1"
  have ok: "connections_ok 1 (h_router demo_host)"
    using demo_there by (simp add: connections_ok_def) (simp add: demo_host_def)
  have start: "0 \<le> p_count demo_host" by (simp add: demo_host_def initial_host_def)
  have there: "1 \<in> fst ` set (m_connections (h_router ?h1))" "1 \<in> fst ` set (m_connections (h_router ?h2))"
    by (simp_all add: demo_host_def)
  have "host_step demo_ext None demo_host ?h1"
    using host_passes_call [OF demo_carries(2) demo_there(1,2), of None]
    by (intro host_step.host_receives_message) (simp add: Let_def, simp add: demo_host_def initial_host_def)
  then have 1: "host_step_while demo_ext None 1 (demo_host, 0) (?h1, 0)"
    using there by (auto simp: host_step_while_def intro: whole_host_step.by_network)
  have "get_connection_by_name SEV_SOCK_TOKEN (h_router ?h1) = Some 1" using demo_there(1) by simp
  from host_sends [OF this, of HOST_CMD_DIRECT_SEND_TX "''pay''"]
  have "command_parser demo_ext ''send -d'' ?h1 = Returns ?h2"
    by (simp add: command_parser_def Let_def command_direct_send_def demo_dumps(3) [unfolded pay_json_def])
  then have "whole_host_step demo_ext None (?h1, 0) (?h2, 1)"
    using whole_host_step.by_command [of demo_ext "''send -d''" ?h1 ?h2 None 0]
    by (simp add: orders_something_def Let_def)
  then have 2: "host_step_while demo_ext None 1 (?h1, 0) (?h2, 1)"
    using there by (auto simp: host_step_while_def)
  have "(host_step_while demo_ext None 1)\<^sup>*\<^sup>* (demo_host, 0) (?h2, 1)"
    using 1 2 by (meson converse_rtranclp_into_rtranclp rtranclp.rtrancl_refl)
  from orders_run_out [OF ok start this] show ?thesis
    by (simp add: demo_host_def initial_host_def orders_def)
qed

section \<open>Where the nodes fail\<close>

text \<open>
  C39: the host gives to its enclave, as it is and whoever sent it, the text of a payment or call that
  comes from another node. A payment names its sender and amount itself and is credited (an amount
  that is positive as an \<open>int\<close>, read from the hexadecimal text); a text without a transaction ends the
  enclave; and a call before a contract is loaded uses a pointer that has not been initialised.\<close>

theorem peers_reach_the_enclave_unchecked:
  assumes json: "lx_parse X s = Some (J_object m)"
    and plain: "s \<noteq> []" "CHR 0x00 \<notin> set s" "length s \<le> MAX_PAYLOAD"
    and h: "get_connection_by_name SEV_SOCK_TOKEN (h_router h) = Some e"
  shows "host_message_received X file (GeneralMessage HOST_CMD_DIRECT_SEND_TX s) h =
      Returns (with_sent [(e, GeneralMessage HOST_CMD_DIRECT_RECV_TX s)] h) \<and>
    host_message_received X file (GeneralMessage HOST_CMD_INVOKE_SEND_TX s) h =
      Returns (with_sent [(e, GeneralMessage HOST_CMD_INVOKE_RECV_TX s)] h) \<and>
    (\<forall>t sender amount. om_get m ''tx'' = Some (J_string t) \<and> 80 \<le> length t \<and>
       amount = of_nat (le_value (take 4 t)) \<and> sender = of_nat (le_value (take 64 (drop 16 t))) \<and>
       0 < sint amount \<longrightarrow>
       enclave_message_received X (GeneralMessage HOST_CMD_DIRECT_RECV_TX s) n =
         done_with (n\<lparr>n_wallet := (n_wallet n)\<lparr>receive :=
           add_entry sender amount (receive (n_wallet n))\<rparr>\<rparr>)) \<and>
    (om_get m ''tx'' = None \<longrightarrow>
       enclave_message_received X (GeneralMessage HOST_CMD_DIRECT_RECV_TX s) n = Some Terminated \<and>
       enclave_message_received X (GeneralMessage HOST_CMD_INVOKE_RECV_TX s) n = Some Terminated) \<and>
    (\<forall>t. om_get m ''tx'' = Some (J_string t) \<and> n_contract n = None \<longrightarrow>
       enclave_message_received X (GeneralMessage HOST_CMD_INVOKE_RECV_TX s) n = Some Undefined)"
  using plain h
  by (auto simp: host_receives [OF json plain] enclave_receives [OF json plain] host_dispatch_def
      enclave_dispatch_def command_direct_recv_def recv_contract_tx_def host_sends
      node_direct_recv_def ecall_lntee_direct_recv_def memcpy_str_def direct_receive_def take_drop
      ecall_lntee_recv_transaction_def node_invoke_def)

theorem peers_reach_the_enclave_unchecked_witness:
  "enclave_message_received demo_ext (GeneralMessage HOST_CMD_DIRECT_RECV_TX ''nothing'') demo_loaded =
     Some Terminated"
  using peers_reach_the_enclave_unchecked [of demo_ext "''nothing''" "[]" demo_host 1 None demo_loaded]
    demo_there
  by (simp add: MAX_PAYLOAD_def) (simp add: demo_ext_def demo_texts_def)

text \<open>
  C40: the command \<open>send -d\<close> orders a payment to the built-in target, whose text begins with \<open>0x\<close>.
  The enclave decodes it without removing the prefix, to 65 bytes, into a buffer of 64.\<close>

theorem built_in_target_overruns_the_key:
  assumes "carries X (pay_json 1 target_node)" "length (lx_junk_key X) = 64"
    and "get_connection_by_name SEV_SOCK_TOKEN (h_router h) = Some e"
  shows "\<exists>msg. command_parser X ''send -d'' h = Returns (with_sent [(e, msg)] h) \<and>
    enclave_message_received X msg n = Some Undefined"
proof -
  have "enclave_message_received X (GeneralMessage HOST_CMD_DIRECT_SEND_TX (lx_dump X (pay_json 1 target_node))) n
    = Some Undefined"
    using assms(1,2) length_from_hex_target
    by (simp add: carries_to_enclave enclave_dispatch_def node_direct_send_def pay_json_def as_int_def
        ecall_lntee_direct_send_def blit_def)
  with assms(3) show ?thesis
    by (intro exI [of _ "GeneralMessage HOST_CMD_DIRECT_SEND_TX (lx_dump X (pay_json 1 target_node))"])
      (simp add: command_parser_def Let_def command_direct_send_def host_sends pay_json_def)
qed

theorem built_in_target_overruns_the_key_witness:
  "\<exists>msg. command_parser demo_ext ''send -d'' demo_host = Returns (with_sent [(1, msg)] demo_host) \<and>
    enclave_message_received demo_ext msg demo_loaded = Some Undefined"
  by (rule built_in_target_overruns_the_key)
    (simp_all add: demo_there, simp add: demo_ext_def)

end
