(* ===== verification/Spec2Isabelle.thy ===== *)
theory Spec2Isabelle
  imports Teechain_Properties Teechain_Node_Properties Teechain_Client_Properties
    Wallet_Properties Evm_Properties Lntee_Properties
begin

text \<open>
  A verification development for Speedster: payment channels between trusted execution
  environments.

  \<^bold>\<open>The program.\<close> The repository holds two systems. \<open>Teechain/src\<close> is an SGX enclave
  (\<open>trusted/\<close>) with an untrusted host around it (\<open>untrusted/\<close>, \<open>service_provider/\<close>): the enclave
  holds Bitcoin deposits, moves them in and out of payment channels, sends and receives payments,
  replicates its state along a chain of backup enclaves and, at any time, hands out the
  transaction that settles a channel. \<open>amd_sev/lntee\<close> (with near copies for SGX and TrustZone in
  \<open>intel_sgx\<close> and \<open>arm_trustzone\<close>) is a node that runs contracts in an EVM and keeps a wallet of
  credits for direct payments. The theorems about the enclave do not trust its host: it may call
  any entry point with any arguments in any order. The host of Teechain is modelled as well, and
  the node the two make together. Of the LN-TEE node all layers are: the wallet, the EVM, the driver
  that runs a contract on it, the enclave and the host process with the messages they exchange, and the
  connections between processes.

  \<^bold>\<open>Conventions.\<close> A call ends in an \<open>outcome\<close> (\<open>Prelude\<close>): it returns, or the process ends
  (\<open>ocall_error\<close>, an uncaught exception), or the behaviour is undefined (dereferencing \<open>end()\<close>,
  writing past an array). Global variables are the fields of the record \<open>enclave\<close>, passed
  explicitly; a pointer into \<open>channelStates\<close> is the value stored under its identifier. A
  \<open>std::map\<close> is the list of its pairs in key order (\<open>Std_Map\<close>). \<open>unsigned long long\<close> is
  \<open>64 word\<close>, so balances wrap around as in the code. What the code calls but the repository does
  not define (AES-GCM, the attestation keys, the random source, Bitcoin keys and the Bitcoin
  command library) are the fields of the record \<open>ext\<close>, and so are the values of uninitialised
  variables (\<open>x_junk_\<close>): the theorems hold for all of them. Encryption works on typed plaintexts;
  a message of the wrong type is Undefined, as its bytes are in the code. \<open>printf\<close> and logging
  are left out. There is no fuel: the loops run over a list or a bounded range, and are folds, but
  for the loop over the input of a connection, which is a \<open>partial_function\<close>: \<open>None\<close> is not
  ending.

  The host runs as a function of its state (\<open>Teechain_Host\<close>): it comes back (\<open>Ran\<close>), the process
  exits (\<open>Exited\<close>, with the state at that time), or the behaviour is undefined (\<open>Broken\<close>), which
  includes reading an output buffer the enclave has not written and an enclave output longer than
  the buffer of its caller. What is outside it (whether the SGX runtime makes a call, whether a socket
  takes bytes, connection attempts, addresses, \<open>rand\<close>) is the record \<open>host_ext\<close>. A write to a
  socket goes through whole or fails. Two facts of the generated bridge are used: an ecall nested
  in an ocall is refused, as \<open>teechain.edl\<close> has no \<open>allow\<close> list, and so is a buffer with a negative
  length.

  A function of the EVM (\<open>Evm_State\<close>) returns (\<open>Value\<close>), throws one of the exceptions of
  \<open>exception.h\<close> (\<open>Throws\<close>), lets another exception out of the processor (\<open>Leaves\<close>), fails an
  assertion (\<open>Aborts\<close>; assertions are active) or uses a reference to something that is gone
  (\<open>Dangling\<close>). The state of a run is the record \<open>machine\<close>: the global state, the stack of
  contexts and the transaction; an account is named by its address where the code holds a
  reference. \<open>Processor::run\<close> is a \<open>partial_function\<close>, with \<open>None\<close> for not ending, since the gas
  is never counted. Keccak-256 is a parameter. Program counters and offsets of type \<open>uint64_t\<close>
  are \<open>nat\<close> with the wrap-around written out, words of the machine are \<open>256 word\<close>.

  A function of the contract driver or of the LN-TEE enclave ends as an \<open>outcome\<close>, or as None when
  the contract does not end (\<open>bindr\<close>). What the node takes from libraries (parsing and printing JSON,
  Keccak-256, AES-GCM under a constant key) and from memory (uninitialised buffers, what lies behind a
  received payload) is the record \<open>lntee_ext\<close>; a theorem that needs a text to be parsed back as it was
  printed assumes it (\<open>carries\<close>). JSON values are a datatype. A connection is a number with a
  name; the messages written to it are recorded in order, which \<open>Lntee_Connection\<close> justifies. Signing
  (\<open>_TEST_ECDSA_\<close>) is not in the configured build, which selects the contract \<open>rpc\<close>.

  \<^bold>\<open>Theories of the enclave\<close> (sources under \<open>Teechain/src/trusted\<close>):
  \<^item> \<open>Prelude\<close>: outcomes, character buffers, facts on words, and the interfaces
    \<open>invariant_system\<close> and \<open>monotone_system\<close> of transition systems. \<open>Std_Map\<close>: \<open>std::map\<close> and its
    interface \<open>finite_map\<close>.
  \<^item> \<open>Text_Format\<close> (\<open>utils.cpp\<close>): numbers and amounts as text.
  \<^item> \<open>Teechain_Types\<close> (\<open>state.h\<close>, \<open>channel.h\<close>, \<open>network.h\<close>, \<open>teechain.h\<close>): constants, classes,
    messages and their sizes, the enclave's globals.
  \<^item> \<open>Teechain_Channels\<close> (\<open>channel.cpp\<close>, \<open>state.cpp\<close>, \<open>network.cpp\<close>): the table of channels,
    states, encryption, nonces. \<open>Teechain_Deposits\<close>: the tables of deposits, fees.
  \<^item> \<open>Teechain_Backup_State\<close>: packing the state for a backup and reading it.
    \<open>Teechain_Settle\<close>: the settlement and return transactions.
  \<^item> \<open>Teechain_Messages\<close>: the \<open>send_\<close> functions. \<open>Teechain_Primary\<close> (\<open>teechain.cpp\<close>) and
    \<open>Teechain_Backup\<close> (\<open>backups.cpp\<close>): the entry points.
  \<^item> \<open>Teechain_Ledger\<close>: the abstract specification: accounts and deposits, \<open>ledger_step\<close>, its
    invariant, solvency and progress. \<open>Teechain_Refinement\<close>: each entry point implements ledger
    steps. \<open>Teechain_System\<close> (\<open>teechain.edl\<close>): the enclave under an arbitrary host.
  \<^item> \<open>Teechain_Payments\<close>: two enclaves and a network that drops, reorders and repeats.
    \<open>Teechain_Exchange\<close>: what one enclave packs into a message the other one reads.
  \<^item> \<open>Teechain_Demo\<close>: a run of an enclave, for the examples. \<open>Teechain_Properties\<close>: the
    properties C1 to C13, and more theorems of the same kind.

  \<^bold>\<open>Theories of the host\<close> (sources under \<open>Teechain/src/untrusted\<close>):
  \<^item> \<open>Teechain_Host\<close> (\<open>channel.cpp\<close>, \<open>network.cpp\<close>, \<open>utils.cpp\<close> and their headers): operation
    codes, the globals, the table of channels, framing and sending, calling the enclave, \<open>error\<close>.
    \<open>Byte_Order\<close>: numbers as bytes.
  \<^item> \<open>Teechain_Routing\<close> (\<open>teechain.cpp\<close>, \<open>backups.cpp\<close>): the handlers of commands and messages.
  \<^item> \<open>Teechain_Node\<close> (\<open>process_packet\<close>, \<open>process_events\<close>): dispatch, the loop over the input, the
    events, and a host with its enclave as a transition system.
  \<^item> \<open>Teechain_Host_Effects\<close>: relations between the states before and after that every handler
    respects, as locales (\<open>host_core\<close>, \<open>host_frame\<close>, \<open>host_calls\<close>) that go through the handlers
    once. \<open>Teechain_Stream\<close>: handlers do not look at the buffers, and how the loop cuts a stream.
    \<open>Teechain_Node_Invariants\<close>: the interpretations of the locales and the invariant of the node.
  \<^item> \<open>Teechain_Node_Properties\<close>: the properties C15 to C21.
  \<^item> \<open>Teechain_Client\<close> (\<open>command_line_interface.cpp\<close>, \<open>read_from_socket\<close>): the process a user runs to
    give a node a command: options, the message of each command, reading the answer.
    \<open>Teechain_Client_Properties\<close>: the properties C22 and C23.

  \<^bold>\<open>Theories of the wallet\<close> (sources under \<open>amd_sev\<close>): \<open>Wallet\<close> (\<open>lntee/src/common/wallet.cpp\<close>,
  the direct payments of \<open>lntee/src/enclave/enclave.cpp\<close>, the hexadecimal text of
  \<open>lib/eEVM/src/common.cpp\<close>) and \<open>Wallet_Properties\<close>: the property C14, and where the wallet loses
  money.

  \<^bold>\<open>Theories of the EVM\<close> (sources under \<open>amd_sev/lib/eEVM\<close>):
  \<^item> \<open>Evm_Words\<close> (\<open>bigint.h\<close>, the words of the \<open>intx\<close> library as used in \<open>processor.cpp\<close>):
    arithmetic on \<open>256 word\<close> as the handlers do it. \<open>Evm_Rlp\<close> (\<open>rlp.h\<close>, \<open>util.cpp\<close>): encoding and
    the address of a new contract.
  \<^item> \<open>Evm_State\<close> (\<open>stack.cpp\<close>, \<open>simple/\<close>, \<open>globalstate.h\<close>, \<open>context\<close> of \<open>processor.cpp\<close>): stack,
    accounts, storage, contexts, the results of a call. \<open>Evm_Processor\<close> (\<open>processor.cpp\<close>): the
    handlers of the instructions, dispatch, a turn of the loop and the run.
  \<^item> \<open>Evm_Frame\<close>: relations between the states before and after that every handler respects, as
    locales (\<open>evm_frame\<close>, \<open>evm_frame_gs\<close>, \<open>evm_frame_pay\<close>) that go through the handlers once, and the
    reduction of a turn to its handler. \<open>Evm_Invariants\<close>: the invariant of a run and type safety.
    \<open>Evm_Effects\<close>: storage and balances. \<open>Evm_Control\<close>: which runs end. \<open>Evm_Reference\<close>: the
    arithmetic of the Yellow Paper.
  \<^item> \<open>Evm_Properties\<close>: the properties C24 to C31.

  \<^bold>\<open>Theories of the LN-TEE node\<close> (sources under \<open>amd_sev/lntee\<close>):
  \<^item> \<open>Contract_Driver\<close> (\<open>src/enclave/TEE_contract.cpp\<close>, \<open>src/contract\<close>): the helpers that build
    calls, loading and deploying a contract, calls, transfers and balances. \<open>Contract_Invariants\<close>: what
    every run keeps, and the driver as a transition system. \<open>Contract_Shipped\<close>
    (\<open>contract/json/rpc.json\<close>): the contract the host loads, run turn by turn.
  \<^item> \<open>Lntee_Messages\<close> (\<open>include/common/message.h\<close>; \<open>message.h\<close> and \<open>router.cpp\<close> of
    \<open>amd_sev/lib/libf2f\<close>): types, messages, the table of connections, access to JSON.
    \<open>Lntee_Connection\<close> (\<open>connection.cpp\<close>): bytes, the queue of a connection, reading.
  \<^item> \<open>Lntee_Enclave\<close> (\<open>src/enclave/enclave.cpp\<close>, \<open>include/enclave/enclave_protocol.h\<close>) and
    \<open>Lntee_Host\<close> (\<open>src/host/command.cpp\<close>, \<open>sev_handler.cpp\<close>, \<open>main.cpp\<close>,
    \<open>include/host/lntee_protocol.h\<close>): the two processes. \<open>Lntee_System\<close>: each as a transition
    system. \<open>Lntee_Properties\<close>: the properties C32 to C40.

  \<^bold>\<open>What the theorems show.\<close> Safety of the enclave under any host: every call is a sequence of
  ledger steps (C1; one of them, \<open>remote_touch\<close>, is the zero deposit that \<open>operator[]\<close> inserts when an
  acknowledgement goes out), deposits in a channel exist and are unspent (C2), guarded calls keep a
  channel solvent (C3; guarded are all calls but those that set up a channel and adding a remote
  deposit twice, which does break solvency), roles and channels only advance (C4, \<open>channels_only_advance\<close>). Payments: what is
  accepted was sent, once and in order (C5, between enclaves without backup and stable storage);
  exactly the amount moves (C6) and a replay is refused, also later (C7), in every mode.
  Settlement pays the balances and conserves the deposits (C8, C9), and the owner's commands stop at
  a settled channel (C10), though the messages of the other party do not. Deposits: C11,
  \<open>deposit_in_one_channel\<close>, \<open>add_then_remove_deposit\<close>. Messages and backups: C12, \<open>presented_deposits_arrive\<close>,
  \<open>update_changes_one_channel\<close>. Text: \<open>bitcoin_text_is_exact\<close>. Where the code of the enclave breaks:
  C13, \<open>replayed_deposit_request_counts_twice\<close>, \<open>eleventh_deposit_overflows\<close>,
  \<open>removing_a_free_deposit_is_undefined\<close>, \<open>garbage_ack_acts_on_uninitialised_memory\<close>,
  \<open>settled_channel_accepts_payments\<close> and \<open>shutdown_skips_channels_after_an_empty_one\<close>. The wallet
  never overdraws what it was given by its start and by \<open>set_balance\<close> (C14), but loses or invents money (\<open>contract_loss_is_deducted_twice\<close>,
  \<open>direct_payment_debits_one_hundred\<close>, \<open>direct_payment_is_misread\<close>); \<open>account_file_round_trip\<close>,
  \<open>full_return_restores_the_balance\<close> and \<open>balance_is_reported_iff_the_books_agree\<close> are its other
  results. The Teechain node: what a remote peer can reach (C15), the stream of a connection (C16,
  C17), how a peer stops a node (C18, C19; where the enclave refuses to
  be shut down, \<open>error\<close> reads an array nothing has written), why the side that did not connect cannot answer (C20), and
  the invariant of a running node with the enclave's as a part of it (C21). A command of the client
  reaches the enclave as the call it asks for (C22), but a payment the enclave refuses is reported as
  sent (C23), and answers that arrive in pieces run together (\<open>answers_in_pieces_run_together\<close>).

  The EVM is type safe: it keeps its machine well formed, an exception leaves its loop in the two
  cases listed only, it aborts only in a \<open>CREATE\<close>, and it follows a dangling pointer only when init
  code returns (C24). Its arithmetic is that of the Yellow Paper but for the operands listed
  (C25). No turn destroys money (C26), but CREATE makes some (C27); a contract writes only its own
  storage (C28); the effects of a failed call stay (C29). Code without jumps, calls and creations
  ends (C30), a loop does not, whatever the gas (C31). A word stored in memory is read back
  (\<open>evm_memory_round_trip\<close>); the limit of the stack does not bind (\<open>evm_stack_limit_does_not_bind\<close>).

  The shipped contract loads through the driver and the EVM and answers its call (C32); the driver
  keeps its state whatever is called, and all its operations are defined but where init code
  returns (C33). The enclave of the LN-TEE node stays in order whatever
  comes in (C34), answers the first connection whoever asked (C35), and a connection delivers what it
  is given in order, whole and once (C36). A call travels from one enclave through both hosts to the
  other enclave, which runs it from its own account (C37); the orders of a
  host are those typed and those its counter allows (C38). Any peer reaches the enclave behind a host, can credit itself, and can stop it
  (C39); the payment the command line orders overruns a buffer (C40).

  A loop that erases from a vector while it runs over it (\<open>unregister_connection\<close>) is modelled with
  the iterator as the pointer it is, which skips the entry behind the erased one.

  \<^bold>\<open>Bounds.\<close> \<open>is_deposit_spent\<close> and \<open>is_deposit_in_use\<close> take an \<open>int\<close>, so C2, C3 and
  \<open>deposit_in_one_channel\<close> assume fewer than \<open>2^31\<close> deposits; C8 assumes balances below \<open>2^63\<close> because the code pays a signed
  amount; C5 assumes fewer than \<open>2^64\<close> payments, the range of the counter. C17 is about messages
  shorter than \<open>2^64\<close> bytes with their length field; C19 and C20 about messages below 100000 bytes, as
  the length of a packet is passed on as an \<open>int\<close>. C37 and C39 assume texts within the limit on
  payloads, 16384 bytes.

  \<^bold>\<open>Not modelled.\<close> Of the host of Teechain: \<open>getopt\<close> and the timing of the
  client, loading the enclave, the set-up
  of the server socket, logging, and remote attestation, whose messages the dispatch no longer
  handles. Of the EVM: decoding of RLP, ABI encoding, transactions as bytes, the disassembler, the
  trace, the JSON forms of accounts and the texts of exceptions, none of which a run uses. Of the
  LN-TEE node: threads (each message is handled as a whole, and only the queue of a connection is
  interleaved), sockets and making connections, the dispatcher and the key exchange that nothing
  calls, the curve and the ciphers. The SGX and TrustZone copies of the node are near copies of the one
  modelled. Vendored code (\<open>boost\<close>, \<open>mbedtls\<close>, \<open>optee_os\<close>, \<open>univalue\<close>, \<open>secp256k1\<close>) is a
  parameter where the program relies on it.
\<close>

end
